(* ===== verification/Go_Prelude.thy ===== *)
theory Go_Prelude
  imports Main "HOL-Library.Finite_Map" "HOL-Library.Word" "HOL-Library.List_Lexorder"
    "HOL-Library.Char_ord"
begin

text \<open>
  What the components share: the Go results (a value, an error, a panic), the pieces of the
  Go standard library the sources call (\<open>sync.RWMutex\<close>, \<open>strings\<close>, \<open>strconv\<close>, \<open>time.Duration.String\<close>,
  the order of a \<open>range\<close> over a map), and generic lemmas on lists, finite maps and
  finite sets. Go strings are byte strings, that is \<^typ>\<open>string\<close>; Go maps with boolean
  values that are only ever set to true are finite sets.
\<close>

named_theorems go_defs \<open>definitions of straight-line helpers, unfolded together\<close>
named_theorems inv_intros \<open>rules that show that an operation keeps a component's invariant\<close>

type_synonym int32 = "32 word"
type_synonym uint32 = "32 word"
type_synonym int64 = "64 word"
type_synonym strmap = "(string, string) fmap"


section \<open>Results of Go functions\<close>

text \<open>
  A Go function that returns \<open>(v, error)\<close> is a function into \<open>'a result\<close>: the value,
  the error it returned, or the run-time panic that ended it.
\<close>

datatype panic = NilDereference | IndexOutOfRange | NilMapWrite | FailedAssertion | ExplicitPanic | ClosedChannel

datatype error =
    ErrNotFound
  | ErrLister string
  | ErrNoNodeGroup
  | ErrNoServices
  | ErrNoEndpoints
  | ErrNoClusters
  | ErrNoRoutes
  | ErrNoListeners
  | ErrBadKey
  | ErrNotEnvoyIngress
  | ErrRetrieveIngress
  | ErrNilResource
  | ErrNoSuchResource
  | ErrMissingParameter
  | ErrShortResource
  | ErrMarshal
  | ErrUnmarshal
  | ErrUnquote
  | ErrBase64
  | ErrUnknownResourceType
  | ErrDatabase
  | ErrGroupNotFound
  | ErrNoNodeID
  | ErrNoMessageKey
  | ErrSyntax
  | ErrRange
  | ErrNotObject
  | ErrNoConnection
  | ErrWrite
  | ErrEOF | ErrUnexpectedEOF
  | ErrTimeout
  | ErrChannelFull
  | ErrOther string

datatype 'a result = Ok 'a | Err error | Panic panic

fun bind :: "'a result \<Rightarrow> ('a \<Rightarrow> 'b result) \<Rightarrow> 'b result" where
  "bind (Ok x) f = f x"
| "bind (Err e) f = Err e"
| "bind (Panic p) f = Panic p"

fun is_ok :: "'a result \<Rightarrow> bool" where
  "is_ok (Ok _) = True"
| "is_ok _ = False"

lemma bind_eq_Ok: "bind r f = Ok y \<longleftrightarrow> (\<exists>x. r = Ok x \<and> f x = Ok y)"
  by (cases r) auto

lemma bind_eq_Panic: "bind r f = Panic p \<longleftrightarrow> r = Panic p \<or> (\<exists>x. r = Ok x \<and> f x = Panic p)"
  by (cases r) auto

lemma bind_eq_Err: "bind r f = Err e \<longleftrightarrow> r = Err e \<or> (\<exists>x. r = Ok x \<and> f x = Err e)"
  by (cases r) auto

lemmas bind_iffs = bind_eq_Ok bind_eq_Panic bind_eq_Err

text \<open>A loop over a slice whose body may fail and whose results are collected.\<close>

fun collect_result :: "('a \<Rightarrow> 'b result) \<Rightarrow> 'a list \<Rightarrow> 'b list result" where
  "collect_result f [] = Ok []"
| "collect_result f (x # xs) = bind (f x) (\<lambda>y. bind (collect_result f xs) (\<lambda>ys. Ok (y # ys)))"

text \<open>A loop that keeps the elements for which a test, which may panic, holds.\<close>

fun filter_result :: "('a \<Rightarrow> bool result) \<Rightarrow> 'a list \<Rightarrow> 'a list result" where
  "filter_result f [] = Ok []"
| "filter_result f (x # xs) =
     bind (f x) (\<lambda>b. bind (filter_result f xs) (\<lambda>ys. Ok (if b then x # ys else ys)))"

text \<open>A loop that stops at the first element for which a test, which may panic, holds.\<close>

fun exists_result :: "('a \<Rightarrow> bool result) \<Rightarrow> 'a list \<Rightarrow> bool result" where
  "exists_result f [] = Ok False"
| "exists_result f (x # xs) = bind (f x) (\<lambda>b. if b then Ok True else exists_result f xs)"

lemma collect_result_Ok_length: "collect_result f xs = Ok ys \<Longrightarrow> length ys = length xs"
  by (induction xs arbitrary: ys) (auto simp: bind_iffs)

lemma collect_result_Ok_iff: "collect_result f xs = Ok ys \<longleftrightarrow> list_all2 (\<lambda>x y. f x = Ok y) xs ys"
  by (induction xs arbitrary: ys) (auto simp: bind_iffs list_all2_Cons1)

lemma filter_result_total:
  "(\<And>x. x \<in> set xs \<Longrightarrow> f x = Ok (P x)) \<Longrightarrow> filter_result f xs = Ok (filter P xs)"
  by (induction xs) auto

lemma filter_result_Ok_set:
  "filter_result f xs = Ok ys \<Longrightarrow> set ys = {x \<in> set xs. f x = Ok True}"
  by (induction xs arbitrary: ys) (auto simp: bind_iffs split: if_splits)

lemma exists_result_total:
  "(\<And>x. x \<in> set xs \<Longrightarrow> f x = Ok (P x)) \<Longrightarrow> exists_result f xs = Ok (\<exists>x\<in>set xs. P x)"
  by (induction xs) auto


section \<open>Parsing numbers\<close>

definition digit_value :: "char \<Rightarrow> nat option" where
  "digit_value c =
     (let n = (of_char c :: nat) in if 48 \<le> n \<and> n \<le> 57 then Some (n - 48) else None)"

fun parse_digits :: "string \<Rightarrow> nat \<Rightarrow> nat option" where
  "parse_digits [] acc = Some acc"
| "parse_digits (c # cs) acc =
     (case digit_value c of None \<Rightarrow> None | Some d \<Rightarrow> parse_digits cs (10 * acc + d))"

text \<open>\<open>strconv.ParseUint(s, 10, 64)\<close>.\<close>

definition strconv_ParseUint :: "string \<Rightarrow> nat result" where
  "strconv_ParseUint s =
     (if s = [] then Err ErrSyntax
      else (case parse_digits s 0 of
              None \<Rightarrow> Err ErrSyntax
            | Some n \<Rightarrow> if n < 2 ^ 64 then Ok n else Err ErrRange))"

text \<open>\<open>strconv.ParseInt(s, 10, 64)\<close>.\<close>

definition strconv_ParseInt :: "string \<Rightarrow> int result" where
  "strconv_ParseInt s =
     (let neg = (case s of c # _ \<Rightarrow> c = CHR ''-'' | [] \<Rightarrow> False);
          digits = (case s of c # cs \<Rightarrow> if c = CHR ''-'' \<or> c = CHR ''+'' then cs else s | [] \<Rightarrow> [])
      in case strconv_ParseUint digits of
           Ok n \<Rightarrow>
             if neg then if n \<le> 2 ^ 63 then Ok (- int n) else Err ErrRange
             else if n < 2 ^ 63 then Ok (int n) else Err ErrRange
         | Err er \<Rightarrow> Err er
         | Panic p \<Rightarrow> Panic p)"


section \<open>Package sync\<close>

text \<open>A \<open>sync.RWMutex\<close>: its readers, and whether a writer holds it or waits for it.\<close>

record rwlock =
  lk_readers :: nat
  lk_writer :: bool
  lk_waiting :: bool

definition lk_free :: rwlock where
  "lk_free = \<lparr>lk_readers = 0, lk_writer = False, lk_waiting = False\<rparr>"

text \<open>
  \<open>RLock\<close> waits for a writer, also for one that still waits; \<open>Lock\<close> waits for everyone. A caller
  that has to wait gets \<open>None\<close>.
\<close>

definition lk_RLock :: "rwlock \<Rightarrow> rwlock option" where
  "lk_RLock l = (if lk_writer l \<or> lk_waiting l then None else Some (l\<lparr>lk_readers := Suc (lk_readers l)\<rparr>))"

definition lk_RUnlock :: "rwlock \<Rightarrow> rwlock" where
  "lk_RUnlock l = l\<lparr>lk_readers := lk_readers l - 1\<rparr>"

definition lk_Lock :: "rwlock \<Rightarrow> rwlock option" where
  "lk_Lock l = (if lk_writer l \<or> lk_waiting l \<or> lk_readers l \<noteq> 0 then None else Some (l\<lparr>lk_writer := True\<rparr>))"

definition lk_Unlock :: "rwlock \<Rightarrow> rwlock" where
  "lk_Unlock l = l\<lparr>lk_writer := False\<rparr>"


section \<open>Package strings\<close>

text \<open>
  \<open>strings.Split(s, sep)\<close> for the one-byte separators the sources use. The result is never
  empty: splitting the empty string gives one empty part.
\<close>

fun strings_Split :: "char \<Rightarrow> string \<Rightarrow> string list" where
  "strings_Split sep [] = [[]]"
| "strings_Split sep (c # cs) =
     (if c = sep then [] # strings_Split sep cs
      else (case strings_Split sep cs of
              [] \<Rightarrow> [[c]]
            | p # ps \<Rightarrow> (c # p) # ps))"

fun strings_Join :: "string \<Rightarrow> string list \<Rightarrow> string" where
  "strings_Join sep [] = []"
| "strings_Join sep [p] = p"
| "strings_Join sep (p # ps) = p @ sep @ strings_Join sep ps"

fun strings_HasPrefix :: "string \<Rightarrow> string \<Rightarrow> bool" where
  "strings_HasPrefix s [] = True"
| "strings_HasPrefix [] (p # ps) = False"
| "strings_HasPrefix (c # cs) (p # ps) = (c = p \<and> strings_HasPrefix cs ps)"

fun strings_Contains :: "string \<Rightarrow> string \<Rightarrow> bool" where
  "strings_Contains [] sub = (sub = [])"
| "strings_Contains (c # cs) sub = (strings_HasPrefix (c # cs) sub \<or> strings_Contains cs sub)"

lemma strings_Split_not_Nil [simp]: "strings_Split sep s \<noteq> []"
  by (cases s) (auto split: list.splits)

lemma length_strings_Split: "0 < length (strings_Split sep s)"
  by simp

lemma strings_Split_no_sep: "sep \<notin> set s \<Longrightarrow> strings_Split sep s = [s]"
  by (induction s) auto

lemma strings_Split_parts: "p \<in> set (strings_Split sep s) \<Longrightarrow> sep \<notin> set p"
proof (induction s arbitrary: p)
  case Nil
  then show ?case by simp
next
  case (Cons c cs)
  then show ?case
    by (cases "strings_Split sep cs") (auto split: if_splits)
qed

lemma strings_Split_append_sep:
  "sep \<notin> set p \<Longrightarrow> strings_Split sep (p @ sep # s) = p # strings_Split sep s"
  by (induction p) auto

text \<open>Joining the parts gives the string back, and splitting gives back separator-free parts.\<close>

lemma strings_Join_Cons: "ps \<noteq> [] \<Longrightarrow> strings_Join sep (p # ps) = p @ sep @ strings_Join sep ps"
  by (cases ps) auto

lemma strings_Join_Split: "strings_Join [sep] (strings_Split sep s) = s"
proof (induction s)
  case Nil
  then show ?case by simp
next
  case (Cons c cs)
  obtain p ps where ps: "strings_Split sep cs = p # ps"
    by (cases "strings_Split sep cs") auto
  with Cons show ?case
    by (cases ps) auto
qed

lemma strings_Split_Join:
  assumes "ps \<noteq> []" and "\<And>p. p \<in> set ps \<Longrightarrow> sep \<notin> set p"
  shows "strings_Split sep (strings_Join [sep] ps) = ps"
  using assms
proof (induction ps)
  case Nil
  then show ?case by simp
next
  case (Cons p ps)
  show ?case
  proof (cases ps)
    case Nil
    with Cons.prems show ?thesis by (simp add: strings_Split_no_sep)
  next
    case (Cons q qs)
    then have "strings_Split sep (strings_Join [sep] ps) = ps"
      using Cons.IH Cons.prems by auto
    with Cons Cons.prems show ?thesis
      by (simp add: strings_Split_append_sep)
  qed
qed

lemma strings_HasPrefix_iff: "strings_HasPrefix s p \<longleftrightarrow> (\<exists>t. s = p @ t)"
  by (induction s p rule: strings_HasPrefix.induct) auto

lemma strings_Contains_iff: "strings_Contains s sub \<longleftrightarrow> (\<exists>a b. s = a @ sub @ b)"
proof (induction s)
  case Nil
  then show ?case by auto
next
  case (Cons c cs)
  have "(\<exists>a b. c # cs = a @ sub @ b) \<longleftrightarrow>
      (\<exists>b. c # cs = sub @ b) \<or> (\<exists>a b. cs = a @ sub @ b)"
    by (metis append_Cons append_Nil list.exhaust list.inject)
  with Cons show ?case
    by (auto simp: strings_HasPrefix_iff)
qed

lemma strings_Contains_append_right: "strings_Contains t sub \<Longrightarrow> strings_Contains (s @ t) sub"
  unfolding strings_Contains_iff by (metis append.assoc)

lemma strings_Contains_append_left: "strings_Contains s sub \<Longrightarrow> strings_Contains (s @ t) sub"
  unfolding strings_Contains_iff by (metis append.assoc)


section \<open>Packages strconv, fmt and time\<close>

definition digit_char :: "nat \<Rightarrow> char" where
  "digit_char d = char_of (48 + d)"

fun nat_digits :: "nat \<Rightarrow> string" where
  "nat_digits n = (if n < 10 then [digit_char n] else nat_digits (n div 10) @ [digit_char (n mod 10)])"

declare nat_digits.simps [simp del]

text \<open>\<open>strconv.Itoa\<close>, and \<open>fmt.Sprintf("%d", i)\<close>.\<close>

definition strconv_Itoa :: "int \<Rightarrow> string" where
  "strconv_Itoa i = (if i < 0 then ''-'' @ nat_digits (nat (- i)) else nat_digits (nat i))"

lemma nat_digits_not_Nil [simp]: "nat_digits n \<noteq> []"
  by (subst nat_digits.simps) simp

lemma digit_char_inj: "a < 10 \<Longrightarrow> b < 10 \<Longrightarrow> digit_char a = digit_char b \<longleftrightarrow> a = b"
  unfolding digit_char_def by (subst char_of_eq_iff) (simp add: take_bit_eq_mod)

lemma nat_digits_inject: "nat_digits m = nat_digits n \<Longrightarrow> m = n"
proof (induction m arbitrary: n rule: less_induct)
  case (less m)
  show ?case
  proof (cases "m < 10 \<or> n < 10")
    case True
    with less.prems show ?thesis
      by (subst (asm) (1 2) nat_digits.simps)
        (auto simp: digit_char_inj append_eq_Cons_conv Cons_eq_append_conv split: if_splits)
  next
    case False
    with less.prems have "nat_digits (m div 10) @ [digit_char (m mod 10)] =
        nat_digits (n div 10) @ [digit_char (n mod 10)]"
      by (subst (asm) (1 2) nat_digits.simps) simp
    then have "nat_digits (m div 10) = nat_digits (n div 10)" "m mod 10 = n mod 10"
      by (auto simp: digit_char_inj)
    moreover from False have "m div 10 < m" by auto
    ultimately have "m div 10 = n div 10" "m mod 10 = n mod 10"
      using less.IH by auto
    then show ?thesis by (metis div_mult_mod_eq)
  qed
qed

lemma nat_digits_digits: "c \<in> set (nat_digits n) \<Longrightarrow> \<exists>d<10. c = digit_char d"
proof (induction n arbitrary: c rule: less_induct)
  case (less n)
  show ?case
  proof (cases "n < 10")
    case True
    with less.prems show ?thesis by (subst (asm) nat_digits.simps) auto
  next
    case False
    then have "n div 10 < n" by auto
    moreover from less.prems False have "c \<in> set (nat_digits (n div 10)) \<or> c = digit_char (n mod 10)"
      by (subst (asm) nat_digits.simps) auto
    ultimately show ?thesis using less.IH by (auto intro: exI [of _ "n mod 10"])
  qed
qed

lemma nat_digits_no_minus: "nat_digits n \<noteq> CHR ''-'' # s"
proof
  assume "nat_digits n = CHR ''-'' # s"
  then obtain d where "d < 10" "CHR ''-'' = digit_char d" using nat_digits_digits [of "CHR ''-''" n] by auto
  then have "of_char (CHR ''-'') = (of_char (char_of (48 + d)) :: nat)" by (simp add: digit_char_def)
  with \<open>d < 10\<close> show False by (simp add: take_bit_eq_mod)
qed

lemma strconv_Itoa_inject: "strconv_Itoa a = strconv_Itoa b \<longleftrightarrow> a = b"
  using nat_digits_no_minus nat_digits_no_minus [symmetric]
  by (auto simp: strconv_Itoa_def dest!: nat_digits_inject)

lemma nat_digits_length: "n < 10 ^ Suc k \<Longrightarrow> length (nat_digits n) \<le> Suc k"
proof (induction k arbitrary: n)
  case 0
  then show ?case by (subst nat_digits.simps) simp
next
  case (Suc k)
  then have "n div 10 < 10 ^ Suc k" by (simp add: less_mult_imp_div_less)
  with Suc.IH show ?case by (subst nat_digits.simps) simp
qed

lemma strconv_Itoa_length: "\<bar>a\<bar> < 10 ^ Suc k \<Longrightarrow> length (strconv_Itoa a) \<le> Suc (Suc k)"
proof -
  assume "\<bar>a\<bar> < 10 ^ Suc k"
  then have "nat \<bar>a\<bar> < 10 ^ Suc k" by (simp add: nat_less_iff)
  from nat_digits_length [OF this] show ?thesis by (auto simp: strconv_Itoa_def)
qed

text \<open>
  \<open>time.Duration.String\<close>, on a duration in nanoseconds: \<open>fmtFrac\<close> prints the fraction with
  its trailing zeros dropped, \<open>fmtInt\<close> the integer part; durations below a second use the
  units ns, \<mu>s (the two bytes C2 B5 and an s) and ms, the others hours, minutes and seconds.
\<close>

fun pad_digits :: "nat \<Rightarrow> nat \<Rightarrow> string" where
  "pad_digits 0 v = []"
| "pad_digits (Suc k) v = pad_digits k (v div 10) @ [digit_char (v mod 10)]"

definition fmtFrac :: "nat \<Rightarrow> nat \<Rightarrow> string" where
  "fmtFrac v prec =
     (let ds = rev (dropWhile (\<lambda>c. c = digit_char 0) (rev (pad_digits prec (v mod 10 ^ prec))))
      in if ds = [] then [] else ''.'' @ ds)"

definition duration_magnitude :: "nat \<Rightarrow> string" where
  "duration_magnitude u =
     (if u = 0 then ''0s''
      else if u < 1000 then nat_digits u @ ''ns''
      else if u < 1000000 then nat_digits (u div 1000) @ fmtFrac u 3 @ [CHR 0xC2, CHR 0xB5] @ ''s''
      else if u < 1000000000 then nat_digits (u div 1000000) @ fmtFrac u 6 @ ''ms''
      else
        (let secs = u div 1000000000; mins = secs div 60; hours = mins div 60
         in (if hours > 0 then nat_digits hours @ ''h'' else []) @
            (if mins > 0 then nat_digits (mins mod 60) @ ''m'' else []) @
            nat_digits (secs mod 60) @ fmtFrac u 9 @ ''s''))"

definition Duration_String :: "int \<Rightarrow> string" where
  "Duration_String d =
     (if d < 0 then ''-'' @ duration_magnitude (nat (- d)) else duration_magnitude (nat d))"

definition time_Second :: int where
  "time_Second = 1000000000"


section \<open>Maps, sets and the order of range\<close>

text \<open>
  A Go \<open>range\<close> over a map visits every key once in an order the language leaves open. An
  operation that ranges over a map takes the order as an argument, a function from the set of
  keys to a list of them.
\<close>

type_synonym 'k order = "'k fset \<Rightarrow> 'k list"

definition range_order :: "'k order \<Rightarrow> bool" where
  "range_order ord \<longleftrightarrow> (\<forall>S. distinct (ord S) \<and> set (ord S) = fset S)"

lemma range_orderD:
  assumes "range_order ord"
  shows "distinct (ord S)" and "set (ord S) = fset S"
  using assms by (auto simp: range_order_def)

lemma range_order_sorted: "range_order (sorted_list_of_fset :: string order)"
  unfolding range_order_def sorted_list_of_fset.rep_eq by simp

text \<open>A lookup of a key a Go map may not hold, with the zero value for a missing key.\<close>

definition get_str :: "strmap \<Rightarrow> string \<Rightarrow> string" where
  "get_str m k = (case fmlookup m k of None \<Rightarrow> [] | Some v \<Rightarrow> v)"

definition get_set :: "('k, 'v fset) fmap \<Rightarrow> 'k \<Rightarrow> 'v fset" where
  "get_set m k = (case fmlookup m k of None \<Rightarrow> {||} | Some v \<Rightarrow> v)"

definition get_list :: "('k, 'v list) fmap \<Rightarrow> 'k \<Rightarrow> 'v list" where
  "get_list m k = (case fmlookup m k of None \<Rightarrow> [] | Some v \<Rightarrow> v)"

lemma get_set_upd [simp]: "get_set (fmupd k v m) k' = (if k = k' then v else get_set m k')"
  by (simp add: get_set_def)

lemma get_set_drop [simp]: "get_set (fmdrop k m) k' = (if k = k' then {||} else get_set m k')"
  by (simp add: get_set_def)

lemma get_set_empty [simp]: "get_set fmempty k = {||}"
  by (simp add: get_set_def)

lemma get_list_upd [simp]: "get_list (fmupd k v m) k' = (if k = k' then v else get_list m k')"
  by (simp add: get_list_def)

lemma get_list_drop [simp]: "get_list (fmdrop k m) k' = (if k = k' then [] else get_list m k')"
  by (simp add: get_list_def)

lemma get_list_empty [simp]: "get_list fmempty k = []"
  by (simp add: get_list_def)

lemma get_str_upd [simp]: "get_str (fmupd k v m) k' = (if k = k' then v else get_str m k')"
  by (simp add: get_str_def)

lemma get_str_empty [simp]: "get_str fmempty k = []"
  by (simp add: get_str_def)

text \<open>The last element of a slice for which a test holds: a loop that overwrites a variable.\<close>

fun find_last :: "('a \<Rightarrow> bool) \<Rightarrow> 'a list \<Rightarrow> 'a option" where
  "find_last P [] = None"
| "find_last P (x # xs) =
     (case find_last P xs of Some y \<Rightarrow> Some y | None \<Rightarrow> if P x then Some x else None)"

lemma find_last_SomeD: "find_last P xs = Some x \<Longrightarrow> x \<in> set xs \<and> P x"
  by (induction xs) (auto split: option.splits if_splits)

lemma find_last_None_iff: "find_last P xs = None \<longleftrightarrow> (\<forall>x\<in>set xs. \<not> P x)"
  by (induction xs) (auto split: option.splits)

lemma find_SomeD: "find P xs = Some x \<Longrightarrow> x \<in> set xs \<and> P x"
  by (induction xs) (auto split: if_splits)

lemma find_eq_None_iff: "find P xs = None \<longleftrightarrow> (\<forall>x\<in>set xs. \<not> P x)"
  by (induction xs) auto

lemma find_uniqueI:
  assumes "x \<in> set xs" and "P x" and "\<And>y. y \<in> set xs \<Longrightarrow> P y \<Longrightarrow> y = x"
  shows "find P xs = Some x"
proof (cases "find P xs")
  case None
  with assms(1,2) show ?thesis by (auto simp: find_eq_None_iff)
next
  case (Some y)
  with assms(3) [of y] show ?thesis by (auto dest: find_SomeD)
qed

end
