(* ===== verification/Go_Hash.thy ===== *)
theory Go_Hash
  imports Go_Prelude
begin

unbundle bit_operations_syntax

text \<open>
  The two hash functions of the Go standard library that the controller derives names from,
  \<open>crypto/sha1\<close> and \<open>crypto/sha256\<close> (FIPS 180-4), on byte strings, with the \<open>%x\<close> rendering
  of their digests. The names only need the lengths and the alphabet of the digests; the
  definitions are the real functions so that names can be evaluated.
\<close>

text \<open>
  A 32-bit word is an integer in \<open>0 ..< 2 ^ 32\<close>; additions and shifts write the wrap-around
  out, so that the digests evaluate.
\<close>

type_synonym word32 = int

definition wrap32 :: "int \<Rightarrow> word32" where
  "wrap32 x = x mod 4294967296"

definition not32 :: "word32 \<Rightarrow> word32" where
  "not32 x = 4294967295 - x"

section \<open>Padding and blocks\<close>

fun be_bytes :: "nat \<Rightarrow> int \<Rightarrow> int list" where
  "be_bytes 0 n = []"
| "be_bytes (Suc k) n = be_bytes k (n div 256) @ [n mod 256]"

definition sha_pad :: "int list \<Rightarrow> int list" where
  "sha_pad m =
     m @ 128 # replicate ((119 - length m mod 64) mod 64) 0 @ be_bytes 8 (8 * int (length m))"

fun be_words :: "int list \<Rightarrow> word32 list" where
  "be_words (a # b # c # d # r) = (((a * 256 + b) * 256 + c) * 256 + d) # be_words r"
| "be_words _ = []"

fun blocks16 :: "word32 list \<Rightarrow> word32 list list" where
  "blocks16 ws = (if length ws < 16 then [] else take 16 ws # blocks16 (drop 16 ws))"

declare blocks16.simps [simp del]

definition rotr32 :: "nat \<Rightarrow> word32 \<Rightarrow> word32" where
  "rotr32 n w = w div 2 ^ n + wrap32 (w * 2 ^ (32 - n))"

definition bytes_of :: "string \<Rightarrow> int list" where
  "bytes_of s = map of_char s"

definition word_bytes :: "word32 \<Rightarrow> int list" where
  "word_bytes w = be_bytes 4 w"


section \<open>SHA-256\<close>

definition K256 :: "word32 list" where
  "K256 =
    [1116352408, 1899447441, 3049323471, 3921009573, 961987163, 1508970993, 2453635748, 2870763221,
     3624381080, 310598401, 607225278, 1426881987, 1925078388, 2162078206, 2614888103, 3248222580,
     3835390401, 4022224774, 264347078, 604807628, 770255983, 1249150122, 1555081692, 1996064986,
     2554220882, 2821834349, 2952996808, 3210313671, 3336571891, 3584528711, 113926993, 338241895,
     666307205, 773529912, 1294757372, 1396182291, 1695183700, 1986661051, 2177026350, 2456956037,
     2730485921, 2820302411, 3259730800, 3345764771, 3516065817, 3600352804, 4094571909, 275423344,
     430227734, 506948616, 659060556, 883997877, 958139571, 1322822218, 1537002063, 1747873779,
     1955562222, 2024104815, 2227730452, 2361852424, 2428436474, 2756734187, 3204031479, 3329325298]"

text \<open>The message schedule, as a window of sixteen words that moves by one word per round.\<close>

fun sched256 :: "nat \<Rightarrow> word32 list \<Rightarrow> word32 list" where
  "sched256 0 ws = ws"
| "sched256 (Suc n) ws =
     (let w1 = ws ! 1; w14 = ws ! 14;
          s0 = rotr32 7 w1 XOR rotr32 18 w1 XOR (w1 div 2 ^ 3);
          s1 = rotr32 17 w14 XOR rotr32 19 w14 XOR (w14 div 2 ^ 10)
      in hd ws # sched256 n (tl ws @ [wrap32 (s1 + ws ! 9 + s0 + hd ws)]))"

type_synonym state256 =
  "word32 \<times> word32 \<times> word32 \<times> word32 \<times> word32 \<times> word32 \<times> word32 \<times> word32"

fun round256 :: "word32 \<times> word32 \<Rightarrow> state256 \<Rightarrow> state256" where
  "round256 (k, w) (a, b, c, d, e, f, g, h) =
     (let t1 = h + (rotr32 6 e XOR rotr32 11 e XOR rotr32 25 e) +
            ((e AND f) XOR (not32 e AND g)) + k + w;
          t2 = (rotr32 2 a XOR rotr32 13 a XOR rotr32 22 a) +
            ((a AND b) XOR (a AND c) XOR (b AND c))
      in (wrap32 (t1 + t2), a, b, c, wrap32 (d + t1), e, f, g))"

fun add256 :: "state256 \<Rightarrow> state256 \<Rightarrow> state256" where
  "add256 (a, b, c, d, e, f, g, h) (a', b', c', d', e', f', g', h') =
     (wrap32 (a + a'), wrap32 (b + b'), wrap32 (c + c'), wrap32 (d + d'),
      wrap32 (e + e'), wrap32 (f + f'), wrap32 (g + g'), wrap32 (h + h'))"

definition block256 :: "word32 list \<Rightarrow> state256 \<Rightarrow> state256" where
  "block256 ws st = add256 st (fold round256 (zip K256 (sched256 48 ws)) st)"

definition init256 :: state256 where
  "init256 = (1779033703, 3144134277, 1013904242, 2773480762, 1359893119, 2600822924,
     528734635, 1541459225)"

fun digest256 :: "state256 \<Rightarrow> int list" where
  "digest256 (a, b, c, d, e, f, g, h) =
     concat (map word_bytes [a, b, c, d, e, f, g, h])"

definition sha256_Sum256 :: "string \<Rightarrow> int list" where
  "sha256_Sum256 s =
     digest256 (fold block256 (blocks16 (be_words (sha_pad (bytes_of s)))) init256)"


section \<open>SHA-1\<close>

definition rotl32 :: "nat \<Rightarrow> word32 \<Rightarrow> word32" where
  "rotl32 n w = wrap32 (w * 2 ^ n) + w div 2 ^ (32 - n)"

fun sched1 :: "nat \<Rightarrow> word32 list \<Rightarrow> word32 list" where
  "sched1 0 ws = ws"
| "sched1 (Suc n) ws =
     hd ws # sched1 n (tl ws @ [rotl32 1 (ws ! 13 XOR ws ! 8 XOR ws ! 2 XOR hd ws)])"

type_synonym state1 = "word32 \<times> word32 \<times> word32 \<times> word32 \<times> word32"

fun round1 :: "(nat \<times> word32) \<Rightarrow> state1 \<Rightarrow> state1" where
  "round1 (q, w) (a, b, c, d, e) =
     (let (f, k) =
            (if q = 0 then ((b AND c) OR (not32 b AND d), 1518500249)
             else if q = 1 then (b XOR c XOR d, 1859775393)
             else if q = 2 then ((b AND c) OR (b AND d) OR (c AND d), 2400959708)
             else (b XOR c XOR d, 3395469782))
      in (wrap32 (rotl32 5 a + f + e + k + w), a, rotl32 30 b, c, d))"

fun add1 :: "state1 \<Rightarrow> state1 \<Rightarrow> state1" where
  "add1 (a, b, c, d, e) (a', b', c', d', e') = 
     (wrap32 (a + a'), wrap32 (b + b'), wrap32 (c + c'), wrap32 (d + d'), wrap32 (e + e'))"

definition quarters :: "nat list" where
  "quarters = replicate 20 0 @ replicate 20 1 @ replicate 20 2 @ replicate 20 3"

definition block1 :: "word32 list \<Rightarrow> state1 \<Rightarrow> state1" where
  "block1 ws st = add1 st (fold round1 (zip quarters (sched1 64 ws)) st)"

definition init1 :: state1 where
  "init1 = (1732584193, 4023233417, 2562383102, 271733878, 3285377520)"

fun digest1 :: "state1 \<Rightarrow> int list" where
  "digest1 (a, b, c, d, e) = concat (map word_bytes [a, b, c, d, e])"

definition sha1_Sum :: "string \<Rightarrow> int list" where
  "sha1_Sum s = digest1 (fold block1 (blocks16 (be_words (sha_pad (bytes_of s)))) init1)"


section \<open>Rendering a digest\<close>

definition hex_char :: "int \<Rightarrow> char" where
  "hex_char d = (if d < 10 then char_of (48 + d) else char_of (87 + d))"

text \<open>\<open>fmt.Sprintf("%x", bytes)\<close>: two lower-case hexadecimal digits per byte.\<close>

definition fmt_hex :: "int list \<Rightarrow> string" where
  "fmt_hex bs = concat (map (\<lambda>b. [hex_char (b div 16), hex_char (b mod 16)]) bs)"

lemma length_be_bytes [simp]: "length (be_bytes k n) = k"
  by (induction k arbitrary: n) auto

lemma be_bytes_less: "b \<in> set (be_bytes k n) \<Longrightarrow> 0 \<le> b \<and> b < 256"
  by (induction k arbitrary: n) auto

lemma length_fmt_hex [simp]: "length (fmt_hex bs) = 2 * length bs"
  by (induction bs) (auto simp: fmt_hex_def)

lemma length_word_bytes [simp]: "length (word_bytes w) = 4"
  by (simp add: word_bytes_def)

lemma length_digest256: "length (digest256 st) = 32"
  by (cases st rule: digest256.cases) simp

lemma length_digest1: "length (digest1 st) = 20"
  by (cases st rule: digest1.cases) simp

lemma digest256_bytes: "b \<in> set (digest256 st) \<Longrightarrow> 0 \<le> b \<and> b < 256"
  by (cases st rule: digest256.cases) (auto simp: word_bytes_def dest: be_bytes_less)

lemma digest1_bytes: "b \<in> set (digest1 st) \<Longrightarrow> 0 \<le> b \<and> b < 256"
  by (cases st rule: digest1.cases) (auto simp: word_bytes_def dest: be_bytes_less)

lemma length_sha256 [simp]: "length (sha256_Sum256 s) = 32"
  by (simp add: sha256_Sum256_def length_digest256)

lemma length_sha1 [simp]: "length (sha1_Sum s) = 20"
  by (simp add: sha1_Sum_def length_digest1)

lemma sha256_bytes: "b \<in> set (sha256_Sum256 s) \<Longrightarrow> 0 \<le> b \<and> b < 256"
  by (auto simp: sha256_Sum256_def dest: digest256_bytes)

lemma sha1_bytes: "b \<in> set (sha1_Sum s) \<Longrightarrow> 0 \<le> b \<and> b < 256"
  by (auto simp: sha1_Sum_def dest: digest1_bytes)

definition is_hex :: "char \<Rightarrow> bool" where
  "is_hex c \<longleftrightarrow> c \<in> set ''0123456789abcdef''"

lemma is_hex_hex_char:
  assumes "0 \<le> d" and "d < 16"
  shows "is_hex (hex_char d)"
proof -
  have "list_all (\<lambda>d. is_hex (hex_char d)) [0..15]" by code_simp
  with assms show ?thesis by (auto simp: list_all_iff)
qed

lemma fmt_hex_is_hex:
  assumes "\<And>b. b \<in> set bs \<Longrightarrow> 0 \<le> b \<and> b < 256" and "c \<in> set (fmt_hex bs)"
  shows "is_hex c"
proof -
  from assms(2) obtain b where b: "b \<in> set bs" "c = hex_char (b div 16) \<or> c = hex_char (b mod 16)"
    by (auto simp: fmt_hex_def)
  with assms(1) have "0 \<le> b div 16" "b div 16 < 16" by fastforce+
  with b(2) show ?thesis
    by (auto intro: is_hex_hex_char)
qed

text \<open>The test vectors of FIPS 180-4 for the three-letter message.\<close>

lemma sha1_abc: "fmt_hex (sha1_Sum ''abc'') = ''a9993e364706816aba3e25717850c26c9cd0d89d''"
  by code_simp

lemma sha256_abc:
  "fmt_hex (sha256_Sum256 ''abc'') =
     ''ba7816bf8f01cfea414140de5dae2223b00361a396177a9cb410ff61f20015ad''"
  by code_simp

end
