(* ===== verification/Go_Codec.thy ===== *)
theory Go_Codec
  imports Go_Prelude
begin

text \<open>
  The codecs a resource passes through between the cloud and the edge: \<open>base64.StdEncoding\<close>,
  the quoting of a string by \<open>json.Marshal\<close> and its inverse \<open>strconv.Unquote\<close>. The interface
  of a codec is a locale; base64 and quoting are interpretations of it, and so is their
  composition.
\<close>

section \<open>The interface of a codec\<close>

locale codec =
  fixes enc :: "'a \<Rightarrow> 'b" and dec :: "'b \<Rightarrow> 'a option" and ok :: "'a \<Rightarrow> bool"
  assumes dec_enc: "ok x \<Longrightarrow> dec (enc x) = Some x"
begin

lemma enc_inject: "ok x \<Longrightarrow> ok y \<Longrightarrow> enc x = enc y \<longleftrightarrow> x = y"
  using dec_enc by (metis option.inject)

lemma dec_unique: "ok x \<Longrightarrow> dec (enc x) = Some y \<Longrightarrow> y = x"
  by (simp add: dec_enc)

end

locale codec_chain = inner: codec enc1 dec1 ok1 + outer: codec enc2 dec2 ok2
  for enc1 :: "'a \<Rightarrow> 'b" and dec1 ok1 and enc2 :: "'b \<Rightarrow> 'c" and dec2 ok2 +
  assumes ok_chain: "ok1 x \<Longrightarrow> ok2 (enc1 x)"

sublocale codec_chain \<subseteq> chain: codec "\<lambda>x. enc2 (enc1 x)" "\<lambda>y. Option.bind (dec2 y) dec1" ok1
  by unfold_locales (simp add: outer.dec_enc ok_chain inner.dec_enc)


section \<open>Package encoding/base64\<close>

definition b64_alphabet :: string where
  "b64_alphabet = ''ABCDEFGHIJKLMNOPQRSTUVWXYZabcdefghijklmnopqrstuvwxyz0123456789+/''"

definition b64_char :: "nat \<Rightarrow> char" where
  "b64_char v = b64_alphabet ! v"

fun index_of :: "'a \<Rightarrow> 'a list \<Rightarrow> nat option" where
  "index_of x [] = None"
| "index_of x (y # ys) = (if x = y then Some 0 else map_option Suc (index_of x ys))"

definition b64_index :: "char \<Rightarrow> nat option" where
  "b64_index c = index_of c b64_alphabet"

text \<open>\<open>StdEncoding.EncodeToString\<close>: three bytes give four characters, the rest is padded.\<close>

fun b64_EncodeToString :: "string \<Rightarrow> string" where
  "b64_EncodeToString [] = []"
| "b64_EncodeToString [a] =
     (let x = of_char a :: nat
      in [b64_char (x div 4), b64_char (x mod 4 * 16), CHR ''='', CHR ''=''])"
| "b64_EncodeToString [a, b] =
     (let x = of_char a :: nat; y = of_char b
      in [b64_char (x div 4), b64_char (x mod 4 * 16 + y div 16), b64_char (y mod 16 * 4), CHR ''=''])"
| "b64_EncodeToString (a # b # c # cs) =
     (let x = of_char a :: nat; y = of_char b; z = of_char c
      in b64_char (x div 4) # b64_char (x mod 4 * 16 + y div 16) #
         b64_char (y mod 16 * 4 + z div 64) # b64_char (z mod 64) # b64_EncodeToString cs)"

text \<open>
  \<open>StdEncoding.DecodeString\<close>: carriage returns and line feeds are skipped; every quantum has
  four characters; padding ends the input; the unused low bits are not checked.
\<close>

fun b64_quanta :: "string \<Rightarrow> string option" where
  "b64_quanta [] = Some []"
| "b64_quanta (p # q # r # s # cs) =
     (case (b64_index p, b64_index q) of
        (Some v0, Some v1) \<Rightarrow>
          let b0 = char_of (v0 * 4 + v1 div 16) in
          if r = CHR ''='' then (if s = CHR ''='' \<and> cs = [] then Some [b0] else None)
          else (case b64_index r of
                  None \<Rightarrow> None
                | Some v2 \<Rightarrow>
                    let b1 = char_of (v1 mod 16 * 16 + v2 div 4) in
                    if s = CHR ''='' then (if cs = [] then Some [b0, b1] else None)
                    else (case b64_index s of
                            None \<Rightarrow> None
                          | Some v3 \<Rightarrow>
                              map_option (\<lambda>bs. b0 # b1 # char_of (v2 mod 4 * 64 + v3) # bs)
                                (b64_quanta cs)))
      | _ \<Rightarrow> None)"
| "b64_quanta _ = None"

definition b64_DecodeString :: "string \<Rightarrow> string option" where
  "b64_DecodeString s = b64_quanta (filter (\<lambda>c. c \<noteq> CHR 0x0A \<and> c \<noteq> CHR 0x0D) s)"

lemma length_b64_alphabet [simp]: "length b64_alphabet = 64"
  by (simp add: b64_alphabet_def)

lemma distinct_b64_alphabet: "distinct b64_alphabet"
  by (simp add: b64_alphabet_def)

lemma index_of_nth: "distinct xs \<Longrightarrow> i < length xs \<Longrightarrow> index_of (xs ! i) xs = Some i"
  by (induction xs arbitrary: i) (auto simp: nth_Cons split: nat.splits)

lemma b64_index_char: "v < 64 \<Longrightarrow> b64_index (b64_char v) = Some v"
  by (simp add: b64_index_def b64_char_def index_of_nth distinct_b64_alphabet)

lemma b64_char_in: "v < 64 \<Longrightarrow> b64_char v \<in> set b64_alphabet"
  by (simp add: b64_char_def)

lemma b64_alphabet_plain: "c \<in> set b64_alphabet \<Longrightarrow> c \<noteq> CHR ''='' \<and> c \<noteq> CHR 0x0A \<and> c \<noteq> CHR 0x0D"
  by (auto simp: b64_alphabet_def)

lemma b64_char_not_pad: "v < 64 \<Longrightarrow> b64_char v \<noteq> CHR ''=''"
  using b64_alphabet_plain b64_char_in by blast

lemma of_char_bound: "(of_char c :: nat) < 256"
  by (metis of_char_mod_256 mod_less_divisor zero_less_numeral)

lemma b64_six_bits:
  fixes x y z :: nat
  assumes "x < 256" and "y < 256" and "z < 256"
  shows "x div 4 < 64" and "x mod 4 * 16 + y div 16 < 64" and "y mod 16 * 4 + z div 64 < 64"
    and "z mod 64 < 64" and "x mod 4 * 16 < 64" and "y mod 16 * 4 < 64"
  using assms by auto

lemma b64_low_bits:
  "(of_char c :: nat) div 16 div 16 = 0" "(of_char c :: nat) div 16 mod 16 = of_char c div 16"
  "(of_char c :: nat) div 64 div 4 = 0" "(of_char c :: nat) div 64 mod 4 = of_char c div 64"
  using of_char_bound [of c] by (auto simp: less_mult_imp_div_less)

lemmas b64_arith = b64_six_bits [OF of_char_bound of_char_bound of_char_bound] b64_low_bits

lemma b64_quanta_encode: "b64_quanta (b64_EncodeToString s) = Some s"
  by (induction s rule: b64_EncodeToString.induct)
    (simp_all add: Let_def b64_index_char b64_char_not_pad b64_arith)

definition b64_text :: "char \<Rightarrow> bool" where
  "b64_text c \<longleftrightarrow> c \<in> set b64_alphabet \<or> c = CHR ''=''"

lemma b64_encode_text: "c \<in> set (b64_EncodeToString s) \<Longrightarrow> b64_text c"
  by (induction s rule: b64_EncodeToString.induct)
    (auto simp: Let_def b64_text_def b64_char_in b64_arith)

lemma b64_decode_encode: "b64_DecodeString (b64_EncodeToString s) = Some s"
proof -
  have "filter (\<lambda>c. c \<noteq> CHR 0x0A \<and> c \<noteq> CHR 0x0D) (b64_EncodeToString s) = b64_EncodeToString s"
    by (rule filter_True) (auto dest!: b64_encode_text b64_alphabet_plain simp: b64_text_def)
  then show ?thesis
    by (simp add: b64_DecodeString_def b64_quanta_encode)
qed

interpretation base64: codec b64_EncodeToString b64_DecodeString "\<lambda>_. True"
  by unfold_locales (rule b64_decode_encode)


section \<open>Quoting: json.Marshal of a string and strconv.Unquote\<close>

text \<open>
  Both functions work on valid UTF-8 text: bytes from 0x80 on are copied. (\<open>json.Marshal\<close> would
  also escape U+2028 and U+2029 and replace invalid bytes, which no message of the controller
  has: its contents are base64 text.)
\<close>

definition char_quote :: char where "char_quote = CHR 0x22"

definition char_backslash :: char where "char_backslash = CHR 0x5C"

definition hex_digit :: "nat \<Rightarrow> char" where
  "hex_digit d = (if d < 10 then char_of (48 + d) else char_of (87 + d))"

definition json_escape :: "char \<Rightarrow> string" where
  "json_escape c =
     (if c = char_quote \<or> c = char_backslash then [char_backslash, c]
      else if c = CHR 0x0A then [char_backslash, CHR ''n'']
      else if c = CHR 0x0D then [char_backslash, CHR ''r'']
      else if c = CHR 0x09 then [char_backslash, CHR ''t'']
      else if (of_char c :: nat) < 32 \<or> c \<in> set ''<>&''
        then [char_backslash, CHR ''u'', CHR ''0'', CHR ''0'',
              hex_digit (of_char c div 16), hex_digit (of_char c mod 16)]
      else [c])"

definition json_Marshal_string :: "string \<Rightarrow> string" where
  "json_Marshal_string s = char_quote # concat (map json_escape s) @ [char_quote]"

definition hex_value :: "char \<Rightarrow> nat option" where
  "hex_value c =
     (let n = of_char c :: nat
      in if 48 \<le> n \<and> n \<le> 57 then Some (n - 48)
         else if 97 \<le> n \<and> n \<le> 102 then Some (n - 87)
         else if 65 \<le> n \<and> n \<le> 70 then Some (n - 55)
         else None)"

fun read_digits :: "(char \<Rightarrow> nat option) \<Rightarrow> nat \<Rightarrow> nat \<Rightarrow> string \<Rightarrow> nat \<Rightarrow> (nat \<times> string) option" where
  "read_digits val base 0 s acc = Some (acc, s)"
| "read_digits val base (Suc n) [] acc = None"
| "read_digits val base (Suc n) (c # cs) acc =
     (case val c of None \<Rightarrow> None | Some d \<Rightarrow> read_digits val base n cs (acc * base + d))"

definition octal_value :: "char \<Rightarrow> nat option" where
  "octal_value c = (let n = of_char c :: nat in if 48 \<le> n \<and> n \<le> 55 then Some (n - 48) else None)"

text \<open>\<open>utf8.EncodeRune\<close>: surrogate halves and values past U+10FFFF become U+FFFD.\<close>

definition utf8_encode :: "nat \<Rightarrow> string" where
  "utf8_encode v =
     (if v < 0x80 then [char_of v]
      else if v < 0x800 then [char_of (0xC0 + v div 64), char_of (0x80 + v mod 64)]
      else if 0xD800 \<le> v \<and> v < 0xE000 \<or> 0x10FFFF < v then [CHR 0xEF, CHR 0xBF, CHR 0xBD]
      else if v < 0x10000
        then [char_of (0xE0 + v div 4096), char_of (0x80 + v div 64 mod 64), char_of (0x80 + v mod 64)]
      else [char_of (0xF0 + v div 262144), char_of (0x80 + v div 4096 mod 64),
            char_of (0x80 + v div 64 mod 64), char_of (0x80 + v mod 64)])"

definition rune_length :: "char \<Rightarrow> nat" where
  "rune_length c =
     (let n = of_char c :: nat
      in if n < 0xC0 then 1 else if n < 0xE0 then 2 else if n < 0xF0 then 3 else 4)"

text \<open>\<open>strconv.UnquoteChar\<close>: the bytes of the first character or escape, and the rest.\<close>

definition simple_escape :: "char \<Rightarrow> char option" where
  "simple_escape e =
     map_of (zip ''abfnrtv'' [CHR 0x07, CHR 0x08, CHR 0x0C, CHR 0x0A, CHR 0x0D, CHR 0x09, CHR 0x0B]) e"

fun UnquoteChar :: "char \<Rightarrow> string \<Rightarrow> (string \<times> string) option" where
  "UnquoteChar q [] = None"
| "UnquoteChar q (c # cs) =
     (if c = q then None
      else if c \<noteq> char_backslash
        then Some (take (rune_length c) (c # cs), drop (rune_length c) (c # cs))
      else (case cs of
              [] \<Rightarrow> None
            | e # r \<Rightarrow>
                (case simple_escape e of
                   Some b \<Rightarrow> Some ([b], r)
                 | None \<Rightarrow>
                     if e = CHR ''x''
                       then map_option (\<lambda>(v, t). ([char_of v], t)) (read_digits hex_value 16 2 r 0)
                     else if e = CHR ''u''
                       then map_option (\<lambda>(v, t). (utf8_encode v, t)) (read_digits hex_value 16 4 r 0)
                     else if e = CHR ''U''
                       then (case read_digits hex_value 16 8 r 0 of
                               None \<Rightarrow> None
                             | Some (v, t) \<Rightarrow> if 0x10FFFF < v then None else Some (utf8_encode v, t))
                     else if octal_value e \<noteq> None
                       then (case read_digits octal_value 8 3 (e # r) 0 of
                               None \<Rightarrow> None
                             | Some (v, t) \<Rightarrow> if 255 < v then None else Some ([char_of v], t))
                     else if e = char_backslash then Some ([e], r)
                     else if e = CHR 0x27 \<or> e = char_quote
                       then (if e \<noteq> q then None else Some ([e], r))
                     else None)))"

lemma read_digits_shorter: "read_digits val base n s acc = Some (v, t) \<Longrightarrow> length t \<le> length s"
proof (induction n arbitrary: s acc)
  case 0
  then show ?case by simp
next
  case (Suc n)
  then show ?case by (cases s) (force split: option.splits)+
qed

lemma UnquoteChar_shorter: "UnquoteChar q s = Some (b, t) \<Longrightarrow> length t < length s"
proof (cases s)
  case (Cons c cs)
  assume *: "UnquoteChar q s = Some (b, t)"
  have "0 < rune_length c" by (simp add: rune_length_def Let_def)
  with * Cons show ?thesis
    by (auto split: if_splits list.splits option.splits dest!: read_digits_shorter)
qed simp

function unquote_loop :: "char \<Rightarrow> string \<Rightarrow> string option" where
  "unquote_loop q s =
     (if s = [] then Some []
      else (case UnquoteChar q s of
              None \<Rightarrow> None
            | Some (b, r) \<Rightarrow>
                if q = CHR 0x27 \<and> r \<noteq> [] then None else map_option (\<lambda>t. b @ t) (unquote_loop q r)))"
  by pat_completeness auto
termination
  by (relation "measure (\<lambda>(q, s). length s)") (auto dest: UnquoteChar_shorter)

declare unquote_loop.simps [simp del]

definition strconv_Unquote :: "string \<Rightarrow> string option" where
  "strconv_Unquote s =
     (if length s < 2 then None
      else
        (let q = hd s; body = butlast (tl s)
         in if q \<noteq> last s then None
            else if q = CHR 0x60
              then (if CHR 0x60 \<in> set body then None else Some (filter (\<lambda>c. c \<noteq> CHR 0x0D) body))
            else if q \<noteq> char_quote \<and> q \<noteq> CHR 0x27 then None
            else if CHR 0x0A \<in> set body then None
            else if char_backslash \<notin> set body \<and> q \<notin> set body \<and> q = char_quote then Some body
            else unquote_loop q body))"

definition ascii :: "char \<Rightarrow> bool" where
  "ascii c \<longleftrightarrow> (of_char c :: nat) < 128"

lemma of_char_high_digit: "(of_char c :: nat) div 16 < 16"
  by (rule less_mult_imp_div_less) (simp add: of_char_bound)

lemma hex_value_digit:
  assumes "d < 16"
  shows "hex_value (hex_digit d) = Some d"
  using assms by (auto simp: hex_value_def hex_digit_def Let_def)

lemma UnquoteChar_plain:
  assumes "json_escape c = [c]" and "ascii c"
  shows "UnquoteChar char_quote (c # r) = Some ([c], r)"
proof -
  from assms(1) have "c \<noteq> char_quote" "c \<noteq> char_backslash"
    by (auto simp: json_escape_def split: if_splits)
  moreover from assms(2) have "rune_length c = 1"
    by (simp add: rune_length_def ascii_def)
  ultimately show ?thesis by simp
qed

lemma read_four:
  "read_digits val base 4 s acc = read_digits val base (Suc (Suc (Suc (Suc 0)))) s acc"
  by (simp add: numeral_nat)

lemma UnquoteChar_unicode:
  assumes "ascii c"
  shows "UnquoteChar char_quote
    ([char_backslash, CHR ''u'', CHR ''0'', CHR ''0'',
      hex_digit (of_char c div 16), hex_digit (of_char c mod 16)] @ r) = Some ([c], r)"
proof -
  have zero: "hex_value (CHR ''0'') = Some 0" by (simp add: hex_value_def)
  have "(of_char c :: nat) div 16 < 16" "(of_char c :: nat) mod 16 < 16"
    by (simp_all add: of_char_high_digit)
  note digits = this [THEN hex_value_digit]
  have esc: "simple_escape (CHR ''u'') = None" by (simp add: simple_escape_def)
  have q: "char_backslash \<noteq> char_quote" by (simp add: char_backslash_def char_quote_def)
  from assms have "utf8_encode (of_char c) = [c]"
    by (simp add: utf8_encode_def ascii_def)
  moreover have "read_digits hex_value 16 4 (CHR ''0'' # CHR ''0'' #
      hex_digit (of_char c div 16) # hex_digit (of_char c mod 16) # r) 0 = Some (of_char c, r)"
    by (simp add: zero digits read_four)
  ultimately show ?thesis
    by (simp add: esc q)
qed

lemma json_escape_cases:
  "c = char_quote \<or> c = char_backslash \<or> c = CHR 0x0A \<or> c = CHR 0x0D \<or> c = CHR 0x09 \<or>
   json_escape c = [c] \<or>
   json_escape c = [char_backslash, CHR ''u'', CHR ''0'', CHR ''0'',
     hex_digit (of_char c div 16), hex_digit (of_char c mod 16)]"
  by (simp add: json_escape_def)

lemma UnquoteChar_escape:
  assumes "ascii c"
  shows "UnquoteChar char_quote (json_escape c @ r) = Some ([c], r)"
proof -
  consider "c = char_quote" | "c = char_backslash" | "c = CHR 0x0A" | "c = CHR 0x0D" | "c = CHR 0x09"
    | "json_escape c = [c]"
    | "json_escape c = [char_backslash, CHR ''u'', CHR ''0'', CHR ''0'',
        hex_digit (of_char c div 16), hex_digit (of_char c mod 16)]"
    using json_escape_cases [of c] by blast
  then show ?thesis
  proof cases
    case 6
    then show ?thesis using UnquoteChar_plain [OF 6 assms] by simp
  next
    case 7
    then show ?thesis using UnquoteChar_unicode [OF assms] by simp
  qed (simp_all add: json_escape_def char_quote_def char_backslash_def simple_escape_def octal_value_def)
qed

lemma unquote_loop_escapes:
  "list_all ascii s \<Longrightarrow> unquote_loop char_quote (concat (map json_escape s)) = Some s"
proof (induction s)
  case Nil
  then show ?case by (simp add: unquote_loop.simps)
next
  case (Cons c s)
  have ne: "json_escape c \<noteq> []" by (simp add: json_escape_def)
  have q: "char_quote \<noteq> CHR 0x27" by (simp add: char_quote_def)
  from Cons show ?case
    by (subst unquote_loop.simps) (simp add: UnquoteChar_escape ne q)
qed

lemma json_escape_id:
  "char_backslash \<notin> set (json_escape c) \<Longrightarrow> json_escape c = [c]"
  by (auto simp: json_escape_def split: if_splits)

lemma json_no_newline: "CHR 0x0A \<notin> set (json_escape c)"
proof -
  have "hex_digit d \<noteq> CHR 0x0A" if "d < 16" for d
  proof
    assume "hex_digit d = CHR 0x0A"
    then have "(of_char (hex_digit d) :: nat) = of_char (CHR 0x0A)" by simp
    with that show False by (simp add: hex_digit_def split: if_splits)
  qed
  from this [OF of_char_high_digit [of c]] this [of "of_char c mod 16"] show ?thesis
    by (auto simp: json_escape_def char_quote_def char_backslash_def split: if_splits)
qed

text \<open>Quoting an ASCII string and unquoting it gives the string back.\<close>

lemma Unquote_Marshal:
  assumes "list_all ascii s"
  shows "strconv_Unquote (json_Marshal_string s) = Some s"
proof -
  let ?body = "concat (map json_escape s)"
  have nl: "CHR 0x0A \<notin> set ?body" using json_no_newline by auto
  have fast: "char_backslash \<notin> set ?body \<Longrightarrow> ?body = s"
    by (induction s) (auto dest: json_escape_id)
  have q: "char_quote \<noteq> CHR 0x60" by (simp add: char_quote_def)
  show ?thesis
    using nl fast unquote_loop_escapes [OF assms]
    by (simp add: strconv_Unquote_def json_Marshal_string_def Let_def q butlast_append)
qed

interpretation quoted: codec json_Marshal_string strconv_Unquote "list_all ascii"
  by unfold_locales (rule Unquote_Marshal)


section \<open>The transport encoding\<close>

lemma b64_encode_ascii: "list_all ascii (b64_EncodeToString s)"
proof -
  have "list_all ascii (b64_alphabet @ ''='')" by (simp add: b64_alphabet_def ascii_def)
  then have "b64_text c \<Longrightarrow> ascii c" for c by (auto simp: b64_text_def list_all_iff)
  then show ?thesis by (auto simp: list_all_iff dest: b64_encode_text)
qed

interpretation wire: codec_chain b64_EncodeToString b64_DecodeString "\<lambda>_. True"
    json_Marshal_string strconv_Unquote "list_all ascii"
  by unfold_locales (rule b64_encode_ascii)

end
