(* ===== verification/Kube_API.thy ===== *)
theory Kube_API
  imports Go_Prelude
begin

text \<open>
  The Kubernetes objects the controller reads, with the fields it reads, and the informer
  caches it reads them from. Pointers that may be nil are options; labels, annotations,
  selectors and secret data are finite maps (a nil map reads as the empty one, and decoded API
  objects never have an empty map that is not nil). Port numbers are \<open>int32\<close> words, read as
  signed integers.
\<close>

section \<open>Object metadata and keys\<close>

record ObjectMeta =
  om_Name :: string
  om_Namespace :: string
  om_UID :: string
  om_ResourceVersion :: string
  om_Labels :: strmap
  om_Annotations :: strmap

definition MetaNamespaceKeyFunc :: "ObjectMeta \<Rightarrow> string" where
  "MetaNamespaceKeyFunc m =
     (if om_Namespace m \<noteq> [] then om_Namespace m @ ''/'' @ om_Name m else om_Name m)"

definition SplitMetaNamespaceKey :: "string \<Rightarrow> (string \<times> string) result" where
  "SplitMetaNamespaceKey key =
     (case strings_Split (CHR ''/'') key of
        [name] \<Rightarrow> Ok ([], name)
      | [namespace, name] \<Rightarrow> Ok (namespace, name)
      | _ \<Rightarrow> Err ErrBadKey)"

definition no_slash :: "string \<Rightarrow> bool" where
  "no_slash s \<longleftrightarrow> CHR ''/'' \<notin> set s"

definition valid_meta :: "ObjectMeta \<Rightarrow> bool" where
  "valid_meta m \<longleftrightarrow> no_slash (om_Name m) \<and> no_slash (om_Namespace m)"

lemma Split_append_slash: "no_slash p \<Longrightarrow> strings_Split (CHR ''/'') (p @ CHR ''/'' # s) = p # strings_Split (CHR ''/'') s"
  by (simp add: no_slash_def strings_Split_append_sep)

lemma Split_no_slash: "no_slash p \<Longrightarrow> strings_Split (CHR ''/'') p = [p]"
  by (simp add: no_slash_def strings_Split_no_sep)

lemma Split_MetaNamespaceKey:
  assumes "valid_meta m"
  shows "SplitMetaNamespaceKey (MetaNamespaceKeyFunc m) = Ok (om_Namespace m, om_Name m)"
  using assms
  by (simp add: SplitMetaNamespaceKey_def MetaNamespaceKeyFunc_def valid_meta_def
      Split_append_slash Split_no_slash)

lemma MetaNamespaceKey_inject:
  assumes "valid_meta m" and "valid_meta m'"
  shows "MetaNamespaceKeyFunc m = MetaNamespaceKeyFunc m' \<longleftrightarrow>
    om_Namespace m = om_Namespace m' \<and> om_Name m = om_Name m'"
proof
  assume "MetaNamespaceKeyFunc m = MetaNamespaceKeyFunc m'"
  then have "SplitMetaNamespaceKey (MetaNamespaceKeyFunc m) =
      SplitMetaNamespaceKey (MetaNamespaceKeyFunc m')" by simp
  then show "om_Namespace m = om_Namespace m' \<and> om_Name m = om_Name m'"
    by (simp add: Split_MetaNamespaceKey assms)
qed (simp add: MetaNamespaceKeyFunc_def)


section \<open>Networking objects\<close>

record ServiceBackendPort =
  sbp_Name :: string
  sbp_Number :: int32

record IngressServiceBackend =
  isb_Name :: string
  isb_Port :: ServiceBackendPort

record IngressBackend =
  ib_Service :: "IngressServiceBackend option"

record HTTPIngressPath =
  hp_Path :: string
  hp_PathType :: "string option"
  hp_Backend :: IngressBackend

record IngressRule =
  ir_Host :: string
  ir_HTTP :: "HTTPIngressPath list option"

record IngressTLS =
  tls_Hosts :: "string list"
  tls_SecretName :: string

record IngressSpec =
  is_IngressClassName :: "string option"
  is_DefaultBackend :: "IngressBackend option"
  is_TLS :: "IngressTLS list"
  is_Rules :: "IngressRule list"

record Ingress =
  ing_Meta :: ObjectMeta
  ing_Spec :: IngressSpec

definition PathTypeExact :: string where "PathTypeExact = ''Exact''"

definition PathTypePrefix :: string where "PathTypePrefix = ''Prefix''"

definition PathTypeImplementationSpecific :: string where
  "PathTypeImplementationSpecific = ''ImplementationSpecific''"

text \<open>The v1beta1 form of an ingress.\<close>

record IntOrString =
  ios_Type :: int
  ios_IntVal :: int32
  ios_StrVal :: string

definition intstr_String :: int where "intstr_String = 1"

record V1beta1IngressBackend =
  bb_ServiceName :: string
  bb_ServicePort :: IntOrString

record V1beta1HTTPIngressPath =
  bp_Path :: string
  bp_PathType :: "string option"
  bp_Backend :: V1beta1IngressBackend

record V1beta1IngressRule =
  br_Host :: string
  br_HTTP :: "V1beta1HTTPIngressPath list option"

record V1beta1IngressSpec =
  bs_IngressClassName :: "string option"
  bs_Backend :: "V1beta1IngressBackend option"
  bs_TLS :: "IngressTLS list"
  bs_Rules :: "V1beta1IngressRule list"

record V1beta1Ingress =
  bing_Meta :: ObjectMeta
  bing_Spec :: V1beta1IngressSpec


section \<open>Core objects\<close>

record ServicePort =
  sp_Name :: string
  sp_Protocol :: string
  sp_Port :: int32

record Service =
  svc_Meta :: ObjectMeta
  svc_Selector :: strmap
  svc_Ports :: "ServicePort list"
  svc_ExternalName :: string

record EndpointAddress =
  ea_IP :: string
  ea_Hostname :: string

record EndpointPort =
  eport_Name :: string
  eport_Port :: int32
  eport_Protocol :: string

record EndpointSubset =
  ss_Addresses :: "EndpointAddress list"
  ss_NotReadyAddresses :: "EndpointAddress list"
  ss_Ports :: "EndpointPort list"

record Endpoints =
  ep_Meta :: ObjectMeta
  ep_Subsets :: "EndpointSubset list"

record Secret =
  sec_Meta :: ObjectMeta
  sec_Type :: string
  sec_Data :: strmap
  sec_StringData :: strmap

record NodeCondition =
  nc_Type :: string
  nc_Status :: string

record Node =
  node_Meta :: ObjectMeta
  node_Conditions :: "NodeCondition list"

definition ProtocolTCP :: string where "ProtocolTCP = ''TCP''"

definition NodeReady :: string where "NodeReady = ''Ready''"

definition ConditionTrue :: string where "ConditionTrue = ''True''"

definition TLSCertKey :: string where "TLSCertKey = ''tls.crt''"

definition TLSPrivateKeyKey :: string where "TLSPrivateKeyKey = ''tls.key''"


section \<open>Informer caches\<close>

text \<open>
  A lister reads an informer's cache: the cached objects, in the order a \<open>List\<close> call yields
  them, and the error the cache reports, if it is faulty. \<open>Get\<close> looks the key
  \<open>namespace + "/" + name\<close> up; \<open>List\<close> in the empty namespace lists every namespace.
\<close>

record 'o lister =
  items :: "'o list"
  fault :: "string option"

definition lister_Get :: "('o \<Rightarrow> ObjectMeta) \<Rightarrow> 'o lister \<Rightarrow> string \<Rightarrow> string \<Rightarrow> 'o result" where
  "lister_Get meta l namespace name =
     (case fault l of
        Some e \<Rightarrow> Err (ErrLister e)
      | None \<Rightarrow>
          (case find (\<lambda>x. MetaNamespaceKeyFunc (meta x) = namespace @ ''/'' @ name) (items l) of
             None \<Rightarrow> Err ErrNotFound
           | Some x \<Rightarrow> Ok x))"

definition lister_ListAll :: "'o lister \<Rightarrow> 'o list result" where
  "lister_ListAll l = (case fault l of Some e \<Rightarrow> Err (ErrLister e) | None \<Rightarrow> Ok (items l))"

definition lister_List :: "('o \<Rightarrow> ObjectMeta) \<Rightarrow> 'o lister \<Rightarrow> string \<Rightarrow> 'o list result" where
  "lister_List meta l namespace =
     (case fault l of
        Some e \<Rightarrow> Err (ErrLister e)
      | None \<Rightarrow> Ok (if namespace = [] then items l
                    else filter (\<lambda>x. om_Namespace (meta x) = namespace) (items l)))"

text \<open>A cache holds valid objects, one per key, and is not faulty.\<close>

definition wf_lister :: "('o \<Rightarrow> ObjectMeta) \<Rightarrow> 'o lister \<Rightarrow> bool" where
  "wf_lister meta l \<longleftrightarrow> fault l = None \<and> distinct (map (MetaNamespaceKeyFunc \<circ> meta) (items l)) \<and>
     (\<forall>x\<in>set (items l). valid_meta (meta x) \<and> om_Namespace (meta x) \<noteq> [])"

lemma lister_Get_no_panic: "lister_Get meta l ns n \<noteq> Panic p"
  by (auto simp: lister_Get_def split: option.splits)

lemma lister_Get_Ok:
  assumes "lister_Get meta l ns n = Ok x"
  shows "x \<in> set (items l)" and "MetaNamespaceKeyFunc (meta x) = ns @ ''/'' @ n"
  using assms by (auto simp: lister_Get_def split: option.splits dest: find_SomeD)

lemma lister_Get_Ok_meta:
  assumes "wf_lister meta l" and "no_slash ns" and "no_slash n" and "lister_Get meta l ns n = Ok x"
  shows "om_Namespace (meta x) = ns" and "om_Name (meta x) = n"
proof -
  from assms lister_Get_Ok [OF assms(4)] have
    key: "MetaNamespaceKeyFunc (meta x) = ns @ ''/'' @ n" and v: "valid_meta (meta x)"
    by (auto simp: wf_lister_def)
  from v have "SplitMetaNamespaceKey (ns @ ''/'' @ n) = Ok (om_Namespace (meta x), om_Name (meta x))"
    using Split_MetaNamespaceKey key by metis
  with assms(2,3) show "om_Namespace (meta x) = ns" and "om_Name (meta x) = n"
    by (auto simp: SplitMetaNamespaceKey_def Split_append_slash Split_no_slash)
qed

text \<open>In a well-formed cache an object is found under its own namespace and name.\<close>

lemma lister_Get_self:
  assumes "wf_lister meta l" and "x \<in> set (items l)"
  shows "lister_Get meta l (om_Namespace (meta x)) (om_Name (meta x)) = Ok x"
proof -
  have "find (\<lambda>x'. MetaNamespaceKeyFunc (meta x') = MetaNamespaceKeyFunc (meta x)) (items l) = Some x"
    using assms by (intro find_uniqueI) (auto simp: wf_lister_def distinct_map inj_on_def)
  with assms show ?thesis
    by (auto simp: lister_Get_def wf_lister_def MetaNamespaceKeyFunc_def)
qed

lemma lister_List_Ok:
  "lister_List meta l ns = Ok os \<Longrightarrow> x \<in> set os \<Longrightarrow> x \<in> set (items l)"
  by (auto simp: lister_List_def split: option.splits if_splits)

end
