(* ===== verification/Work_Queue.thy ===== *)
theory Work_Queue
  imports Go_Prelude
begin

text \<open>
  The rate limited work queue of \<open>k8s.io/client-go/util/workqueue\<close> (vendored under
  \<open>src/vendor\<close>) that holds the ingress keys, the resource keys and, in the cloud hub, the
  message keys of a node. An item is in the queue at most once; an item added again while a
  worker processes it is queued when the worker is done. A rate limited add waits for its
  delay: \<open>wq_waiting\<close> holds the items whose timer has not fired, and \<open>wq_Timer\<close> is the step of
  the waiting loop that adds a ready entry.
\<close>

record 'k workqueue =
  wq_queue :: "'k list"
  wq_dirty :: "'k fset"
  wq_processing :: "'k fset"
  wq_shuttingDown :: bool
  wq_waiting :: "'k fset"
  wq_failures :: "('k, nat) fmap"

definition wq_new :: "'k workqueue" where
  "wq_new = \<lparr>wq_queue = [], wq_dirty = {||}, wq_processing = {||}, wq_shuttingDown = False,
     wq_waiting = {||}, wq_failures = fmempty\<rparr>"

definition wq_Add :: "'k \<Rightarrow> 'k workqueue \<Rightarrow> 'k workqueue" where
  "wq_Add item q =
     (if wq_shuttingDown q then q
      else if item |\<in>| wq_dirty q then q
      else
        (let q' = q\<lparr>wq_dirty := finsert item (wq_dirty q)\<rparr>
         in if item |\<in>| wq_processing q' then q'
            else q'\<lparr>wq_queue := wq_queue q' @ [item]\<rparr>))"

definition wq_Len :: "'k workqueue \<Rightarrow> nat" where
  "wq_Len q = length (wq_queue q)"

text \<open>
  \<open>Get\<close> blocks while the queue is empty and not shutting down (\<open>Waits\<close>); an empty queue that is
  shutting down tells the worker to quit.
\<close>

datatype 'k get_result = Item 'k "'k workqueue" | Quit | Waits

definition wq_Get :: "'k workqueue \<Rightarrow> 'k get_result" where
  "wq_Get q =
     (case wq_queue q of
        [] \<Rightarrow> if wq_shuttingDown q then Quit else Waits
      | item # rest \<Rightarrow>
          Item item (q\<lparr>wq_queue := rest, wq_processing := finsert item (wq_processing q),
            wq_dirty := wq_dirty q |-| {|item|}\<rparr>))"

definition wq_Done :: "'k \<Rightarrow> 'k workqueue \<Rightarrow> 'k workqueue" where
  "wq_Done item q =
     (let q' = q\<lparr>wq_processing := wq_processing q |-| {|item|}\<rparr>
      in if item |\<in>| wq_dirty q' then q'\<lparr>wq_queue := wq_queue q' @ [item]\<rparr> else q')"

definition wq_ShutDown :: "'k workqueue \<Rightarrow> 'k workqueue" where
  "wq_ShutDown q = q\<lparr>wq_shuttingDown := True\<rparr>"

text \<open>\<open>AddAfter\<close> with a positive delay, and the ready step of the waiting loop.\<close>

definition wq_AddAfter :: "'k \<Rightarrow> int \<Rightarrow> 'k workqueue \<Rightarrow> 'k workqueue" where
  "wq_AddAfter item duration q =
     (if wq_shuttingDown q then q
      else if duration \<le> 0 then wq_Add item q
      else q\<lparr>wq_waiting := finsert item (wq_waiting q)\<rparr>)"

definition wq_Timer :: "'k \<Rightarrow> 'k workqueue \<Rightarrow> 'k workqueue" where
  "wq_Timer item q =
     (if item |\<in>| wq_waiting q
      then wq_Add item (q\<lparr>wq_waiting := wq_waiting q |-| {|item|}\<rparr>)
      else q)"

text \<open>
  The delay of the default rate limiter is the larger one of two: of the item's exponential
  limiter (five milliseconds doubled for every earlier failure, at most a thousand seconds), and
  of a token bucket. The model takes the first; the bucket only ever makes a positive delay
  longer, and the length of a positive delay does not matter here. \<open>When\<close> counts the failure,
  \<open>Forget\<close> drops the count.
\<close>

definition wq_NumRequeues :: "'k \<Rightarrow> 'k workqueue \<Rightarrow> nat" where
  "wq_NumRequeues item q = (case fmlookup (wq_failures q) item of None \<Rightarrow> 0 | Some n \<Rightarrow> n)"

definition wq_When :: "'k \<Rightarrow> 'k workqueue \<Rightarrow> int \<times> 'k workqueue" where
  "wq_When item q =
     (let n = wq_NumRequeues item q
      in (min (5000000 * 2 ^ n) (1000 * time_Second),
          q\<lparr>wq_failures := fmupd item (Suc n) (wq_failures q)\<rparr>))"

definition wq_AddRateLimited :: "'k \<Rightarrow> 'k workqueue \<Rightarrow> 'k workqueue" where
  "wq_AddRateLimited item q = (let (d, q') = wq_When item q in wq_AddAfter item d q')"

definition wq_Forget :: "'k \<Rightarrow> 'k workqueue \<Rightarrow> 'k workqueue" where
  "wq_Forget item q = q\<lparr>wq_failures := fmdrop item (wq_failures q)\<rparr>"


section \<open>The invariant\<close>

text \<open>
  The queue holds exactly the dirty items that are not being processed, each once.
\<close>

definition wq_inv :: "'k workqueue \<Rightarrow> bool" where
  "wq_inv q \<longleftrightarrow> distinct (wq_queue q) \<and> set (wq_queue q) = fset (wq_dirty q) - fset (wq_processing q)"

lemma wq_inv_new: "wq_inv wq_new"
  by (simp add: wq_inv_def wq_new_def)

lemma wq_inv_Add [inv_intros]: "wq_inv q \<Longrightarrow> wq_inv (wq_Add k q)"
  by (auto simp: wq_inv_def wq_Add_def Let_def)

lemma wq_inv_Get [inv_intros]: "wq_inv q \<Longrightarrow> wq_Get q = Item k q' \<Longrightarrow> wq_inv q'"
  by (auto simp: wq_inv_def wq_Get_def split: list.splits if_splits)

lemma wq_inv_Done [inv_intros]: "wq_inv q \<Longrightarrow> k |\<in>| wq_processing q \<Longrightarrow> wq_inv (wq_Done k q)"
  by (auto simp: wq_inv_def wq_Done_def Let_def)

lemma wq_inv_ShutDown [inv_intros]: "wq_inv q \<Longrightarrow> wq_inv (wq_ShutDown q)"
  by (simp add: wq_inv_def wq_ShutDown_def)

lemma wq_inv_AddAfter [inv_intros]: "wq_inv q \<Longrightarrow> wq_inv (wq_AddAfter k d q)"
  by (auto simp: wq_AddAfter_def wq_inv_Add) (simp add: wq_inv_def)

lemma wq_inv_AddRateLimited [inv_intros]: "wq_inv q \<Longrightarrow> wq_inv (wq_AddRateLimited k q)"
  unfolding wq_AddRateLimited_def wq_When_def Let_def
  by (simp, rule wq_inv_AddAfter) (simp add: wq_inv_def)

lemma wq_inv_Forget [inv_intros]: "wq_inv q \<Longrightarrow> wq_inv (wq_Forget k q)"
  by (simp add: wq_inv_def wq_Forget_def)

lemma wq_inv_Timer [inv_intros]: "wq_inv q \<Longrightarrow> wq_inv (wq_Timer k q)"
  by (auto simp: wq_Timer_def intro!: wq_inv_Add) (simp add: wq_inv_def)


section \<open>The interface of a work queue\<close>

text \<open>
  What the controllers rely on: \<open>pending\<close> are the keys that still have to be handed out,
  \<open>active\<close> the keys some worker holds.
\<close>

locale work_queue =
  fixes add :: "'k \<Rightarrow> 'q \<Rightarrow> 'q"
    and get :: "'q \<Rightarrow> ('k \<times> 'q) option"
    and finish :: "'k \<Rightarrow> 'q \<Rightarrow> 'q"
    and pending :: "'q \<Rightarrow> 'k set"
    and active :: "'q \<Rightarrow> 'k set"
    and inv :: "'q \<Rightarrow> bool"
    and running :: "'q \<Rightarrow> bool"
  assumes add_inv: "inv q \<Longrightarrow> inv (add k q)"
    and get_inv: "inv q \<Longrightarrow> get q = Some (k, q') \<Longrightarrow> inv q'"
    and finish_inv: "inv q \<Longrightarrow> k \<in> active q \<Longrightarrow> inv (finish k q)"
    and add_pending: "running q \<Longrightarrow> pending (add k q) = insert k (pending q)"
    and add_active: "active (add k q) = active q"
    and get_pending: "inv q \<Longrightarrow> get q = Some (k, q') \<Longrightarrow> k \<in> pending q \<and> pending q' = pending q - {k}"
    and get_active: "inv q \<Longrightarrow> get q = Some (k, q') \<Longrightarrow> k \<notin> active q \<and> active q' = insert k (active q)"
    and get_None: "inv q \<Longrightarrow> get q = None \<Longrightarrow> pending q \<subseteq> active q"
    and finish_pending: "pending (finish k q) = pending q"
    and finish_active: "active (finish k q) = active q - {k}"
begin

text \<open>A key is never held by two workers.\<close>

lemma get_exclusive: "inv q \<Longrightarrow> k \<in> active q \<Longrightarrow> get q = Some (k', q') \<Longrightarrow> k' \<noteq> k"
  using get_active by blast

text \<open>An idle queue with a pending key hands a key out.\<close>

lemma get_progress:
  assumes "inv q" and "active q = {}" and "k \<in> pending q"
  shows "\<exists>k' q'. get q = Some (k', q')"
  using assms get_None by (cases "get q") auto

text \<open>One round of a worker: take a key, process it (adding nothing), give it back.\<close>

lemma worker_round:
  assumes "inv q" and "get q = Some (k, q')"
  shows "inv (finish k q')" and "active (finish k q') = active q"
    and "pending (finish k q') = pending q - {k}"
proof -
  from assms get_inv get_active have q': "inv q'" "k \<in> active q'" by blast+
  then show "inv (finish k q')" by (rule finish_inv)
  from get_active [OF assms] show "active (finish k q') = active q"
    by (auto simp: finish_active)
  from get_pending [OF assms] show "pending (finish k q') = pending q - {k}"
    by (simp add: finish_pending)
qed

text \<open>A key added while its worker is busy survives the worker's \<open>finish\<close>.\<close>

lemma readd_survives:
  assumes "running q"
  shows "k \<in> pending (finish k (add k q))"
  using assms by (simp add: finish_pending add_pending)

end

definition wq_take :: "'k workqueue \<Rightarrow> ('k \<times> 'k workqueue) option" where
  "wq_take q = (case wq_Get q of Item k q' \<Rightarrow> Some (k, q') | Quit \<Rightarrow> None | Waits \<Rightarrow> None)"

lemma wq_take_Some: "wq_take q = Some (k, q') \<longleftrightarrow> wq_Get q = Item k q'"
  by (auto simp: wq_take_def split: get_result.splits)

lemma wq_Get_Item_iff:
  "wq_Get q = Item k q' \<longleftrightarrow> (\<exists>rest. wq_queue q = k # rest \<and>
     q' = q\<lparr>wq_queue := rest, wq_processing := finsert k (wq_processing q),
            wq_dirty := wq_dirty q |-| {|k|}\<rparr>)"
  by (auto simp: wq_Get_def split: list.split)

lemma wq_take_None: "wq_take q = None \<longleftrightarrow> wq_queue q = []"
  by (auto simp: wq_take_def wq_Get_def split: list.split)

lemma wq_Get_sets:
  assumes "wq_inv q" and "wq_Get q = Item k q'"
  shows "k |\<in>| wq_dirty q" and "k |\<notin>| wq_processing q"
    and "wq_dirty q' = wq_dirty q |-| {|k|}" and "wq_processing q' = finsert k (wq_processing q)"
    and "wq_shuttingDown q' = wq_shuttingDown q"
proof -
  from assms(2) obtain rest where q': "wq_queue q = k # rest"
      "q' = q\<lparr>wq_queue := rest, wq_processing := finsert k (wq_processing q),
            wq_dirty := wq_dirty q |-| {|k|}\<rparr>"
    by (auto simp: wq_Get_Item_iff)
  from assms(1) q'(1) have "k \<in> fset (wq_dirty q) - fset (wq_processing q)"
    by (metis list.set_intros(1) wq_inv_def)
  then show "k |\<in>| wq_dirty q" "k |\<notin>| wq_processing q" by auto
  from q'(2) show "wq_dirty q' = wq_dirty q |-| {|k|}"
    and "wq_processing q' = finsert k (wq_processing q)"
    and "wq_shuttingDown q' = wq_shuttingDown q" by simp_all
qed

interpretation wq: work_queue wq_Add wq_take wq_Done "\<lambda>q. fset (wq_dirty q)"
    "\<lambda>q. fset (wq_processing q)" wq_inv "\<lambda>q. \<not> wq_shuttingDown q"
proof unfold_locales
  fix q q' :: "'b workqueue" and k
  show "wq_inv q \<Longrightarrow> wq_inv (wq_Add k q)" by (rule wq_inv_Add)
  show "wq_inv q \<Longrightarrow> wq_take q = Some (k, q') \<Longrightarrow> wq_inv q'"
    by (auto simp: wq_take_Some intro: wq_inv_Get)
  show "wq_inv q \<Longrightarrow> k \<in> fset (wq_processing q) \<Longrightarrow> wq_inv (wq_Done k q)" by (rule wq_inv_Done)
  show "\<not> wq_shuttingDown q \<Longrightarrow> fset (wq_dirty (wq_Add k q)) = insert k (fset (wq_dirty q))"
    by (auto simp: wq_Add_def Let_def)
  show "fset (wq_processing (wq_Add k q)) = fset (wq_processing q)"
    by (simp add: wq_Add_def Let_def)
  show "wq_inv q \<Longrightarrow> wq_take q = Some (k, q') \<Longrightarrow>
      k \<in> fset (wq_dirty q) \<and> fset (wq_dirty q') = fset (wq_dirty q) - {k}"
    unfolding wq_take_Some by (frule (1) wq_Get_sets(1), drule (1) wq_Get_sets(3)) simp
  show "wq_inv q \<Longrightarrow> wq_take q = Some (k, q') \<Longrightarrow>
      k \<notin> fset (wq_processing q) \<and> fset (wq_processing q') = insert k (fset (wq_processing q))"
    unfolding wq_take_Some by (frule (1) wq_Get_sets(2), drule (1) wq_Get_sets(4)) simp
  show "wq_inv q \<Longrightarrow> wq_take q = None \<Longrightarrow> fset (wq_dirty q) \<subseteq> fset (wq_processing q)"
    by (auto simp: wq_take_None wq_inv_def)
  show "fset (wq_dirty (wq_Done k q)) = fset (wq_dirty q)"
    by (simp add: wq_Done_def Let_def)
  show "fset (wq_processing (wq_Done k q)) = fset (wq_processing q) - {k}"
    by (simp add: wq_Done_def Let_def)
qed


section \<open>Fields an operation leaves alone\<close>

lemma wq_Add_simps [simp]:
  "wq_shuttingDown (wq_Add k q) = wq_shuttingDown q"
  "wq_processing (wq_Add k q) = wq_processing q"
  "wq_waiting (wq_Add k q) = wq_waiting q"
  by (simp_all add: wq_Add_def Let_def)

lemma wq_Done_simps [simp]:
  "wq_shuttingDown (wq_Done k q) = wq_shuttingDown q"
  "wq_dirty (wq_Done k q) = wq_dirty q"
  "wq_waiting (wq_Done k q) = wq_waiting q"
  by (simp_all add: wq_Done_def Let_def)

lemma wq_Forget_simps [simp]:
  "wq_shuttingDown (wq_Forget k q) = wq_shuttingDown q"
  "wq_dirty (wq_Forget k q) = wq_dirty q"
  "wq_processing (wq_Forget k q) = wq_processing q"
  "wq_waiting (wq_Forget k q) = wq_waiting q"
  by (simp_all add: wq_Forget_def)

text \<open>The default rate limiter never lets a retry through at once.\<close>

lemma wq_When_positive: "0 < fst (wq_When k q)"
  by (simp add: wq_When_def Let_def time_Second_def)

lemma wq_AddRateLimited_waits:
  "\<not> wq_shuttingDown q \<Longrightarrow> wq_waiting (wq_AddRateLimited k q) = finsert k (wq_waiting q)"
  "wq_dirty (wq_AddRateLimited k q) = wq_dirty q"
  "wq_processing (wq_AddRateLimited k q) = wq_processing q"
  "wq_shuttingDown (wq_AddRateLimited k q) = wq_shuttingDown q"
  "wq_queue (wq_AddRateLimited k q) = wq_queue q"
proof -
  from wq_When_positive [of k q]
  have "\<not> min (5000000 * 2 ^ wq_NumRequeues k q) (1000 * time_Second) \<le> 0"
    by (simp add: wq_When_def Let_def min_le_iff_disj not_le)
  then have "wq_AddRateLimited k q =
      (let q' = q\<lparr>wq_failures := fmupd k (Suc (wq_NumRequeues k q)) (wq_failures q)\<rparr>
       in if wq_shuttingDown q then q' else q'\<lparr>wq_waiting := finsert k (wq_waiting q)\<rparr>)"
    by (simp add: wq_AddRateLimited_def wq_When_def wq_AddAfter_def Let_def)
  then show "\<not> wq_shuttingDown q \<Longrightarrow> wq_waiting (wq_AddRateLimited k q) = finsert k (wq_waiting q)"
    "wq_dirty (wq_AddRateLimited k q) = wq_dirty q"
    "wq_processing (wq_AddRateLimited k q) = wq_processing q"
    "wq_shuttingDown (wq_AddRateLimited k q) = wq_shuttingDown q"
    "wq_queue (wq_AddRateLimited k q) = wq_queue q"
    by (simp_all add: Let_def)
qed

lemma wq_pending_Add: "wq_dirty (wq_Add k q) = (if wq_shuttingDown q then wq_dirty q else finsert k (wq_dirty q))"
  by (auto simp: wq_Add_def Let_def)


section \<open>Runs of a queue\<close>

text \<open>
  The steps the informers, the workers and the waiting loop take on a queue. A worker calls
  \<open>Done\<close> only for the key it holds.
\<close>

inductive wq_step :: "'k workqueue \<Rightarrow> 'k workqueue \<Rightarrow> bool" where
  step_Add: "wq_step q (wq_Add k q)"
| step_AddAfter: "wq_step q (wq_AddAfter k d q)"
| step_AddRateLimited: "wq_step q (wq_AddRateLimited k q)"
| step_Timer: "wq_step q (wq_Timer k q)"
| step_Get: "wq_Get q = Item k q' \<Longrightarrow> wq_step q q'"
| step_Done: "k |\<in>| wq_processing q \<Longrightarrow> wq_step q (wq_Done k q)"
| step_Forget: "wq_step q (wq_Forget k q)"
| step_ShutDown: "wq_step q (wq_ShutDown q)"

lemma wq_step_inv: "wq_step q q' \<Longrightarrow> wq_inv q \<Longrightarrow> wq_inv q'"
  by (induction rule: wq_step.induct) (auto intro: inv_intros)

lemma wq_reachable_inv: "wq_step\<^sup>*\<^sup>* wq_new q \<Longrightarrow> wq_inv q"
  by (induction rule: rtranclp_induct) (auto intro: wq_inv_new wq_step_inv)

end
