(* ===== verification/Location_Cache.thy ===== *)
theory Location_Cache
  imports Kube_API
begin

text \<open>
  The location cache of the ingress controller
  (\<open>cloud/pkg/envoyingresscontroller/cache/location.go\<close>): the status of the edge nodes and the
  two maps between nodes and node groups. The fields \<open>Secrets\<close>, \<open>Endpoints\<close>, \<open>Clusters\<close>,
  \<open>Roultes\<close> and \<open>Listeners\<close> of the Go struct are never used and have no counterpart here.
  The informer's events on nodes are a step relation, over which the two maps are shown to
  agree.
\<close>

definition NODEGROUPLABEL :: string where "NODEGROUPLABEL = ''nodegroup''"

record LocationCache =
  EdgeNodes :: strmap
  Node2group :: "(string, string list) fmap"
  Group2node :: "(string, string list) fmap"

definition lc_new :: LocationCache where
  "lc_new = \<lparr>EdgeNodes = fmempty, Node2group = fmempty, Group2node = fmempty\<rparr>"

definition IsEdgeNode :: "LocationCache \<Rightarrow> string \<Rightarrow> bool" where
  "IsEdgeNode lc nodeName \<longleftrightarrow> fmlookup (EdgeNodes lc) nodeName \<noteq> None"

definition GetNodeStatus :: "LocationCache \<Rightarrow> string \<Rightarrow> string \<times> bool" where
  "GetNodeStatus lc nodeName =
     (case fmlookup (EdgeNodes lc) nodeName of None \<Rightarrow> ([], False) | Some status \<Rightarrow> (status, True))"

text \<open>The loop over the conditions that breaks at the first one of type \<open>Ready\<close>.\<close>

definition ready_condition :: "Node \<Rightarrow> NodeCondition option" where
  "ready_condition node = find (\<lambda>nsc. nc_Type nsc = ''Ready'') (node_Conditions node)"

definition node_label :: "Node \<Rightarrow> string option" where
  "node_label node = fmlookup (om_Labels (node_Meta node)) NODEGROUPLABEL"

definition UpdateEdgeNode :: "Node \<Rightarrow> LocationCache \<Rightarrow> LocationCache" where
  "UpdateEdgeNode node lc =
     (case node_label node of
        None \<Rightarrow> lc
      | Some _ \<Rightarrow>
          (case ready_condition node of
             None \<Rightarrow> lc
           | Some nsc \<Rightarrow>
               lc\<lparr>EdgeNodes := fmupd (om_Name (node_Meta node)) (nc_Status nsc) (EdgeNodes lc)\<rparr>))"

definition DeleteEdgeNode :: "Node \<Rightarrow> LocationCache \<Rightarrow> LocationCache" where
  "DeleteEdgeNode node lc = lc\<lparr>EdgeNodes := fmdrop (om_Name (node_Meta node)) (EdgeNodes lc)\<rparr>"

fun delete_groups :: "string \<Rightarrow> string list \<Rightarrow> LocationCache \<Rightarrow> LocationCache" where
  "delete_groups name [] lc = lc"
| "delete_groups name (v # vs) lc =
     delete_groups name vs
       (if v \<noteq> [] then
          (case fmlookup (Group2node lc) v of
             None \<Rightarrow> lc
           | Some ns \<Rightarrow> lc\<lparr>Group2node := fmupd v (filter (\<lambda>n. n \<noteq> name) ns) (Group2node lc)\<rparr>)
        else lc)"

definition DeleteNodeGroup :: "Node \<Rightarrow> LocationCache \<Rightarrow> LocationCache" where
  "DeleteNodeGroup node lc =
     (case node_label node of
        None \<Rightarrow> lc
      | Some label \<Rightarrow>
          delete_groups (om_Name (node_Meta node)) (strings_Split (CHR '';'') label)
            (lc\<lparr>Node2group := fmdrop (om_Name (node_Meta node)) (Node2group lc)\<rparr>))"

fun append_groups :: "string \<Rightarrow> string list \<Rightarrow> LocationCache \<Rightarrow> LocationCache" where
  "append_groups name [] lc = lc"
| "append_groups name (v # vs) lc =
     append_groups name vs
       (if v \<noteq> [] then
          lc\<lparr>Node2group := fmupd name (get_list (Node2group lc) name @ [v]) (Node2group lc),
             Group2node := fmupd v (get_list (Group2node lc) v @ [name]) (Group2node lc)\<rparr>
        else lc)"

definition UpdateNodeGroup :: "Node \<Rightarrow> LocationCache \<Rightarrow> LocationCache" where
  "UpdateNodeGroup node lc =
     (case ready_condition node of
        None \<Rightarrow> lc
      | Some _ \<Rightarrow>
          (case node_label node of
             None \<Rightarrow> lc
           | Some label \<Rightarrow>
               append_groups (om_Name (node_Meta node)) (strings_Split (CHR '';'') label)
                 (lc\<lparr>Node2group := fmupd (om_Name (node_Meta node)) [] (Node2group lc)\<rparr>)))"


section \<open>What the operations do to the two maps\<close>

definition node_groups :: "Node \<Rightarrow> string list" where
  "node_groups node =
     (case node_label node of
        None \<Rightarrow> [] | Some label \<Rightarrow> filter (\<lambda>v. v \<noteq> []) (strings_Split (CHR '';'') label))"

lemma append_groups_Node2group:
  "get_list (Node2group (append_groups name vs lc)) n =
     (if n = name then get_list (Node2group lc) n @ filter (\<lambda>v. v \<noteq> []) vs
      else get_list (Node2group lc) n)"
  by (induction name vs lc rule: append_groups.induct) auto

lemma append_groups_Group2node:
  "set (get_list (Group2node (append_groups name vs lc)) g) =
     set (get_list (Group2node lc) g) \<union> (if g \<noteq> [] \<and> g \<in> set vs then {name} else {})"
  by (induction name vs lc rule: append_groups.induct) auto

lemma append_groups_EdgeNodes [simp]: "EdgeNodes (append_groups name vs lc) = EdgeNodes lc"
  by (induction name vs lc rule: append_groups.induct) auto

lemma delete_groups_Node2group [simp]: "Node2group (delete_groups name vs lc) = Node2group lc"
  by (induction name vs lc rule: delete_groups.induct) (auto split: option.splits)

lemma delete_groups_EdgeNodes [simp]: "EdgeNodes (delete_groups name vs lc) = EdgeNodes lc"
  by (induction name vs lc rule: delete_groups.induct) (auto split: option.splits)

lemma delete_groups_Group2node:
  "get_list (Group2node (delete_groups name vs lc)) g =
     (if g \<in> set vs \<and> g \<noteq> [] then filter (\<lambda>n. n \<noteq> name) (get_list (Group2node lc) g)
      else get_list (Group2node lc) g)"
proof (induction name vs lc rule: delete_groups.induct)
  case (1 name lc)
  then show ?case by simp
next
  case (2 name v vs lc)
  show ?case
    by (subst delete_groups.simps, subst 2)
      (auto simp: get_list_def split: option.splits if_splits)
qed

lemma UpdateNodeGroup_Node2group:
  "get_list (Node2group (UpdateNodeGroup node lc)) n =
     (if n = om_Name (node_Meta node) \<and> ready_condition node \<noteq> None \<and> node_label node \<noteq> None
      then node_groups node else get_list (Node2group lc) n)"
  by (auto simp: UpdateNodeGroup_def node_groups_def append_groups_Node2group split: option.splits)

lemma UpdateNodeGroup_Group2node:
  "set (get_list (Group2node (UpdateNodeGroup node lc)) g) =
     set (get_list (Group2node lc) g) \<union>
     (if ready_condition node \<noteq> None \<and> g \<in> set (node_groups node) then {om_Name (node_Meta node)} else {})"
  by (auto simp: UpdateNodeGroup_def node_groups_def append_groups_Group2node split: option.splits)

lemma DeleteNodeGroup_Node2group:
  "get_list (Node2group (DeleteNodeGroup node lc)) n =
     (if n = om_Name (node_Meta node) \<and> node_label node \<noteq> None then [] else get_list (Node2group lc) n)"
  by (auto simp: DeleteNodeGroup_def split: option.splits)

lemma DeleteNodeGroup_Group2node:
  "get_list (Group2node (DeleteNodeGroup node lc)) g =
     (if g \<in> set (node_groups node)
      then filter (\<lambda>n. n \<noteq> om_Name (node_Meta node)) (get_list (Group2node lc) g)
      else get_list (Group2node lc) g)"
  by (auto simp: DeleteNodeGroup_def node_groups_def delete_groups_Group2node split: option.splits)

lemma UpdateEdgeNode_groups [simp]:
  "Node2group (UpdateEdgeNode node lc) = Node2group lc"
  "Group2node (UpdateEdgeNode node lc) = Group2node lc"
  by (auto simp: UpdateEdgeNode_def split: option.splits)

lemma DeleteEdgeNode_groups [simp]:
  "Node2group (DeleteEdgeNode node lc) = Node2group lc"
  "Group2node (DeleteEdgeNode node lc) = Group2node lc"
  by (auto simp: DeleteEdgeNode_def)


section \<open>The informer's node events\<close>

text \<open>
  The part of the node handlers that concerns the two maps: an add, an update whose label
  changed or not, a delete, and the pass over the cached nodes when the controller starts. The
  informer's own cache, \<open>objs\<close>, says which events can happen: a node is added when it is absent,
  and updated or deleted with the cached object.
\<close>

definition lc_addNode :: "Node \<Rightarrow> LocationCache \<Rightarrow> LocationCache" where
  "lc_addNode node lc = UpdateNodeGroup node lc"

definition lc_updateNode :: "Node \<Rightarrow> Node \<Rightarrow> LocationCache \<Rightarrow> LocationCache" where
  "lc_updateNode oldNode curNode lc =
     (if get_str (om_Labels (node_Meta curNode)) NODEGROUPLABEL \<noteq>
         get_str (om_Labels (node_Meta oldNode)) NODEGROUPLABEL
      then UpdateNodeGroup curNode (DeleteNodeGroup oldNode lc) else lc)"

inductive lc_reach :: "(string \<rightharpoonup> Node) \<Rightarrow> LocationCache \<Rightarrow> bool" where
  init: "lc_reach (\<lambda>_. None) lc_new"
| add: "lc_reach objs lc \<Longrightarrow> objs (om_Name (node_Meta node)) = None \<Longrightarrow>
    lc_reach (objs(om_Name (node_Meta node) \<mapsto> node)) (lc_addNode node lc)"
| upd: "lc_reach objs lc \<Longrightarrow> objs (om_Name (node_Meta cur)) = Some old \<Longrightarrow>
    om_Name (node_Meta old) = om_Name (node_Meta cur) \<Longrightarrow>
    lc_reach (objs(om_Name (node_Meta cur) \<mapsto> cur)) (lc_updateNode old cur lc)"
| start: "lc_reach objs lc \<Longrightarrow> objs (om_Name (node_Meta node)) = Some node \<Longrightarrow>
    lc_reach objs (UpdateNodeGroup node lc)"
| del: "lc_reach objs lc \<Longrightarrow> objs (om_Name (node_Meta node)) = Some node \<Longrightarrow>
    lc_reach (objs(om_Name (node_Meta node) := None)) (DeleteNodeGroup node lc)"

text \<open>
  The invariant: the two maps record the same pairs, and what they record of a node is either
  nothing or the groups its cached object's label lists.
\<close>

definition lc_agree :: "LocationCache \<Rightarrow> bool" where
  "lc_agree lc \<longleftrightarrow> (\<forall>n g. n \<in> set (get_list (Group2node lc) g) \<longleftrightarrow> g \<in> set (get_list (Node2group lc) n))"

definition lc_labels :: "(string \<rightharpoonup> Node) \<Rightarrow> LocationCache \<Rightarrow> bool" where
  "lc_labels objs lc \<longleftrightarrow> (\<forall>n. get_list (Node2group lc) n = [] \<or>
     (\<exists>node. objs n = Some node \<and> get_list (Node2group lc) n = node_groups node))"

lemma node_groups_None: "node_label node = None \<Longrightarrow> node_groups node = []"
  by (simp add: node_groups_def)

lemma UpdateNodeGroup_agree:
  assumes "lc_agree lc"
    and "get_list (Node2group lc) (om_Name (node_Meta node)) \<in> {[], node_groups node}"
  shows "lc_agree (UpdateNodeGroup node lc)"
  using assms
  by (auto simp: lc_agree_def UpdateNodeGroup_Node2group UpdateNodeGroup_Group2node node_groups_None)

lemma DeleteNodeGroup_agree:
  assumes "lc_agree lc"
    and "get_list (Node2group lc) (om_Name (node_Meta node)) \<in> {[], node_groups node}"
  shows "lc_agree (DeleteNodeGroup node lc)"
  using assms
  by (auto simp: lc_agree_def DeleteNodeGroup_Node2group DeleteNodeGroup_Group2node node_groups_None)

lemma node_groups_same_label:
  assumes "get_str (om_Labels (node_Meta a)) NODEGROUPLABEL = get_str (om_Labels (node_Meta b)) NODEGROUPLABEL"
  shows "node_groups a = node_groups b"
  using assms by (auto simp: node_groups_def get_str_def node_label_def split: option.splits)

lemma lc_labelsD:
  "lc_labels objs lc \<Longrightarrow> objs n = Some node \<Longrightarrow> get_list (Node2group lc) n \<in> {[], node_groups node}"
  "lc_labels objs lc \<Longrightarrow> objs n = None \<Longrightarrow> get_list (Node2group lc) n = []"
  by (auto simp: lc_labels_def)

text \<open>After the old object's groups are deleted, nothing is recorded of the node.\<close>

lemma DeleteNodeGroup_forgets:
  assumes "get_list (Node2group lc) (om_Name (node_Meta node)) \<in> {[], node_groups node}"
  shows "get_list (Node2group (DeleteNodeGroup node lc)) (om_Name (node_Meta node)) = []"
  using assms by (auto simp: DeleteNodeGroup_Node2group dest: node_groups_None)

lemma UpdateNodeGroup_labels:
  assumes "lc_labels objs lc" and "get_list (Node2group lc) (om_Name (node_Meta node)) \<in> {[], node_groups node}"
  shows "lc_labels (objs(om_Name (node_Meta node) \<mapsto> node)) (UpdateNodeGroup node lc)"
  using assms by (auto simp: lc_labels_def UpdateNodeGroup_Node2group)

lemma DeleteNodeGroup_labels:
  assumes "lc_labels objs lc" and "get_list (Node2group lc) (om_Name (node_Meta node)) \<in> {[], node_groups node}"
  shows "lc_labels (objs(om_Name (node_Meta node) := None)) (DeleteNodeGroup node lc)"
  using assms DeleteNodeGroup_forgets [OF assms(2)]
  by (auto simp: lc_labels_def DeleteNodeGroup_Node2group)

lemma lc_reach_inv: "lc_reach objs lc \<Longrightarrow> lc_agree lc \<and> lc_labels objs lc"
proof (induction rule: lc_reach.induct)
  case init
  then show ?case by (simp add: lc_agree_def lc_labels_def lc_new_def)
next
  case (add objs lc node)
  then have "get_list (Node2group lc) (om_Name (node_Meta node)) \<in> {[], node_groups node}"
    using lc_labelsD(2) by blast
  with add show ?case
    unfolding lc_addNode_def by (blast intro: UpdateNodeGroup_agree UpdateNodeGroup_labels)
next
  case (upd objs lc cur old)
  then have old: "get_list (Node2group lc) (om_Name (node_Meta old)) \<in> {[], node_groups old}"
    using lc_labelsD(1) by metis
  show ?case
  proof (cases "get_str (om_Labels (node_Meta cur)) NODEGROUPLABEL =
      get_str (om_Labels (node_Meta old)) NODEGROUPLABEL")
    case True
    with upd old show ?thesis
      by (auto simp: lc_updateNode_def lc_labels_def dest: node_groups_same_label)
  next
    case False
    let ?lc = "DeleteNodeGroup old lc"
    from upd old have 1: "lc_agree ?lc" "lc_labels (objs(om_Name (node_Meta old) := None)) ?lc"
      by (blast intro: DeleteNodeGroup_agree DeleteNodeGroup_labels)+
    have 2: "get_list (Node2group ?lc) (om_Name (node_Meta cur)) \<in> {[], node_groups cur}"
      using DeleteNodeGroup_forgets [OF old] upd(3) by simp
    from UpdateNodeGroup_agree [OF 1(1) 2] UpdateNodeGroup_labels [OF 1(2) 2] upd(3) False
    show ?thesis by (simp add: lc_updateNode_def del: fun_upd_apply)
  qed
next
  case (start objs lc node)
  then have n: "get_list (Node2group lc) (om_Name (node_Meta node)) \<in> {[], node_groups node}"
    using lc_labelsD(1) by blast
  have "objs(om_Name (node_Meta node) \<mapsto> node) = objs" using start(2) by auto
  with UpdateNodeGroup_labels [OF _ n] UpdateNodeGroup_agree [OF _ n] start show ?case by metis
next
  case (del objs lc node)
  then have "get_list (Node2group lc) (om_Name (node_Meta node)) \<in> {[], node_groups node}"
    using lc_labelsD(1) by blast
  with del show ?case by (blast intro: DeleteNodeGroup_agree DeleteNodeGroup_labels)
qed

end
