(* ===== verification/Beehive_Message.thy ===== *)
theory Beehive_Message
  imports Go_Codec Kube_API
begin

text \<open>
  Beehive messages (\<open>staging/.../beehive/pkg/core/model/message.go\<close>) and the message layer of
  the ingress controller (\<open>messagelayer/context.go\<close>, \<open>messagelayer/util.go\<close>): how a message is
  built, how its resource path \<open>node/<id>/<namespace>/<type>/<name>\<close> is put together and read
  back. A fresh uuid and the current time are arguments. The content of a message is nil, a
  string, a byte slice, or an API object, of which the version and kind of its type, the namespace,
  name, uid and resource version, whether a deletion timestamp is set, and the JSON encoding are
  kept.
\<close>

record api_object =
  ao_APIVersion :: string
  ao_Kind :: string
  ao_Namespace :: string
  ao_Name :: string
  ao_UID :: string
  ao_ResourceVersion :: string
  ao_Deleting :: bool
  ao_JSON :: string

datatype content =
    NilContent
  | StringContent string
  | BytesContent string
  | ObjectContent api_object

record MessageHeader =
  mh_ID :: string
  mh_ParentID :: string
  mh_Timestamp :: int
  mh_ResourceVersion :: string
  mh_Sync :: bool

record MessageRoute =
  mr_Source :: string
  mr_Group :: string
  mr_Operation :: string
  mr_Resource :: string

record Message =
  m_Header :: MessageHeader
  m_Router :: MessageRoute
  m_Content :: content

definition InsertOperation :: string where "InsertOperation = ''insert''"

definition DeleteOperation :: string where "DeleteOperation = ''delete''"

definition QueryOperation :: string where "QueryOperation = ''query''"

definition UpdateOperation :: string where "UpdateOperation = ''update''"

definition ResponseOperation :: string where "ResponseOperation = ''response''"

definition ResponseErrorOperation :: string where "ResponseErrorOperation = ''error''"

definition NewRawMessage :: Message where
  "NewRawMessage =
     \<lparr>m_Header = \<lparr>mh_ID = [], mh_ParentID = [], mh_Timestamp = 0, mh_ResourceVersion = [], mh_Sync = False\<rparr>,
      m_Router = \<lparr>mr_Source = [], mr_Group = [], mr_Operation = [], mr_Resource = []\<rparr>,
      m_Content = NilContent\<rparr>"

definition SetRoute :: "string \<Rightarrow> string \<Rightarrow> Message \<Rightarrow> Message" where
  "SetRoute source grp msg =
     msg\<lparr>m_Router := (m_Router msg)\<lparr>mr_Source := source, mr_Group := grp\<rparr>\<rparr>"

definition SetResourceOperation :: "string \<Rightarrow> string \<Rightarrow> Message \<Rightarrow> Message" where
  "SetResourceOperation res opr msg =
     msg\<lparr>m_Router := (m_Router msg)\<lparr>mr_Resource := res, mr_Operation := opr\<rparr>\<rparr>"

definition BuildRouter :: "string \<Rightarrow> string \<Rightarrow> string \<Rightarrow> string \<Rightarrow> Message \<Rightarrow> Message" where
  "BuildRouter source grp res opr msg = SetResourceOperation res opr (SetRoute source grp msg)"

definition SetResourceVersion :: "string \<Rightarrow> Message \<Rightarrow> Message" where
  "SetResourceVersion rv msg = msg\<lparr>m_Header := (m_Header msg)\<lparr>mh_ResourceVersion := rv\<rparr>\<rparr>"

definition BuildHeader :: "string \<Rightarrow> string \<Rightarrow> int \<Rightarrow> Message \<Rightarrow> Message" where
  "BuildHeader ID parentID timestamp msg =
     msg\<lparr>m_Header := (m_Header msg)\<lparr>mh_ID := ID, mh_ParentID := parentID, mh_Timestamp := timestamp\<rparr>\<rparr>"

definition FillBody :: "content \<Rightarrow> Message \<Rightarrow> Message" where
  "FillBody c msg = msg\<lparr>m_Content := c\<rparr>"

definition GetResource :: "Message \<Rightarrow> string" where "GetResource msg = mr_Resource (m_Router msg)"

definition GetOperation :: "Message \<Rightarrow> string" where "GetOperation msg = mr_Operation (m_Router msg)"

definition GetSource :: "Message \<Rightarrow> string" where "GetSource msg = mr_Source (m_Router msg)"

definition GetGroup :: "Message \<Rightarrow> string" where "GetGroup msg = mr_Group (m_Router msg)"

definition GetID :: "Message \<Rightarrow> string" where "GetID msg = mh_ID (m_Header msg)"

definition GetParentID :: "Message \<Rightarrow> string" where "GetParentID msg = mh_ParentID (m_Header msg)"

definition GetResourceVersion :: "Message \<Rightarrow> string" where
  "GetResourceVersion msg = mh_ResourceVersion (m_Header msg)"

definition UpdateID :: "string \<Rightarrow> Message \<Rightarrow> Message" where
  "UpdateID uuid msg = msg\<lparr>m_Header := (m_Header msg)\<lparr>mh_ID := uuid\<rparr>\<rparr>"

definition NewMessage :: "string \<Rightarrow> int \<Rightarrow> string \<Rightarrow> Message" where
  "NewMessage uuid now parentID = BuildHeader uuid parentID now NewRawMessage"

definition Clone :: "string \<Rightarrow> Message \<Rightarrow> Message" where
  "Clone uuid message =
     FillBody (m_Content message)
       (BuildRouter (GetSource message) (GetGroup message) (GetResource message) (GetOperation message)
          (BuildHeader uuid (GetParentID message) (mh_Timestamp (m_Header message)) NewRawMessage))"

definition NewRespByMessage :: "string \<Rightarrow> int \<Rightarrow> Message \<Rightarrow> content \<Rightarrow> Message" where
  "NewRespByMessage uuid now message c =
     FillBody c (SetResourceOperation (GetResource message) ResponseOperation
       (SetRoute (GetSource message) (GetGroup message) (NewMessage uuid now (GetID message))))"

definition NewErrorMessage :: "string \<Rightarrow> int \<Rightarrow> Message \<Rightarrow> string \<Rightarrow> Message" where
  "NewErrorMessage uuid now message errContent =
     FillBody (StringContent errContent)
       (SetResourceOperation (GetResource message) ResponseErrorOperation
          (NewMessage uuid now (GetParentID message)))"

text \<open>
  \<open>json.Marshal\<close> of a content that is not a byte slice.
\<close>

fun json_Marshal_content :: "content \<Rightarrow> string" where
  "json_Marshal_content NilContent = ''null''"
| "json_Marshal_content (StringContent s) = json_Marshal_string s"
| "json_Marshal_content (BytesContent b) = json_Marshal_string (b64_EncodeToString b)"
| "json_Marshal_content (ObjectContent obj) = ao_JSON obj"

definition GetContentData :: "Message \<Rightarrow> string" where
  "GetContentData msg =
     (case m_Content msg of BytesContent data \<Rightarrow> data | c \<Rightarrow> json_Marshal_content c)"

lemmas message_defs = NewRawMessage_def SetRoute_def SetResourceOperation_def BuildRouter_def
  SetResourceVersion_def BuildHeader_def FillBody_def GetResource_def GetOperation_def
  GetSource_def GetGroup_def GetID_def GetParentID_def GetResourceVersion_def UpdateID_def NewMessage_def
  Clone_def NewRespByMessage_def NewErrorMessage_def

lemma Clone_only_ID:
  assumes "mh_ResourceVersion (m_Header m) = []" and "\<not> mh_Sync (m_Header m)"
  shows "Clone uuid m = UpdateID uuid m"
  using assms by (simp add: message_defs)

lemma NewRespByMessage_parent: "GetParentID (NewRespByMessage uuid now m c) = GetID m"
  by (simp add: message_defs)


section \<open>Resource paths\<close>

definition ResourceNode :: string where "ResourceNode = ''node''"

definition BuildResource :: "string \<Rightarrow> string \<Rightarrow> string \<Rightarrow> string \<Rightarrow> string result" where
  "BuildResource nodeID namespace resourceType resourceID =
     (if namespace = [] \<or> resourceType = [] \<or> nodeID = [] then Err ErrMissingParameter
      else Ok (ResourceNode @ ''/'' @ nodeID @ ''/'' @ namespace @ ''/'' @ resourceType @
               (if resourceID \<noteq> [] then ''/'' @ resourceID else [])))"

definition BuildResourceForRouter :: "string \<Rightarrow> string \<Rightarrow> string result" where
  "BuildResourceForRouter resourceType resourceID =
     (if resourceID = [] \<or> resourceType = [] then Err ErrMissingParameter
      else Ok (resourceType @ ''/'' @ resourceID))"

definition path_part :: "nat \<Rightarrow> Message \<Rightarrow> string result" where
  "path_part i msg =
     (let sli = strings_Split (CHR ''/'') (GetResource msg)
      in if length sli \<le> i then Err ErrShortResource else Ok (sli ! i))"

definition GetNodeID :: "Message \<Rightarrow> string result" where "GetNodeID msg = path_part 1 msg"

definition GetNamespace :: "Message \<Rightarrow> string result" where "GetNamespace msg = path_part 2 msg"

definition GetResourceType :: "Message \<Rightarrow> string result" where "GetResourceType msg = path_part 3 msg"

definition GetResourceName :: "Message \<Rightarrow> string result" where "GetResourceName msg = path_part 4 msg"

definition isRouterMsg :: "Message \<Rightarrow> bool" where
  "isRouterMsg message =
     (case strings_Split (CHR ''/'') (GetResource message) of
        [a, b] \<Rightarrow> a = ''rule'' \<or> a = ''ruleendpoint''
      | _ \<Rightarrow> False)"

record ContextMessageLayer =
  SendModuleName :: string
  SendRouterModuleName :: string
  ReceiveModuleName :: string
  ResponseModuleName :: string

text \<open>
  \<open>beehiveContext.Send\<close> hands a message to a module's channel: the messages sent are kept in
  order, with the module they went to.
\<close>

type_synonym outbox = "(string \<times> Message) list"

definition cml_Send :: "ContextMessageLayer \<Rightarrow> Message \<Rightarrow> outbox \<Rightarrow> outbox" where
  "cml_Send cml message out =
     (if isRouterMsg message then out @ [(SendRouterModuleName cml, message)]
      else out @ [(SendModuleName cml, message)])"

definition cml_Response :: "ContextMessageLayer \<Rightarrow> Message \<Rightarrow> outbox \<Rightarrow> outbox" where
  "cml_Response cml message out = out @ [(ResponseModuleName cml, message)]"


section \<open>Paths that are built can be read back\<close>

lemma BuildResource_Ok_iff:
  "BuildResource n ns t r = Ok p \<longleftrightarrow> n \<noteq> [] \<and> ns \<noteq> [] \<and> t \<noteq> [] \<and>
     p = ''node/'' @ n @ ''/'' @ ns @ ''/'' @ t @ (if r \<noteq> [] then ''/'' @ r else [])"
  by (auto simp: BuildResource_def ResourceNode_def)

lemma BuildResource_parts:
  assumes "BuildResource n ns t r = Ok p" and "no_slash n" and "no_slash ns" and "no_slash t" and "r \<noteq> []"
  shows "strings_Split (CHR ''/'') p = [''node'', n, ns, t] @ strings_Split (CHR ''/'') r"
proof -
  have "p = ''node'' @ CHR ''/'' # n @ CHR ''/'' # ns @ CHR ''/'' # t @ CHR ''/'' # r"
    using assms by (simp add: BuildResource_Ok_iff)
  moreover have "no_slash ''node''" by (simp add: no_slash_def)
  ultimately show ?thesis
    using assms by (simp add: Split_append_slash del: append_Cons append.simps)
qed

lemma BuildResource_getters:
  assumes "BuildResource n ns t r = Ok (GetResource msg)"
    and "no_slash n" and "no_slash ns" and "no_slash t" and "no_slash r" and "r \<noteq> []"
  shows "GetNodeID msg = Ok n" and "GetNamespace msg = Ok ns" and "GetResourceType msg = Ok t"
    and "GetResourceName msg = Ok r"
  using BuildResource_parts [OF assms(1-4,6)] assms(5)
  by (simp_all add: GetNodeID_def GetNamespace_def GetResourceType_def GetResourceName_def
      path_part_def Split_no_slash)

lemma BuildResource_not_router:
  assumes "BuildResource n ns t r = Ok (GetResource msg)"
    and "no_slash n" and "no_slash ns" and "no_slash t" and "r \<noteq> []"
  shows "\<not> isRouterMsg msg"
  using BuildResource_parts [OF assms] by (simp add: isRouterMsg_def)

end
