(* ===== verification/Contour.thy ===== *)
theory Contour
  imports Go_Hash Kube_API
begin

text \<open>
  The Envoy messages the controller builds and the helpers of
  \<open>cloud/pkg/envoyingresscontroller/contour.go\<close> that build them: names and hashes, socket
  addresses, TLS contexts, clusters, route configurations and listeners. A protobuf message is a
  record with the fields the source sets; a \<open>oneof\<close> field is an option or a datatype; an
  \<open>any.Any\<close> keeps the message that was packed into it. How a message is laid out on the wire is
  a parameter of the theories that send it.
\<close>

section \<open>Envoy messages\<close>

datatype socket_protocol = TCP | UDP

record SocketAddress =
  sa_Protocol :: socket_protocol
  sa_Address :: string
  sa_Ipv4Compat :: bool
  sa_PortValue :: uint32

record LbEndpoint =
  lbe_Address :: SocketAddress

record LocalityLbEndpoints =
  lle_LbEndpoints :: "LbEndpoint list"
  lle_LoadBalancingWeight :: "uint32 option"

record ClusterLoadAssignment =
  cla_ClusterName :: string
  cla_Endpoints :: "LocalityLbEndpoints list"

record EnvoySecret =
  es_Name :: string
  es_PrivateKey :: string
  es_CertificateChain :: string

datatype api_version = V2 | V3

datatype api_type = REST | GRPC

record ConfigSource =
  cs_ResourceApiVersion :: api_version
  cs_ApiType :: api_type
  cs_TransportApiVersion :: api_version
  cs_EnvoyGrpc :: "string list"

record SdsSecretConfig =
  sds_Name :: string
  sds_SdsConfig :: ConfigSource

record CertificateValidationContext =
  cvc_TrustedCa :: string
  cvc_MatchSubjectAltNames :: "string list"

datatype tls_protocol = TLSv1_0 | TLSv1_1 | TLSv1_2 | TLSv1_3

record TlsParameters =
  tp_Minimum :: tls_protocol
  tp_Maximum :: tls_protocol

record CommonTlsContext =
  ctc_TlsParams :: "TlsParameters option"
  ctc_AlpnProtocols :: "string list"
  ctc_SdsSecretConfigs :: "SdsSecretConfig list"
  ctc_ValidationContext :: "CertificateValidationContext option"

record UpstreamTlsContext =
  utc_Common :: CommonTlsContext
  utc_Sni :: string

record DownstreamTlsContext =
  dtc_Common :: CommonTlsContext
  dtc_RequireClientCertificate :: "bool option"

datatype HTTPVersionType = HTTPVersionAuto | HTTPVersion1 | HTTPVersion2 | HTTPVersion3

record HttpFilter =
  hf_Name :: string
  hf_TypeUrl :: string

record HttpConnectionManager =
  hcm_StatPrefix :: string
  hcm_CodecType :: HTTPVersionType
  hcm_RouteConfigName :: string
  hcm_ConfigSource :: ConfigSource
  hcm_HttpFilters :: "HttpFilter list"

datatype any_message =
    AnyUpstreamTls UpstreamTlsContext
  | AnyDownstreamTls DownstreamTlsContext
  | AnyHttp2ProtocolOptions
  | AnyHttpConnectionManager HttpConnectionManager

record TransportSocket =
  ts_Name :: string
  ts_TypedConfig :: any_message

datatype lb_policy = ROUND_ROBIN | LEAST_REQUEST | RING_HASH | RANDOM

datatype discovery_type = STATIC | STRICT_DNS | EDS

datatype dns_lookup_family = AUTO_FAMILY | V4_ONLY | V6_ONLY

record EdsClusterConfig =
  eds_EdsConfig :: ConfigSource
  eds_ServiceName :: string

record Cluster =
  cl_Name :: string
  cl_AltStatName :: string
  cl_ConnectTimeoutNanos :: int
  cl_HealthyPanicThreshold :: int
  cl_LbPolicy :: lb_policy
  cl_DnsLookupFamily :: dns_lookup_family
  cl_DiscoveryType :: discovery_type
  cl_EdsClusterConfig :: "EdsClusterConfig option"
  cl_LoadAssignment :: "ClusterLoadAssignment option"
  cl_TypedExtensionProtocolOptions :: "(string \<times> any_message) list"
  cl_TransportSocket :: "TransportSocket option"

datatype RouteMatch = MatchPath string | MatchSafeRegex string | MatchPrefix string

record Route =
  rt_Match :: "RouteMatch option"
  rt_Cluster :: "string option"

record VirtualHost =
  vh_Name :: string
  vh_Domains :: "string list"
  vh_Routes :: "Route list"

record HeaderValueOption =
  hvo_Key :: string
  hvo_Value :: string
  hvo_Append :: bool

record RouteConfiguration =
  rc_Name :: string
  rc_VirtualHosts :: "VirtualHost list"
  rc_RequestHeadersToAdd :: "HeaderValueOption list"

text \<open>The filter's name is the constant \<open>wellknown.HTTPConnectionManager\<close> of the Envoy API.\<close>

datatype filter_name = WellknownHTTPConnectionManager

record Filter =
  f_Name :: filter_name
  f_TypedConfig :: any_message

record FilterChain =
  fc_Filters :: "Filter list"
  fc_ServerNames :: "string list option"
  fc_TransportSocket :: "TransportSocket option"

record SocketOption =
  so_Description :: string
  so_Level :: int
  so_Name :: int
  so_IntValue :: int

record Listener =
  ln_Name :: string
  ln_Address :: SocketAddress
  ln_ListenerFilters :: "string list"
  ln_SocketOptions :: "SocketOption list"
  ln_FilterChains :: "FilterChain list"


section \<open>Names\<close>

definition truncate_str :: "nat \<Rightarrow> string \<Rightarrow> string \<Rightarrow> string" where
  "truncate_str l s suffix =
     (if length s \<le> l then s
      else if l \<le> length suffix then take (min l (length suffix)) suffix
      else take (l - length suffix - 1) s @ ''-'' @ suffix)"

text \<open>
  The loop of \<open>Hashname\<close> over the index \<open>n\<close>, from the last element down to the first.
\<close>

fun Hashname_loop :: "nat \<Rightarrow> string \<Rightarrow> string list \<Rightarrow> nat \<Rightarrow> string option" where
  "Hashname_loop l hash s 0 = None"
| "Hashname_loop l hash s (Suc n) =
     (let s' = s[n := truncate_str (l div length s) (s ! n) (take 6 hash)];
          r = strings_Join ''_'' s'
      in if length r < l then Some r else Hashname_loop l hash s' n)"

definition Hashname :: "nat \<Rightarrow> string list \<Rightarrow> string" where
  "Hashname l s =
     (let r = strings_Join ''_'' s
      in if length r < l then r
         else
           (let hash = fmt_hex (sha256_Sum256 r)
            in case Hashname_loop l hash s (length s) of
                 Some r' \<Rightarrow> r'
               | None \<Rightarrow> take (min (length hash) l) hash))"

definition Secretname :: "Secret \<Rightarrow> string" where
  "Secretname s =
     (let hash = sha1_Sum (get_str (sec_Data s) TLSCertKey);
          ns = om_Namespace (sec_Meta s);
          name = om_Name (sec_Meta s)
      in Hashname 60 [ns, name, fmt_hex (take 5 hash)])"

definition envoy_Secret :: "Secret \<Rightarrow> EnvoySecret" where
  "envoy_Secret s =
     \<lparr>es_Name = Secretname s,
      es_PrivateKey = get_str (sec_Data s) TLSPrivateKeyKey,
      es_CertificateChain = get_str (sec_Data s) TLSCertKey\<rparr>"

definition AltStatName :: "Service \<Rightarrow> ServicePort \<Rightarrow> string" where
  "AltStatName service servicePort =
     strings_Join ''_'' [om_Namespace (svc_Meta service), om_Name (svc_Meta service),
       strconv_Itoa (sint (sp_Port servicePort))]"

definition ClusterLoadAssignmentName :: "string \<Rightarrow> string \<Rightarrow> string \<Rightarrow> string" where
  "ClusterLoadAssignmentName namespace name portName =
     (let parts = [namespace, name, portName]
      in if portName = [] then strings_Join ''/'' (take 2 parts) else strings_Join ''/'' parts)"


section \<open>Validation and health checks\<close>

definition CACertificateKey :: string where "CACertificateKey = ''ca.crt''"

record PeerValidationContext =
  pvc_CACertificate :: "Secret option"
  pvc_SubjectName :: string

definition GetCACertificate :: "PeerValidationContext option \<Rightarrow> string option" where
  "GetCACertificate pvc =
     (case pvc of
        None \<Rightarrow> None
      | Some c \<Rightarrow>
          (case pvc_CACertificate c of
             None \<Rightarrow> None
           | Some s \<Rightarrow> fmlookup (sec_Data s) CACertificateKey))"

definition GetSubjectName :: "PeerValidationContext option \<Rightarrow> string" where
  "GetSubjectName pvc = (case pvc of None \<Rightarrow> [] | Some c \<Rightarrow> pvc_SubjectName c)"

record HTTPHealthCheckPolicy =
  hc_Path :: string
  hc_Host :: string
  hc_Interval :: int
  hc_Timeout :: int
  hc_UnhealthyThreshold :: uint32
  hc_HealthyThreshold :: uint32

text \<open>The string that \<open>Clustername\<close> hashes; a validation context without a certificate panics.\<close>

definition health_buf :: "HTTPHealthCheckPolicy option \<Rightarrow> string" where
  "health_buf policy =
     (case policy of
        None \<Rightarrow> []
      | Some hc \<Rightarrow>
          (if hc_Timeout hc > 0 then Duration_String (hc_Timeout hc) else []) @
          (if hc_Interval hc > 0 then Duration_String (hc_Interval hc) else []) @
          (if hc_UnhealthyThreshold hc > 0 then strconv_Itoa (uint (hc_UnhealthyThreshold hc)) else []) @
          (if hc_HealthyThreshold hc > 0 then strconv_Itoa (uint (hc_HealthyThreshold hc)) else []) @
          hc_Path hc)"

definition validation_buf :: "PeerValidationContext option \<Rightarrow> string result" where
  "validation_buf validation =
     (case validation of
        None \<Rightarrow> Ok []
      | Some uv \<Rightarrow>
          (case pvc_CACertificate uv of
             None \<Rightarrow> Panic NilDereference
           | Some ca \<Rightarrow> Ok (om_Name (sec_Meta ca) @ pvc_SubjectName uv)))"

definition Clustername ::
  "Service \<Rightarrow> ServicePort \<Rightarrow> string \<Rightarrow> HTTPHealthCheckPolicy option \<Rightarrow> PeerValidationContext option \<Rightarrow> string result" where
  "Clustername service servicePort loadBalancerPolicy policy validation =
     bind (validation_buf validation) (\<lambda>uv.
       (let hash = sha1_Sum (loadBalancerPolicy @ health_buf policy @ uv);
            ns = om_Namespace (svc_Meta service);
            name = om_Name (svc_Meta service)
        in Ok (Hashname 60 [ns, name, strconv_Itoa (sint (sp_Port servicePort)), fmt_hex (take 5 hash)])))"


section \<open>Addresses and endpoints\<close>

text \<open>\<open>uint32(port)\<close> keeps the low 32 bits of the port.\<close>

definition new_SocketAddress :: "string \<Rightarrow> int \<Rightarrow> SocketAddress" where
  "new_SocketAddress address port =
     (if address = ''::'' then
        \<lparr>sa_Protocol = TCP, sa_Address = address, sa_Ipv4Compat = True, sa_PortValue = word_of_int port\<rparr>
      else
        \<lparr>sa_Protocol = TCP, sa_Address = address, sa_Ipv4Compat = False, sa_PortValue = word_of_int port\<rparr>)"

definition LBEndpoint :: "SocketAddress \<Rightarrow> LbEndpoint" where
  "LBEndpoint addr = \<lparr>lbe_Address = addr\<rparr>"

definition Endpoints_of :: "SocketAddress list \<Rightarrow> LocalityLbEndpoints list" where
  "Endpoints_of addrs =
     [\<lparr>lle_LbEndpoints = map LBEndpoint addrs, lle_LoadBalancingWeight = None\<rparr>]"

definition StaticClusterLoadAssignment :: "Service \<Rightarrow> ServicePort \<Rightarrow> ClusterLoadAssignment" where
  "StaticClusterLoadAssignment service servicePort =
     (let addr = new_SocketAddress (svc_ExternalName service) (sint (sp_Port servicePort))
      in \<lparr>cla_ClusterName = ClusterLoadAssignmentName (om_Namespace (svc_Meta service))
            (om_Name (svc_Meta service)) (sp_Name servicePort),
          cla_Endpoints = Endpoints_of [addr]\<rparr>)"


section \<open>TLS\<close>

definition new_ConfigSource :: "string \<Rightarrow> ConfigSource" where
  "new_ConfigSource cluster =
     \<lparr>cs_ResourceApiVersion = V3, cs_ApiType = GRPC, cs_TransportApiVersion = V3,
      cs_EnvoyGrpc = [cluster]\<rparr>"

definition validationContext :: "string \<Rightarrow> string \<Rightarrow> CertificateValidationContext" where
  "validationContext ca subjectName =
     \<lparr>cvc_TrustedCa = ca,
      cvc_MatchSubjectAltNames = (if length subjectName > 0 then [subjectName] else [])\<rparr>"

definition UpstreamTLSContext ::
  "PeerValidationContext option \<Rightarrow> string \<Rightarrow> Secret option \<Rightarrow> string list \<Rightarrow> UpstreamTlsContext" where
  "UpstreamTLSContext pvc sni clientSecret alpnProtocols =
     (let configs = (case clientSecret of
            None \<Rightarrow> []
          | Some s \<Rightarrow> [\<lparr>sds_Name = Secretname s, sds_SdsConfig = new_ConfigSource ''envoyingresscontroller''\<rparr>]);
          vc = (case GetCACertificate pvc of
            None \<Rightarrow> None
          | Some ca \<Rightarrow>
              if length (GetSubjectName pvc) > 0 then Some (validationContext ca (GetSubjectName pvc)) else None)
      in \<lparr>utc_Common = \<lparr>ctc_TlsParams = None, ctc_AlpnProtocols = alpnProtocols,
            ctc_SdsSecretConfigs = configs, ctc_ValidationContext = vc\<rparr>,
          utc_Sni = sni\<rparr>)"

definition UpstreamTLSTransportSocket :: "UpstreamTlsContext \<Rightarrow> TransportSocket" where
  "UpstreamTLSTransportSocket tls =
     \<lparr>ts_Name = ''envoy.transport_sockets.tls'', ts_TypedConfig = AnyUpstreamTls tls\<rparr>"

definition http2ProtocolOptions :: "(string \<times> any_message) list" where
  "http2ProtocolOptions =
     [(''envoy.extensions.upstreams.http.v3.HttpProtocolOptions'', AnyHttp2ProtocolOptions)]"

definition DownstreamTLSContext ::
  "Secret \<Rightarrow> tls_protocol \<Rightarrow> PeerValidationContext option \<Rightarrow> string list \<Rightarrow> DownstreamTlsContext" where
  "DownstreamTLSContext serverSecret tlsMin pvc alpnProtos =
     (let common = \<lparr>ctc_TlsParams = Some \<lparr>tp_Minimum = tlsMin, tp_Maximum = TLSv1_3\<rparr>,
            ctc_AlpnProtocols = alpnProtos,
            ctc_SdsSecretConfigs = [\<lparr>sds_Name = Secretname serverSecret,
              sds_SdsConfig = new_ConfigSource ''envoyingresscontroller''\<rparr>],
            ctc_ValidationContext = None\<rparr>
      in case GetCACertificate pvc of
           None \<Rightarrow> \<lparr>dtc_Common = common, dtc_RequireClientCertificate = None\<rparr>
         | Some ca \<Rightarrow>
             \<lparr>dtc_Common = common\<lparr>ctc_ValidationContext := Some (validationContext ca [])\<rparr>,
              dtc_RequireClientCertificate = Some True\<rparr>)"

definition DownstreamTLSTransportSocket :: "DownstreamTlsContext \<Rightarrow> TransportSocket" where
  "DownstreamTLSTransportSocket tls =
     \<lparr>ts_Name = ''envoy.transport_sockets.tls'', ts_TypedConfig = AnyDownstreamTls tls\<rparr>"

definition ProtoNamesForVersions :: "HTTPVersionType list option \<Rightarrow> string list" where
  "ProtoNamesForVersions versions =
     (case versions of
        None \<Rightarrow> [''h2'', ''http/1.1'']
      | Some vs \<Rightarrow>
          if HTTPVersionAuto \<in> set vs then [''h2'', ''http/1.1'']
          else (if HTTPVersion2 \<in> set vs then [''h2''] else []) @
               (if HTTPVersion1 \<in> set vs then [''http/1.1''] else []))"


section \<open>Clusters\<close>

definition LoadBalancerPolicyRoundRobin :: string where "LoadBalancerPolicyRoundRobin = ''RoundRobin''"

definition lbPolicy :: "string \<Rightarrow> lb_policy" where
  "lbPolicy strategy =
     (if strategy = ''WeightedLeastRequest'' then LEAST_REQUEST
      else if strategy = ''Random'' then RANDOM
      else if strategy = ''Cookie'' \<or> strategy = ''RequestHash'' then RING_HASH
      else ROUND_ROBIN)"

definition clusterDefaults :: Cluster where
  "clusterDefaults =
     \<lparr>cl_Name = [], cl_AltStatName = [], cl_ConnectTimeoutNanos = 250000, cl_HealthyPanicThreshold = 0,
      cl_LbPolicy = lbPolicy LoadBalancerPolicyRoundRobin, cl_DnsLookupFamily = AUTO_FAMILY,
      cl_DiscoveryType = STATIC, cl_EdsClusterConfig = None, cl_LoadAssignment = None,
      cl_TypedExtensionProtocolOptions = [], cl_TransportSocket = None\<rparr>"

definition edsconfig :: "string \<Rightarrow> Service \<Rightarrow> ServicePort \<Rightarrow> EdsClusterConfig" where
  "edsconfig cluster service servicePort =
     \<lparr>eds_EdsConfig = new_ConfigSource cluster,
      eds_ServiceName = ClusterLoadAssignmentName (om_Namespace (svc_Meta service))
        (om_Name (svc_Meta service)) (sp_Name servicePort)\<rparr>"


section \<open>Route configurations and listeners\<close>

definition AppendHeader :: "string \<Rightarrow> string \<Rightarrow> HeaderValueOption" where
  "AppendHeader key v = \<lparr>hvo_Key = key, hvo_Value = v, hvo_Append = True\<rparr>"

definition Headers :: "HeaderValueOption \<Rightarrow> HeaderValueOption list \<Rightarrow> HeaderValueOption list" where
  "Headers first rest = first # rest"

definition new_RouteConfiguration :: "string \<Rightarrow> VirtualHost list \<Rightarrow> RouteConfiguration" where
  "new_RouteConfiguration name virtualhosts =
     \<lparr>rc_Name = name, rc_VirtualHosts = virtualhosts,
      rc_RequestHeadersToAdd = Headers (AppendHeader ''x-request-start'' ''t=%START_TIME(%s.%3f)%'') []\<rparr>"

definition TCPKeepaliveSocketOptions :: "SocketOption list" where
  "TCPKeepaliveSocketOptions =
     [\<lparr>so_Description = ''Enable TCP keep-alive'', so_Level = 1, so_Name = 9, so_IntValue = 1\<rparr>,
      \<lparr>so_Description = ''TCP keep-alive initial idle time'', so_Level = 6, so_Name = 4, so_IntValue = 45\<rparr>,
      \<lparr>so_Description = ''TCP keep-alive time between probes'', so_Level = 6, so_Name = 5, so_IntValue = 5\<rparr>,
      \<lparr>so_Description = ''TCP keep-alive probe count'', so_Level = 6, so_Name = 6, so_IntValue = 9\<rparr>]"

definition new_Listener :: "string \<Rightarrow> string \<Rightarrow> int \<Rightarrow> string list \<Rightarrow> Filter list \<Rightarrow> Listener" where
  "new_Listener name address port lf filters =
     \<lparr>ln_Name = name, ln_Address = new_SocketAddress address port, ln_ListenerFilters = lf,
      ln_SocketOptions = TCPKeepaliveSocketOptions,
      ln_FilterChains = (if length filters > 0
        then [\<lparr>fc_Filters = filters, fc_ServerNames = None, fc_TransportSocket = None\<rparr>] else [])\<rparr>"

definition FilterChainTLS :: "string \<Rightarrow> DownstreamTlsContext option \<Rightarrow> Filter list \<Rightarrow> FilterChain" where
  "FilterChainTLS domain downstream filters =
     \<lparr>fc_Filters = filters, fc_ServerNames = Some [domain],
      fc_TransportSocket = map_option DownstreamTLSTransportSocket downstream\<rparr>"


section \<open>Properties of names\<close>

lemma truncate_str_length: "length (truncate_str l s suffix) \<le> l"
  by (auto simp: truncate_str_def)

lemma Hashname_loop_length: "Hashname_loop l hash s n = Some r \<Longrightarrow> length r < l"
  by (induction l hash s n rule: Hashname_loop.induct) (auto simp: Let_def split: if_splits)

lemma Hashname_bound: "length (Hashname l s) \<le> l"
  by (auto simp: Hashname_def Let_def split: option.splits dest: Hashname_loop_length)

lemma Hashname_short: "length (strings_Join ''_'' s) < l \<Longrightarrow> Hashname l s = strings_Join ''_'' s"
  by (simp add: Hashname_def)

text \<open>
  Below the limit, names whose parts have no underscore (DNS names have none) determine their
  parts.
\<close>

definition no_underscore :: "string \<Rightarrow> bool" where
  "no_underscore s \<longleftrightarrow> CHR ''_'' \<notin> set s"

lemma Join_underscore_inject:
  assumes "s \<noteq> []" and "t \<noteq> []" and "list_all no_underscore s" and "list_all no_underscore t"
    and "strings_Join ''_'' s = strings_Join ''_'' t"
  shows "s = t"
proof -
  have "strings_Split (CHR ''_'') (strings_Join ''_'' s) = s"
    using assms(1,3) by (intro strings_Split_Join) (auto simp: list_all_iff no_underscore_def)
  moreover have "strings_Split (CHR ''_'') (strings_Join ''_'' t) = t"
    using assms(2,4) by (intro strings_Split_Join) (auto simp: list_all_iff no_underscore_def)
  ultimately show ?thesis using assms(5) by metis
qed

lemma Hashname_inject:
  assumes "length (strings_Join ''_'' s) < l" and "length (strings_Join ''_'' t) < l"
    and "s \<noteq> []" and "t \<noteq> []" and "list_all no_underscore s" and "list_all no_underscore t"
  shows "Hashname l s = Hashname l t \<longleftrightarrow> s = t"
  using Join_underscore_inject [OF assms(3-6)] by (auto simp: Hashname_short assms(1,2))

lemma strings_Join_length:
  "length (strings_Join ''_'' s) = sum_list (map length s) + (length s - 1)"
  by (induction "''_''::string" s rule: strings_Join.induct) auto

lemma strconv_Itoa_no_underscore: "no_underscore (strconv_Itoa a)"
proof -
  have "of_char (CHR ''_'') \<noteq> (of_char (char_of (48 + d)) :: nat)" if "d < 10" for d :: nat
    using that by (simp add: take_bit_eq_mod)
  then have "digit_char d \<noteq> CHR ''_''" if "d < 10" for d using that by (metis digit_char_def)
  then have "no_underscore (nat_digits n)" for n
    unfolding no_underscore_def using nat_digits_digits by metis
  then show ?thesis by (simp add: strconv_Itoa_def no_underscore_def)
qed

lemma port_length: "length (strconv_Itoa (sint (p :: int32))) \<le> 11"
proof -
  have "\<bar>sint p\<bar> < 10 ^ Suc 9"
    using sint_greater_eq [of p] sint_less [of p] by simp
  then show ?thesis using strconv_Itoa_length by fastforce
qed

text \<open>A port keeps its bits on the way into a socket address.\<close>

lemma SocketAddress_port: "sa_PortValue (new_SocketAddress a (sint (p :: int32))) = p"
  by (simp add: new_SocketAddress_def)

lemma SocketAddress_address: "sa_Address (new_SocketAddress a p) = a"
  by (simp add: new_SocketAddress_def)

text \<open>The panic of \<open>Clustername\<close> needs a validation context without a certificate.\<close>

definition pvc_complete :: "PeerValidationContext option \<Rightarrow> bool" where
  "pvc_complete pvc \<longleftrightarrow> (case pvc of None \<Rightarrow> True | Some c \<Rightarrow> pvc_CACertificate c \<noteq> None)"

lemma Clustername_total:
  assumes "pvc_complete v"
  shows "\<exists>n. Clustername s p lb hc v = Ok n \<and> length n \<le> 60"
proof -
  from assms obtain uv where "validation_buf v = Ok uv"
    by (auto simp: pvc_complete_def validation_buf_def split: option.splits)
  then show ?thesis by (simp add: Clustername_def Let_def Hashname_bound)
qed

lemma Clustername_Ok_iff:
  "Clustername s p lb hc v = Ok n \<longleftrightarrow>
     (\<exists>uv. validation_buf v = Ok uv \<and>
       n = Hashname 60 [om_Namespace (svc_Meta s), om_Name (svc_Meta s), strconv_Itoa (sint (sp_Port p)),
             fmt_hex (take 5 (sha1_Sum (lb @ health_buf hc @ uv)))])"
  by (auto simp: Clustername_def bind_iffs Let_def)

end
