(* ===== verification/Ingress_Match.thy ===== *)
theory Ingress_Match
  imports Location_Cache
begin

text \<open>
  Ingresses and what they refer to (\<open>envoyingresscontroller.go\<close>): the conversion of a v1beta1
  ingress to v1, the test whether an ingress is the controller's, and the searches between
  ingresses, services and secrets in the informer caches. A rule without an HTTP section and a
  path whose backend is not a service are nil pointers the code dereferences: those branches
  panic.
\<close>

section \<open>Annotations\<close>

definition ENVOYINGRESSCONTROLLERNAME :: string where
  "ENVOYINGRESSCONTROLLERNAME = ''envoyingress''"

definition ENVOYINGRESSNODEGROUPANNOTATION :: string where
  "ENVOYINGRESSNODEGROUPANNOTATION = ''v1alpha1.kubeedge.io/nodegroup''"

definition SERVICEHTTPPROTOCOLANNOTATION :: string where
  "SERVICEHTTPPROTOCOLANNOTATION = ''v1alpha1.kubeedge.io/httpprotocol''"

definition SERVICEHEALTHCHECKPATHANNOTATION :: string where
  "SERVICEHEALTHCHECKPATHANNOTATION = ''v1alpha1.kubeedge.io/healthcheck''"

definition INGRESSCLASSANNOTATION :: string where
  "INGRESSCLASSANNOTATION = ''kubernetes.io/ingress.class''"

definition isEnvoyIngress :: "Ingress \<Rightarrow> bool" where
  "isEnvoyIngress ingress \<longleftrightarrow>
     get_str (om_Annotations (ing_Meta ingress)) INGRESSCLASSANNOTATION = ENVOYINGRESSCONTROLLERNAME"

abbreviation ing_Namespace :: "Ingress \<Rightarrow> string" where
  "ing_Namespace ingress \<equiv> om_Namespace (ing_Meta ingress)"

abbreviation ing_Name :: "Ingress \<Rightarrow> string" where
  "ing_Name ingress \<equiv> om_Name (ing_Meta ingress)"

definition ing_key :: "Ingress \<Rightarrow> string" where
  "ing_key ingress = MetaNamespaceKeyFunc (ing_Meta ingress)"

abbreviation svc_Namespace :: "Service \<Rightarrow> string" where
  "svc_Namespace service \<equiv> om_Namespace (svc_Meta service)"

abbreviation svc_Name :: "Service \<Rightarrow> string" where
  "svc_Name service \<equiv> om_Name (svc_Meta service)"


section \<open>Conversion from v1beta1\<close>

definition serviceBackendPort :: "IntOrString \<Rightarrow> ServiceBackendPort" where
  "serviceBackendPort port =
     (if ios_Type port = intstr_String then \<lparr>sbp_Name = ios_StrVal port, sbp_Number = 0\<rparr>
      else \<lparr>sbp_Name = [], sbp_Number = ios_IntVal port\<rparr>)"

definition toV1PathType :: "string option \<Rightarrow> string" where
  "toV1PathType t =
     (case t of
        None \<Rightarrow> PathTypeImplementationSpecific
      | Some p \<Rightarrow>
          if p = ''Prefix'' then PathTypePrefix
          else if p = ''Exact'' then PathTypeExact
          else if p = ''ImplementationSpecific'' then PathTypeImplementationSpecific
          else PathTypeImplementationSpecific)"

definition toV1Backend :: "V1beta1IngressBackend \<Rightarrow> IngressBackend" where
  "toV1Backend b =
     \<lparr>ib_Service = Some \<lparr>isb_Name = bb_ServiceName b, isb_Port = serviceBackendPort (bb_ServicePort b)\<rparr>\<rparr>"

definition toV1Path :: "V1beta1HTTPIngressPath \<Rightarrow> HTTPIngressPath" where
  "toV1Path p =
     \<lparr>hp_Path = bp_Path p, hp_PathType = Some (toV1PathType (bp_PathType p)),
      hp_Backend = toV1Backend (bp_Backend p)\<rparr>"

definition toV1Rule :: "V1beta1IngressRule \<Rightarrow> IngressRule" where
  "toV1Rule r = \<lparr>ir_Host = br_Host r, ir_HTTP = map_option (map toV1Path) (br_HTTP r)\<rparr>"

definition toV1Ingress :: "V1beta1Ingress \<Rightarrow> Ingress" where
  "toV1Ingress obj =
     \<lparr>ing_Meta = bing_Meta obj,
      ing_Spec =
        \<lparr>is_IngressClassName = bs_IngressClassName (bing_Spec obj),
         is_DefaultBackend = map_option toV1Backend (bs_Backend (bing_Spec obj)),
         is_TLS = map (\<lambda>t. \<lparr>tls_Hosts = tls_Hosts t, tls_SecretName = tls_SecretName t\<rparr>) (bs_TLS (bing_Spec obj)),
         is_Rules = map toV1Rule (bs_Rules (bing_Spec obj))\<rparr>\<rparr>"


section \<open>Searches\<close>

record caches =
  c_ingress :: "Ingress lister"
  c_v1beta1 :: "V1beta1Ingress lister"
  c_service :: "Service lister"
  c_endpoints :: "Endpoints lister"
  c_secret :: "Secret lister"
  c_node :: "Node lister"

definition rule_paths :: "IngressRule \<Rightarrow> HTTPIngressPath list result" where
  "rule_paths rule = (case ir_HTTP rule of None \<Rightarrow> Panic NilDereference | Some paths \<Rightarrow> Ok paths)"

definition path_service :: "HTTPIngressPath \<Rightarrow> IngressServiceBackend result" where
  "path_service path =
     (case ib_Service (hp_Backend path) of None \<Rightarrow> Panic NilDereference | Some s \<Rightarrow> Ok s)"

definition path_names :: "string \<Rightarrow> HTTPIngressPath \<Rightarrow> bool result" where
  "path_names name path = bind (path_service path) (\<lambda>s. Ok (isb_Name s = name))"

definition default_backend_is :: "Ingress \<Rightarrow> string \<Rightarrow> bool" where
  "default_backend_is ingress name \<longleftrightarrow>
     (case is_DefaultBackend (ing_Spec ingress) of
        None \<Rightarrow> False
      | Some b \<Rightarrow> (case ib_Service b of None \<Rightarrow> False | Some s \<Rightarrow> isb_Name s = name))"

text \<open>The match of an ingress and a service name: the default backend, then the rule loop.\<close>

definition ingress_uses :: "Ingress \<Rightarrow> string \<Rightarrow> bool result" where
  "ingress_uses ingress name =
     (if default_backend_is ingress name then Ok True
      else exists_result (\<lambda>rule. bind (rule_paths rule) (exists_result (path_names name)))
             (is_Rules (ing_Spec ingress)))"

text \<open>
  The list both searches from an object to its ingresses start with: the v1 ingresses of the
  namespace, then the converted v1beta1 ones; a cache error ends the search with nothing.
\<close>

definition listIngresses :: "caches \<Rightarrow> string \<Rightarrow> Ingress list option" where
  "listIngresses c namespace =
     (case lister_List ing_Meta (c_ingress c) namespace of
        Ok list \<Rightarrow>
          (case lister_List bing_Meta (c_v1beta1 c) namespace of
             Ok tmpList \<Rightarrow> Some (list @ map toV1Ingress tmpList)
           | _ \<Rightarrow> None)
      | _ \<Rightarrow> None)"

definition getIngressesForService :: "caches \<Rightarrow> Service \<Rightarrow> Ingress list result" where
  "getIngressesForService c service =
     (if svc_Selector service = fmempty then Ok []
      else
        (case listIngresses c (svc_Namespace service) of
           None \<Rightarrow> Ok []
         | Some list \<Rightarrow>
             filter_result
               (\<lambda>ingress.
                  if \<not> isEnvoyIngress ingress then Ok False
                  else if ing_Namespace ingress \<noteq> svc_Namespace service then Ok False
                  else ingress_uses ingress (svc_Name service)) list))"

definition getServicesForIngress :: "caches \<Rightarrow> Ingress \<Rightarrow> Service list result" where
  "getServicesForIngress c ingress =
     bind (lister_List svc_Meta (c_service c) (ing_Namespace ingress)) (\<lambda>list.
       bind (filter_result
         (\<lambda>service.
            if svc_Namespace service \<noteq> ing_Namespace ingress then Ok False
            else ingress_uses ingress (svc_Name service)) list)
         (\<lambda>services. if services = [] then Err ErrNoServices else Ok services))"

definition getIngressesForSecret :: "caches \<Rightarrow> Secret \<Rightarrow> Ingress list" where
  "getIngressesForSecret c secret =
     (case listIngresses c (om_Namespace (sec_Meta secret)) of
        None \<Rightarrow> []
      | Some list \<Rightarrow>
          filter (\<lambda>ingress. isEnvoyIngress ingress \<and>
            (\<exists>tls\<in>set (is_TLS (ing_Spec ingress)). tls_SecretName tls = om_Name (sec_Meta secret))) list)"

definition nodegroup_annotation :: "Ingress \<Rightarrow> string list" where
  "nodegroup_annotation ingress =
     filter (\<lambda>v. v \<noteq> [])
       (strings_Split (CHR '';'') (get_str (om_Annotations (ing_Meta ingress)) ENVOYINGRESSNODEGROUPANNOTATION))"

definition getNodeGroupForIngress :: "Ingress \<Rightarrow> string fset result" where
  "getNodeGroupForIngress ingress =
     (let nodegroup = fset_of_list (nodegroup_annotation ingress)
      in if nodegroup = {||} then Err ErrNoNodeGroup else Ok nodegroup)"


section \<open>Complete ingresses\<close>

text \<open>
  The ingresses on which no search and no generator panics: every rule has an HTTP section, every
  path a service backend and a path type. A converted v1beta1 ingress only needs the HTTP
  sections.
\<close>

definition complete_path :: "HTTPIngressPath \<Rightarrow> bool" where
  "complete_path p \<longleftrightarrow> ib_Service (hp_Backend p) \<noteq> None \<and> hp_PathType p \<noteq> None"

definition complete_rule :: "IngressRule \<Rightarrow> bool" where
  "complete_rule r \<longleftrightarrow> (case ir_HTTP r of None \<Rightarrow> False | Some ps \<Rightarrow> list_all complete_path ps)"

definition complete_ingress :: "Ingress \<Rightarrow> bool" where
  "complete_ingress i \<longleftrightarrow> list_all complete_rule (is_Rules (ing_Spec i))"

text \<open>The specification of \<open>ingress_uses\<close>: the set of service names an ingress refers to.\<close>

definition backend_names :: "IngressBackend \<Rightarrow> string set" where
  "backend_names b = (case ib_Service b of None \<Rightarrow> {} | Some s \<Rightarrow> {isb_Name s})"

definition service_names :: "Ingress \<Rightarrow> string set" where
  "service_names i =
     (case is_DefaultBackend (ing_Spec i) of None \<Rightarrow> {} | Some b \<Rightarrow> backend_names b) \<union>
     (\<Union>r\<in>set (is_Rules (ing_Spec i)).
        case ir_HTTP r of None \<Rightarrow> {} | Some ps \<Rightarrow> (\<Union>p\<in>set ps. backend_names (hp_Backend p)))"

lemma toV1Rule_complete: "complete_rule (toV1Rule r) \<longleftrightarrow> br_HTTP r \<noteq> None"
  by (auto simp: complete_rule_def toV1Rule_def complete_path_def toV1Path_def toV1Backend_def
      list_all_iff split: option.splits)

lemma toV1Ingress_complete:
  "complete_ingress (toV1Ingress b) \<longleftrightarrow> list_all (\<lambda>r. br_HTTP r \<noteq> None) (bs_Rules (bing_Spec b))"
  by (auto simp: complete_ingress_def toV1Ingress_def list_all_iff toV1Rule_complete)

lemma path_names_Ok:
  "complete_path p \<Longrightarrow> path_names name p = Ok (name \<in> backend_names (hp_Backend p))"
  by (auto simp: complete_path_def path_names_def path_service_def backend_names_def split: option.splits)

lemma rule_uses_Ok:
  assumes "complete_rule r"
  shows "bind (rule_paths r) (exists_result (path_names name)) =
    Ok (\<exists>p\<in>set (the (ir_HTTP r)). name \<in> backend_names (hp_Backend p))"
proof -
  from assms obtain ps where ps: "ir_HTTP r = Some ps" "list_all complete_path ps"
    by (auto simp: complete_rule_def split: option.splits)
  then have "exists_result (path_names name) ps = Ok (\<exists>p\<in>set ps. name \<in> backend_names (hp_Backend p))"
    by (intro exists_result_total path_names_Ok) (auto simp: list_all_iff)
  with ps show ?thesis by (simp add: rule_paths_def)
qed

lemma default_backend_is_iff:
  "default_backend_is i name \<longleftrightarrow>
     name \<in> (case is_DefaultBackend (ing_Spec i) of None \<Rightarrow> {} | Some b \<Rightarrow> backend_names b)"
  by (auto simp: default_backend_is_def backend_names_def split: option.splits)

lemma ingress_uses_Ok:
  assumes "complete_ingress i"
  shows "ingress_uses i name = Ok (name \<in> service_names i)"
proof -
  have "exists_result (\<lambda>rule. bind (rule_paths rule) (exists_result (path_names name))) (is_Rules (ing_Spec i)) =
      Ok (\<exists>r\<in>set (is_Rules (ing_Spec i)). \<exists>p\<in>set (the (ir_HTTP r)). name \<in> backend_names (hp_Backend p))"
    using assms by (intro exists_result_total rule_uses_Ok) (auto simp: complete_ingress_def list_all_iff)
  moreover have "(\<exists>p\<in>set (the (ir_HTTP r)). name \<in> backend_names (hp_Backend p)) \<longleftrightarrow>
      name \<in> (case ir_HTTP r of None \<Rightarrow> {} | Some ps \<Rightarrow> (\<Union>p\<in>set ps. backend_names (hp_Backend p)))"
    if "r \<in> set (is_Rules (ing_Spec i))" for r
    using assms that by (auto simp: complete_ingress_def complete_rule_def list_all_iff split: option.splits)
  ultimately show ?thesis
    by (auto simp: ingress_uses_def service_names_def default_backend_is_iff)
qed

end
