(* ===== verification/Resource_Gen.thy ===== *)
theory Resource_Gen
  imports Contour Ingress_Match
begin

text \<open>
  The generators of Envoy resources (\<open>envoyingresscontroller.go\<close>): secrets, endpoints, clusters,
  the route configuration and the listeners of an ingress, from the informer caches. Every loop,
  early \<open>continue\<close>, and variable that outlives an iteration is the code's; the routes of a rule
  live in a heap, because the code appends one pointer several times.
\<close>

section \<open>Resources\<close>

datatype spec =
    NilSpec
  | SecretSpec EnvoySecret
  | EndpointSpec ClusterLoadAssignment
  | ClusterSpec Cluster
  | RouteSpec RouteConfiguration
  | ListenerSpec Listener

record Resource =
  r_Name :: string
  r_Namespace :: string
  r_ResourceVersion :: string
  r_NodeGroup :: "string fset"
  r_IngressRef :: "string fset"
  r_Spec :: spec

definition EnvoyResourceKeyFunc :: "Resource \<Rightarrow> string" where
  "EnvoyResourceKeyFunc resource =
     (if r_Namespace resource = [] then r_Name resource else r_Namespace resource @ ''/'' @ r_Name resource)"


section \<open>Secrets\<close>

definition getSecretsForIngress :: "caches \<Rightarrow> Ingress \<Rightarrow> Resource list result" where
  "getSecretsForIngress c ingress =
     bind (getNodeGroupForIngress ingress) (\<lambda>nodegroup.
       Ok (concat (map
         (\<lambda>ingressTLS.
            case lister_Get sec_Meta (c_secret c) (ing_Namespace ingress) (tls_SecretName ingressTLS) of
              Ok secret \<Rightarrow>
                [\<lparr>r_Name = es_Name (envoy_Secret secret), r_Namespace = ing_Namespace ingress,
                  r_ResourceVersion = om_ResourceVersion (sec_Meta secret), r_NodeGroup = nodegroup,
                  r_IngressRef = {|ing_key ingress|}, r_Spec = SecretSpec (envoy_Secret secret)\<rparr>]
            | _ \<Rightarrow> [])
         (is_TLS (ing_Spec ingress)))))"


section \<open>Endpoints\<close>

text \<open>
  The addresses are sorted by IP; as only the IP of an address is used, the order of equal ones
  does not matter.
\<close>

definition subset_lbs :: "ServicePort \<Rightarrow> EndpointSubset \<Rightarrow> LbEndpoint list" where
  "subset_lbs servicePort s =
     (if length (ss_Ports s) < 1 then []
      else concat (map
        (\<lambda>p. if sp_Protocol servicePort \<noteq> eport_Protocol p \<and> eport_Protocol p \<noteq> ProtocolTCP then []
             else if sp_Name servicePort \<noteq> [] \<and> sp_Name servicePort \<noteq> eport_Name p then []
             else map (\<lambda>ip. LBEndpoint (new_SocketAddress ip (sint (eport_Port p))))
                    (sort (map ea_IP (ss_Addresses s))))
        (ss_Ports s)))"

definition endpoint_resource :: "Ingress \<Rightarrow> string fset \<Rightarrow> Service \<Rightarrow> LbEndpoint list \<Rightarrow> Resource" where
  "endpoint_resource ingress nodegroup service lbs =
     \<lparr>r_Name = Hashname 60 [svc_Name service, svc_Namespace service],
      r_Namespace = svc_Namespace service,
      r_ResourceVersion = om_ResourceVersion (svc_Meta service), r_NodeGroup = nodegroup,
      r_IngressRef = {|ing_key ingress|},
      r_Spec = EndpointSpec
        \<lparr>cla_ClusterName = svc_Namespace service @ ''-'' @ svc_Name service,
         cla_Endpoints = [\<lparr>lle_LbEndpoints = lbs, lle_LoadBalancingWeight = Some 1\<rparr>]\<rparr>\<rparr>"

fun endpoint_ports ::
  "caches \<Rightarrow> Ingress \<Rightarrow> string fset \<Rightarrow> Service \<Rightarrow> ServicePort list \<Rightarrow> Resource option \<Rightarrow> Resource option" where
  "endpoint_ports c ingress nodegroup service [] cla = cla"
| "endpoint_ports c ingress nodegroup service (servicePort # ports) cla =
     endpoint_ports c ingress nodegroup service ports
       (case lister_Get ep_Meta (c_endpoints c) (svc_Namespace service) (svc_Name service) of
          Ok endpoints \<Rightarrow>
            Some (endpoint_resource ingress nodegroup service
              (concat (map (subset_lbs servicePort) (ep_Subsets endpoints))))
        | _ \<Rightarrow> cla)"

text \<open>The variable \<open>clusterLoadAssignment\<close> is declared outside the loop over the services.\<close>

fun endpoint_services ::
  "caches \<Rightarrow> Ingress \<Rightarrow> string fset \<Rightarrow> Service list \<Rightarrow> Resource option \<Rightarrow> Resource list" where
  "endpoint_services c ingress nodegroup [] cla = []"
| "endpoint_services c ingress nodegroup (service # services) cla =
     (let cla' = endpoint_ports c ingress nodegroup service (svc_Ports service) cla
      in (case cla' of None \<Rightarrow> [] | Some r \<Rightarrow> [r]) @ endpoint_services c ingress nodegroup services cla')"

definition getEndpointsForIngress :: "caches \<Rightarrow> Ingress \<Rightarrow> Resource list result" where
  "getEndpointsForIngress c ingress =
     bind (getNodeGroupForIngress ingress) (\<lambda>nodegroup.
     bind (getServicesForIngress c ingress) (\<lambda>services.
       (let clusterLoadAssignments = endpoint_services c ingress nodegroup services None
        in if clusterLoadAssignments = [] then Err ErrNoEndpoints else Ok clusterLoadAssignments)))"


section \<open>Clusters\<close>

definition health_policy :: "Service \<Rightarrow> HTTPHealthCheckPolicy option" where
  "health_policy service =
     (let path = get_str (om_Annotations (svc_Meta service)) SERVICEHEALTHCHECKPATHANNOTATION
      in if length path \<noteq> 0 then
           Some \<lparr>hc_Path = path, hc_Host = [], hc_Interval = 5 * time_Second, hc_Timeout = 30 * time_Second,
             hc_UnhealthyThreshold = 3, hc_HealthyThreshold = 1\<rparr>
         else None)"

text \<open>
  The first loop records which services a host has. Nothing reads the record; the loop is kept
  because it dereferences the HTTP section of every rule that has a host.
\<close>

fun host_paths :: "string \<Rightarrow> HTTPIngressPath list \<Rightarrow> (string, string fset) fmap \<Rightarrow> (string, string fset) fmap" where
  "host_paths host [] m = m"
| "host_paths host (path # paths) m =
     host_paths host paths
       (case ib_Service (hp_Backend path) of
          None \<Rightarrow> m
        | Some s \<Rightarrow>
            if length (isb_Name s) \<noteq> 0 then fmupd host (finsert (isb_Name s) (get_set m host)) m else m)"

fun host2ServiceName :: "IngressRule list \<Rightarrow> (string, string fset) fmap \<Rightarrow> (string, string fset) fmap result" where
  "host2ServiceName [] m = Ok m"
| "host2ServiceName (rule # rules) m =
     (if length (ir_Host rule) = 0 then host2ServiceName rules m
      else bind (rule_paths rule) (\<lambda>paths. host2ServiceName rules (host_paths (ir_Host rule) paths m)))"

text \<open>
  The host whose rule has a path to the service (the inner \<open>break\<close> leaves only the path loop, so
  the last such rule wins), and the secret of the last TLS entry with that host.
\<close>

fun find_sni :: "Service \<Rightarrow> IngressRule list \<Rightarrow> string \<Rightarrow> string result" where
  "find_sni service [] sni = Ok sni"
| "find_sni service (rule # rules) sni =
     bind (rule_paths rule) (\<lambda>paths.
     bind (exists_result (path_names (svc_Name service)) paths) (\<lambda>found.
       find_sni service rules (if found then ir_Host rule else sni)))"

fun find_secretName :: "string \<Rightarrow> IngressTLS list \<Rightarrow> string \<Rightarrow> string" where
  "find_secretName sni [] secretName = secretName"
| "find_secretName sni (tls # rest) secretName =
     find_secretName sni rest (if sni \<in> set (tls_Hosts tls) then tls_SecretName tls else secretName)"

definition find_secret :: "caches \<Rightarrow> Ingress \<Rightarrow> string \<Rightarrow> Secret option" where
  "find_secret c ingress sni =
     (let secretName = (if length sni > 0 then find_secretName sni (is_TLS (ing_Spec ingress)) [] else [])
      in if length secretName > 0 then
           (case lister_Get sec_Meta (c_secret c) (ing_Namespace ingress) secretName of
              Ok sec \<Rightarrow> Some sec | _ \<Rightarrow> None)
         else None)"

definition upstream_validation :: "string \<Rightarrow> string \<Rightarrow> Secret option \<Rightarrow> PeerValidationContext option" where
  "upstream_validation protocol sni sec =
     (if protocol = ''tls'' \<or> protocol = ''h2'' then
        (case sec of
           None \<Rightarrow> None
         | Some s \<Rightarrow> Some \<lparr>pvc_CACertificate = Some s, pvc_SubjectName = sni\<rparr>)
      else None)"

definition set_discovery :: "Service \<Rightarrow> ServicePort \<Rightarrow> Cluster \<Rightarrow> Cluster" where
  "set_discovery service servicePort cluster =
     (if length (svc_ExternalName service) = 0 then
        cluster\<lparr>cl_DiscoveryType := EDS,
          cl_EdsClusterConfig := Some (edsconfig ''envoyingresscontroller'' service servicePort)\<rparr>
      else
        cluster\<lparr>cl_DiscoveryType := STRICT_DNS,
          cl_LoadAssignment := Some (StaticClusterLoadAssignment service servicePort)\<rparr>)"

definition set_protocol ::
  "string \<Rightarrow> PeerValidationContext option \<Rightarrow> string \<Rightarrow> Secret option \<Rightarrow> Cluster \<Rightarrow> Cluster" where
  "set_protocol protocol validation sni sec cluster =
     (if protocol = ''tls'' then
        cluster\<lparr>cl_TransportSocket :=
          Some (UpstreamTLSTransportSocket (UpstreamTLSContext validation sni sec []))\<rparr>
      else if protocol = ''h2'' then
        cluster\<lparr>cl_TypedExtensionProtocolOptions := http2ProtocolOptions,
          cl_TransportSocket :=
            Some (UpstreamTLSTransportSocket (UpstreamTLSContext validation sni sec [''h2'']))\<rparr>
      else if protocol = ''h2c'' then
        cluster\<lparr>cl_TypedExtensionProtocolOptions := http2ProtocolOptions\<rparr>
      else cluster)"

definition cluster_for_port ::
  "caches \<Rightarrow> Ingress \<Rightarrow> string fset \<Rightarrow> Service \<Rightarrow> ServicePort \<Rightarrow> Resource result" where
  "cluster_for_port c ingress nodegroup service servicePort =
     (let protocol = get_str (om_Annotations (svc_Meta service)) SERVICEHTTPPROTOCOLANNOTATION
      in bind (find_sni service (is_Rules (ing_Spec ingress)) []) (\<lambda>sni.
         (let sec = find_secret c ingress sni;
              validation = upstream_validation protocol sni sec
          in bind (Clustername service servicePort [] (health_policy service) validation) (\<lambda>name.
             (let cluster = clusterDefaults\<lparr>cl_Name := name, cl_AltStatName := AltStatName service servicePort,
                    cl_DnsLookupFamily := AUTO_FAMILY\<rparr>;
                  cluster' = set_protocol protocol validation sni sec (set_discovery service servicePort cluster)
              in Ok \<lparr>r_Name = cl_Name cluster', r_Namespace = ing_Namespace ingress,
                     r_ResourceVersion = om_ResourceVersion (svc_Meta service), r_NodeGroup = nodegroup,
                     r_IngressRef = {|ing_key ingress|}, r_Spec = ClusterSpec cluster'\<rparr>)))))"

definition getClustersForIngress :: "caches \<Rightarrow> Ingress \<Rightarrow> Resource list result" where
  "getClustersForIngress c ingress =
     bind (getNodeGroupForIngress ingress) (\<lambda>nodegroup.
     bind (getServicesForIngress c ingress) (\<lambda>services.
     bind (host2ServiceName (is_Rules (ing_Spec ingress)) fmempty) (\<lambda>_.
     bind (collect_result (\<lambda>service. collect_result (cluster_for_port c ingress nodegroup service) (svc_Ports service))
             services) (\<lambda>clusters.
       if concat clusters = [] then Err ErrNoClusters else Ok (concat clusters)))))"


section \<open>Routes\<close>

definition ENVOY_HTTP_LISTENER :: string where "ENVOY_HTTP_LISTENER = ''ingress_http''"

definition ENVOY_HTTPS_LISTENER :: string where "ENVOY_HTTPS_LISTENER = ''ingress_https''"

definition DEFAULT_HTTP_LISTENER_ADDRESS :: string where "DEFAULT_HTTP_LISTENER_ADDRESS = ''0.0.0.0''"

fun tls_hosts :: "string \<Rightarrow> string list \<Rightarrow> strmap \<Rightarrow> strmap" where
  "tls_hosts secretName [] m = m"
| "tls_hosts secretName (host # hosts) m =
     tls_hosts secretName hosts (if length host \<noteq> 0 then fmupd host secretName m else m)"

fun host2Secret :: "IngressTLS list \<Rightarrow> strmap \<Rightarrow> strmap" where
  "host2Secret [] m = m"
| "host2Secret (tls # rest) m = host2Secret rest (tls_hosts (tls_SecretName tls) (tls_Hosts tls) m)"

definition route_validation :: "caches \<Rightarrow> Ingress \<Rightarrow> strmap \<Rightarrow> string \<Rightarrow> PeerValidationContext option" where
  "route_validation c ingress secrets host =
     (case fmlookup secrets host of
        None \<Rightarrow> None
      | Some secretName \<Rightarrow>
          (case lister_Get sec_Meta (c_secret c) (ing_Namespace ingress) secretName of
             Ok secret \<Rightarrow> Some \<lparr>pvc_CACertificate = Some secret, pvc_SubjectName = host\<rparr>
           | _ \<Rightarrow> None))"

definition route_match :: "HTTPIngressPath \<Rightarrow> string \<Rightarrow> RouteMatch result" where
  "route_match path clusterName =
     (case hp_PathType path of
        None \<Rightarrow> Panic NilDereference
      | Some t \<Rightarrow>
          Ok (if t = PathTypeExact then MatchPath (hp_Path path)
              else if t = PathTypeImplementationSpecific then MatchSafeRegex clusterName
              else MatchPrefix (hp_Path path)))"

type_synonym route_heap = "Route list"

text \<open>
  The loop over the ports of a path's service: the route at the path's address is overwritten,
  and its address appended, once per port.
\<close>

fun route_ports ::
  "Service \<Rightarrow> PeerValidationContext option \<Rightarrow> HTTPIngressPath \<Rightarrow> nat \<Rightarrow> ServicePort list \<Rightarrow>
   route_heap \<times> nat list \<Rightarrow> (route_heap \<times> nat list) result" where
  "route_ports service validation path addr [] st = Ok st"
| "route_ports service validation path addr (servicePort # ports) (heap, routes) =
     bind (Clustername service servicePort [] (health_policy service) validation) (\<lambda>clusterName.
     bind (route_match path clusterName) (\<lambda>m.
       route_ports service validation path addr ports
         (heap[addr := \<lparr>rt_Match = Some m, rt_Cluster = Some clusterName\<rparr>], routes @ [addr])))"

fun route_paths ::
  "caches \<Rightarrow> Ingress \<Rightarrow> strmap \<Rightarrow> string \<Rightarrow> HTTPIngressPath list \<Rightarrow>
   route_heap \<times> nat list \<Rightarrow> (route_heap \<times> nat list) result" where
  "route_paths c ingress secrets host [] st = Ok st"
| "route_paths c ingress secrets host (path # paths) (heap, routes) =
     (let addr = length heap;
          heap' = heap @ [\<lparr>rt_Match = None, rt_Cluster = None\<rparr>];
          validation = route_validation c ingress secrets host
      in bind (path_service path) (\<lambda>backend.
           (case lister_Get svc_Meta (c_service c) (ing_Namespace ingress) (isb_Name backend) of
              Ok service \<Rightarrow>
                bind (route_ports service validation path addr (svc_Ports service) (heap', routes))
                  (\<lambda>st. route_paths c ingress secrets host paths st)
            | _ \<Rightarrow> route_paths c ingress secrets host paths (heap', routes))))"

fun route_rules :: "caches \<Rightarrow> Ingress \<Rightarrow> strmap \<Rightarrow> IngressRule list \<Rightarrow> VirtualHost list result" where
  "route_rules c ingress secrets [] = Ok []"
| "route_rules c ingress secrets (rule # rules) =
     bind (rule_paths rule) (\<lambda>paths.
     bind (route_paths c ingress secrets (ir_Host rule) paths ([], [])) (\<lambda>(heap, routes).
     bind (route_rules c ingress secrets rules) (\<lambda>virtualHosts.
       Ok (if routes = [] then virtualHosts
           else \<lparr>vh_Name = Hashname 60 [ir_Host rule], vh_Domains = [ir_Host rule],
                 vh_Routes = map (\<lambda>a. heap ! a) routes\<rparr> # virtualHosts))))"

definition getRouteForIngress :: "caches \<Rightarrow> Ingress \<Rightarrow> Resource result" where
  "getRouteForIngress c ingress =
     bind (getNodeGroupForIngress ingress) (\<lambda>nodegroup.
     bind (route_rules c ingress (host2Secret (is_TLS (ing_Spec ingress)) fmempty) (is_Rules (ing_Spec ingress)))
       (\<lambda>virtualHosts.
          if virtualHosts = [] then Err ErrNoRoutes
          else Ok \<lparr>r_Name = Hashname 60 [ing_Name ingress, ing_Namespace ingress, ''envoyroute''],
                   r_Namespace = ing_Namespace ingress,
                   r_ResourceVersion = om_ResourceVersion (ing_Meta ingress), r_NodeGroup = nodegroup,
                   r_IngressRef = {|ing_key ingress|},
                   r_Spec = RouteSpec (new_RouteConfiguration ENVOY_HTTP_LISTENER virtualHosts)\<rparr>))"


section \<open>Listeners\<close>

definition HTTPFilterRouter :: string where
  "HTTPFilterRouter = ''type.googleapis.com/envoy.extensions.filters.http.router.v3.Router''"

definition http_cm :: Filter where
  "http_cm =
     \<lparr>f_Name = WellknownHTTPConnectionManager,
      f_TypedConfig = AnyHttpConnectionManager
        \<lparr>hcm_StatPrefix = ''envoyingresscontroller'', hcm_CodecType = HTTPVersionAuto,
         hcm_RouteConfigName = ENVOY_HTTP_LISTENER,
         hcm_ConfigSource = new_ConfigSource ''envoyingresscontroller'',
         hcm_HttpFilters = [\<lparr>hf_Name = ''router'', hf_TypeUrl = HTTPFilterRouter\<rparr>]\<rparr>\<rparr>"

definition listener_resource :: "Ingress \<Rightarrow> string fset \<Rightarrow> string \<Rightarrow> Listener \<Rightarrow> Resource" where
  "listener_resource ingress nodegroup name listener =
     \<lparr>r_Name = name, r_Namespace = ing_Namespace ingress,
      r_ResourceVersion = om_ResourceVersion (ing_Meta ingress), r_NodeGroup = nodegroup,
      r_IngressRef = {|ing_key ingress|}, r_Spec = ListenerSpec listener\<rparr>"

definition listener_name :: "string \<Rightarrow> IngressServiceBackend \<Rightarrow> string" where
  "listener_name prefix s =
     Hashname 60 [prefix, DEFAULT_HTTP_LISTENER_ADDRESS, strconv_Itoa (sint (sbp_Number (isb_Port s)))]"

definition http_listeners :: "Ingress \<Rightarrow> string fset \<Rightarrow> HTTPIngressPath list \<Rightarrow> Resource list" where
  "http_listeners ingress nodegroup paths =
     concat (map
       (\<lambda>path. case ib_Service (hp_Backend path) of
          None \<Rightarrow> []
        | Some s \<Rightarrow>
            [listener_resource ingress nodegroup (listener_name ENVOY_HTTP_LISTENER s)
              (new_Listener (listener_name ENVOY_HTTP_LISTENER s) DEFAULT_HTTP_LISTENER_ADDRESS
                (sint (sbp_Number (isb_Port s))) [] [http_cm])]) paths)"

definition https_listeners :: "Ingress \<Rightarrow> string fset \<Rightarrow> FilterChain \<Rightarrow> HTTPIngressPath list \<Rightarrow> Resource list" where
  "https_listeners ingress nodegroup filterChain paths =
     concat (map
       (\<lambda>path. case ib_Service (hp_Backend path) of
          None \<Rightarrow> []
        | Some s \<Rightarrow>
            (let l = new_Listener ENVOY_HTTPS_LISTENER DEFAULT_HTTP_LISTENER_ADDRESS
                       (sint (sbp_Number (isb_Port s))) [] []
             in [listener_resource ingress nodegroup (listener_name ENVOY_HTTPS_LISTENER s)
                  (l\<lparr>ln_FilterChains := ln_FilterChains l @ [filterChain]\<rparr>)])) paths)"

definition find_tls :: "Ingress \<Rightarrow> string \<Rightarrow> IngressTLS option" where
  "find_tls ingress host = find (\<lambda>tls. host \<in> set (tls_Hosts tls)) (is_TLS (ing_Spec ingress))"

definition rule_listeners :: "caches \<Rightarrow> Ingress \<Rightarrow> string fset \<Rightarrow> IngressRule \<Rightarrow> Resource list result" where
  "rule_listeners c ingress nodegroup rule =
     bind (rule_paths rule) (\<lambda>paths.
       Ok (http_listeners ingress nodegroup paths @
         (case find_tls ingress (ir_Host rule) of
            None \<Rightarrow> []
          | Some tls \<Rightarrow>
              (case lister_Get sec_Meta (c_secret c) (ing_Namespace ingress) (tls_SecretName tls) of
                 Ok secret \<Rightarrow>
                   (let downstreamTLS = DownstreamTLSContext secret TLSv1_0
                          (Some \<lparr>pvc_CACertificate = None, pvc_SubjectName = []\<rparr>)
                          (ProtoNamesForVersions (Some [HTTPVersionAuto]))
                    in https_listeners ingress nodegroup
                         (FilterChainTLS (ir_Host rule) (Some downstreamTLS) [http_cm]) paths)
               | _ \<Rightarrow> []))))"

definition getListenersForIngress :: "caches \<Rightarrow> Ingress \<Rightarrow> Resource list result" where
  "getListenersForIngress c ingress =
     bind (getNodeGroupForIngress ingress) (\<lambda>nodegroup.
     bind (collect_result (rule_listeners c ingress nodegroup) (is_Rules (ing_Spec ingress))) (\<lambda>envoyListeners.
       if concat envoyListeners = [] then Err ErrNoListeners else Ok (concat envoyListeners)))"


section \<open>What every generated resource looks like\<close>

text \<open>
  A generated resource refers to its ingress only, carries the ingress's node groups and
  namespace, has a name within the limit and a spec that can be dispatched.
\<close>

definition resource_of :: "Ingress \<Rightarrow> Resource \<Rightarrow> bool" where
  "resource_of ingress r \<longleftrightarrow>
     r_IngressRef r = {|ing_key ingress|} \<and>
     r_NodeGroup r = fset_of_list (nodegroup_annotation ingress) \<and>
     r_Namespace r = ing_Namespace ingress \<and> length (r_Name r) \<le> 60 \<and> r_Spec r \<noteq> NilSpec"

lemma getNodeGroup_Ok: "getNodeGroupForIngress i = Ok ng \<longleftrightarrow> ng = fset_of_list (nodegroup_annotation i) \<and> ng \<noteq> {||}"
  by (auto simp: getNodeGroupForIngress_def Let_def)

lemma getSecrets_resource_of:
  "getSecretsForIngress c i = Ok rs \<Longrightarrow> r \<in> set rs \<Longrightarrow> resource_of i r"
  by (auto simp: getSecretsForIngress_def bind_iffs getNodeGroup_Ok resource_of_def envoy_Secret_def
      Secretname_def Let_def Hashname_bound split: result.splits)

lemma getServices_Ok:
  assumes "getServicesForIngress c i = Ok ss" and "s \<in> set ss"
  shows "s \<in> set (items (c_service c))" and "svc_Namespace s = ing_Namespace i"
    and "ingress_uses i (svc_Name s) = Ok True"
  using assms
  by (auto simp: getServicesForIngress_def bind_iffs split: if_splits
      dest!: filter_result_Ok_set dest: lister_List_Ok)

lemma endpoint_ports_cases:
  "endpoint_ports c i ng s ps cla = cla \<or>
   (\<exists>lbs. endpoint_ports c i ng s ps cla = Some (endpoint_resource i ng s lbs))"
  by (induction c i ng s ps cla rule: endpoint_ports.induct) (auto split: result.splits)

lemma endpoint_services_cases:
  "r \<in> set (endpoint_services c i ng ss cla) \<Longrightarrow>
   cla = Some r \<or> (\<exists>s\<in>set ss. \<exists>lbs. r = endpoint_resource i ng s lbs)"
proof (induction c i ng ss cla rule: endpoint_services.induct)
  case (1 c i ng cla)
  then show ?case by simp
next
  case (2 c i ng s ss cla)
  then show ?case
    using endpoint_ports_cases [of c i ng s "svc_Ports s" cla]
    by (fastforce simp: Let_def split: option.splits)
qed

lemma getEndpoints_resource_of:
  assumes "getEndpointsForIngress c i = Ok rs" and "r \<in> set rs"
  shows "resource_of i r"
proof -
  from assms obtain ss where ss: "getServicesForIngress c i = Ok ss"
      "r \<in> set (endpoint_services c i (fset_of_list (nodegroup_annotation i)) ss None)"
    by (auto simp: getEndpointsForIngress_def bind_iffs getNodeGroup_Ok Let_def split: if_splits)
  from endpoint_services_cases [OF ss(2)] obtain s lbs where s: "s \<in> set ss"
      "r = endpoint_resource i (fset_of_list (nodegroup_annotation i)) s lbs" by auto
  from getServices_Ok(2) [OF ss(1) s(1)] show ?thesis
    by (simp add: s(2) resource_of_def endpoint_resource_def Hashname_bound)
qed

lemma set_discovery_Name [simp]: "cl_Name (set_discovery s p c) = cl_Name c"
  by (simp add: set_discovery_def)

lemma set_protocol_Name [simp]: "cl_Name (set_protocol pr v sni sec c) = cl_Name c"
  by (simp add: set_protocol_def)

lemma cluster_for_port_Ok:
  assumes "cluster_for_port c i ng s p = Ok r"
  obtains sni name cl where "find_sni s (is_Rules (ing_Spec i)) [] = Ok sni"
    and "Clustername s p [] (health_policy s)
          (upstream_validation (get_str (om_Annotations (svc_Meta s)) SERVICEHTTPPROTOCOLANNOTATION) sni
            (find_secret c i sni)) = Ok name"
    and "cl_Name cl = name"
    and "r = \<lparr>r_Name = name, r_Namespace = ing_Namespace i,
              r_ResourceVersion = om_ResourceVersion (svc_Meta s), r_NodeGroup = ng,
              r_IngressRef = {|ing_key i|}, r_Spec = ClusterSpec cl\<rparr>"
  using assms by (auto simp: cluster_for_port_def Let_def bind_iffs)

lemma getClusters_Ok:
  assumes "getClustersForIngress c i = Ok rs"
  shows "\<exists>ss cls. getServicesForIngress c i = Ok ss \<and> rs = concat cls \<and>
    list_all2 (\<lambda>s. list_all2 (\<lambda>p r. cluster_for_port c i (fset_of_list (nodegroup_annotation i)) s p = Ok r)
      (svc_Ports s)) ss cls"
proof -
  from assms obtain ss cls where "getServicesForIngress c i = Ok ss"
      "collect_result (\<lambda>s. collect_result (cluster_for_port c i (fset_of_list (nodegroup_annotation i)) s) (svc_Ports s)) ss = Ok cls"
      "(if concat cls = [] then Err ErrNoClusters else Ok (concat cls)) = Ok rs"
    unfolding getClustersForIngress_def bind_iffs getNodeGroup_Ok by blast
  then show ?thesis
    by (intro exI [of _ ss] exI [of _ cls]) (auto simp: collect_result_Ok_iff split: if_splits)
qed

lemma list_all2_memberE:
  assumes "list_all2 P xs ys" and "y \<in> set ys"
  obtains x where "x \<in> set xs" and "P x y"
  using assms by (metis in_set_conv_nth list_all2_conv_all_nth)

lemma getClusters_cases:
  assumes "getClustersForIngress c i = Ok rs" and "r \<in> set rs"
  obtains ss s p where "getServicesForIngress c i = Ok ss" and "s \<in> set ss" and "p \<in> set (svc_Ports s)"
    and "cluster_for_port c i (fset_of_list (nodegroup_annotation i)) s p = Ok r"
proof -
  from getClusters_Ok [OF assms(1)] obtain ss cls where ss: "getServicesForIngress c i = Ok ss" "rs = concat cls"
      "list_all2 (\<lambda>s. list_all2 (\<lambda>p r. cluster_for_port c i (fset_of_list (nodegroup_annotation i)) s p = Ok r)
        (svc_Ports s)) ss cls" by blast
  from assms(2) ss(2) obtain rs' where rs': "rs' \<in> set cls" "r \<in> set rs'" by auto
  from ss(3) rs'(1) obtain s where s: "s \<in> set ss"
      "list_all2 (\<lambda>p r. cluster_for_port c i (fset_of_list (nodegroup_annotation i)) s p = Ok r) (svc_Ports s) rs'"
    by (rule list_all2_memberE)
  from s(2) rs'(2) obtain p where "p \<in> set (svc_Ports s)"
      "cluster_for_port c i (fset_of_list (nodegroup_annotation i)) s p = Ok r"
    by (rule list_all2_memberE)
  with ss(1) s(1) that show thesis by blast
qed

lemma getClusters_resource_of:
  assumes "getClustersForIngress c i = Ok rs" and "r \<in> set rs"
  shows "resource_of i r"
proof -
  obtain s p where "cluster_for_port c i (fset_of_list (nodegroup_annotation i)) s p = Ok r"
    by (rule getClusters_cases [OF assms])
  then show ?thesis
    by (rule cluster_for_port_Ok) (auto simp: resource_of_def Clustername_Ok_iff Hashname_bound)
qed

lemma getRoute_resource_of: "getRouteForIngress c i = Ok r \<Longrightarrow> resource_of i r"
  by (auto simp: getRouteForIngress_def bind_iffs getNodeGroup_Ok resource_of_def Hashname_bound split: if_splits)

lemma listener_resource_of:
  "resource_of i (listener_resource i (fset_of_list (nodegroup_annotation i)) (listener_name prefix s) l)"
  by (simp add: resource_of_def listener_resource_def listener_name_def Hashname_bound)

lemma http_listeners_cases:
  "r \<in> set (http_listeners i ng paths) \<Longrightarrow>
   \<exists>path\<in>set paths. \<exists>s. ib_Service (hp_Backend path) = Some s \<and>
     r = listener_resource i ng (listener_name ENVOY_HTTP_LISTENER s)
       (new_Listener (listener_name ENVOY_HTTP_LISTENER s) DEFAULT_HTTP_LISTENER_ADDRESS
         (sint (sbp_Number (isb_Port s))) [] [http_cm])"
  by (auto simp: http_listeners_def split: option.splits) metis

lemma https_listeners_cases:
  "r \<in> set (https_listeners i ng fc paths) \<Longrightarrow>
   \<exists>path\<in>set paths. \<exists>s. ib_Service (hp_Backend path) = Some s \<and>
     r = listener_resource i ng (listener_name ENVOY_HTTPS_LISTENER s)
       ((new_Listener ENVOY_HTTPS_LISTENER DEFAULT_HTTP_LISTENER_ADDRESS
         (sint (sbp_Number (isb_Port s))) [] [])\<lparr>ln_FilterChains := [fc]\<rparr>)"
  by (auto simp: https_listeners_def new_Listener_def Let_def split: option.splits) metis

lemma rule_listeners_cases:
  assumes "rule_listeners c i ng rule = Ok rs" and "r \<in> set rs"
  shows "\<exists>paths. ir_HTTP rule = Some paths \<and>
    (r \<in> set (http_listeners i ng paths) \<or>
     (\<exists>d. r \<in> set (https_listeners i ng (FilterChainTLS (ir_Host rule) (Some d) [http_cm]) paths)))"
proof -
  from assms(1) obtain paths where p: "rule_paths rule = Ok paths" and "rs = http_listeners i ng paths @
         (case find_tls i (ir_Host rule) of
            None \<Rightarrow> []
          | Some tls \<Rightarrow>
              (case lister_Get sec_Meta (c_secret c) (ing_Namespace i) (tls_SecretName tls) of
                 Ok secret \<Rightarrow>
                   (let downstreamTLS = DownstreamTLSContext secret TLSv1_0
                          (Some \<lparr>pvc_CACertificate = None, pvc_SubjectName = []\<rparr>)
                          (ProtoNamesForVersions (Some [HTTPVersionAuto]))
                    in https_listeners i ng (FilterChainTLS (ir_Host rule) (Some downstreamTLS) [http_cm]) paths)
               | _ \<Rightarrow> []))"
    unfolding rule_listeners_def bind_iffs result.inject by metis
  then have "r \<in> set (http_listeners i ng paths) \<or>
      (\<exists>d. r \<in> set (https_listeners i ng (FilterChainTLS (ir_Host rule) (Some d) [http_cm]) paths))"
    using assms(2) by (auto simp: Let_def split: option.splits result.splits)
  with p show ?thesis by (auto simp: rule_paths_def split: option.splits)
qed

lemma rule_listeners_resource_of:
  assumes "rule_listeners c i (fset_of_list (nodegroup_annotation i)) rule = Ok rs" and "r \<in> set rs"
  shows "resource_of i r"
  using rule_listeners_cases [OF assms]
  by (auto simp: listener_resource_of dest!: http_listeners_cases https_listeners_cases)

lemma getListeners_cases:
  assumes "getListenersForIngress c i = Ok rs" and "r \<in> set rs"
  obtains rule l where "rule \<in> set (is_Rules (ing_Spec i))"
    and "rule_listeners c i (fset_of_list (nodegroup_annotation i)) rule = Ok l" and "r \<in> set l"
proof -
  from assms(1) obtain ls where ls: "collect_result (rule_listeners c i (fset_of_list (nodegroup_annotation i))) (is_Rules (ing_Spec i)) = Ok ls"
      "(if concat ls = [] then Err ErrNoListeners else Ok (concat ls)) = Ok rs"
    unfolding getListenersForIngress_def bind_iffs getNodeGroup_Ok by blast
  with assms(2) obtain l where l: "l \<in> set ls" "r \<in> set l" by (auto split: if_splits)
  from ls(1) l(1) obtain rule where "rule \<in> set (is_Rules (ing_Spec i))"
      "rule_listeners c i (fset_of_list (nodegroup_annotation i)) rule = Ok l"
    unfolding collect_result_Ok_iff by (rule list_all2_memberE)
  with l(2) that show thesis by blast
qed

lemma getListeners_resource_of:
  assumes "getListenersForIngress c i = Ok rs" and "r \<in> set rs"
  shows "resource_of i r"
  by (rule getListeners_cases [OF assms]) (rule rule_listeners_resource_of)


section \<open>No generator panics on a complete ingress\<close>

lemma collect_result_no_panic:
  "(\<And>x. x \<in> set xs \<Longrightarrow> f x \<noteq> Panic p) \<Longrightarrow> collect_result f xs \<noteq> Panic p"
  by (induction xs) (auto simp: bind_iffs)

lemma filter_result_no_panic:
  "(\<And>x. x \<in> set xs \<Longrightarrow> f x \<noteq> Panic p) \<Longrightarrow> filter_result f xs \<noteq> Panic p"
  by (induction xs) (auto simp: bind_iffs)

lemma getNodeGroup_no_panic: "getNodeGroupForIngress i \<noteq> Panic p"
  by (simp add: getNodeGroupForIngress_def Let_def)

lemma lister_List_no_panic: "lister_List meta l ns \<noteq> Panic p"
  by (auto simp: lister_List_def split: option.splits)

lemma getSecrets_no_panic: "getSecretsForIngress c i \<noteq> Panic p"
  by (simp add: getSecretsForIngress_def bind_iffs getNodeGroup_no_panic)

lemma getServices_no_panic:
  assumes "complete_ingress i"
  shows "getServicesForIngress c i \<noteq> Panic p"
proof -
  have "filter_result (\<lambda>s. if svc_Namespace s \<noteq> ing_Namespace i then Ok False
      else ingress_uses i (svc_Name s)) xs \<noteq> Panic p" for xs
    by (rule filter_result_no_panic) (simp add: ingress_uses_Ok assms)
  then show ?thesis
    by (simp add: getServicesForIngress_def bind_iffs lister_List_no_panic)
qed

lemma getEndpoints_no_panic: "complete_ingress i \<Longrightarrow> getEndpointsForIngress c i \<noteq> Panic p"
  by (simp add: getEndpointsForIngress_def bind_iffs getNodeGroup_no_panic getServices_no_panic Let_def)

lemma rule_paths_Ok: "complete_rule r \<Longrightarrow> \<exists>ps. rule_paths r = Ok ps \<and> list_all complete_path ps"
  by (auto simp: complete_rule_def rule_paths_def split: option.splits)

lemma host2ServiceName_no_panic: "list_all complete_rule rs \<Longrightarrow> \<exists>m'. host2ServiceName rs m = Ok m'"
  by (induction rs arbitrary: m) (auto dest!: rule_paths_Ok)

lemma find_sni_total: "list_all complete_rule rs \<Longrightarrow> \<exists>sni'. find_sni s rs sni = Ok sni'"
proof (induction rs arbitrary: sni)
  case Nil
  then show ?case by simp
next
  case (Cons r rs)
  then obtain ps where ps: "rule_paths r = Ok ps" "list_all complete_path ps" by (auto dest: rule_paths_Ok)
  then have "exists_result (path_names (svc_Name s)) ps =
      Ok (\<exists>p\<in>set ps. svc_Name s \<in> backend_names (hp_Backend p))"
    by (intro exists_result_total path_names_Ok) (auto simp: list_all_iff)
  with Cons ps show ?case by simp
qed

lemma upstream_validation_complete: "pvc_complete (upstream_validation pr sni sec)"
  by (auto simp: pvc_complete_def upstream_validation_def split: option.splits)

lemma route_validation_complete: "pvc_complete (route_validation c i m h)"
  by (auto simp: pvc_complete_def route_validation_def split: option.splits result.splits)

lemma cluster_for_port_total:
  assumes "complete_ingress i"
  shows "\<exists>r. cluster_for_port c i ng s p = Ok r"
proof -
  obtain sni where sni: "find_sni s (is_Rules (ing_Spec i)) [] = Ok sni"
    using find_sni_total [OF assms [unfolded complete_ingress_def]] by blast
  obtain n where "Clustername s p [] (health_policy s)
      (upstream_validation (get_str (om_Annotations (svc_Meta s)) SERVICEHTTPPROTOCOLANNOTATION) sni
        (find_secret c i sni)) = Ok n"
    using Clustername_total [OF upstream_validation_complete] by blast
  with sni show ?thesis
    by (simp add: cluster_for_port_def Let_def)
qed

lemma getClusters_no_panic:
  assumes "complete_ingress i"
  shows "getClustersForIngress c i \<noteq> Panic p"
proof -
  have "collect_result (\<lambda>s. collect_result (cluster_for_port c i ng s) (svc_Ports s)) ss \<noteq> Panic p" for ss ng
    using cluster_for_port_total [OF assms] by (intro collect_result_no_panic) (metis result.distinct(3))
  moreover obtain m where "host2ServiceName (is_Rules (ing_Spec i)) fmempty = Ok m"
    using host2ServiceName_no_panic [OF assms [unfolded complete_ingress_def]] by blast
  ultimately show ?thesis
    by (simp add: getClustersForIngress_def bind_iffs getNodeGroup_no_panic getServices_no_panic assms)
qed

lemma route_ports_total:
  assumes "complete_path path" and "pvc_complete v"
  shows "\<exists>st'. route_ports s v path a ps st = Ok st'"
proof (induction ps arbitrary: st)
  case Nil
  then show ?case by simp
next
  case (Cons p ps)
  obtain heap routes where st: "st = (heap, routes)" by (cases st)
  obtain n where "Clustername s p [] (health_policy s) v = Ok n"
    using Clustername_total [OF assms(2)] by blast
  moreover obtain m where "route_match path n = Ok m"
    using assms(1) by (auto simp: complete_path_def route_match_def)
  ultimately show ?case using Cons st by simp
qed

lemma route_paths_total:
  "list_all complete_path paths \<Longrightarrow> \<exists>st'. route_paths c i m h paths st = Ok st'"
proof (induction paths arbitrary: st)
  case Nil
  then show ?case by simp
next
  case (Cons path paths)
  obtain heap routes where st: "st = (heap, routes)" by (cases st)
  from Cons.prems obtain b where b: "path_service path = Ok b"
    by (auto simp: complete_path_def path_service_def)
  have IH: "\<exists>st'. route_paths c i m h paths st0 = Ok st'" for st0
    using Cons by simp
  show ?case
  proof (cases "lister_Get svc_Meta (c_service c) (ing_Namespace i) (isb_Name b)")
    case (Ok s)
    obtain st1 where "route_ports s (route_validation c i m h) path (length heap) (svc_Ports s)
        (heap @ [\<lparr>rt_Match = None, rt_Cluster = None\<rparr>], routes) = Ok st1"
      using route_ports_total [OF _ route_validation_complete] Cons.prems by fastforce
    with Ok b IH st show ?thesis by (simp add: Let_def)
  qed (use b IH st in \<open>simp_all add: Let_def\<close>)
qed

lemma route_rules_total: "list_all complete_rule rs \<Longrightarrow> \<exists>vs. route_rules c i m rs = Ok vs"
proof (induction rs)
  case Nil
  then show ?case by simp
next
  case (Cons r rs)
  then obtain ps where "rule_paths r = Ok ps" "list_all complete_path ps" by (auto dest: rule_paths_Ok)
  moreover from this obtain heap routes where "route_paths c i m (ir_Host r) ps ([], []) = Ok (heap, routes)"
    using route_paths_total by fast
  ultimately show ?case using Cons by auto
qed

lemma getRoute_no_panic:
  assumes "complete_ingress i"
  shows "getRouteForIngress c i \<noteq> Panic p"
proof -
  have "\<exists>vs. route_rules c i (host2Secret (is_TLS (ing_Spec i)) fmempty) (is_Rules (ing_Spec i)) = Ok vs"
    using assms by (auto simp: complete_ingress_def intro: route_rules_total)
  then show ?thesis
    by (auto simp: getRouteForIngress_def bind_iffs getNodeGroup_no_panic)
qed

lemma getListeners_no_panic:
  assumes "complete_ingress i"
  shows "getListenersForIngress c i \<noteq> Panic p"
proof -
  have "collect_result (rule_listeners c i ng) (is_Rules (ing_Spec i)) \<noteq> Panic p" for ng
    using assms
    by (intro collect_result_no_panic)
      (auto simp: complete_ingress_def list_all_iff rule_listeners_def bind_iffs dest!: rule_paths_Ok)
  then show ?thesis
    by (simp add: getListenersForIngress_def bind_iffs getNodeGroup_no_panic)
qed

lemmas generators_no_panic = getSecrets_no_panic getEndpoints_no_panic getClusters_no_panic
  getRoute_no_panic getListeners_no_panic

lemmas generators_resource_of = getSecrets_resource_of getEndpoints_resource_of getClusters_resource_of
  getRoute_resource_of getListeners_resource_of

end
