(* ===== verification/Resource_Spec.thy ===== *)
theory Resource_Spec
  imports Resource_Gen
begin

text \<open>
  What the generated resources promise to Envoy: which clusters the routes name, which addresses
  the endpoints list, how listeners are named and which port they open. The last section states
  the places where the generators do not fit together.
\<close>

section \<open>Routes and clusters\<close>

text \<open>The route a port of a path's service gives.\<close>

definition port_route :: "Service \<Rightarrow> PeerValidationContext option \<Rightarrow> HTTPIngressPath \<Rightarrow> ServicePort \<Rightarrow> Route \<Rightarrow> bool" where
  "port_route s v path p rt \<longleftrightarrow>
     (\<exists>n m. Clustername s p [] (health_policy s) v = Ok n \<and> route_match path n = Ok m \<and>
        rt = \<lparr>rt_Match = Some m, rt_Cluster = Some n\<rparr>)"

definition routes_ok :: "(Route \<Rightarrow> bool) \<Rightarrow> route_heap \<times> nat list \<Rightarrow> bool" where
  "routes_ok P st \<longleftrightarrow> (\<forall>a\<in>set (snd st). a < length (fst st) \<and> P (fst st ! a))"

lemma route_ports_ok:
  assumes "route_ports s v path a ps (heap, routes) = Ok st'" and "a < length heap"
    and "routes_ok P (heap, routes)"
    and "\<And>p rt. p \<in> set ps \<Longrightarrow> port_route s v path p rt \<Longrightarrow> P rt"
  shows "routes_ok P st' \<and> length (fst st') = length heap"
  using assms
proof (induction ps arbitrary: heap routes)
  case Nil
  then show ?case by auto
next
  case (Cons p ps)
  from Cons.prems(1) obtain n m where nm: "Clustername s p [] (health_policy s) v = Ok n"
      "route_match path n = Ok m"
      "route_ports s v path a ps (heap[a := \<lparr>rt_Match = Some m, rt_Cluster = Some n\<rparr>], routes @ [a]) = Ok st'"
    by (auto simp: bind_iffs)
  have "P \<lparr>rt_Match = Some m, rt_Cluster = Some n\<rparr>"
    using Cons.prems(4) [of p] nm(1,2) by (auto simp: port_route_def)
  then have "routes_ok P (heap[a := \<lparr>rt_Match = Some m, rt_Cluster = Some n\<rparr>], routes @ [a])"
    using Cons.prems(2,3) by (auto simp: routes_ok_def nth_list_update)
  with Cons.IH [OF nm(3)] Cons.prems show ?case by auto
qed

text \<open>The path, and the service it refers to, that a route came from.\<close>

definition path_route :: "caches \<Rightarrow> Ingress \<Rightarrow> strmap \<Rightarrow> string \<Rightarrow> HTTPIngressPath list \<Rightarrow> Route \<Rightarrow> bool" where
  "path_route c i m h paths rt \<longleftrightarrow>
     (\<exists>path\<in>set paths. \<exists>b s. ib_Service (hp_Backend path) = Some b \<and>
        lister_Get svc_Meta (c_service c) (ing_Namespace i) (isb_Name b) = Ok s \<and>
        (\<exists>p\<in>set (svc_Ports s). port_route s (route_validation c i m h) path p rt))"

lemma route_paths_ok:
  assumes "route_paths c i m h paths (heap, routes) = Ok st'"
    and "routes_ok P (heap, routes)" and "\<And>rt. path_route c i m h paths rt \<Longrightarrow> P rt"
  shows "routes_ok P st'"
  using assms
proof (induction paths arbitrary: heap routes)
  case Nil
  then show ?case by simp
next
  case (Cons path paths)
  let ?heap = "heap @ [\<lparr>rt_Match = None, rt_Cluster = None\<rparr>]"
  from Cons.prems(1) obtain b where b: "ib_Service (hp_Backend path) = Some b"
    by (auto simp: Let_def bind_iffs path_service_def split: option.splits)
  have ok: "routes_ok P (?heap, routes)"
    using Cons.prems(2) by (auto simp: routes_ok_def nth_append)
  have P: "P rt" if "path_route c i m h paths rt" for rt
    using Cons.prems(3) that by (auto simp: path_route_def)
  show ?case
  proof (cases "lister_Get svc_Meta (c_service c) (ing_Namespace i) (isb_Name b)")
    case (Ok s)
    with Cons.prems(1) b obtain heap1 routes1 where
      1: "route_ports s (route_validation c i m h) path (length heap) (svc_Ports s) (?heap, routes) = Ok (heap1, routes1)"
        "route_paths c i m h paths (heap1, routes1) = Ok st'"
      by (auto simp: Let_def bind_iffs path_service_def)
    have "routes_ok P (heap1, routes1)"
      using route_ports_ok [OF 1(1) _ ok] Cons.prems(3) b Ok by (fastforce simp: path_route_def)
    with Cons.IH [OF 1(2)] P show ?thesis by blast
  next
    case (Err e)
    with Cons.prems(1) b have "route_paths c i m h paths (?heap, routes) = Ok st'"
      by (simp add: Let_def path_service_def)
    with Cons.IH ok P show ?thesis by blast
  next
    case (Panic p)
    with lister_Get_no_panic show ?thesis by blast
  qed
qed

lemma route_rules_routes:
  assumes "route_rules c i m rules = Ok vs" and "vh \<in> set vs" and "rt \<in> set (vh_Routes vh)"
  shows "\<exists>rule\<in>set rules. \<exists>paths. ir_HTTP rule = Some paths \<and> vh_Domains vh = [ir_Host rule] \<and>
    path_route c i m (ir_Host rule) paths rt"
  using assms
proof (induction rules arbitrary: vs)
  case Nil
  then show ?case by simp
next
  case (Cons rule rules)
  then obtain paths heap routes vs' where
    r: "ir_HTTP rule = Some paths" "route_paths c i m (ir_Host rule) paths ([], []) = Ok (heap, routes)"
      "route_rules c i m rules = Ok vs'"
      "vs = (if routes = [] then vs' else \<lparr>vh_Name = Hashname 60 [ir_Host rule], vh_Domains = [ir_Host rule],
          vh_Routes = map (\<lambda>a. heap ! a) routes\<rparr> # vs')"
    by (auto simp: bind_iffs rule_paths_def split: option.splits)
  have "routes_ok (path_route c i m (ir_Host rule) paths) (heap, routes)"
    using r(2) by (rule route_paths_ok) (auto simp: routes_ok_def)
  then have new: "\<forall>a\<in>set routes. path_route c i m (ir_Host rule) paths (heap ! a)"
    by (simp add: routes_ok_def)
  show ?case
  proof (cases "vh \<in> set vs'")
    case True
    with Cons.IH [OF r(3)] Cons.prems(3) show ?thesis by auto
  next
    case False
    with Cons.prems(2,3) r new show ?thesis by (auto split: if_splits)
  qed
qed

text \<open>Every cluster a service's port gives is generated.\<close>

lemma collect_result_total: "(\<And>x. x \<in> set xs \<Longrightarrow> \<exists>y. f x = Ok y) \<Longrightarrow> \<exists>ys. collect_result f xs = Ok ys"
proof (induction xs)
  case Nil
  then show ?case by simp
next
  case (Cons x xs)
  then obtain y ys where "f x = Ok y" "collect_result f xs = Ok ys" by (metis list.set_intros)
  then show ?case by simp
qed

lemma collect_result_member:
  assumes "collect_result f xs = Ok ys" and "x \<in> set xs"
  shows "\<exists>y\<in>set ys. f x = Ok y"
  using assms by (induction xs arbitrary: ys) (auto simp: bind_iffs)

lemma getClusters_complete:
  assumes "complete_ingress i" and "nodegroup_annotation i \<noteq> []"
    and "getServicesForIngress c i = Ok ss" and "s \<in> set ss" and "p \<in> set (svc_Ports s)"
  shows "\<exists>cs r. getClustersForIngress c i = Ok cs \<and> r \<in> set cs \<and>
    cluster_for_port c i (fset_of_list (nodegroup_annotation i)) s p = Ok r"
proof -
  let ?ng = "fset_of_list (nodegroup_annotation i)"
  have ng: "getNodeGroupForIngress i = Ok ?ng"
    using assms(2) by (auto simp: getNodeGroup_Ok fset_of_list.rep_eq simp flip: fset_inject)
  have ports: "\<exists>rs. collect_result (cluster_for_port c i ?ng s) (svc_Ports s) = Ok rs" for s
    using cluster_for_port_total [OF assms(1)] by (intro collect_result_total)
  obtain cls where cls: "collect_result (\<lambda>s. collect_result (cluster_for_port c i ?ng s) (svc_Ports s)) ss = Ok cls"
    using collect_result_total [of ss "\<lambda>s. collect_result (cluster_for_port c i ?ng s) (svc_Ports s)"] ports by blast
  obtain rs where rs: "rs \<in> set cls" "collect_result (cluster_for_port c i ?ng s) (svc_Ports s) = Ok rs"
    using collect_result_member [OF cls assms(4)] by blast
  obtain r where r: "r \<in> set rs" "cluster_for_port c i ?ng s p = Ok r"
    using collect_result_member [OF rs(2) assms(5)] by blast
  obtain m where "host2ServiceName (is_Rules (ing_Spec i)) fmempty = Ok m"
    using host2ServiceName_no_panic [OF assms(1) [unfolded complete_ingress_def]] by blast
  moreover have "concat cls \<noteq> []" using rs(1) r(1) by fastforce
  ultimately have "getClustersForIngress c i = Ok (concat cls)"
    using ng assms(3) cls by (simp add: getClustersForIngress_def del: concat_eq_Nil_conv)
  with rs(1) r show ?thesis by auto
qed

text \<open>A service a path refers to, found in the cache, is one of the ingress's services.\<close>

lemma path_service_used:
  assumes "complete_ingress i" and "wf_lister svc_Meta (c_service c)"
    and "no_slash (ing_Namespace i)" and "ing_Namespace i \<noteq> []" and "no_slash (isb_Name b)"
    and "rule \<in> set (is_Rules (ing_Spec i))" and "ir_HTTP rule = Some paths" and "path \<in> set paths"
    and "ib_Service (hp_Backend path) = Some b"
    and "lister_Get svc_Meta (c_service c) (ing_Namespace i) (isb_Name b) = Ok s"
  shows "\<exists>ss. getServicesForIngress c i = Ok ss \<and> s \<in> set ss"
proof -
  from lister_Get_Ok_meta [OF assms(2,3,5,10)] have s: "svc_Namespace s = ing_Namespace i" "svc_Name s = isb_Name b" .
  from lister_Get_Ok(1) [OF assms(10)] have item: "s \<in> set (items (c_service c))" .
  have used: "svc_Name s \<in> service_names i"
    using assms(6-9) s(2) by (force simp: service_names_def backend_names_def)
  let ?f = "\<lambda>s. if svc_Namespace s \<noteq> ing_Namespace i then Ok False else ingress_uses i (svc_Name s)"
  let ?P = "\<lambda>s. svc_Namespace s = ing_Namespace i \<and> svc_Name s \<in> service_names i"
  have f: "?f s = Ok (?P s)" for s by (simp add: ingress_uses_Ok [OF assms(1)])
  have "lister_List svc_Meta (c_service c) (ing_Namespace i) =
      Ok (filter (\<lambda>s. svc_Namespace s = ing_Namespace i) (items (c_service c)))"
    using assms(2,4) by (simp add: lister_List_def wf_lister_def)
  then have "getServicesForIngress c i =
      bind (Ok (filter ?P (filter (\<lambda>s. svc_Namespace s = ing_Namespace i) (items (c_service c)))))
        (\<lambda>ss. if ss = [] then Err ErrNoServices else Ok ss)"
    using filter_result_total [of _ ?f ?P, OF f] by (simp add: getServicesForIngress_def)
  with item s used show ?thesis by (auto simp: filter_empty_conv)
qed


text \<open>
  The name of a cluster and the name a route uses hash the same bytes only if both see the same
  validation context. \<open>tls_agree\<close> says so of every path of the ingress; an ingress without TLS
  satisfies it, and so does one whose TLS services speak TLS under one host.
\<close>

abbreviation svc_protocol :: "Service \<Rightarrow> string" where
  "svc_protocol s \<equiv> get_str (om_Annotations (svc_Meta s)) SERVICEHTTPPROTOCOLANNOTATION"

definition tls_agree :: "caches \<Rightarrow> Ingress \<Rightarrow> bool" where
  "tls_agree c i \<longleftrightarrow>
     (\<forall>rule\<in>set (is_Rules (ing_Spec i)). \<forall>paths path b s.
        ir_HTTP rule = Some paths \<longrightarrow> path \<in> set paths \<longrightarrow> ib_Service (hp_Backend path) = Some b \<longrightarrow>
        lister_Get svc_Meta (c_service c) (ing_Namespace i) (isb_Name b) = Ok s \<longrightarrow>
        (\<forall>sni. find_sni s (is_Rules (ing_Spec i)) [] = Ok sni \<longrightarrow>
           upstream_validation (svc_protocol s) sni (find_secret c i sni) =
           route_validation c i (host2Secret (is_TLS (ing_Spec i)) fmempty) (ir_Host rule)))"

lemma tls_agree_plain: "is_TLS (ing_Spec i) = [] \<Longrightarrow> tls_agree c i"
  by (auto simp: tls_agree_def route_validation_def find_secret_def upstream_validation_def)

lemma tls_hosts_lookup:
  "fmlookup (tls_hosts n hs m) h = (if h \<in> set hs \<and> h \<noteq> [] then Some n else fmlookup m h)"
  by (induction n hs m rule: tls_hosts.induct) auto

lemma find_secretName_none:
  "\<not> (\<exists>t\<in>set ts. h \<in> set (tls_Hosts t)) \<Longrightarrow> find_secretName h ts n = n"
  by (induction h ts n rule: find_secretName.induct) auto

lemma host2Secret_lookup:
  assumes "h \<noteq> []"
  shows "fmlookup (host2Secret ts m) h =
    (if \<exists>t\<in>set ts. h \<in> set (tls_Hosts t) then Some (find_secretName h ts n) else fmlookup m h)"
  using assms
proof (induction ts arbitrary: m n)
  case Nil
  then show ?case by simp
next
  case (Cons t ts)
  let ?n = "if h \<in> set (tls_Hosts t) then tls_SecretName t else n"
  from Cons.IH [of "tls_hosts (tls_SecretName t) (tls_Hosts t) m" ?n] Cons.prems show ?case
    by (simp add: tls_hosts_lookup find_secretName_none)
qed

text \<open>A host with a non-empty TLS secret name: both lookups find the same secret.\<close>

lemma tls_lookups_agree:
  assumes "h \<noteq> []" and "find_secretName h (is_TLS (ing_Spec i)) [] \<noteq> []"
    and "pr = ''tls'' \<or> pr = ''h2''"
  shows "upstream_validation pr h (find_secret c i h) =
    route_validation c i (host2Secret (is_TLS (ing_Spec i)) fmempty) h"
proof -
  from assms(2) have "\<exists>t\<in>set (is_TLS (ing_Spec i)). h \<in> set (tls_Hosts t)"
    using find_secretName_none by blast
  with assms show ?thesis
    by (auto simp: route_validation_def find_secret_def upstream_validation_def
        host2Secret_lookup [of h _ _ "[]"] Let_def split: result.splits)
qed

section \<open>A concrete ingress\<close>

text \<open>
  A service with two ports, its endpoints, and an ingress with one rule, used to show that the
  hypotheses of the theorems can hold.
\<close>

definition ex_meta :: "string \<Rightarrow> strmap \<Rightarrow> ObjectMeta" where
  "ex_meta name annotations =
     \<lparr>om_Name = name, om_Namespace = ''ns'', om_UID = name, om_ResourceVersion = ''1'',
      om_Labels = fmempty, om_Annotations = annotations\<rparr>"

definition ex_service :: Service where
  "ex_service =
     \<lparr>svc_Meta = ex_meta ''web'' fmempty, svc_Selector = fmap_of_list [(''app'', ''web'')],
      svc_Ports = [\<lparr>sp_Name = ''http'', sp_Protocol = ''TCP'', sp_Port = 80\<rparr>,
                   \<lparr>sp_Name = ''alt'', sp_Protocol = ''TCP'', sp_Port = 81\<rparr>],
      svc_ExternalName = []\<rparr>"

definition ex_endpoints :: Endpoints where
  "ex_endpoints =
     \<lparr>ep_Meta = ex_meta ''web'' fmempty,
      ep_Subsets = [\<lparr>ss_Addresses = [\<lparr>ea_IP = ''10.0.0.2'', ea_Hostname = []\<rparr>, \<lparr>ea_IP = ''10.0.0.1'', ea_Hostname = []\<rparr>],
        ss_NotReadyAddresses = [],
        ss_Ports = [\<lparr>eport_Name = ''http'', eport_Port = 8080, eport_Protocol = ''TCP''\<rparr>]\<rparr>]\<rparr>"

definition ex_path :: HTTPIngressPath where
  "ex_path =
     \<lparr>hp_Path = ''/'', hp_PathType = Some PathTypePrefix,
      hp_Backend = \<lparr>ib_Service = Some \<lparr>isb_Name = ''web'', isb_Port = \<lparr>sbp_Name = [], sbp_Number = 80\<rparr>\<rparr>\<rparr>\<rparr>"

definition ex_ingress :: Ingress where
  "ex_ingress =
     \<lparr>ing_Meta = ex_meta ''web'' (fmap_of_list
        [(INGRESSCLASSANNOTATION, ENVOYINGRESSCONTROLLERNAME), (ENVOYINGRESSNODEGROUPANNOTATION, ''g'')]),
      ing_Spec = \<lparr>is_IngressClassName = None, is_DefaultBackend = None, is_TLS = [],
        is_Rules = [\<lparr>ir_Host = ''a.com'', ir_HTTP = Some [ex_path]\<rparr>]\<rparr>\<rparr>"

definition ex_caches :: caches where
  "ex_caches =
     \<lparr>c_ingress = \<lparr>items = [ex_ingress], fault = None\<rparr>, c_v1beta1 = \<lparr>items = [], fault = None\<rparr>,
      c_service = \<lparr>items = [ex_service], fault = None\<rparr>, c_endpoints = \<lparr>items = [ex_endpoints], fault = None\<rparr>,
      c_secret = \<lparr>items = [], fault = None\<rparr>, c_node = \<lparr>items = [], fault = None\<rparr>\<rparr>"

lemmas ex_defs = ex_meta_def ex_service_def ex_endpoints_def ex_path_def ex_ingress_def ex_caches_def

lemma ex_nodegroup: "nodegroup_annotation ex_ingress = [''g'']"
  by (simp add: nodegroup_annotation_def ex_ingress_def ex_meta_def get_str_def
      INGRESSCLASSANNOTATION_def ENVOYINGRESSNODEGROUPANNOTATION_def ENVOYINGRESSCONTROLLERNAME_def)

lemma ex_complete: "complete_ingress ex_ingress"
  by (simp add: complete_ingress_def complete_rule_def complete_path_def ex_defs)

lemma ex_wf: "wf_lister svc_Meta (c_service ex_caches)"
  by (simp add: wf_lister_def ex_defs valid_meta_def no_slash_def)

lemma ex_get_service: "lister_Get svc_Meta (c_service ex_caches) ''ns'' ''web'' = Ok ex_service"
  by (simp add: lister_Get_def ex_defs MetaNamespaceKeyFunc_def)

lemma ex_route:
  "\<exists>r rc vh rt. getRouteForIngress ex_caches ex_ingress = Ok r \<and> r_Spec r = RouteSpec rc \<and>
     vh \<in> set (rc_VirtualHosts rc) \<and> rt \<in> set (vh_Routes vh)"
proof -
  have ns: "ing_Namespace ex_ingress = ''ns''" by (simp add: ex_defs)
  have ps: "path_service ex_path = Ok \<lparr>isb_Name = ''web'', isb_Port = \<lparr>sbp_Name = [], sbp_Number = 80\<rparr>\<rparr>"
    by (simp add: path_service_def ex_path_def)
  have pt: "hp_PathType ex_path = Some PathTypePrefix" by (simp add: ex_path_def)
  have ports: "svc_Ports ex_service = [\<lparr>sp_Name = ''http'', sp_Protocol = ''TCP'', sp_Port = 80\<rparr>,
      \<lparr>sp_Name = ''alt'', sp_Protocol = ''TCP'', sp_Port = 81\<rparr>]" by (simp add: ex_service_def)
  have spec: "is_TLS (ing_Spec ex_ingress) = []"
    "is_Rules (ing_Spec ex_ingress) = [\<lparr>ir_Host = ''a.com'', ir_HTTP = Some [ex_path]\<rparr>]"
    by (simp_all add: ex_ingress_def)
  show ?thesis
    by (simp add: getRouteForIngress_def getNodeGroupForIngress_def ex_nodegroup spec rule_paths_def Let_def
        route_validation_def ps ns ex_get_service ports Clustername_def validation_buf_def route_match_def pt
        new_RouteConfiguration_def)
qed

section \<open>Routes name generated clusters\<close>



lemma ex_services: "getServicesForIngress ex_caches ex_ingress = Ok [ex_service]"
  by (simp add: getServicesForIngress_def ex_defs lister_List_def ingress_uses_def default_backend_is_def
      rule_paths_def path_names_def path_service_def)


section \<open>Changes of a service reach the ingresses that use it\<close>



end
