(* ===== verification/Resource_Gaps.thy ===== *)
theory Resource_Gaps
  imports Resource_Spec
begin

text \<open>
  Endpoints and listeners, and the places where the generated resources do not fit together: the
  routes of a path share one object, endpoint assignments are published under a name no cluster
  asks for, an assignment can be published twice, TLS listeners share their name, and a plain
  service behind a TLS host is routed to a cluster that is not generated.
\<close>

section \<open>Endpoints\<close>

definition port_matches :: "ServicePort \<Rightarrow> EndpointPort \<Rightarrow> bool" where
  "port_matches sp p \<longleftrightarrow> (sp_Protocol sp = eport_Protocol p \<or> eport_Protocol p = ProtocolTCP) \<and>
     (sp_Name sp = [] \<or> sp_Name sp = eport_Name p)"

lemma set_subset_lbs:
  "set (subset_lbs sp s) =
     {LBEndpoint (new_SocketAddress (ea_IP a) (sint (eport_Port p))) | a p.
        a \<in> set (ss_Addresses s) \<and> p \<in> set (ss_Ports s) \<and> port_matches sp p}"
  by (auto simp: subset_lbs_def port_matches_def split: if_splits)

definition lb_endpoints :: "ClusterLoadAssignment \<Rightarrow> LbEndpoint set" where
  "lb_endpoints a = (\<Union>l\<in>set (cla_Endpoints a). set (lle_LbEndpoints l))"

lemma endpoint_ports_Some:
  assumes "endpoint_ports c i ng s ps cla = Some r"
  shows "cla = Some r \<or>
    (\<exists>sp\<in>set ps. \<exists>e. lister_Get ep_Meta (c_endpoints c) (svc_Namespace s) (svc_Name s) = Ok e \<and>
       r = endpoint_resource i ng s (concat (map (subset_lbs sp) (ep_Subsets e))))"
  using assms
  by (induction c i ng s ps cla rule: endpoint_ports.induct) (auto split: result.splits)

lemma endpoint_services_Some:
  assumes "r \<in> set (endpoint_services c i ng ss cla)"
  shows "cla = Some r \<or>
    (\<exists>s\<in>set ss. \<exists>sp\<in>set (svc_Ports s). \<exists>e.
       lister_Get ep_Meta (c_endpoints c) (svc_Namespace s) (svc_Name s) = Ok e \<and>
       r = endpoint_resource i ng s (concat (map (subset_lbs sp) (ep_Subsets e))))"
  using assms
proof (induction c i ng ss cla rule: endpoint_services.induct)
  case (1 c i ng cla)
  then show ?case by simp
next
  case (2 c i ng s ss cla)
  show ?case
  proof (cases "r \<in> set (endpoint_services c i ng ss (endpoint_ports c i ng s (svc_Ports s) cla))")
    case True
    with 2 have "endpoint_ports c i ng s (svc_Ports s) cla = Some r \<or>
        (\<exists>s\<in>set ss. \<exists>sp\<in>set (svc_Ports s). \<exists>e.
          lister_Get ep_Meta (c_endpoints c) (svc_Namespace s) (svc_Name s) = Ok e \<and>
          r = endpoint_resource i ng s (concat (map (subset_lbs sp) (ep_Subsets e))))" by blast
    then show ?thesis by (auto dest: endpoint_ports_Some)
  next
    case False
    with 2(2) have "endpoint_ports c i ng s (svc_Ports s) cla = Some r"
      by (auto simp: Let_def split: option.splits)
    then show ?thesis by (auto dest: endpoint_ports_Some)
  qed
qed


lemma ex_get_endpoints: "lister_Get ep_Meta (c_endpoints ex_caches) ''ns'' ''web'' = Ok ex_endpoints"
  by (simp add: lister_Get_def ex_defs MetaNamespaceKeyFunc_def)

lemma ex_get_endpoints_result:
  "\<exists>lbs. getEndpointsForIngress ex_caches ex_ingress = Ok [endpoint_resource ex_ingress {|''g''|} ex_service lbs]"
proof -
  have "svc_Namespace ex_service = ''ns''" "svc_Name ex_service = ''web''"
    "svc_Ports ex_service = [\<lparr>sp_Name = ''http'', sp_Protocol = ''TCP'', sp_Port = 80\<rparr>,
      \<lparr>sp_Name = ''alt'', sp_Protocol = ''TCP'', sp_Port = 81\<rparr>]"
    by (simp_all add: ex_service_def ex_meta_def)
  then show ?thesis
    by (auto simp: getEndpointsForIngress_def getNodeGroupForIngress_def ex_nodegroup ex_services
        ex_get_endpoints Let_def)
qed



section \<open>Routes of one path share one object\<close>

definition last_route :: "Service \<Rightarrow> PeerValidationContext option \<Rightarrow> HTTPIngressPath \<Rightarrow> Route result" where
  "last_route s v path =
     bind (Clustername s (last (svc_Ports s)) [] (health_policy s) v) (\<lambda>n.
     bind (route_match path n) (\<lambda>m. Ok \<lparr>rt_Match = Some m, rt_Cluster = Some n\<rparr>))"

lemma route_ports_alias:
  assumes "route_ports s v path a ps (heap, routes) = Ok (heap', routes')" and "ps \<noteq> []" and "a < length heap"
  shows "routes' = routes @ replicate (length ps) a \<and> length heap' = length heap \<and>
    (\<exists>n m. Clustername s (last ps) [] (health_policy s) v = Ok n \<and> route_match path n = Ok m \<and>
       heap' ! a = \<lparr>rt_Match = Some m, rt_Cluster = Some n\<rparr>)"
  using assms
proof (induction ps arbitrary: heap routes)
  case Nil
  then show ?case by simp
next
  case (Cons p ps)
  then obtain n m where nm: "Clustername s p [] (health_policy s) v = Ok n" "route_match path n = Ok m"
      "route_ports s v path a ps (heap[a := \<lparr>rt_Match = Some m, rt_Cluster = Some n\<rparr>], routes @ [a]) = Ok (heap', routes')"
    by (auto simp: bind_iffs)
  show ?case
  proof (cases "ps = []")
    case True
    with nm Cons.prems(3) show ?thesis by auto
  next
    case False
    with Cons.IH [OF nm(3)] Cons.prems(3) show ?thesis by auto
  qed
qed

text \<open>
  The routes a rule with a single path gets, one per port of the path's service, are all
  equal to the route of the service's last port, because the code fills and appends one route
  object in every iteration of the port loop: no route leads to the cluster of another port.
\<close>

lemma path_routes_all_last_port:
  assumes "rule_paths rule = Ok [path]" and "path_service path = Ok b"
    and "lister_Get svc_Meta (c_service c) (ing_Namespace i) (isb_Name b) = Ok s" and "svc_Ports s \<noteq> []"
    and "route_rules c i m [rule] = Ok vs"
  shows "\<exists>vh rt. vs = [vh] \<and> last_route s (route_validation c i m (ir_Host rule)) path = Ok rt \<and>
    vh_Routes vh = replicate (length (svc_Ports s)) rt"
proof -
  let ?v = "route_validation c i m (ir_Host rule)"
  from assms obtain heap routes where
    st: "route_ports s ?v path 0 (svc_Ports s) ([\<lparr>rt_Match = None, rt_Cluster = None\<rparr>], []) = Ok (heap, routes)"
    and vs: "vs = (if routes = [] then [] else [\<lparr>vh_Name = Hashname 60 [ir_Host rule],
        vh_Domains = [ir_Host rule], vh_Routes = map (\<lambda>a. heap ! a) routes\<rparr>])"
    by (auto simp: bind_iffs Let_def)
  from route_ports_alias [OF st assms(4)] obtain n nm where
    "routes = replicate (length (svc_Ports s)) 0" "Clustername s (last (svc_Ports s)) [] (health_policy s) ?v = Ok n"
    "route_match path n = Ok nm" "heap ! 0 = \<lparr>rt_Match = Some nm, rt_Cluster = Some n\<rparr>" by auto
  with vs assms(4) show ?thesis by (auto simp: last_route_def)
qed

lemma path_routes_all_last_port_example:
  "\<exists>vs vh rt. route_rules ex_caches ex_ingress fmempty [\<lparr>ir_Host = ''a.com'', ir_HTTP = Some [ex_path]\<rparr>] = Ok vs \<and>
    vs = [vh] \<and> last_route ex_service None ex_path = Ok rt \<and> vh_Routes vh = [rt, rt]"
proof -
  let ?rule = "\<lparr>ir_Host = ''a.com'', ir_HTTP = Some [ex_path]\<rparr>"
  let ?b = "\<lparr>isb_Name = ''web'', isb_Port = \<lparr>sbp_Name = [], sbp_Number = 80\<rparr>\<rparr>"
  have "list_all complete_rule [?rule]" by (simp add: complete_rule_def complete_path_def ex_path_def)
  then obtain vs where vs: "route_rules ex_caches ex_ingress fmempty [?rule] = Ok vs"
    using route_rules_total by blast
  have get: "lister_Get svc_Meta (c_service ex_caches) (ing_Namespace ex_ingress) (isb_Name ?b) = Ok ex_service"
    using ex_get_service by (simp add: ex_defs)
  have "rule_paths ?rule = Ok [ex_path]" "path_service ex_path = Ok ?b" "svc_Ports ex_service \<noteq> []"
    by (simp_all add: rule_paths_def path_service_def ex_path_def ex_service_def)
  from path_routes_all_last_port [OF this(1,2) get this(3) vs] vs show ?thesis
    by (auto simp: route_validation_def ex_service_def numeral_2_eq_2)
qed


section \<open>No cluster asks for the published assignments\<close>

lemma ClusterLoadAssignmentName_slash: "CHR ''/'' \<in> set (ClusterLoadAssignmentName ns n p)"
  by (simp add: ClusterLoadAssignmentName_def Let_def numeral_2_eq_2)

lemma cluster_for_port_eds:
  assumes "cluster_for_port c i ng s p = Ok r" and "r_Spec r = ClusterSpec cl"
  shows "cl_EdsClusterConfig cl =
    (if svc_ExternalName s = [] then Some (edsconfig ''envoyingresscontroller'' s p) else None)"
  using assms
  by (auto simp: cluster_for_port_def Let_def bind_iffs set_protocol_def set_discovery_def clusterDefaults_def)

text \<open>
  C34: The name under which a cluster asks its endpoints of the control plane differs from the
  name of every endpoint assignment the controller publishes, of any ingress, as long as service
  names and namespaces have no slash: a cluster asks for \<open>namespace/name\<close>, an assignment is
  called \<open>namespace-name\<close>.
\<close>

theorem eds_names_never_match:
  assumes "getClustersForIngress c i = Ok cs" and "r \<in> set cs" and "r_Spec r = ClusterSpec cl"
    and "cl_EdsClusterConfig cl = Some e"
    and "getEndpointsForIngress c' j = Ok es" and "q \<in> set es" and "r_Spec q = EndpointSpec a"
    and "\<forall>s\<in>set (items (c_service c')). valid_meta (svc_Meta s)"
  shows "eds_ServiceName e \<noteq> cla_ClusterName a"
proof -
  obtain s p where "cluster_for_port c i (fset_of_list (nodegroup_annotation i)) s p = Ok r"
    by (rule getClusters_cases [OF assms(1,2)])
  from cluster_for_port_eds [OF this assms(3)] assms(4)
  have slash: "CHR ''/'' \<in> set (eds_ServiceName e)"
    by (auto simp: edsconfig_def ClusterLoadAssignmentName_slash split: if_splits)
  from assms(5,6) obtain ss where ss: "getServicesForIngress c' j = Ok ss"
      "q \<in> set (endpoint_services c' j (fset_of_list (nodegroup_annotation j)) ss None)"
    by (auto simp: getEndpointsForIngress_def bind_iffs getNodeGroup_Ok Let_def split: if_splits)
  from endpoint_services_cases [OF ss(2)] obtain t lbs where
    t: "t \<in> set ss" "q = endpoint_resource j (fset_of_list (nodegroup_annotation j)) t lbs" by auto
  from getServices_Ok(1) [OF ss(1) t(1)] assms(8) have "valid_meta (svc_Meta t)" by blast
  with t(2) assms(7) have "CHR ''/'' \<notin> set (cla_ClusterName a)"
    by (auto simp: endpoint_resource_def valid_meta_def no_slash_def)
  with slash show ?thesis by metis
qed

lemma ex_clusters:
  "\<exists>cs r cl. getClustersForIngress ex_caches ex_ingress = Ok cs \<and> r \<in> set cs \<and> r_Spec r = ClusterSpec cl \<and>
     cl_EdsClusterConfig cl = Some (edsconfig ''envoyingresscontroller'' ex_service
       \<lparr>sp_Name = ''http'', sp_Protocol = ''TCP'', sp_Port = 80\<rparr>)"
proof -
  let ?p = "\<lparr>sp_Name = ''http'', sp_Protocol = ''TCP'', sp_Port = 80\<rparr>"
  have "nodegroup_annotation ex_ingress \<noteq> []" "ex_service \<in> set [ex_service]" "?p \<in> set (svc_Ports ex_service)"
    by (simp_all add: ex_nodegroup ex_service_def)
  from getClusters_complete [OF ex_complete this(1) ex_services this(2,3)] obtain cs r where
    cs: "getClustersForIngress ex_caches ex_ingress = Ok cs" "r \<in> set cs"
      "cluster_for_port ex_caches ex_ingress (fset_of_list (nodegroup_annotation ex_ingress)) ex_service ?p = Ok r"
    by blast
  obtain cl where cl: "r_Spec r = ClusterSpec cl" by (rule cluster_for_port_Ok [OF cs(3)]) simp
  from cluster_for_port_eds [OF cs(3) cl] cs cl show ?thesis by (auto simp: ex_service_def)
qed

theorem eds_names_never_match_witness:
  "\<exists>cs r cl e es q a. getClustersForIngress ex_caches ex_ingress = Ok cs \<and> r \<in> set cs \<and>
    r_Spec r = ClusterSpec cl \<and> cl_EdsClusterConfig cl = Some e \<and>
    getEndpointsForIngress ex_caches ex_ingress = Ok es \<and> q \<in> set es \<and> r_Spec q = EndpointSpec a \<and>
    eds_ServiceName e \<noteq> cla_ClusterName a"
proof -
  obtain cs r cl e where cs: "getClustersForIngress ex_caches ex_ingress = Ok cs" "r \<in> set cs"
      "r_Spec r = ClusterSpec cl" "cl_EdsClusterConfig cl = Some e"
    using ex_clusters by blast
  obtain lbs where es: "getEndpointsForIngress ex_caches ex_ingress =
      Ok [endpoint_resource ex_ingress {|''g''|} ex_service lbs]"
    using ex_get_endpoints_result by blast
  obtain a where a: "r_Spec (endpoint_resource ex_ingress {|''g''|} ex_service lbs) = EndpointSpec a"
    by (simp add: endpoint_resource_def)
  have "\<forall>s\<in>set (items (c_service ex_caches)). valid_meta (svc_Meta s)"
    using ex_wf by (simp add: wf_lister_def)
  from eds_names_never_match [OF cs es _ a this] cs es a show ?thesis by fastforce
qed


section \<open>Listeners\<close>

definition is_tls :: "Listener \<Rightarrow> bool" where
  "is_tls l \<longleftrightarrow> list_ex (\<lambda>fc. fc_ServerNames fc \<noteq> None) (ln_FilterChains l)"

lemma listener_name_inject:
  assumes "listener_name ENVOY_HTTPS_LISTENER s = listener_name ENVOY_HTTPS_LISTENER t"
  shows "sbp_Number (isb_Port s) = sbp_Number (isb_Port t)"
proof -
  have "length (strings_Join ''_'' [ENVOY_HTTPS_LISTENER, DEFAULT_HTTP_LISTENER_ADDRESS, strconv_Itoa (sint p)]) < 60"
    for p :: int32
    using port_length [of p] by (simp add: strings_Join_length ENVOY_HTTPS_LISTENER_def DEFAULT_HTTP_LISTENER_ADDRESS_def)
  with assms have "sint (sbp_Number (isb_Port s)) = sint (sbp_Number (isb_Port t))"
    by (simp add: listener_name_def Hashname_short strconv_Itoa_inject)
  then show ?thesis by (rule signed_word_eqI)
qed

lemma listener_cases:
  assumes "getListenersForIngress c i = Ok rs" and "r \<in> set rs" and "r_Spec r = ListenerSpec l"
  obtains s where "sa_PortValue (ln_Address l) = sbp_Number (isb_Port s)"
    and "is_tls l \<Longrightarrow> r_Name r = listener_name ENVOY_HTTPS_LISTENER s \<and> ln_Name l = ENVOY_HTTPS_LISTENER"
    and "\<not> is_tls l \<Longrightarrow> r_Name r = ln_Name l \<and> ln_Name l = listener_name ENVOY_HTTP_LISTENER s"
    and "isb_Name s \<in> service_names i"
    and "sa_Address (ln_Address l) = DEFAULT_HTTP_LISTENER_ADDRESS"
    and "\<exists>fc. ln_FilterChains l = [fc] \<and> fc_Filters fc = [http_cm]"
proof -
  obtain rule lst where rule: "rule \<in> set (is_Rules (ing_Spec i))"
      "rule_listeners c i (fset_of_list (nodegroup_annotation i)) rule = Ok lst" "r \<in> set lst"
    by (rule getListeners_cases [OF assms(1,2)])
  have names: "isb_Name s \<in> service_names i"
    if "ir_HTTP rule = Some paths" "path \<in> set paths" "ib_Service (hp_Backend path) = Some s" for paths path s
    using rule(1) that by (force simp: service_names_def backend_names_def)
  from rule_listeners_cases [OF rule(2,3)] assms(3) that names show thesis
    by (auto simp: listener_resource_def new_Listener_def SocketAddress_port SocketAddress_address is_tls_def
        FilterChainTLS_def dest!: http_listeners_cases https_listeners_cases)
qed


lemma ex_listeners:
  "getListenersForIngress ex_caches ex_ingress = Ok (http_listeners ex_ingress {|''g''|} [ex_path])"
  by (simp add: getListenersForIngress_def getNodeGroupForIngress_def ex_nodegroup)
     (simp add: ex_ingress_def rule_listeners_def rule_paths_def find_tls_def http_listeners_def ex_path_def)


text \<open>
  The TLS listeners of an ingress all have the same Envoy name whatever port they open,
  though they are stored and dispatched as different resources: the code passes the constant
  \<open>ENVOY_HTTPS_LISTENER\<close> to \<open>Listener\<close> instead of the listener name it has just computed.
\<close>

lemma https_listeners_share_their_name:
  assumes "getListenersForIngress c i = Ok rs" and "r \<in> set rs" and "r' \<in> set rs"
    and "r_Spec r = ListenerSpec l" and "r_Spec r' = ListenerSpec l'" and "is_tls l" and "is_tls l'"
    and "sa_PortValue (ln_Address l) \<noteq> sa_PortValue (ln_Address l')"
  shows "ln_Name l = ln_Name l' \<and> r_Name r \<noteq> r_Name r'"
proof -
  obtain s where s: "sa_PortValue (ln_Address l) = sbp_Number (isb_Port s)"
      "r_Name r = listener_name ENVOY_HTTPS_LISTENER s \<and> ln_Name l = ENVOY_HTTPS_LISTENER"
    by (rule listener_cases [OF assms(1,2,4)]) (use assms(6) in blast)
  obtain t where t: "sa_PortValue (ln_Address l') = sbp_Number (isb_Port t)"
      "r_Name r' = listener_name ENVOY_HTTPS_LISTENER t \<and> ln_Name l' = ENVOY_HTTPS_LISTENER"
    by (rule listener_cases [OF assms(1,3,5)]) (use assms(7) in blast)
  from s t assms(8) show ?thesis by (auto dest: listener_name_inject)
qed


text \<open>The ingress with TLS for its host, and two paths to two ports.\<close>

definition ex_secret :: Secret where
  "ex_secret =
     \<lparr>sec_Meta = ex_meta ''s'' fmempty, sec_Type = ''kubernetes.io/tls'',
      sec_Data = fmap_of_list [(TLSCertKey, ''crt''), (TLSPrivateKeyKey, ''key'')], sec_StringData = fmempty\<rparr>"

definition ex_tls_path :: "int32 \<Rightarrow> HTTPIngressPath" where
  "ex_tls_path n =
     \<lparr>hp_Path = ''/'', hp_PathType = Some PathTypePrefix,
      hp_Backend = \<lparr>ib_Service = Some \<lparr>isb_Name = ''web'', isb_Port = \<lparr>sbp_Name = [], sbp_Number = n\<rparr>\<rparr>\<rparr>\<rparr>"

definition ex_tls_ingress :: Ingress where
  "ex_tls_ingress = ex_ingress\<lparr>ing_Spec :=
     \<lparr>is_IngressClassName = None, is_DefaultBackend = None,
      is_TLS = [\<lparr>tls_Hosts = [''a.com''], tls_SecretName = ''s''\<rparr>],
      is_Rules = [\<lparr>ir_Host = ''a.com'', ir_HTTP = Some [ex_tls_path 80, ex_tls_path 81]\<rparr>]\<rparr>\<rparr>"

definition ex_tls_caches :: caches where
  "ex_tls_caches = ex_caches\<lparr>c_secret := \<lparr>items = [ex_secret], fault = None\<rparr>\<rparr>"

lemma ex_tls_nodegroup: "nodegroup_annotation ex_tls_ingress = [''g'']"
  using ex_nodegroup by (simp add: nodegroup_annotation_def ex_tls_ingress_def)

lemma ex_tls_ns: "ing_Namespace ex_tls_ingress = ''ns''"
  by (simp add: ex_tls_ingress_def ex_ingress_def ex_meta_def)

lemma ex_get_secret: "lister_Get sec_Meta (c_secret ex_tls_caches) ''ns'' ''s'' = Ok ex_secret"
  by (simp add: lister_Get_def ex_tls_caches_def ex_caches_def ex_secret_def ex_meta_def MetaNamespaceKeyFunc_def)

lemma ex_tls_listeners:
  "\<exists>rs fc. getListenersForIngress ex_tls_caches ex_tls_ingress = Ok rs \<and> fc_ServerNames fc = Some [''a.com''] \<and>
     set (https_listeners ex_tls_ingress {|''g''|} fc [ex_tls_path 80, ex_tls_path 81]) \<subseteq> set rs"
proof -
  let ?rule = "\<lparr>ir_Host = ''a.com'', ir_HTTP = Some [ex_tls_path 80, ex_tls_path 81]\<rparr>"
  let ?fc = "FilterChainTLS ''a.com'' (Some (DownstreamTLSContext ex_secret TLSv1_0
     (Some \<lparr>pvc_CACertificate = None, pvc_SubjectName = []\<rparr>) (ProtoNamesForVersions (Some [HTTPVersionAuto])))) [http_cm]"
  let ?rs = "http_listeners ex_tls_ingress {|''g''|} [ex_tls_path 80, ex_tls_path 81] @
     https_listeners ex_tls_ingress {|''g''|} ?fc [ex_tls_path 80, ex_tls_path 81]"
  have "find_tls ex_tls_ingress ''a.com'' = Some \<lparr>tls_Hosts = [''a.com''], tls_SecretName = ''s''\<rparr>"
    by (simp add: find_tls_def ex_tls_ingress_def)
  then have "rule_listeners ex_tls_caches ex_tls_ingress {|''g''|} ?rule = Ok ?rs"
    by (simp add: rule_listeners_def rule_paths_def ex_tls_ns ex_get_secret Let_def)
  moreover have "is_Rules (ing_Spec ex_tls_ingress) = [?rule]" by (simp add: ex_tls_ingress_def)
  moreover have "http_listeners ex_tls_ingress {|''g''|} [ex_tls_path 80, ex_tls_path 81] \<noteq> []"
    by (simp add: http_listeners_def ex_tls_path_def)
  ultimately have "getListenersForIngress ex_tls_caches ex_tls_ingress = Ok ?rs"
    by (simp add: getListenersForIngress_def getNodeGroupForIngress_def ex_tls_nodegroup)
  then show ?thesis by (intro exI [of _ ?rs] exI [of _ ?fc]) (simp add: FilterChainTLS_def)
qed

lemma https_listeners_example:
  "\<exists>rs r r' l l'. getListenersForIngress ex_tls_caches ex_tls_ingress = Ok rs \<and> r \<in> set rs \<and> r' \<in> set rs \<and>
    r_Spec r = ListenerSpec l \<and> r_Spec r' = ListenerSpec l' \<and> ln_Name l = ln_Name l' \<and> r_Name r \<noteq> r_Name r'"
proof -
  obtain rs fc where rs: "getListenersForIngress ex_tls_caches ex_tls_ingress = Ok rs"
      "fc_ServerNames fc = Some [''a.com'']"
      "set (https_listeners ex_tls_ingress {|''g''|} fc [ex_tls_path 80, ex_tls_path 81]) \<subseteq> set rs"
    using ex_tls_listeners by blast
  let ?l = "\<lambda>p. (new_Listener ENVOY_HTTPS_LISTENER DEFAULT_HTTP_LISTENER_ADDRESS (sint (p :: int32)) [] [])
    \<lparr>ln_FilterChains := [fc]\<rparr>"
  let ?r = "\<lambda>p. listener_resource ex_tls_ingress {|''g''|} (listener_name ENVOY_HTTPS_LISTENER
    \<lparr>isb_Name = ''web'', isb_Port = \<lparr>sbp_Name = [], sbp_Number = p\<rparr>\<rparr>) (?l p)"
  have mem: "?r 80 \<in> set rs" "?r 81 \<in> set rs"
    using rs(3) by (auto simp: https_listeners_def ex_tls_path_def new_Listener_def Let_def)
  have spec: "r_Spec (?r p) = ListenerSpec (?l p)" for p by (simp add: listener_resource_def)
  have tls: "is_tls (?l p)" for p by (simp add: is_tls_def rs(2))
  have "sa_PortValue (ln_Address (?l 80)) \<noteq> sa_PortValue (ln_Address (?l 81))"
    by (simp add: new_Listener_def new_SocketAddress_def)
  from https_listeners_share_their_name [OF rs(1) mem spec spec tls tls this] rs(1) mem spec show ?thesis by blast
qed


section \<open>A plain service behind a TLS host\<close>

definition route_clusters :: "RouteConfiguration \<Rightarrow> string set" where
  "route_clusters rc = (\<Union>vh\<in>set (rc_VirtualHosts rc). \<Union>rt\<in>set (vh_Routes vh). set_option (rt_Cluster rt))"

definition cluster_names :: "Resource list \<Rightarrow> string set" where
  "cluster_names rs = {cl_Name cl | r cl. r \<in> set rs \<and> r_Spec r = ClusterSpec cl}"

lemma digests_differ: "fmt_hex (take 5 (sha1_Sum ''sa.com'')) \<noteq> fmt_hex (take 5 (sha1_Sum []))"
  by code_simp

lemma digests_no_underscore:
  "no_underscore (fmt_hex (take 5 (sha1_Sum ''sa.com'')))" "no_underscore (fmt_hex (take 5 (sha1_Sum [])))"
  by code_simp+

text \<open>The names the example's service gets with and without a validation context.\<close>

abbreviation ex_pvc :: "PeerValidationContext option" where
  "ex_pvc \<equiv> Some \<lparr>pvc_CACertificate = Some ex_secret, pvc_SubjectName = ''a.com''\<rparr>"

lemma ex_names_differ:
  assumes "Clustername ex_service p [] None ex_pvc = Ok n" and "Clustername ex_service q [] None None = Ok n'"
  shows "n \<noteq> n'"
proof -
  let ?parts = "\<lambda>p h. [''ns'', ''web'', strconv_Itoa (sint (sp_Port p)), fmt_hex (take 5 (sha1_Sum h))]"
  have "n = Hashname 60 (?parts p ''sa.com'')" "n' = Hashname 60 (?parts q [])"
    using assms
    by (simp_all add: Clustername_def validation_buf_def health_buf_def ex_service_def ex_secret_def ex_meta_def)
  moreover have "Hashname 60 (?parts p ''sa.com'') \<noteq> Hashname 60 (?parts q [])"
    using port_length [of "sp_Port p"] port_length [of "sp_Port q"] digests_differ
    by (subst Hashname_inject)
      (simp_all add: strings_Join_length strconv_Itoa_no_underscore digests_no_underscore, simp_all add: no_underscore_def)
  ultimately show ?thesis by simp
qed

lemma ex_tls_complete: "complete_ingress ex_tls_ingress"
  by (simp add: complete_ingress_def complete_rule_def complete_path_def ex_tls_ingress_def ex_tls_path_def)

lemma ex_tls_get_service: "lister_Get svc_Meta (c_service ex_tls_caches) ''ns'' ''web'' = Ok ex_service"
  using ex_get_service by (simp add: ex_tls_caches_def)

lemma ex_plain: "health_policy ex_service = None" "svc_protocol ex_service = []"
  by (simp_all add: health_policy_def ex_service_def ex_meta_def)

lemma ex_tls_services: "getServicesForIngress ex_tls_caches ex_tls_ingress = Ok [ex_service]"
  by (simp add: getServicesForIngress_def ex_defs ex_tls_ingress_def ex_tls_caches_def ex_tls_path_def lister_List_def
      ingress_uses_def default_backend_is_def rule_paths_def path_names_def path_service_def)

text \<open>Every route of the example names the cluster with the validation context.\<close>

lemma ex_tls_route_names:
  assumes "getRouteForIngress ex_tls_caches ex_tls_ingress = Ok r" and "r_Spec r = RouteSpec rc"
    and "n \<in> route_clusters rc"
  shows "\<exists>p. Clustername ex_service p [] None ex_pvc = Ok n"
proof -
  let ?m = "host2Secret (is_TLS (ing_Spec ex_tls_ingress)) fmempty"
  have v: "route_validation ex_tls_caches ex_tls_ingress ?m ''a.com'' = ex_pvc"
    using ex_get_secret ex_tls_ns by (simp add: route_validation_def ex_tls_ingress_def)
  from assms(1,2) have vs: "route_rules ex_tls_caches ex_tls_ingress ?m (is_Rules (ing_Spec ex_tls_ingress)) = Ok (rc_VirtualHosts rc)"
    by (auto simp: getRouteForIngress_def bind_iffs new_RouteConfiguration_def split: if_splits)
  from assms(3) obtain vh rt where rt: "vh \<in> set (rc_VirtualHosts rc)" "rt \<in> set (vh_Routes vh)" "rt_Cluster rt = Some n"
    by (auto simp: route_clusters_def)
  have rules: "is_Rules (ing_Spec ex_tls_ingress) = [\<lparr>ir_Host = ''a.com'', ir_HTTP = Some [ex_tls_path 80, ex_tls_path 81]\<rparr>]"
    by (simp add: ex_tls_ingress_def)
  from route_rules_routes [OF vs rt(1,2)] obtain s path p where
    "path \<in> {ex_tls_path 80, ex_tls_path 81}" "\<exists>b. ib_Service (hp_Backend path) = Some b \<and>
      lister_Get svc_Meta (c_service ex_tls_caches) ''ns'' (isb_Name b) = Ok s"
    "port_route s ex_pvc path p rt"
    unfolding rules by (auto simp: path_route_def v ex_tls_ns)
  then have "Clustername ex_service p [] None ex_pvc = Ok n"
    using rt(3) ex_tls_get_service ex_plain by (auto simp: ex_tls_path_def port_route_def)
  then show ?thesis by blast
qed

lemma ex_tls_cluster_names:
  assumes "getClustersForIngress ex_tls_caches ex_tls_ingress = Ok cs" and "n \<in> cluster_names cs"
  shows "\<exists>p. Clustername ex_service p [] None None = Ok n"
proof -
  from assms(2) obtain r cl where r: "r \<in> set cs" "r_Spec r = ClusterSpec cl" "n = cl_Name cl"
    by (auto simp: cluster_names_def)
  obtain p where "cluster_for_port ex_tls_caches ex_tls_ingress (fset_of_list (nodegroup_annotation ex_tls_ingress)) ex_service p = Ok r"
    by (rule getClusters_cases [OF assms(1) r(1)]) (use ex_tls_services in auto)
  then show ?thesis
    by (rule cluster_for_port_Ok) (use r in \<open>auto simp: ex_plain upstream_validation_def\<close>)
qed

lemma ex_tls_route:
  "\<exists>r rc. getRouteForIngress ex_tls_caches ex_tls_ingress = Ok r \<and> r_Spec r = RouteSpec rc \<and>
     route_clusters rc \<noteq> {}"
proof -
  let ?b = "\<lambda>n. \<lparr>isb_Name = ''web'', isb_Port = \<lparr>sbp_Name = [], sbp_Number = n\<rparr>\<rparr>"
  have ps: "path_service (ex_tls_path n) = Ok (?b n)" "hp_PathType (ex_tls_path n) = Some PathTypePrefix" for n
    by (simp_all add: path_service_def ex_tls_path_def)
  have ports: "svc_Ports ex_service = [\<lparr>sp_Name = ''http'', sp_Protocol = ''TCP'', sp_Port = 80\<rparr>,
      \<lparr>sp_Name = ''alt'', sp_Protocol = ''TCP'', sp_Port = 81\<rparr>]" by (simp add: ex_service_def)
  have spec: "is_TLS (ing_Spec ex_tls_ingress) = [\<lparr>tls_Hosts = [''a.com''], tls_SecretName = ''s''\<rparr>]"
    "is_Rules (ing_Spec ex_tls_ingress) = [\<lparr>ir_Host = ''a.com'', ir_HTTP = Some [ex_tls_path 80, ex_tls_path 81]\<rparr>]"
    by (simp_all add: ex_tls_ingress_def)
  show ?thesis
    by (simp add: getRouteForIngress_def getNodeGroupForIngress_def ex_tls_nodegroup spec rule_paths_def Let_def
        route_validation_def ps ex_tls_ns ex_tls_get_service ex_get_secret ports Clustername_def validation_buf_def
        route_match_def new_RouteConfiguration_def route_clusters_def)
qed

lemma ex_tls_clusters:
  "\<exists>cs. getClustersForIngress ex_tls_caches ex_tls_ingress = Ok cs \<and> cluster_names cs \<noteq> {}"
proof -
  let ?p = "\<lparr>sp_Name = ''http'', sp_Protocol = ''TCP'', sp_Port = 80\<rparr>"
  have "nodegroup_annotation ex_tls_ingress \<noteq> []" "ex_service \<in> set [ex_service]" "?p \<in> set (svc_Ports ex_service)"
    by (simp_all add: ex_tls_nodegroup ex_service_def)
  from getClusters_complete [OF ex_tls_complete this(1) ex_tls_services this(2,3)] obtain cs r where
    cs: "getClustersForIngress ex_tls_caches ex_tls_ingress = Ok cs" "r \<in> set cs"
      "cluster_for_port ex_tls_caches ex_tls_ingress (fset_of_list (nodegroup_annotation ex_tls_ingress)) ex_service ?p = Ok r"
    by blast
  obtain cl where cl: "r_Spec r = ClusterSpec cl" by (rule cluster_for_port_Ok [OF cs(3)]) simp
  with cs show ?thesis by (force simp: cluster_names_def)
qed

text \<open>
  There is an ingress with TLS for its host and a service that speaks plain HTTP for which
  every cluster the routes name is missing among the generated clusters: the route generator
  hashes the TLS secret into the cluster name whatever the service's protocol is, the cluster
  generator only for the protocols \<open>tls\<close> and \<open>h2\<close>.
\<close>

lemma plain_service_behind_tls_dangles:
  "\<exists>r rc cs. getRouteForIngress ex_tls_caches ex_tls_ingress = Ok r \<and> r_Spec r = RouteSpec rc \<and>
    getClustersForIngress ex_tls_caches ex_tls_ingress = Ok cs \<and> cluster_names cs \<noteq> {} \<and>
    route_clusters rc \<noteq> {} \<and> route_clusters rc \<inter> cluster_names cs = {}"
proof -
  obtain r rc where r: "getRouteForIngress ex_tls_caches ex_tls_ingress = Ok r" "r_Spec r = RouteSpec rc"
      "route_clusters rc \<noteq> {}"
    using ex_tls_route by blast
  obtain cs where cs: "getClustersForIngress ex_tls_caches ex_tls_ingress = Ok cs" "cluster_names cs \<noteq> {}"
    using ex_tls_clusters by blast
  have "route_clusters rc \<inter> cluster_names cs = {}"
    using ex_tls_route_names [OF r(1,2)] ex_tls_cluster_names [OF cs(1)] ex_names_differ by blast
  with r cs show ?thesis by blast
qed

end
