(* ===== verification/Controller.thy ===== *)
theory Controller
  imports Resource_Gen Work_Queue Beehive_Message
begin

text \<open>
  The state of the Envoy ingress controller and its handlers (\<open>envoyingresscontroller.go\<close>): the
  informer handlers, the dispatch of a resource to the nodes, the synchronisation of one
  resource and of one ingress, and the initialisation.

  The lock of the resource store is part of the state, because two paths return while they hold
  it. The other locks (of the two ingress maps, of a single resource, of the node groups) are
  always released before the function that took them returns, so a handler that runs in one
  step never sees them taken.
\<close>

section \<open>State\<close>

record eic =
  e_lc :: LocationCache
  e_resourceStore :: "(string, Resource) fmap"
  e_resourceStoreLock :: rwlock
  e_ingressToResourceNameStore :: "(string, string fset) fmap"
  e_ingressNodeGroupStore :: "(string, string fset) fmap"
  e_queue :: "string workqueue"
  e_resourceQueue :: "string workqueue"
  e_outbox :: outbox
  e_sent :: nat

definition NewEnvoyIngressController :: eic where
  "NewEnvoyIngressController =
     \<lparr>e_lc = lc_new, e_resourceStore = fmempty, e_resourceStoreLock = lk_free,
      e_ingressToResourceNameStore = fmempty, e_ingressNodeGroupStore = fmempty,
      e_queue = wq_new, e_resourceQueue = wq_new, e_outbox = [], e_sent = 0\<rparr>"

text \<open>
  What the controller gets from outside: the protobuf encoding of a spec, the modules its messages
  go to, the uuid and the time of its n-th message, and the order of a \<open>range\<close> over a map.
\<close>

record params =
  p_marshal :: "spec \<Rightarrow> string result"
  p_messageLayer :: ContextMessageLayer
  p_uuid :: "nat \<Rightarrow> string"
  p_now :: "nat \<Rightarrow> int"
  p_ord :: "string order"

text \<open>
  A handler finishes with a new state and what it returned, crashes the process, or waits for
  ever for the lock of the resource store.
\<close>

datatype 'a outcome = Finished eic 'a | Crashed panic | Blocked eic


section \<open>Dispatch of a resource\<close>

definition resource_type :: "spec \<Rightarrow> string option" where
  "resource_type s =
     (case s of
        SecretSpec _ \<Rightarrow> Some ''Secret''
      | EndpointSpec _ \<Rightarrow> Some ''Endpoint''
      | ClusterSpec _ \<Rightarrow> Some ''Cluster''
      | RouteSpec _ \<Rightarrow> Some ''Route''
      | ListenerSpec _ \<Rightarrow> Some ''Listener''
      | NilSpec \<Rightarrow> None)"

definition GROUPRESOURCE :: string where "GROUPRESOURCE = ''envoy''"

definition dispatch_message :: "string \<Rightarrow> int \<Rightarrow> Resource \<Rightarrow> string \<Rightarrow> string \<Rightarrow> string \<Rightarrow> Message" where
  "dispatch_message uuid now envoyResource opr resource resourcepb =
     FillBody (StringContent (b64_EncodeToString resourcepb))
       (BuildRouter ENVOYINGRESSCONTROLLERNAME GROUPRESOURCE resource opr
         (SetResourceVersion (r_ResourceVersion envoyResource) (NewMessage uuid now [])))"

definition dispatchResource :: "params \<Rightarrow> Resource \<Rightarrow> string \<Rightarrow> string \<Rightarrow> eic \<Rightarrow> eic result" where
  "dispatchResource P envoyResource opr node e =
     (case resource_type (r_Spec envoyResource) of
        None \<Rightarrow> Err ErrUnknownResourceType
      | Some resourceType \<Rightarrow>
          bind (BuildResource node (r_Namespace envoyResource) resourceType (''envoy'' @ r_Name envoyResource))
            (\<lambda>resource.
          bind (p_marshal P (r_Spec envoyResource)) (\<lambda>resourcepb.
            (let msg = dispatch_message (p_uuid P (e_sent e)) (p_now P (e_sent e)) envoyResource opr resource resourcepb
             in Ok (e\<lparr>e_outbox := cml_Send (p_messageLayer P) msg (e_outbox e), e_sent := Suc (e_sent e)\<rparr>)))))"

text \<open>The loop over the nodes: an error is remembered and the next node is tried.\<close>

fun dispatch_nodes ::
  "params \<Rightarrow> Resource \<Rightarrow> string \<Rightarrow> string list \<Rightarrow> eic \<Rightarrow> error option \<Rightarrow> (eic \<times> error option) result" where
  "dispatch_nodes P r opr [] e err = Ok (e, err)"
| "dispatch_nodes P r opr (node # nodes) e err =
     (case dispatchResource P r opr node e of
        Ok e' \<Rightarrow> dispatch_nodes P r opr nodes e' err
      | Err er \<Rightarrow> dispatch_nodes P r opr nodes e (Some er)
      | Panic p \<Rightarrow> Panic p)"

definition nodesToSend :: "params \<Rightarrow> LocationCache \<Rightarrow> string fset \<Rightarrow> string fset" where
  "nodesToSend P lc nodegroup =
     fset_of_list (filter (\<lambda>node. GetNodeStatus lc node = (''True'', True))
       (concat (map (\<lambda>v. get_list (Group2node lc) v) (p_ord P nodegroup))))"

text \<open>
  \<open>syncEnvoyResource\<close> returns an error without releasing the read lock when the resource is gone.
\<close>

definition syncEnvoyResource :: "params \<Rightarrow> string \<Rightarrow> eic \<Rightarrow> (error option) outcome" where
  "syncEnvoyResource P resourceName e =
     (case lk_RLock (e_resourceStoreLock e) of
        None \<Rightarrow> Blocked e
      | Some lk \<Rightarrow>
          (case fmlookup (e_resourceStore e) resourceName of
             None \<Rightarrow> Finished (e\<lparr>e_resourceStoreLock := lk\<rparr>) (Some ErrNoSuchResource)
           | Some envoyResource \<Rightarrow>
               (let insert = (r_IngressRef envoyResource \<noteq> {||});
                    opr = (if insert then InsertOperation else DeleteOperation);
                    store = (if insert then e_resourceStore e else fmdrop resourceName (e_resourceStore e));
                    e' = e\<lparr>e_resourceStore := store, e_resourceStoreLock := lk_RUnlock lk\<rparr>
                in case dispatch_nodes P envoyResource opr
                     (p_ord P (nodesToSend P (e_lc e) (r_NodeGroup envoyResource))) e' None of
                   Ok (e'', err) \<Rightarrow> Finished e'' err
                 | Err er \<Rightarrow> Finished e' (Some er)
                 | Panic p \<Rightarrow> Crashed p)))"

text \<open>The resources a node gets when it becomes ready; errors are dropped.\<close>

fun dispatch_all :: "params \<Rightarrow> string \<Rightarrow> Resource list \<Rightarrow> eic \<Rightarrow> eic result" where
  "dispatch_all P node [] e = Ok e"
| "dispatch_all P node (r # rs) e =
     (case dispatchResource P r InsertOperation node e of
        Ok e' \<Rightarrow> dispatch_all P node rs e'
      | Err _ \<Rightarrow> dispatch_all P node rs e
      | Panic p \<Rightarrow> Panic p)"

definition stored_resources :: "params \<Rightarrow> eic \<Rightarrow> Resource list" where
  "stored_resources P e =
     map (\<lambda>k. the (fmlookup (e_resourceStore e) k)) (p_ord P (fmdom (e_resourceStore e)))"

definition syncAllResourcesToEdgeNodes :: "params \<Rightarrow> Node \<Rightarrow> eic \<Rightarrow> eic result" where
  "syncAllResourcesToEdgeNodes P node e =
     (case node_label node of
        None \<Rightarrow> Ok e
      | Some _ \<Rightarrow> dispatch_all P (om_Name (node_Meta node)) (stored_resources P e) e)"


section \<open>Queues and the simple informer handlers\<close>

definition enqueue :: "Ingress \<Rightarrow> eic \<Rightarrow> eic" where
  "enqueue ingress e =
     (if \<not> isEnvoyIngress ingress then e else e\<lparr>e_queue := wq_Add (ing_key ingress) (e_queue e)\<rparr>)"

definition enqueueEnvoyResource :: "Resource \<Rightarrow> eic \<Rightarrow> eic" where
  "enqueueEnvoyResource resource e =
     e\<lparr>e_resourceQueue := wq_Add (EnvoyResourceKeyFunc resource) (e_resourceQueue e)\<rparr>"

definition enqueueEnvoyIngressAfter :: "Ingress \<Rightarrow> int \<Rightarrow> eic \<Rightarrow> eic" where
  "enqueueEnvoyIngressAfter ingress after e =
     (if \<not> isEnvoyIngress ingress then e
      else e\<lparr>e_queue := wq_AddAfter (ing_key ingress) after (e_queue e)\<rparr>)"

definition addIngress :: "Ingress \<Rightarrow> eic \<Rightarrow> eic" where
  "addIngress ingress e =
     (if \<not> isEnvoyIngress ingress then e
      else
        (let key = ing_key ingress;
             groups = nodegroup_annotation ingress;
             store = (if groups = [] then e_ingressNodeGroupStore e
                      else fmupd key (get_set (e_ingressNodeGroupStore e) key |\<union>| fset_of_list groups)
                             (e_ingressNodeGroupStore e))
         in enqueue ingress (e\<lparr>e_ingressNodeGroupStore := store\<rparr>)))"

text \<open>What an informer hands to a delete handler: the object, or a tombstone with or without it.\<close>

datatype 'a deleted = DeletedObj 'a | Tombstone 'a | TombstoneOther | OtherObj

fun deleted_object :: "'a deleted \<Rightarrow> 'a option" where
  "deleted_object (DeletedObj x) = Some x"
| "deleted_object (Tombstone x) = Some x"
| "deleted_object TombstoneOther = None"
| "deleted_object OtherObj = None"

definition deleteIngress :: "Ingress deleted \<Rightarrow> eic \<Rightarrow> eic" where
  "deleteIngress obj e =
     (case deleted_object obj of
        None \<Rightarrow> e
      | Some ingress \<Rightarrow> e\<lparr>e_queue := wq_Add (ing_key ingress) (e_queue e)\<rparr>)"

definition updateIngress :: "Ingress \<Rightarrow> Ingress \<Rightarrow> eic \<Rightarrow> eic" where
  "updateIngress oldIngress curIngress e =
     (let e' = (if om_UID (ing_Meta curIngress) \<noteq> om_UID (ing_Meta oldIngress) \<and> isEnvoyIngress oldIngress
                then deleteIngress (Tombstone oldIngress) e else e)
      in if isEnvoyIngress curIngress then enqueue curIngress e' else e')"

definition addV1beta1Ingress :: "V1beta1Ingress \<Rightarrow> eic \<Rightarrow> eic" where
  "addV1beta1Ingress obj e = addIngress (toV1Ingress obj) e"

definition updateV1beta1Ingress :: "V1beta1Ingress \<Rightarrow> V1beta1Ingress \<Rightarrow> eic \<Rightarrow> eic" where
  "updateV1beta1Ingress old cur e = updateIngress (toV1Ingress cur) (toV1Ingress old) e"

text \<open>The v1beta1 delete handler asserts that it gets an ingress.\<close>

definition deleteV1beta1Ingress :: "V1beta1Ingress deleted \<Rightarrow> eic \<Rightarrow> eic result" where
  "deleteV1beta1Ingress obj e =
     (case obj of
        DeletedObj b \<Rightarrow> Ok (deleteIngress (DeletedObj (toV1Ingress b)) e)
      | _ \<Rightarrow> Panic FailedAssertion)"

definition enqueue_all :: "Ingress list \<Rightarrow> eic \<Rightarrow> eic" where
  "enqueue_all ingresses e = fold enqueue ingresses e"

definition addService :: "caches \<Rightarrow> Service \<Rightarrow> eic \<Rightarrow> eic result" where
  "addService c service e = bind (getIngressesForService c service) (\<lambda>ingresses. Ok (enqueue_all ingresses e))"

definition deleteService :: "caches \<Rightarrow> Service deleted \<Rightarrow> eic \<Rightarrow> eic result" where
  "deleteService c obj e =
     (case deleted_object obj of
        None \<Rightarrow> Ok e
      | Some service \<Rightarrow> bind (getIngressesForService c service) (\<lambda>ingresses. Ok (enqueue_all ingresses e)))"

definition updateService :: "caches \<Rightarrow> Service \<Rightarrow> Service \<Rightarrow> eic \<Rightarrow> eic result" where
  "updateService c oldService curService e =
     (if svc_Selector curService \<noteq> svc_Selector oldService
      then bind (deleteService c (DeletedObj oldService) e) (addService c curService)
      else Ok e)"

text \<open>The endpoint handlers look the service of the same name up; an error is only logged.\<close>

definition endpoint_service :: "caches \<Rightarrow> Endpoints \<Rightarrow> Service option" where
  "endpoint_service c endpoint =
     (case lister_Get svc_Meta (c_service c) (om_Namespace (ep_Meta endpoint)) (om_Name (ep_Meta endpoint)) of
        Ok service \<Rightarrow> Some service
      | _ \<Rightarrow> None)"

definition addEndpoint :: "caches \<Rightarrow> Endpoints \<Rightarrow> eic \<Rightarrow> eic result" where
  "addEndpoint c endpoint e =
     (case endpoint_service c endpoint of None \<Rightarrow> Ok e | Some service \<Rightarrow> addService c service e)"

definition updateEndpoint :: "caches \<Rightarrow> Endpoints \<Rightarrow> Endpoints \<Rightarrow> eic \<Rightarrow> eic result" where
  "updateEndpoint c oldEndpoint curEndpoint e =
     (if ep_Subsets curEndpoint \<noteq> ep_Subsets oldEndpoint then
        (case endpoint_service c oldEndpoint of
           None \<Rightarrow> Ok e
         | Some service \<Rightarrow> bind (deleteService c (DeletedObj service) e) (addService c service))
      else Ok e)"

definition deleteEndpoint :: "caches \<Rightarrow> Endpoints deleted \<Rightarrow> eic \<Rightarrow> eic result" where
  "deleteEndpoint c obj e =
     (case deleted_object obj of
        None \<Rightarrow> Ok e
      | Some endpoint \<Rightarrow>
          (case endpoint_service c endpoint of
             None \<Rightarrow> Ok e
           | Some service \<Rightarrow> deleteService c (DeletedObj service) e))"

definition addSecret :: "caches \<Rightarrow> Secret \<Rightarrow> eic \<Rightarrow> eic" where
  "addSecret c secret e = enqueue_all (getIngressesForSecret c secret) e"

definition deleteSecret :: "caches \<Rightarrow> Secret deleted \<Rightarrow> eic \<Rightarrow> eic" where
  "deleteSecret c obj e =
     (case deleted_object obj of
        None \<Rightarrow> e
      | Some secret \<Rightarrow> enqueue_all (getIngressesForSecret c secret) e)"

definition updateSecret :: "caches \<Rightarrow> Secret \<Rightarrow> Secret \<Rightarrow> eic \<Rightarrow> eic" where
  "updateSecret c oldSecret curSecret e =
     (if sec_Type oldSecret \<noteq> sec_Type curSecret \<or> sec_Data oldSecret \<noteq> sec_Data curSecret \<or>
         sec_StringData oldSecret \<noteq> sec_StringData curSecret
      then addSecret c curSecret (deleteSecret c (DeletedObj oldSecret) e)
      else e)"


section \<open>Nodes\<close>

text \<open>
  The loop over the node's conditions that both node handlers end with: for a \<open>Ready\<close> condition
  the status is recorded, and a node that has become ready gets all resources.
\<close>

fun node_conditions :: "params \<Rightarrow> Node \<Rightarrow> NodeCondition list \<Rightarrow> eic \<Rightarrow> eic result" where
  "node_conditions P node [] e = Ok e"
| "node_conditions P node (nsc # rest) e =
     (if nc_Type nsc \<noteq> NodeReady then node_conditions P node rest e
      else
        (let status = fst (GetNodeStatus (e_lc e) (om_Name (node_Meta node)));
             e' = e\<lparr>e_lc := UpdateEdgeNode node (e_lc e)\<rparr>
         in if nc_Status nsc \<noteq> ConditionTrue \<or> status = nc_Status nsc then node_conditions P node rest e'
            else bind (syncAllResourcesToEdgeNodes P node e') (\<lambda>e''. node_conditions P node rest e'')))"

definition addNode :: "params \<Rightarrow> Node \<Rightarrow> eic \<Rightarrow> eic result" where
  "addNode P node e =
     node_conditions P node (node_Conditions node) (e\<lparr>e_lc := UpdateNodeGroup node (e_lc e)\<rparr>)"

definition updateNode :: "params \<Rightarrow> Node \<Rightarrow> Node \<Rightarrow> eic \<Rightarrow> eic result" where
  "updateNode P oldNode curNode e =
     node_conditions P curNode (node_Conditions curNode)
       (if get_str (om_Labels (node_Meta curNode)) NODEGROUPLABEL \<noteq>
           get_str (om_Labels (node_Meta oldNode)) NODEGROUPLABEL
        then e\<lparr>e_lc := UpdateNodeGroup curNode (DeleteNodeGroup oldNode (e_lc e))\<rparr> else e)"

definition deleteNode :: "Node deleted \<Rightarrow> eic \<Rightarrow> eic" where
  "deleteNode obj e =
     (case deleted_object obj of
        None \<Rightarrow> e
      | Some node \<Rightarrow> e\<lparr>e_lc := DeleteEdgeNode node (DeleteNodeGroup node (e_lc e))\<rparr>)"


section \<open>Synchronisation of an ingress\<close>

text \<open>A generator's error is logged and its resources are left out; only a panic ends the sync.\<close>

definition or_nothing :: "'a list result \<Rightarrow> 'a list result" where
  "or_nothing r = (case r of Ok xs \<Rightarrow> Ok xs | Err _ \<Rightarrow> Ok [] | Panic p \<Rightarrow> Panic p)"

definition generateResources :: "caches \<Rightarrow> Ingress \<Rightarrow> Resource list result" where
  "generateResources c ingress =
     bind (or_nothing (getSecretsForIngress c ingress)) (\<lambda>secrets.
     bind (or_nothing (getEndpointsForIngress c ingress)) (\<lambda>endpoints.
     bind (or_nothing (getClustersForIngress c ingress)) (\<lambda>clusters.
     bind (or_nothing (bind (getRouteForIngress c ingress) (\<lambda>route. Ok [route]))) (\<lambda>routes.
     bind (or_nothing (getListenersForIngress c ingress)) (\<lambda>listeners.
       Ok (secrets @ endpoints @ clusters @ routes @ listeners))))))"

text \<open>
  The ingress is gone: its reference is taken out of every resource recorded for it, and a
  resource without references is queued. A recorded resource that is not in the store makes the
  loop go on with the lock held.
\<close>

fun release_resources :: "string \<Rightarrow> string list \<Rightarrow> eic \<Rightarrow> unit outcome" where
  "release_resources key [] e = Finished e ()"
| "release_resources key (name # names) e =
     (case lk_Lock (e_resourceStoreLock e) of
        None \<Rightarrow> Blocked (e\<lparr>e_resourceStoreLock := (e_resourceStoreLock e)\<lparr>lk_waiting := True\<rparr>\<rparr>)
      | Some lk \<Rightarrow>
          (case fmlookup (e_resourceStore e) name of
             None \<Rightarrow> release_resources key names (e\<lparr>e_resourceStoreLock := lk\<rparr>)
           | Some resource \<Rightarrow>
               (let resource' = resource\<lparr>r_IngressRef := r_IngressRef resource |-| {|key|}\<rparr>;
                    e1 = e\<lparr>e_resourceStore := fmupd name resource' (e_resourceStore e)\<rparr>;
                    e2 = (if r_IngressRef resource' = {||} then enqueueEnvoyResource resource' e1 else e1)
                in release_resources key names (e2\<lparr>e_resourceStoreLock := lk_Unlock lk\<rparr>))))"

definition deletedIngress :: "params \<Rightarrow> string \<Rightarrow> eic \<Rightarrow> (error option) outcome" where
  "deletedIngress P key e =
     (let names = get_set (e_ingressToResourceNameStore e) key;
          e1 = e\<lparr>e_ingressToResourceNameStore := fmdrop key (e_ingressToResourceNameStore e)\<rparr>
      in case release_resources key (p_ord P names) e1 of
           Finished e2 _ \<Rightarrow>
             Finished (e2\<lparr>e_ingressToResourceNameStore := fmdrop key (e_ingressToResourceNameStore e2)\<rparr>) None
         | Crashed p \<Rightarrow> Crashed p
         | Blocked e2 \<Rightarrow> Blocked e2)"

text \<open>
  The deletion loop: a recorded resource that was not generated again loses the reference; if it
  was the last one, the record is dropped and the resource queued.
\<close>

fun drop_stale :: "string \<Rightarrow> string fset \<Rightarrow> string list \<Rightarrow> eic \<Rightarrow> unit outcome" where
  "drop_stale key fresh [] e = Finished e ()"
| "drop_stale key fresh (resourceKey # keys) e =
     (if resourceKey |\<in>| fresh then drop_stale key fresh keys e
      else
        (case lk_Lock (e_resourceStoreLock e) of
           None \<Rightarrow> Blocked (e\<lparr>e_resourceStoreLock := (e_resourceStoreLock e)\<lparr>lk_waiting := True\<rparr>\<rparr>)
         | Some lk \<Rightarrow>
             (case fmlookup (e_resourceStore e) resourceKey of
                None \<Rightarrow> drop_stale key fresh keys (e\<lparr>e_resourceStoreLock := lk_Unlock lk\<rparr>)
              | Some envoyResource \<Rightarrow>
                  (let resource' = envoyResource\<lparr>r_IngressRef := r_IngressRef envoyResource |-| {|key|}\<rparr>;
                       e1 = e\<lparr>e_resourceStore := fmupd resourceKey resource' (e_resourceStore e)\<rparr>
                   in if r_IngressRef resource' \<noteq> {||}
                      then drop_stale key fresh keys (e1\<lparr>e_resourceStoreLock := lk_Unlock lk\<rparr>)
                      else
                        (let e2 = e1\<lparr>e_ingressToResourceNameStore :=
                               fmupd key (get_set (e_ingressToResourceNameStore e1) key |-| {|resourceKey|})
                                 (e_ingressToResourceNameStore e1)\<rparr>;
                             e3 = enqueueEnvoyResource resource' e2
                         in drop_stale key fresh keys (e3\<lparr>e_resourceStoreLock := lk_Unlock lk\<rparr>))))))"

text \<open>The insertion loop; writing to a missing entry of the name store would panic.\<close>

fun insert_resources :: "string \<Rightarrow> Resource list \<Rightarrow> eic \<Rightarrow> eic result" where
  "insert_resources key [] e = Ok e"
| "insert_resources key (resource # resources) e =
     (let rkey = EnvoyResourceKeyFunc resource
      in case fmlookup (e_resourceStore e) rkey of
           None \<Rightarrow>
             (let resource' = resource\<lparr>r_IngressRef := finsert key (r_IngressRef resource)\<rparr>;
                  e1 = e\<lparr>e_resourceStore := fmupd rkey resource' (e_resourceStore e)\<rparr>
              in case fmlookup (e_ingressToResourceNameStore e1) key of
                   None \<Rightarrow> Panic NilMapWrite
                 | Some names \<Rightarrow>
                     insert_resources key resources (enqueueEnvoyResource resource'
                       (e1\<lparr>e_ingressToResourceNameStore :=
                          fmupd key (finsert rkey names) (e_ingressToResourceNameStore e1)\<rparr>)))
         | Some res \<Rightarrow>
             (let res' = res\<lparr>r_IngressRef := finsert key (r_IngressRef res), r_Spec := r_Spec resource,
                            r_ResourceVersion := r_ResourceVersion resource\<rparr>
              in insert_resources key resources
                   (enqueueEnvoyResource res' (e\<lparr>e_resourceStore := fmupd rkey res' (e_resourceStore e)\<rparr>))))"

definition record_nodegroups :: "string \<Rightarrow> Ingress \<Rightarrow> eic \<Rightarrow> eic" where
  "record_nodegroups key ingress e =
     e\<lparr>e_ingressNodeGroupStore :=
        fmupd key (fset_of_list (filter (\<lambda>v. GetNodeStatus (e_lc e) v = (''True'', True)) (nodegroup_annotation ingress)))
          (e_ingressNodeGroupStore e)\<rparr>"

text \<open>The part of the sync after the resources are generated.\<close>

definition storeResources :: "params \<Rightarrow> string \<Rightarrow> Ingress \<Rightarrow> Resource list \<Rightarrow> eic \<Rightarrow> (error option) outcome" where
  "storeResources P key ingress envoyResources e =
     (let recorded = get_set (e_ingressToResourceNameStore e) key;
          e1 = e\<lparr>e_ingressToResourceNameStore := fmupd key recorded (e_ingressToResourceNameStore e)\<rparr>;
          fresh = fset_of_list (map EnvoyResourceKeyFunc envoyResources)
      in case drop_stale key fresh (p_ord P recorded) e1 of
           Crashed p \<Rightarrow> Crashed p
         | Blocked e2 \<Rightarrow> Blocked e2
         | Finished e2 _ \<Rightarrow>
             (let e3 = record_nodegroups key ingress e2
              in case lk_Lock (e_resourceStoreLock e3) of
                   None \<Rightarrow> Blocked (e3\<lparr>e_resourceStoreLock := (e_resourceStoreLock e3)\<lparr>lk_waiting := True\<rparr>\<rparr>)
                 | Some lk \<Rightarrow>
                     (case insert_resources key envoyResources (e3\<lparr>e_resourceStoreLock := lk\<rparr>) of
                        Ok e4 \<Rightarrow> Finished (e4\<lparr>e_resourceStoreLock := lk_Unlock (e_resourceStoreLock e4)\<rparr>) None
                      | Err er \<Rightarrow> Finished e3 (Some er)
                      | Panic p \<Rightarrow> Crashed p)))"

text \<open>
  What the two listers say of a key. An error of the v1 lister other than \<open>not found\<close> is not
  looked at: the nil ingress it comes with is dereferenced.
\<close>

datatype lookup = Deleted | LookupError error | Found Ingress | LookupPanic panic

definition lookupIngress :: "caches \<Rightarrow> string \<Rightarrow> string \<Rightarrow> lookup" where
  "lookupIngress c namespace name =
     (case lister_Get ing_Meta (c_ingress c) namespace name of
        Ok ingress \<Rightarrow> Found ingress
      | Err ErrNotFound \<Rightarrow>
          (case lister_Get bing_Meta (c_v1beta1 c) namespace name of
             Ok v1beta1Ingress \<Rightarrow> Found (toV1Ingress v1beta1Ingress)
           | Err ErrNotFound \<Rightarrow> Deleted
           | Err _ \<Rightarrow> LookupError ErrRetrieveIngress
           | Panic p \<Rightarrow> LookupPanic p)
      | Err _ \<Rightarrow> LookupPanic NilDereference
      | Panic p \<Rightarrow> LookupPanic p)"

definition syncEnvoyIngress :: "params \<Rightarrow> caches \<Rightarrow> string \<Rightarrow> eic \<Rightarrow> (error option) outcome" where
  "syncEnvoyIngress P c key e =
     (case SplitMetaNamespaceKey key of
        Err er \<Rightarrow> Finished e (Some er)
      | Panic p \<Rightarrow> Crashed p
      | Ok (namespace, name) \<Rightarrow>
          (case lookupIngress c namespace name of
             LookupPanic p \<Rightarrow> Crashed p
           | LookupError er \<Rightarrow> Finished e (Some er)
           | Deleted \<Rightarrow> deletedIngress P key e
           | Found ingress \<Rightarrow>
               if \<not> isEnvoyIngress ingress then Finished e (Some ErrNotEnvoyIngress)
               else
                 (case generateResources c ingress of
                    Ok envoyResources \<Rightarrow> storeResources P key ingress envoyResources e
                  | Err er \<Rightarrow> Finished e (Some er)
                  | Panic p \<Rightarrow> Crashed p)))"


section \<open>Initialisation\<close>

fun initiate_resources :: "string \<Rightarrow> Resource list \<Rightarrow> eic \<Rightarrow> eic" where
  "initiate_resources key [] e = e"
| "initiate_resources key (resource # resources) e =
     (let rkey = EnvoyResourceKeyFunc resource
      in case fmlookup (e_resourceStore e) rkey of
           None \<Rightarrow>
             (let resource' = resource\<lparr>r_IngressRef := finsert key (r_IngressRef resource)\<rparr>
              in initiate_resources key resources (enqueueEnvoyResource resource'
                   (e\<lparr>e_resourceStore := fmupd rkey resource' (e_resourceStore e),
                      e_ingressToResourceNameStore :=
                        fmupd key (finsert rkey (get_set (e_ingressToResourceNameStore e) key))
                          (e_ingressToResourceNameStore e)\<rparr>)))
         | Some res \<Rightarrow>
             (let changed = (r_Spec resource \<noteq> r_Spec res);
                  res1 = (if changed then res\<lparr>r_ResourceVersion := r_ResourceVersion resource, r_Spec := r_Spec resource\<rparr>
                          else res);
                  res' = res1\<lparr>r_IngressRef := finsert key (r_IngressRef res1)\<rparr>;
                  e1 = (if changed then enqueueEnvoyResource res1 e else e)
              in initiate_resources key resources
                   (e1\<lparr>e_resourceStore := fmupd rkey res' (e_resourceStore e1)\<rparr>)))"

fun initiate_ingresses :: "caches \<Rightarrow> Ingress list \<Rightarrow> eic \<Rightarrow> eic result" where
  "initiate_ingresses c [] e = Ok e"
| "initiate_ingresses c (ingress # ingresses) e =
     (if \<not> isEnvoyIngress ingress then initiate_ingresses c ingresses e
      else
        (let key = ing_key ingress;
             groups = nodegroup_annotation ingress;
             e1 = (if groups = [] then e
                   else e\<lparr>e_ingressNodeGroupStore :=
                          fmupd key (get_set (e_ingressNodeGroupStore e) key |\<union>| fset_of_list groups)
                            (e_ingressNodeGroupStore e)\<rparr>)
         in bind (generateResources c ingress) (\<lambda>envoyResources.
              initiate_ingresses c ingresses
                (initiate_resources key envoyResources
                  (e1\<lparr>e_ingressToResourceNameStore := fmupd key {||} (e_ingressToResourceNameStore e1)\<rparr>)))))"

definition initiateEnvoyResources :: "caches \<Rightarrow> eic \<Rightarrow> eic result" where
  "initiateEnvoyResources c e =
     bind (lister_ListAll (c_ingress c)) (\<lambda>ingressList.
     bind (lister_ListAll (c_v1beta1 c)) (\<lambda>v1beta1IngressList.
       initiate_ingresses c (ingressList @ map toV1Ingress v1beta1IngressList) e))"

definition init_node :: "Node \<Rightarrow> LocationCache \<Rightarrow> LocationCache" where
  "init_node node lc =
     (case node_label node of None \<Rightarrow> lc | Some _ \<Rightarrow> UpdateEdgeNode node (UpdateNodeGroup node lc))"

definition initCache :: "caches \<Rightarrow> eic \<Rightarrow> eic result" where
  "initCache c e =
     bind (lister_ListAll (c_node c)) (\<lambda>nodeList. Ok (e\<lparr>e_lc := fold init_node nodeList (e_lc e)\<rparr>))"

text \<open>The part of \<open>Run\<close> before the workers start.\<close>

definition Run_init :: "caches \<Rightarrow> eic \<Rightarrow> eic result" where
  "Run_init c e = bind (initCache c e) (initiateEnvoyResources c)"


section \<open>Workers\<close>

text \<open>
  A worker takes a key off its queue, runs the sync, and gives the key back: forgotten after a
  success, rate limited after an error. The two halves are separate steps of a run.
\<close>

definition finish_ingress :: "string \<Rightarrow> eic \<Rightarrow> error option \<Rightarrow> eic" where
  "finish_ingress key e err =
     (let q = (case err of None \<Rightarrow> wq_Forget key (e_queue e) | Some _ \<Rightarrow> wq_AddRateLimited key (e_queue e))
      in e\<lparr>e_queue := wq_Done key q\<rparr>)"

definition finish_resource :: "string \<Rightarrow> eic \<Rightarrow> error option \<Rightarrow> eic" where
  "finish_resource key e err =
     (let q = (case err of None \<Rightarrow> wq_Forget key (e_resourceQueue e)
               | Some _ \<Rightarrow> wq_AddRateLimited key (e_resourceQueue e))
      in e\<lparr>e_resourceQueue := wq_Done key q\<rparr>)"

definition ingress_work :: "params \<Rightarrow> caches \<Rightarrow> string \<Rightarrow> eic \<Rightarrow> unit outcome" where
  "ingress_work P c key e =
     (case syncEnvoyIngress P c key e of
        Finished e' err \<Rightarrow> Finished (finish_ingress key e' err) ()
      | Crashed p \<Rightarrow> Crashed p
      | Blocked e' \<Rightarrow> Blocked e')"

definition resource_work :: "params \<Rightarrow> string \<Rightarrow> eic \<Rightarrow> unit outcome" where
  "resource_work P key e =
     (case syncEnvoyResource P key e of
        Finished e' err \<Rightarrow> Finished (finish_resource key e' err) ()
      | Crashed p \<Rightarrow> Crashed p
      | Blocked e' \<Rightarrow> Blocked e')"

text \<open>One pass of a worker on its own: what \<open>processNext...WorkItem\<close> returns and does.\<close>

definition processNextIngressWorkItem :: "params \<Rightarrow> caches \<Rightarrow> eic \<Rightarrow> bool outcome" where
  "processNextIngressWorkItem P c e =
     (case wq_Get (e_queue e) of
        Quit \<Rightarrow> Finished e False
      | Waits \<Rightarrow> Blocked e
      | Item key q \<Rightarrow>
          (case ingress_work P c key (e\<lparr>e_queue := q\<rparr>) of
             Finished e' _ \<Rightarrow> Finished e' True
           | Crashed p \<Rightarrow> Crashed p
           | Blocked e' \<Rightarrow> Blocked e'))"

definition processNextEnvoyResourceWorkItem :: "params \<Rightarrow> eic \<Rightarrow> bool outcome" where
  "processNextEnvoyResourceWorkItem P e =
     (case wq_Get (e_resourceQueue e) of
        Quit \<Rightarrow> Finished e False
      | Waits \<Rightarrow> Blocked e
      | Item key q \<Rightarrow>
          (case resource_work P key (e\<lparr>e_resourceQueue := q\<rparr>) of
             Finished e' _ \<Rightarrow> Finished e' True
           | Crashed p \<Rightarrow> Crashed p
           | Blocked e' \<Rightarrow> Blocked e'))"

end
