(* ===== verification/Controller_Inv.thy ===== *)
theory Controller_Inv
  imports Controller
begin

text \<open>
  The invariant of the controller's state, over every interleaving of informer events, timers and
  workers: every resource recorded for an ingress is in the store, still referenced, and recorded
  for that ingress only; a resource is stored under its own key; both queues are well formed; and
  no handler has left the write lock of the store taken.
\<close>

section \<open>The invariant\<close>

definition names_ok :: "(string, string fset) fmap \<Rightarrow> (string, Resource) fmap \<Rightarrow> bool" where
  "names_ok names store \<longleftrightarrow>
     (\<forall>k R. R |\<in>| get_set names k \<longrightarrow> (\<exists>r. fmlookup store R = Some r \<and> r_IngressRef r \<noteq> {||}))"

definition owner_unique :: "(string, string fset) fmap \<Rightarrow> bool" where
  "owner_unique names \<longleftrightarrow> (\<forall>k k' R. R |\<in>| get_set names k \<longrightarrow> R |\<in>| get_set names k' \<longrightarrow> k = k')"

definition keys_ok :: "(string, Resource) fmap \<Rightarrow> bool" where
  "keys_ok store \<longleftrightarrow> (\<forall>R r. fmlookup store R = Some r \<longrightarrow> EnvoyResourceKeyFunc r = R)"

definition store_inv :: "(string, string fset) fmap \<Rightarrow> (string, Resource) fmap \<Rightarrow> bool" where
  "store_inv names store \<longleftrightarrow> names_ok names store \<and> owner_unique names \<and> keys_ok store"

definition core_inv :: "eic \<Rightarrow> bool" where
  "core_inv e \<longleftrightarrow> store_inv (e_ingressToResourceNameStore e) (e_resourceStore e) \<and>
     wq_inv (e_queue e) \<and> wq_inv (e_resourceQueue e)"

definition eic_inv :: "eic \<Rightarrow> bool" where
  "eic_inv e \<longleftrightarrow> core_inv e \<and> \<not> lk_writer (e_resourceStoreLock e)"

text \<open>Elementary changes of the two maps.\<close>

lemma EnvoyResourceKeyFunc_update [simp]:
  "EnvoyResourceKeyFunc (r\<lparr>r_IngressRef := x\<rparr>) = EnvoyResourceKeyFunc r"
  "EnvoyResourceKeyFunc (r\<lparr>r_IngressRef := x, r_Spec := s, r_ResourceVersion := v\<rparr>) = EnvoyResourceKeyFunc r"
  "EnvoyResourceKeyFunc (r\<lparr>r_ResourceVersion := v, r_Spec := s\<rparr>) = EnvoyResourceKeyFunc r"
  "EnvoyResourceKeyFunc (r\<lparr>r_IngressRef := x, r_ResourceVersion := v, r_Spec := s\<rparr>) = EnvoyResourceKeyFunc r"
  by (simp_all add: EnvoyResourceKeyFunc_def)

lemma store_inv_empty: "store_inv fmempty fmempty"
  by (simp add: store_inv_def names_ok_def owner_unique_def keys_ok_def)

lemma store_inv_key: "store_inv names store \<Longrightarrow> fmlookup store R = Some r \<Longrightarrow> EnvoyResourceKeyFunc r = R"
  by (simp add: store_inv_def keys_ok_def)

lemma store_inv_recorded:
  "store_inv names store \<Longrightarrow> R |\<in>| get_set names k \<Longrightarrow> \<exists>r. fmlookup store R = Some r \<and> r_IngressRef r \<noteq> {||}"
  by (simp add: store_inv_def names_ok_def)

lemma store_inv_owner:
  "store_inv names store \<Longrightarrow> R |\<in>| get_set names k \<Longrightarrow> R |\<in>| get_set names k' \<Longrightarrow> k = k'"
  unfolding store_inv_def owner_unique_def by blast

text \<open>A referenced resource may be overwritten by one with the same key that is referenced.\<close>

lemma store_inv_upd_referenced:
  assumes "store_inv names store" and "EnvoyResourceKeyFunc r' = R" and "r_IngressRef r' \<noteq> {||}"
  shows "store_inv names (fmupd R r' store)"
  using assms by (auto simp: store_inv_def names_ok_def keys_ok_def)

text \<open>A resource nobody has recorded may be overwritten or dropped.\<close>

lemma store_inv_upd_unrecorded:
  assumes "store_inv names store" and "EnvoyResourceKeyFunc r' = R" and "\<And>k. R |\<notin>| get_set names k"
  shows "store_inv names (fmupd R r' store)"
  using assms by (auto simp: store_inv_def names_ok_def keys_ok_def)

lemma store_inv_drop:
  assumes "store_inv names store" and "\<And>k. R |\<notin>| get_set names k"
  shows "store_inv names (fmdrop R store)"
  using assms by (auto simp: store_inv_def names_ok_def keys_ok_def split: if_splits)

text \<open>Recording less keeps the invariant, recording a fresh referenced resource too.\<close>

lemma store_inv_fewer_names:
  assumes "store_inv names store" and "\<And>k. get_set names' k |\<subseteq>| get_set names k"
  shows "store_inv names' store"
  using assms unfolding store_inv_def names_ok_def owner_unique_def by (meson fsubsetD)

lemma store_inv_new:
  assumes "store_inv names store" and "fmlookup store R = None" and "EnvoyResourceKeyFunc r = R"
    and "r_IngressRef r \<noteq> {||}"
  shows "store_inv (fmupd key (finsert R (get_set names key)) names) (fmupd R r store)"
proof -
  have fresh: "R |\<notin>| get_set names k" for k
    using assms(1,2) store_inv_recorded by fastforce
  then show ?thesis
    using assms by (auto simp: store_inv_def names_ok_def owner_unique_def keys_ok_def split: if_splits)
qed

lemma store_inv_unrecorded_when_released:
  assumes "store_inv names store" and "R |\<in>| get_set names key"
  shows "R |\<notin>| get_set (fmdrop key names) k"
  using assms store_inv_owner by (fastforce split: if_splits)


section \<open>Handlers that leave the store alone\<close>

text \<open>The state without the parts the simple handlers change.\<close>

definition same_store :: "eic \<Rightarrow> eic \<Rightarrow> bool" where
  "same_store e e' \<longleftrightarrow> e_resourceStore e' = e_resourceStore e \<and>
     e_ingressToResourceNameStore e' = e_ingressToResourceNameStore e \<and>
     e_resourceStoreLock e' = e_resourceStoreLock e \<and> e_resourceQueue e' = e_resourceQueue e \<and>
     (wq_inv (e_queue e) \<longrightarrow> wq_inv (e_queue e'))"

lemma same_store_refl [simp]: "same_store e e"
  by (simp add: same_store_def)

lemma same_store_trans: "same_store e e' \<Longrightarrow> same_store e' e'' \<Longrightarrow> same_store e e''"
  by (simp add: same_store_def)

lemma same_store_inv: "same_store e e' \<Longrightarrow> eic_inv e \<Longrightarrow> eic_inv e'"
  by (simp add: same_store_def eic_inv_def core_inv_def)

lemma enqueue_same [intro]: "same_store e (enqueue i e)"
  by (simp add: enqueue_def same_store_def wq_inv_Add)

lemma enqueue_all_same: "same_store e (enqueue_all is e)"
  unfolding enqueue_all_def
  by (induction "is" arbitrary: e) (auto intro: same_store_trans)

lemma addIngress_same: "same_store e (addIngress i e)"
  by (auto simp: addIngress_def Let_def enqueue_def same_store_def wq_inv_Add)

lemma deleteIngress_same: "same_store e (deleteIngress d e)"
  by (auto simp: deleteIngress_def same_store_def wq_inv_Add split: option.splits)

lemma updateIngress_same: "same_store e (updateIngress old cur e)"
  unfolding updateIngress_def Let_def
  by (auto intro: same_store_trans deleteIngress_same enqueue_same)

lemma addService_same: "addService c s e = Ok e' \<Longrightarrow> same_store e e'"
  by (auto simp: addService_def bind_iffs enqueue_all_same)

lemma deleteService_same: "deleteService c s e = Ok e' \<Longrightarrow> same_store e e'"
  by (auto simp: deleteService_def bind_iffs enqueue_all_same split: option.splits)

lemma updateService_same: "updateService c old cur e = Ok e' \<Longrightarrow> same_store e e'"
  by (auto simp: updateService_def bind_iffs split: if_splits
      intro: same_store_trans dest: addService_same deleteService_same)

lemma addEndpoint_same: "addEndpoint c x e = Ok e' \<Longrightarrow> same_store e e'"
  by (auto simp: addEndpoint_def split: option.splits dest: addService_same)

lemma updateEndpoint_same: "updateEndpoint c old cur e = Ok e' \<Longrightarrow> same_store e e'"
  by (auto simp: updateEndpoint_def bind_iffs split: if_splits option.splits
      intro: same_store_trans dest: addService_same deleteService_same)

lemma deleteEndpoint_same: "deleteEndpoint c x e = Ok e' \<Longrightarrow> same_store e e'"
  by (auto simp: deleteEndpoint_def split: option.splits dest: deleteService_same)

lemma deleteSecret_same: "same_store e (deleteSecret c d e)"
  by (auto simp: deleteSecret_def enqueue_all_same split: option.splits)

lemma addSecret_same: "same_store e (addSecret c s e)"
  by (simp add: addSecret_def enqueue_all_same)

lemma updateSecret_same: "same_store e (updateSecret c old cur e)"
  unfolding updateSecret_def by (auto intro: same_store_trans addSecret_same deleteSecret_same)

lemma dispatchResource_same: "dispatchResource P r opr n e = Ok e' \<Longrightarrow> same_store e e' \<and> e_lc e' = e_lc e"
  by (auto simp: dispatchResource_def bind_iffs Let_def same_store_def split: option.splits)

lemma dispatch_nodes_same: "dispatch_nodes P r opr ns e err = Ok (e', err') \<Longrightarrow> same_store e e'"
  by (induction P r opr ns e err rule: dispatch_nodes.induct)
    (auto split: result.splits intro: same_store_trans dest!: dispatchResource_same)

lemma dispatch_all_same: "dispatch_all P n rs e = Ok e' \<Longrightarrow> same_store e e'"
  by (induction P n rs e rule: dispatch_all.induct)
    (auto split: result.splits intro: same_store_trans dest!: dispatchResource_same)

lemma syncAll_same: "syncAllResourcesToEdgeNodes P n e = Ok e' \<Longrightarrow> same_store e e'"
  by (auto simp: syncAllResourcesToEdgeNodes_def split: option.splits dest: dispatch_all_same)

lemma same_store_lc: "same_store (e\<lparr>e_lc := lc\<rparr>) e' \<Longrightarrow> same_store e e'"
  by (simp add: same_store_def)

lemma node_conditions_same: "node_conditions P n cs e = Ok e' \<Longrightarrow> same_store e e'"
proof (induction P n cs e rule: node_conditions.induct)
  case (1 P n e)
  then show ?case by simp
next
  case (2 P n nsc rest e)
  then show ?case
    by (auto simp: Let_def bind_iffs split: if_splits intro: same_store_lc same_store_trans dest!: syncAll_same)
qed

lemma addNode_same: "addNode P n e = Ok e' \<Longrightarrow> same_store e e'"
  by (auto simp: addNode_def dest!: node_conditions_same intro: same_store_lc)

lemma updateNode_same: "updateNode P old cur e = Ok e' \<Longrightarrow> same_store e e'"
  by (auto simp: updateNode_def dest!: node_conditions_same split: if_splits intro: same_store_lc)

lemma deleteNode_same: "same_store e (deleteNode d e)"
  by (auto simp: deleteNode_def same_store_def split: option.splits)

lemma initCache_same: "initCache c e = Ok e' \<Longrightarrow> same_store e e'"
  by (auto simp: initCache_def bind_iffs same_store_def)


section \<open>The synchronisation\<close>

text \<open>What holds of the state a handler leaves, whether it finished or waits for the lock.\<close>

fun leaves :: "(eic \<Rightarrow> bool) \<Rightarrow> 'a outcome \<Rightarrow> bool" where
  "leaves Q (Finished e a) = Q e"
| "leaves Q (Blocked e) = Q e"
| "leaves Q (Crashed p) = True"

lemma leaves_mono: "leaves Q oc \<Longrightarrow> (\<And>e. Q e \<Longrightarrow> Q' e) \<Longrightarrow> leaves Q' oc"
  by (cases oc) auto

lemma lk_Lock_cases:
  "lk_Lock l = Some l' \<longleftrightarrow> \<not> lk_writer l \<and> \<not> lk_waiting l \<and> lk_readers l = 0 \<and> l' = l\<lparr>lk_writer := True\<rparr>"
  by (auto simp: lk_Lock_def)

lemma lk_RLock_cases:
  "lk_RLock l = Some l' \<longleftrightarrow> \<not> lk_writer l \<and> \<not> lk_waiting l \<and> l' = l\<lparr>lk_readers := Suc (lk_readers l)\<rparr>"
  by (auto simp: lk_RLock_def)

lemma lk_Unlock_writer [simp]: "\<not> lk_writer (lk_Unlock l)" "lk_writer (lk_RUnlock l) = lk_writer l"
  by (simp_all add: lk_Unlock_def lk_RUnlock_def)

text \<open>What the synchronisation of an ingress does not change.\<close>

definition ing_frame :: "eic \<Rightarrow> eic \<Rightarrow> bool" where
  "ing_frame e e' \<longleftrightarrow> e_queue e' = e_queue e \<and> e_lc e' = e_lc e \<and> e_outbox e' = e_outbox e \<and>
     (wq_inv (e_resourceQueue e) \<longrightarrow> wq_inv (e_resourceQueue e'))"

lemma ing_frame_refl [simp]: "ing_frame e e"
  by (simp add: ing_frame_def)

lemma ing_frame_trans: "ing_frame e e' \<Longrightarrow> ing_frame e' e'' \<Longrightarrow> ing_frame e e''"
  by (simp add: ing_frame_def)

lemma enqueueEnvoyResource_simps [simp]:
  "e_resourceStore (enqueueEnvoyResource r e) = e_resourceStore e"
  "e_ingressToResourceNameStore (enqueueEnvoyResource r e) = e_ingressToResourceNameStore e"
  "e_ingressNodeGroupStore (enqueueEnvoyResource r e) = e_ingressNodeGroupStore e"
  "e_resourceStoreLock (enqueueEnvoyResource r e) = e_resourceStoreLock e"
  "e_queue (enqueueEnvoyResource r e) = e_queue e"
  "e_lc (enqueueEnvoyResource r e) = e_lc e"
  "e_outbox (enqueueEnvoyResource r e) = e_outbox e"
  "e_sent (enqueueEnvoyResource r e) = e_sent e"
  "wq_inv (e_resourceQueue e) \<Longrightarrow> wq_inv (e_resourceQueue (enqueueEnvoyResource r e))"
  by (simp_all add: enqueueEnvoyResource_def wq_inv_Add)

text \<open>The release of the resources of a deleted ingress.\<close>

lemma leaves_frame: "leaves (ing_frame e') oc \<Longrightarrow> ing_frame e e' \<Longrightarrow> leaves (ing_frame e) oc"
  by (rule leaves_mono, assumption) (rule ing_frame_trans)

lemma release_resources_frame: "leaves (ing_frame e) (release_resources key todo e)"
proof (induction todo arbitrary: e)
  case Nil
  then show ?case by simp
next
  case (Cons name names)
  then show ?case
    by (auto simp: Let_def split: option.splits intro!: leaves_frame [OF Cons.IH])
      (simp_all add: ing_frame_def)
qed

lemma release_resources_store_inv:
  assumes "store_inv (e_ingressToResourceNameStore e) (e_resourceStore e)"
    and "\<not> lk_writer (e_resourceStoreLock e)"
    and "\<forall>R \<in> set todo. R |\<in>| fmdom (e_resourceStore e) \<and> (\<forall>k. R |\<notin>| get_set (e_ingressToResourceNameStore e) k)"
  shows "leaves (\<lambda>e'. store_inv (e_ingressToResourceNameStore e') (e_resourceStore e') \<and>
           e_ingressToResourceNameStore e' = e_ingressToResourceNameStore e \<and>
           \<not> lk_writer (e_resourceStoreLock e')) (release_resources key todo e)"
  using assms
proof (induction todo arbitrary: e)
  case Nil
  then show ?case by simp
next
  case (Cons name names)
  obtain r where r: "fmlookup (e_resourceStore e) name = Some r"
    using Cons.prems(3) by (auto simp: fmlookup_dom_iff)
  have upd: "store_inv (e_ingressToResourceNameStore e) (fmupd name (r\<lparr>r_IngressRef := x\<rparr>) (e_resourceStore e))" for x
    using Cons.prems(1,3) store_inv_key [OF Cons.prems(1) r] by (intro store_inv_upd_unrecorded) simp_all
  show ?case
  proof (cases "lk_Lock (e_resourceStoreLock e)")
    case None
    then show ?thesis using Cons.prems by simp
  next
    case (Some lk)
    let ?r = "r\<lparr>r_IngressRef := r_IngressRef r |-| {|key|}\<rparr>"
    let ?e1 = "e\<lparr>e_resourceStore := fmupd name ?r (e_resourceStore e)\<rparr>"
    let ?e2 = "(if r_IngressRef ?r = {||} then enqueueEnvoyResource ?r ?e1 else ?e1)\<lparr>e_resourceStoreLock := lk_Unlock lk\<rparr>"
    have "release_resources key (name # names) e = release_resources key names ?e2"
      by (simp add: Some r Let_def)
    moreover have "e_ingressToResourceNameStore ?e2 = e_ingressToResourceNameStore e"
      and "e_resourceStore ?e2 = fmupd name ?r (e_resourceStore e)" and "\<not> lk_writer (e_resourceStoreLock ?e2)"
      by simp_all
    ultimately show ?thesis
      using Cons.IH [of ?e2] Cons.prems(3) upd by simp
  qed
qed

lemma deletedIngress_inv:
  assumes "eic_inv e" and "range_order (p_ord P)"
  shows "leaves (\<lambda>e'. eic_inv e' \<and> ing_frame e e') (deletedIngress P key e)"
proof -
  let ?names = "e_ingressToResourceNameStore e"
  let ?e1 = "e\<lparr>e_ingressToResourceNameStore := fmdrop key ?names\<rparr>"
  have si: "store_inv ?names (e_resourceStore e)" and w: "\<not> lk_writer (e_resourceStoreLock e)"
    using assms(1) by (auto simp: eic_inv_def core_inv_def)
  have todo: "\<forall>R \<in> set (p_ord P (get_set ?names key)).
      R |\<in>| fmdom (e_resourceStore e) \<and> (\<forall>k. R |\<notin>| get_set (fmdrop key ?names) k)"
    using store_inv_recorded [OF si] store_inv_unrecorded_when_released [OF si]
    by (fastforce simp: range_orderD(2) [OF assms(2)] fmlookup_dom_iff)
  have "store_inv (fmdrop key ?names) (e_resourceStore e)"
    by (rule store_inv_fewer_names [OF si]) simp
  then have "leaves (\<lambda>e'. store_inv (e_ingressToResourceNameStore e') (e_resourceStore e') \<and>
      e_ingressToResourceNameStore e' = fmdrop key ?names \<and> \<not> lk_writer (e_resourceStoreLock e'))
      (release_resources key (p_ord P (get_set ?names key)) ?e1)"
    using release_resources_store_inv [of ?e1] todo w by simp
  moreover have "leaves (ing_frame e) (release_resources key (p_ord P (get_set ?names key)) ?e1)"
    by (rule leaves_mono [OF release_resources_frame]) (simp add: ing_frame_def)
  ultimately show ?thesis
    using assms(1) unfolding deletedIngress_def Let_def
    by (cases "release_resources key (p_ord P (get_set ?names key)) ?e1")
      (auto simp: eic_inv_def core_inv_def ing_frame_def)
qed

text \<open>The deletion loop. Its four next states have the store, the names and the lock below.\<close>

lemma drop_stale_frame: "leaves (ing_frame e) (drop_stale key fresh todo e)"
proof (induction todo arbitrary: e)
  case Nil
  then show ?case by simp
next
  case (Cons name names)
  then show ?case
    by (auto simp: Let_def split: option.splits intro!: leaves_frame [OF Cons.IH])
      (simp_all add: ing_frame_def)
qed

lemma drop_stale_store_inv:
  assumes "store_inv (e_ingressToResourceNameStore e) (e_resourceStore e)"
    and "\<not> lk_writer (e_resourceStoreLock e)"
    and "distinct todo" and "\<forall>R \<in> set todo. R |\<in>| get_set (e_ingressToResourceNameStore e) key"
    and "key |\<in>| fmdom (e_ingressToResourceNameStore e)"
  shows "leaves (\<lambda>e'. store_inv (e_ingressToResourceNameStore e') (e_resourceStore e') \<and>
           key |\<in>| fmdom (e_ingressToResourceNameStore e') \<and>
           \<not> lk_writer (e_resourceStoreLock e')) (drop_stale key fresh todo e)"
  using assms
proof (induction todo arbitrary: e)
  case Nil
  then show ?case by simp
next
  case (Cons name names)
  let ?N = "e_ingressToResourceNameStore e" and ?S = "e_resourceStore e"
  have rec: "name |\<in>| get_set ?N key" using Cons.prems(4) by simp
  obtain r where r: "fmlookup ?S name = Some r"
    using store_inv_recorded [OF Cons.prems(1) rec] by blast
  have key: "EnvoyResourceKeyFunc r = name" by (rule store_inv_key [OF Cons.prems(1) r])
  show ?case
  proof (cases "name |\<in>| fresh \<or> lk_Lock (e_resourceStoreLock e) = None")
    case True
    then show ?thesis using Cons by auto
  next
    case False
    then obtain lk where lk: "name |\<notin>| fresh" "lk_Lock (e_resourceStoreLock e) = Some lk" by auto
    let ?r = "r\<lparr>r_IngressRef := r_IngressRef r |-| {|key|}\<rparr>"
    let ?S' = "fmupd name ?r ?S" and ?N' = "fmupd key (get_set ?N key |-| {|name|}) ?N"
    let ?e1 = "e\<lparr>e_resourceStore := ?S'\<rparr>"
    show ?thesis
    proof (cases "r_IngressRef ?r = {||}")
      case False
      have inv: "store_inv ?N ?S'"
        by (rule store_inv_upd_referenced [OF Cons.prems(1)]) (use key False in simp_all)
      let ?e2 = "?e1\<lparr>e_resourceStoreLock := lk_Unlock lk\<rparr>"
      have "drop_stale key fresh (name # names) e = drop_stale key fresh names ?e2"
        using False by (simp add: lk r Let_def)
      then show ?thesis using Cons.IH [of ?e2] Cons.prems inv by simp
    next
      case True
      have "store_inv ?N' ?S"
        by (rule store_inv_fewer_names [OF Cons.prems(1)]) auto
      then have inv: "store_inv ?N' ?S'"
        by (rule store_inv_upd_unrecorded)
          (use key rec store_inv_owner [OF Cons.prems(1)] in \<open>fastforce split: if_splits\<close>)+
      let ?e2 = "(enqueueEnvoyResource ?r (?e1\<lparr>e_ingressToResourceNameStore := ?N'\<rparr>))
                   \<lparr>e_resourceStoreLock := lk_Unlock lk\<rparr>"
      have "drop_stale key fresh (name # names) e = drop_stale key fresh names ?e2"
        using True by (simp add: lk r Let_def)
      then show ?thesis using Cons.IH [of ?e2] Cons.prems inv by auto
    qed
  qed
qed

text \<open>The insertion loop never panics and keeps the invariant of the maps.\<close>

lemma insert_resources_inv:
  assumes "store_inv (e_ingressToResourceNameStore e) (e_resourceStore e)"
    and "key |\<in>| fmdom (e_ingressToResourceNameStore e)"
  shows "\<exists>e'. insert_resources key rs e = Ok e' \<and>
    store_inv (e_ingressToResourceNameStore e') (e_resourceStore e') \<and>
    key |\<in>| fmdom (e_ingressToResourceNameStore e') \<and>
    e_resourceStoreLock e' = e_resourceStoreLock e \<and> ing_frame e e'"
  using assms
proof (induction rs arbitrary: e)
  case Nil
  then show ?case by simp
next
  case (Cons r rs)
  let ?N = "e_ingressToResourceNameStore e" and ?S = "e_resourceStore e"
  let ?R = "EnvoyResourceKeyFunc r"
  obtain ns where ns: "fmlookup ?N key = Some ns" using Cons.prems(2) by (auto simp: fmlookup_dom_iff)
  show ?case
  proof (cases "fmlookup ?S ?R")
    case None
    let ?r = "r\<lparr>r_IngressRef := finsert key (r_IngressRef r)\<rparr>"
    let ?e1 = "enqueueEnvoyResource ?r (e\<lparr>e_resourceStore := fmupd ?R ?r ?S,
                 e_ingressToResourceNameStore := fmupd key (finsert ?R ns) ?N\<rparr>)"
    have "insert_resources key (r # rs) e = insert_resources key rs ?e1"
      by (simp add: None ns Let_def)
    moreover have "store_inv (fmupd key (finsert ?R ns) ?N) (fmupd ?R ?r ?S)"
      using store_inv_new [OF Cons.prems(1) None, of ?r key] by (simp add: get_set_def ns)
    moreover have "ing_frame e ?e1" by (simp add: ing_frame_def)
    ultimately show ?thesis
      using Cons.IH [of ?e1] by (auto intro: ing_frame_trans)
  next
    case (Some s)
    let ?s = "s\<lparr>r_IngressRef := finsert key (r_IngressRef s), r_Spec := r_Spec r, r_ResourceVersion := r_ResourceVersion r\<rparr>"
    let ?e1 = "enqueueEnvoyResource ?s (e\<lparr>e_resourceStore := fmupd ?R ?s ?S\<rparr>)"
    have "insert_resources key (r # rs) e = insert_resources key rs ?e1"
      by (simp add: Some Let_def)
    moreover have "store_inv ?N (fmupd ?R ?s ?S)"
      by (rule store_inv_upd_referenced [OF Cons.prems(1)])
        (use store_inv_key [OF Cons.prems(1) Some] in simp_all)
    moreover have "ing_frame e ?e1" by (simp add: ing_frame_def)
    ultimately show ?thesis
      using Cons.IH [of ?e1] Cons.prems(2) by (auto intro: ing_frame_trans)
  qed
qed

lemma record_nodegroups_simps [simp]:
  "e_resourceStore (record_nodegroups k i e) = e_resourceStore e"
  "e_ingressToResourceNameStore (record_nodegroups k i e) = e_ingressToResourceNameStore e"
  "e_resourceStoreLock (record_nodegroups k i e) = e_resourceStoreLock e"
  "e_queue (record_nodegroups k i e) = e_queue e"
  "e_resourceQueue (record_nodegroups k i e) = e_resourceQueue e"
  "e_lc (record_nodegroups k i e) = e_lc e"
  "e_outbox (record_nodegroups k i e) = e_outbox e"
  by (simp_all add: record_nodegroups_def)

lemma eic_invI:
  assumes "store_inv (e_ingressToResourceNameStore e') (e_resourceStore e')"
    and "\<not> lk_writer (e_resourceStoreLock e')" and "ing_frame e e'" and "eic_inv e"
  shows "eic_inv e'"
  using assms by (auto simp: eic_inv_def core_inv_def ing_frame_def)

lemma storeResources_inv:
  assumes "eic_inv e" and "range_order (p_ord P)"
  shows "leaves (\<lambda>e'. eic_inv e' \<and> ing_frame e e') (storeResources P key i rs e)"
proof -
  let ?names = "get_set (e_ingressToResourceNameStore e) key"
  let ?fresh = "fset_of_list (map EnvoyResourceKeyFunc rs)"
  let ?e1 = "e\<lparr>e_ingressToResourceNameStore := fmupd key ?names (e_ingressToResourceNameStore e)\<rparr>"
  let ?drop = "drop_stale key ?fresh (p_ord P ?names) ?e1"
  have si: "store_inv (e_ingressToResourceNameStore e) (e_resourceStore e)"
    and w: "\<not> lk_writer (e_resourceStoreLock e)"
    using assms(1) by (auto simp: eic_inv_def core_inv_def)
  have "store_inv (e_ingressToResourceNameStore ?e1) (e_resourceStore ?e1)"
    using store_inv_fewer_names [OF si, of "e_ingressToResourceNameStore ?e1"] by simp
  then have inv: "leaves (\<lambda>e'. store_inv (e_ingressToResourceNameStore e') (e_resourceStore e') \<and>
      key |\<in>| fmdom (e_ingressToResourceNameStore e') \<and> \<not> lk_writer (e_resourceStoreLock e')) ?drop"
    using w by (intro drop_stale_store_inv) (simp_all add: range_orderD [OF assms(2)])
  have frame: "leaves (ing_frame e) ?drop"
    by (rule leaves_frame [OF drop_stale_frame]) (simp add: ing_frame_def)
  show ?thesis
  proof (cases ?drop)
    case (Finished e2 u)
    let ?e3 = "record_nodegroups key i e2"
    have e2: "store_inv (e_ingressToResourceNameStore e2) (e_resourceStore e2)"
        "key |\<in>| fmdom (e_ingressToResourceNameStore e2)" "\<not> lk_writer (e_resourceStoreLock e2)" "ing_frame e e2"
      using inv frame Finished by auto
    show ?thesis
    proof (cases "lk_Lock (e_resourceStoreLock ?e3)")
      case None
      then show ?thesis using e2 Finished eic_invI [OF _ _ _ assms(1)]
        by (simp add: storeResources_def Let_def ing_frame_def)
    next
      case (Some lk)
      obtain e4 where "insert_resources key rs (?e3\<lparr>e_resourceStoreLock := lk\<rparr>) = Ok e4"
          "store_inv (e_ingressToResourceNameStore e4) (e_resourceStore e4)"
          "ing_frame (?e3\<lparr>e_resourceStoreLock := lk\<rparr>) e4"
        using insert_resources_inv [of "?e3\<lparr>e_resourceStoreLock := lk\<rparr>" key rs] e2 by auto
      then show ?thesis using e2 Finished Some eic_invI [OF _ _ _ assms(1)]
        by (simp add: storeResources_def Let_def ing_frame_def)
    qed
  qed (use inv frame eic_invI [OF _ _ _ assms(1)] in \<open>auto simp: storeResources_def Let_def\<close>)
qed

lemma syncEnvoyIngress_inv:
  assumes "eic_inv e" and "range_order (p_ord P)"
  shows "leaves (\<lambda>e'. eic_inv e' \<and> ing_frame e e') (syncEnvoyIngress P c key e)"
  using assms
  by (auto simp: syncEnvoyIngress_def storeResources_inv deletedIngress_inv
      split: result.split prod.split lookup.split)

text \<open>The synchronisation of a resource only drops a resource nobody has recorded.\<close>

lemma syncEnvoyResource_inv:
  assumes "eic_inv e"
  shows "leaves (\<lambda>e'. eic_inv e' \<and> e_resourceQueue e' = e_resourceQueue e) (syncEnvoyResource P R e)"
proof (cases "lk_RLock (e_resourceStoreLock e)")
  case None
  then show ?thesis using assms by (simp add: syncEnvoyResource_def)
next
  case (Some lk)
  then have w: "\<not> lk_writer lk" by (simp add: lk_RLock_cases)
  have si: "store_inv (e_ingressToResourceNameStore e) (e_resourceStore e)"
    using assms by (simp add: eic_inv_def core_inv_def)
  show ?thesis
  proof (cases "fmlookup (e_resourceStore e) R")
    case None
    then show ?thesis using Some w assms
      by (simp add: syncEnvoyResource_def eic_inv_def core_inv_def)
  next
    case (Some r)
    let ?e' = "e\<lparr>e_resourceStore := (if r_IngressRef r \<noteq> {||} then e_resourceStore e else fmdrop R (e_resourceStore e)),
                 e_resourceStoreLock := lk_RUnlock lk\<rparr>"
    have "r_IngressRef r = {||} \<Longrightarrow> store_inv (e_ingressToResourceNameStore e) (fmdrop R (e_resourceStore e))"
      using store_inv_recorded [OF si] Some by (intro store_inv_drop [OF si]) fastforce
    then have inv: "eic_inv ?e'" using si w assms by (simp add: eic_inv_def core_inv_def)
    let ?d = "dispatch_nodes P r (if r_IngressRef r \<noteq> {||} then InsertOperation else DeleteOperation)
                (p_ord P (nodesToSend P (e_lc e) (r_NodeGroup r))) ?e' None"
    have eq: "syncEnvoyResource P R e =
        (case ?d of Ok (e'', err) \<Rightarrow> Finished e'' err | Err er \<Rightarrow> Finished ?e' (Some er) | Panic p \<Rightarrow> Crashed p)"
      by (simp add: syncEnvoyResource_def Let_def Some \<open>lk_RLock _ = _\<close>)
    show ?thesis
    proof (cases ?d)
      case (Ok x)
      then have "same_store ?e' (fst x)" using dispatch_nodes_same [of _ _ _ _ ?e' _ "fst x" "snd x"] by simp
      then show ?thesis
        unfolding eq Ok using inv same_store_inv [of ?e' "fst x"] by (cases x) (simp add: same_store_def)
    qed (unfold eq, use inv in simp_all)
  qed
qed

section \<open>The initialisation\<close>

lemma initiate_resources_inv:
  assumes "store_inv (e_ingressToResourceNameStore e) (e_resourceStore e)"
  shows "store_inv (e_ingressToResourceNameStore (initiate_resources key rs e))
      (e_resourceStore (initiate_resources key rs e)) \<and>
    e_resourceStoreLock (initiate_resources key rs e) = e_resourceStoreLock e \<and>
    ing_frame e (initiate_resources key rs e)"
  using assms
proof (induction rs arbitrary: e)
  case Nil
  then show ?case by simp
next
  case (Cons r rs)
  let ?N = "e_ingressToResourceNameStore e" and ?S = "e_resourceStore e"
  let ?R = "EnvoyResourceKeyFunc r"
  show ?case
  proof (cases "fmlookup ?S ?R")
    case None
    let ?r = "r\<lparr>r_IngressRef := finsert key (r_IngressRef r)\<rparr>"
    let ?e1 = "enqueueEnvoyResource ?r (e\<lparr>e_resourceStore := fmupd ?R ?r ?S,
                 e_ingressToResourceNameStore := fmupd key (finsert ?R (get_set ?N key)) ?N\<rparr>)"
    have "initiate_resources key (r # rs) e = initiate_resources key rs ?e1"
      by (simp add: None Let_def)
    moreover have "store_inv (fmupd key (finsert ?R (get_set ?N key)) ?N) (fmupd ?R ?r ?S)"
      using store_inv_new [OF Cons.prems None, of ?r key] by simp
    moreover have "ing_frame e ?e1" by (simp add: ing_frame_def)
    ultimately show ?thesis
      using Cons.IH [of ?e1] by (auto intro: ing_frame_trans)
  next
    case (Some s)
    let ?s1 = "if r_Spec r \<noteq> r_Spec s then s\<lparr>r_ResourceVersion := r_ResourceVersion r, r_Spec := r_Spec r\<rparr> else s"
    let ?s = "?s1\<lparr>r_IngressRef := finsert key (r_IngressRef ?s1)\<rparr>"
    let ?e0 = "if r_Spec r \<noteq> r_Spec s then enqueueEnvoyResource ?s1 e else e"
    let ?e1 = "?e0\<lparr>e_resourceStore := fmupd ?R ?s ?S\<rparr>"
    have "e_resourceStore ?e0 = ?S" by simp
    then have "initiate_resources key (r # rs) e = initiate_resources key rs ?e1"
      by (simp only: initiate_resources.simps Let_def Some option.case)
    moreover have "store_inv ?N (fmupd ?R ?s ?S)"
      by (rule store_inv_upd_referenced [OF Cons.prems])
        (use store_inv_key [OF Cons.prems Some] in simp_all)
    moreover have "ing_frame e ?e1" "e_resourceStoreLock ?e1 = e_resourceStoreLock e"
        "e_ingressToResourceNameStore ?e1 = ?N" "e_resourceStore ?e1 = fmupd ?R ?s ?S"
      by (simp_all add: ing_frame_def)
    ultimately obtain e1 where "initiate_resources key (r # rs) e = initiate_resources key rs e1"
        "store_inv (e_ingressToResourceNameStore e1) (e_resourceStore e1)" "ing_frame e e1"
        "e_resourceStoreLock e1 = e_resourceStoreLock e"
      by (metis (no_types, lifting))
    then show ?thesis
      using Cons.IH [of e1] by (auto intro: ing_frame_trans)
  qed
qed

lemma initiate_ingresses_inv:
  "eic_inv e \<Longrightarrow> initiate_ingresses c is e = Ok e' \<Longrightarrow> eic_inv e'"
proof (induction "is" arbitrary: e)
  case Nil
  then show ?case by simp
next
  case (Cons i "is")
  let ?N = "e_ingressToResourceNameStore e"
  show ?case
  proof (cases "isEnvoyIngress i")
    case False
    then show ?thesis using Cons by simp
  next
    case True
    define G where "G = (if nodegroup_annotation i = [] then e_ingressNodeGroupStore e
      else fmupd (ing_key i) (get_set (e_ingressNodeGroupStore e) (ing_key i) |\<union>|
        fset_of_list (nodegroup_annotation i)) (e_ingressNodeGroupStore e))"
    let ?e0 = "e\<lparr>e_ingressNodeGroupStore := G, e_ingressToResourceNameStore := fmupd (ing_key i) {||} ?N\<rparr>"
    obtain rs where rest: "initiate_ingresses c is (initiate_resources (ing_key i) rs ?e0) = Ok e'"
      using Cons.prems(2) True by (cases "nodegroup_annotation i = []") (auto simp: Let_def bind_iffs G_def)
    have "store_inv (e_ingressToResourceNameStore ?e0) (e_resourceStore ?e0)"
      using Cons.prems(1) store_inv_fewer_names [of ?N "e_resourceStore e" "fmupd (ing_key i) {||} ?N"]
      by (simp add: eic_inv_def core_inv_def)
    moreover from initiate_resources_inv [OF this, of "ing_key i" rs]
    have "ing_frame e (initiate_resources (ing_key i) rs ?e0)"
      by (simp add: ing_frame_def)
    ultimately have "eic_inv (initiate_resources (ing_key i) rs ?e0)"
      using initiate_resources_inv [of ?e0 "ing_key i" rs] Cons.prems(1)
      by (intro eic_invI [OF _ _ _ Cons.prems(1)]) (auto simp: eic_inv_def)
    then show ?thesis using rest by (rule Cons.IH)
  qed
qed

lemma Run_init_inv: "eic_inv e \<Longrightarrow> Run_init c e = Ok e' \<Longrightarrow> eic_inv e'"
  by (auto simp: Run_init_def initiateEnvoyResources_def bind_iffs
      dest!: initCache_same intro: initiate_ingresses_inv same_store_inv)


section \<open>Runs of the controller\<close>

text \<open>
  One step of a run: an informer event, a timer of a queue, a worker that takes a key, a worker
  that finishes with a key it holds or gets stuck on the lock. The listers' caches may be
  different at every step. A step that crashes ends the process, so it has no successor.
\<close>

inductive eic_step :: "params \<Rightarrow> eic \<Rightarrow> eic \<Rightarrow> bool" for P where
  add_ingress: "eic_step P e (addIngress i e)"
| update_ingress: "eic_step P e (updateIngress old cur e)"
| delete_ingress: "eic_step P e (deleteIngress d e)"
| add_v1beta1: "eic_step P e (addV1beta1Ingress b e)"
| update_v1beta1: "eic_step P e (updateV1beta1Ingress bold bcur e)"
| delete_v1beta1: "deleteV1beta1Ingress bd e = Ok e' \<Longrightarrow> eic_step P e e'"
| add_service: "addService c s e = Ok e' \<Longrightarrow> eic_step P e e'"
| update_service: "updateService c s s' e = Ok e' \<Longrightarrow> eic_step P e e'"
| delete_service: "deleteService c sd e = Ok e' \<Longrightarrow> eic_step P e e'"
| add_endpoint: "addEndpoint c ep e = Ok e' \<Longrightarrow> eic_step P e e'"
| update_endpoint: "updateEndpoint c ep ep' e = Ok e' \<Longrightarrow> eic_step P e e'"
| delete_endpoint: "deleteEndpoint c epd e = Ok e' \<Longrightarrow> eic_step P e e'"
| add_secret: "eic_step P e (addSecret c t e)"
| update_secret: "eic_step P e (updateSecret c t t' e)"
| delete_secret: "eic_step P e (deleteSecret c td e)"
| add_node: "addNode P n e = Ok e' \<Longrightarrow> eic_step P e e'"
| update_node: "updateNode P n n' e = Ok e' \<Longrightarrow> eic_step P e e'"
| delete_node: "eic_step P e (deleteNode nd e)"
| start: "Run_init c e = Ok e' \<Longrightarrow> eic_step P e e'"
| stop: "eic_step P e (e\<lparr>e_queue := wq_ShutDown (e_queue e), e_resourceQueue := wq_ShutDown (e_resourceQueue e)\<rparr>)"
| ingress_timer: "eic_step P e (e\<lparr>e_queue := wq_Timer k (e_queue e)\<rparr>)"
| ingress_get: "wq_Get (e_queue e) = Item k q \<Longrightarrow> eic_step P e (e\<lparr>e_queue := q\<rparr>)"
| ingress_done: "k |\<in>| wq_processing (e_queue e) \<Longrightarrow> ingress_work P c k e = Finished e' u \<Longrightarrow> eic_step P e e'"
| ingress_stuck: "k |\<in>| wq_processing (e_queue e) \<Longrightarrow> ingress_work P c k e = Blocked e' \<Longrightarrow> eic_step P e e'"
| resource_timer: "eic_step P e (e\<lparr>e_resourceQueue := wq_Timer k (e_resourceQueue e)\<rparr>)"
| resource_get: "wq_Get (e_resourceQueue e) = Item k q \<Longrightarrow> eic_step P e (e\<lparr>e_resourceQueue := q\<rparr>)"
| resource_done: "k |\<in>| wq_processing (e_resourceQueue e) \<Longrightarrow> resource_work P k e = Finished e' u \<Longrightarrow> eic_step P e e'"
| resource_stuck: "k |\<in>| wq_processing (e_resourceQueue e) \<Longrightarrow> resource_work P k e = Blocked e' \<Longrightarrow> eic_step P e e'"

inductive_cases eic_stepE: "eic_step P e e'"

lemmas handlers_same = addIngress_same updateIngress_same deleteIngress_same addService_same
  updateService_same deleteService_same addEndpoint_same updateEndpoint_same deleteEndpoint_same
  addSecret_same updateSecret_same deleteSecret_same addNode_same updateNode_same deleteNode_same

lemma eic_inv_New: "eic_inv NewEnvoyIngressController"
  by (simp add: eic_inv_def core_inv_def NewEnvoyIngressController_def store_inv_empty wq_inv_new lk_free_def)

lemma eic_inv_queues:
  "eic_inv e \<Longrightarrow> wq_inv q \<Longrightarrow> eic_inv (e\<lparr>e_queue := q\<rparr>)"
  "eic_inv e \<Longrightarrow> wq_inv q \<Longrightarrow> eic_inv (e\<lparr>e_resourceQueue := q\<rparr>)"
  by (simp_all add: eic_inv_def core_inv_def)

lemma eic_inv_wq: "eic_inv e \<Longrightarrow> wq_inv (e_queue e)" "eic_inv e \<Longrightarrow> wq_inv (e_resourceQueue e)"
  by (simp_all add: eic_inv_def core_inv_def)

lemma finish_ingress_inv:
  "eic_inv e \<Longrightarrow> k |\<in>| wq_processing (e_queue e) \<Longrightarrow> eic_inv (finish_ingress k e err)"
  unfolding finish_ingress_def Let_def
  by (cases err) (simp_all add: eic_inv_queues inv_intros eic_inv_wq wq_AddRateLimited_waits)

lemma finish_resource_inv:
  "eic_inv e \<Longrightarrow> k |\<in>| wq_processing (e_resourceQueue e) \<Longrightarrow> eic_inv (finish_resource k e err)"
  unfolding finish_resource_def Let_def
  by (cases err) (simp_all add: eic_inv_queues inv_intros eic_inv_wq wq_AddRateLimited_waits)

lemma ingress_work_inv:
  assumes "eic_inv e" and "range_order (p_ord P)" and "k |\<in>| wq_processing (e_queue e)"
  shows "leaves eic_inv (ingress_work P c k e)"
  using syncEnvoyIngress_inv [OF assms(1,2), of c k] assms(3)
  by (cases "syncEnvoyIngress P c k e") (auto simp: ingress_work_def ing_frame_def intro: finish_ingress_inv)

lemma resource_work_inv:
  assumes "eic_inv e" and "k |\<in>| wq_processing (e_resourceQueue e)"
  shows "leaves eic_inv (resource_work P k e)"
  using syncEnvoyResource_inv [OF assms(1), of P k] assms(2)
  by (cases "syncEnvoyResource P k e") (auto simp: resource_work_def intro: finish_resource_inv)

lemma eic_step_inv:
  assumes "eic_step P e e'" and "range_order (p_ord P)" and "eic_inv e"
  shows "eic_inv e'"
  using assms
proof (induction rule: eic_step.induct)
  case (ingress_done k e c e' u)
  then show ?case using ingress_work_inv [of e P k c] by simp
next
  case (ingress_stuck k e c e')
  then show ?case using ingress_work_inv [of e P k c] by simp
next
  case (resource_done k e e' u)
  then show ?case using resource_work_inv [of e k P] by simp
next
  case (resource_stuck k e e')
  then show ?case using resource_work_inv [of e k P] by simp
next
  case (ingress_get e k q)
  then show ?case using eic_inv_queues(1) [OF _ wq_inv_Get [OF eic_inv_wq(1)]] by metis
next
  case (resource_get e k q)
  then show ?case using eic_inv_queues(2) [OF _ wq_inv_Get [OF eic_inv_wq(2)]] by metis
next
  case (delete_v1beta1 bd e e')
  then show ?case
    by (auto simp: deleteV1beta1Ingress_def split: deleted.splits intro: same_store_inv deleteIngress_same)
qed (auto simp: addV1beta1Ingress_def updateV1beta1Ingress_def eic_inv_queues eic_inv_wq inv_intros
       intro: same_store_inv handlers_same Run_init_inv)

lemma eic_reach_inv:
  "(eic_step P)\<^sup>*\<^sup>* NewEnvoyIngressController e \<Longrightarrow> range_order (p_ord P) \<Longrightarrow> eic_inv e"
  by (induction rule: rtranclp_induct) (auto intro: eic_inv_New eic_step_inv)

end
