(* ===== verification/Controller_Spec.thy ===== *)
theory Controller_Spec
  imports Controller_Inv Resource_Spec
begin

text \<open>
  What the handlers of the controller do to the resource store: the functional behaviour of the
  synchronisation of an ingress and of a resource, its refinement of an abstract table of
  references, and the two ways in which it goes wrong (a reference that is never taken back, and a
  read lock that is never released).
\<close>

section \<open>The loops of the synchronisation, with the lock free\<close>

definition lk_idle :: "rwlock \<Rightarrow> bool" where
  "lk_idle l \<longleftrightarrow> \<not> lk_writer l \<and> \<not> lk_waiting l \<and> lk_readers l = 0"

lemma lk_idle_Lock: "lk_idle l \<Longrightarrow> lk_Lock l = Some (l\<lparr>lk_writer := True\<rparr>)"
  by (simp add: lk_idle_def lk_Lock_def)

lemma lk_idle_Unlock: "lk_idle l \<Longrightarrow> lk_Unlock (l\<lparr>lk_writer := True\<rparr>) = l"
  by (simp add: lk_idle_def lk_Unlock_def)

text \<open>The references of every resource, and the keys that wait for a resource worker.\<close>

definition refs_of :: "(string, Resource) fmap \<Rightarrow> string \<Rightarrow> string set" where
  "refs_of store R = (case fmlookup store R of None \<Rightarrow> {} | Some r \<Rightarrow> fset (r_IngressRef r))"

abbreviation store_refs :: "eic \<Rightarrow> string \<Rightarrow> string set" where
  "store_refs e \<equiv> refs_of (e_resourceStore e)"

abbreviation recorded :: "eic \<Rightarrow> string \<Rightarrow> string fset" where
  "recorded e key \<equiv> get_set (e_ingressToResourceNameStore e) key"

abbreviation pending :: "eic \<Rightarrow> string fset" where
  "pending e \<equiv> wq_dirty (e_resourceQueue e)"

abbreviation runs :: "eic \<Rightarrow> bool" where
  "runs e \<equiv> \<not> wq_shuttingDown (e_resourceQueue e)"

lemma refs_of_upd [simp]: "refs_of (fmupd R r S) = (refs_of S)(R := fset (r_IngressRef r))"
  by (simp add: fun_eq_iff refs_of_def)

lemma refs_of_lookup: "fmlookup S R = Some r \<Longrightarrow> refs_of S R = fset (r_IngressRef r)"
  by (simp add: refs_of_def)

lemma enqueueEnvoyResource_queue [simp]:
  "wq_shuttingDown (e_resourceQueue (enqueueEnvoyResource r e)) = wq_shuttingDown (e_resourceQueue e)"
  "runs e \<Longrightarrow> pending (enqueueEnvoyResource r e) = finsert (EnvoyResourceKeyFunc r) (pending e)"
  by (simp_all add: enqueueEnvoyResource_def wq_pending_Add)

text \<open>
  The loop over the resources of a deleted ingress: with the lock free it returns with the lock
  free; every resource of the list loses the reference, and the ones left without are queued.
\<close>

lemma release_resources_spec:
  assumes "lk_idle (e_resourceStoreLock e)" and "keys_ok (e_resourceStore e)" and "runs e"
    and "\<forall>R \<in> set todo. R |\<in>| fmdom (e_resourceStore e)"
  shows "\<exists>e'. release_resources key todo e = Finished e' () \<and>
    e_resourceStoreLock e' = e_resourceStoreLock e \<and>
    e_ingressToResourceNameStore e' = e_ingressToResourceNameStore e \<and>
    fmdom (e_resourceStore e') = fmdom (e_resourceStore e) \<and>
    store_refs e' = (\<lambda>R. if R \<in> set todo then store_refs e R - {key} else store_refs e R) \<and>
    (\<forall>R \<in> set todo. store_refs e' R = {} \<longrightarrow> R |\<in>| pending e') \<and> pending e |\<subseteq>| pending e'"
  using assms
proof (induction todo arbitrary: e)
  case Nil
  then show ?case by simp
next
  case (Cons name names)
  obtain r where r: "fmlookup (e_resourceStore e) name = Some r"
    using Cons.prems(4) by (auto simp: fmlookup_dom_iff)
  let ?r = "r\<lparr>r_IngressRef := r_IngressRef r |-| {|key|}\<rparr>"
  let ?e1 = "e\<lparr>e_resourceStore := fmupd name ?r (e_resourceStore e)\<rparr>"
  define e2 where "e2 = (if r_IngressRef ?r = {||} then enqueueEnvoyResource ?r ?e1 else ?e1)"
  have rkey: "EnvoyResourceKeyFunc r = name"
    using Cons.prems(2) r by (simp add: keys_ok_def)
  have e2: "e_resourceStoreLock e2 = e_resourceStoreLock e"
      "e_resourceStore e2 = fmupd name ?r (e_resourceStore e)"
      "e_ingressToResourceNameStore e2 = e_ingressToResourceNameStore e" "runs e2"
      "r_IngressRef ?r = {||} \<Longrightarrow> name |\<in>| pending e2" "pending e |\<subseteq>| pending e2"
    using Cons.prems(3) rkey unfolding e2_def by auto
  have "release_resources key (name # names) e =
      release_resources key names (e2\<lparr>e_resourceStoreLock := e_resourceStoreLock e\<rparr>)"
    using Cons.prems(1) by (simp add: e2_def r Let_def lk_idle_Lock lk_idle_Unlock)
  moreover have "e2\<lparr>e_resourceStoreLock := e_resourceStoreLock e\<rparr> = e2"
    by (simp add: e2(1) [symmetric])
  ultimately have step: "release_resources key (name # names) e = release_resources key names e2"
    by simp
  have "keys_ok (e_resourceStore e2)"
    using Cons.prems(2) rkey by (simp add: e2 keys_ok_def)
  moreover have "\<forall>R \<in> set names. R |\<in>| fmdom (e_resourceStore e2)"
    using Cons.prems(4) by (simp add: e2)
  ultimately obtain e' where e': "release_resources key names e2 = Finished e' ()"
      "e_resourceStoreLock e' = e_resourceStoreLock e2"
      "e_ingressToResourceNameStore e' = e_ingressToResourceNameStore e2"
      "fmdom (e_resourceStore e') = fmdom (e_resourceStore e2)"
      "store_refs e' = (\<lambda>R. if R \<in> set names then store_refs e2 R - {key} else store_refs e2 R)"
      "\<forall>R \<in> set names. store_refs e' R = {} \<longrightarrow> R |\<in>| pending e'" "pending e2 |\<subseteq>| pending e'"
    using Cons.IH [of e2] Cons.prems(1) e2 by auto
  show ?case
    unfolding step
  proof (intro exI [of _ e'] conjI)
    show "store_refs e' = (\<lambda>R. if R \<in> set (name # names) then store_refs e R - {key} else store_refs e R)"
      by (auto simp: e'(5) e2(2) refs_of_lookup [OF r] fun_eq_iff)
    show "fmdom (e_resourceStore e') = fmdom (e_resourceStore e)"
      using r by (simp add: e' e2 fmdomI finsert_absorb)
    show "\<forall>R \<in> set (name # names). store_refs e' R = {} \<longrightarrow> R |\<in>| pending e'"
    proof (intro ballI impI)
      fix R assume R: "R \<in> set (name # names)" "store_refs e' R = {}"
      show "R |\<in>| pending e'"
      proof (cases "R \<in> set names")
        case False
        then have "R = name" "r_IngressRef ?r = {||}"
          using R by (auto simp: e'(5) e2(2))
        then show ?thesis using e2(5) e'(7) by blast
      qed (use R e'(6) in simp)
    qed
  qed (use e' e2 in auto)
qed

text \<open>The deletion loop.\<close>

lemma drop_stale_spec:
  assumes "lk_idle (e_resourceStoreLock e)" and "keys_ok (e_resourceStore e)" and "runs e"
    and "\<forall>R \<in> set todo. R |\<in>| fmdom (e_resourceStore e)"
  shows "\<exists>e'. drop_stale key fresh todo e = Finished e' () \<and>
    e_resourceStoreLock e' = e_resourceStoreLock e \<and> runs e' \<and>
    store_refs e' = (\<lambda>R. if R \<in> set todo \<and> R |\<notin>| fresh then store_refs e R - {key} else store_refs e R) \<and>
    (\<forall>R \<in> set todo. R |\<notin>| fresh \<longrightarrow> store_refs e' R = {} \<longrightarrow> R |\<in>| pending e') \<and> pending e |\<subseteq>| pending e'"
  using assms
proof (induction todo arbitrary: e)
  case Nil
  then show ?case by simp
next
  case (Cons name names)
  obtain r where r: "fmlookup (e_resourceStore e) name = Some r"
    using Cons.prems(4) by (auto simp: fmlookup_dom_iff)
  let ?r = "r\<lparr>r_IngressRef := r_IngressRef r |-| {|key|}\<rparr>"
  let ?e1 = "e\<lparr>e_resourceStore := fmupd name ?r (e_resourceStore e)\<rparr>"
  define e2 where "e2 = (if name |\<in>| fresh then e else if r_IngressRef ?r \<noteq> {||} then ?e1 else
    enqueueEnvoyResource ?r (?e1\<lparr>e_ingressToResourceNameStore :=
      fmupd key (get_set (e_ingressToResourceNameStore e) key |-| {|name|}) (e_ingressToResourceNameStore e)\<rparr>))"
  have rkey: "EnvoyResourceKeyFunc r = name"
    using Cons.prems(2) r by (simp add: keys_ok_def)
  have e2: "e_resourceStoreLock e2 = e_resourceStoreLock e" "runs e2"
      "e_resourceStore e2 = (if name |\<in>| fresh then e_resourceStore e else fmupd name ?r (e_resourceStore e))"
      "name |\<notin>| fresh \<Longrightarrow> r_IngressRef ?r = {||} \<Longrightarrow> name |\<in>| pending e2" "pending e |\<subseteq>| pending e2"
    using Cons.prems(3) rkey unfolding e2_def by auto
  have "drop_stale key fresh (name # names) e =
      drop_stale key fresh names (e2\<lparr>e_resourceStoreLock := e_resourceStoreLock e\<rparr>)"
    using Cons.prems(1) by (simp add: e2_def r Let_def lk_idle_Lock lk_idle_Unlock)
  moreover have "e2\<lparr>e_resourceStoreLock := e_resourceStoreLock e\<rparr> = e2"
    by (simp add: e2(1) [symmetric])
  ultimately have step: "drop_stale key fresh (name # names) e = drop_stale key fresh names e2"
    by simp
  have "keys_ok (e_resourceStore e2)"
    using Cons.prems(2) rkey by (simp add: e2 keys_ok_def)
  moreover have "\<forall>R \<in> set names. R |\<in>| fmdom (e_resourceStore e2)"
    using Cons.prems(4) by (simp add: e2)
  ultimately obtain e' where e': "drop_stale key fresh names e2 = Finished e' ()"
      "e_resourceStoreLock e' = e_resourceStoreLock e2" "runs e'"
      "store_refs e' = (\<lambda>R. if R \<in> set names \<and> R |\<notin>| fresh then store_refs e2 R - {key} else store_refs e2 R)"
      "\<forall>R \<in> set names. R |\<notin>| fresh \<longrightarrow> store_refs e' R = {} \<longrightarrow> R |\<in>| pending e'" "pending e2 |\<subseteq>| pending e'"
    using Cons.IH [of e2] Cons.prems(1) e2 by auto
  show ?case
    unfolding step
  proof (intro exI [of _ e'] conjI)
    show "store_refs e' = (\<lambda>R. if R \<in> set (name # names) \<and> R |\<notin>| fresh then store_refs e R - {key}
        else store_refs e R)"
      by (auto simp: e'(4) e2(3) refs_of_lookup [OF r] fun_eq_iff)
    show "\<forall>R \<in> set (name # names). R |\<notin>| fresh \<longrightarrow> store_refs e' R = {} \<longrightarrow> R |\<in>| pending e'"
    proof (intro ballI impI)
      fix R assume R: "R \<in> set (name # names)" "R |\<notin>| fresh" "store_refs e' R = {}"
      show "R |\<in>| pending e'"
      proof (cases "R \<in> set names")
        case False
        then have "R = name" "r_IngressRef ?r = {||}"
          using R by (auto simp: e'(4) e2(3))
        then show ?thesis using R(2) e2(4) e'(6) by blast
      qed (use R e'(5) in simp)
    qed
  qed (use e' e2 in auto)
qed

text \<open>The insertion loop: the last of several resources with one key gives the spec.\<close>

abbreviation keys_of :: "Resource list \<Rightarrow> string set" where
  "keys_of rs \<equiv> EnvoyResourceKeyFunc ` set rs"

definition published :: "string \<Rightarrow> Resource \<Rightarrow> Resource \<Rightarrow> bool" where
  "published key r s \<longleftrightarrow> key |\<in>| r_IngressRef s \<and> r_Spec s = r_Spec r \<and> r_ResourceVersion s = r_ResourceVersion r"

lemma insert_resources_spec:
  assumes "key |\<in>| fmdom (e_ingressToResourceNameStore e)" and "runs e"
    and "\<forall>r \<in> set rs. r_IngressRef r = {|key|}" and "keys_ok (e_resourceStore e)"
  shows "\<exists>e'. insert_resources key rs e = Ok e' \<and> e_resourceStoreLock e' = e_resourceStoreLock e \<and> runs e' \<and>
    store_refs e' = (\<lambda>R. if R \<in> keys_of rs then insert key (store_refs e R) else store_refs e R) \<and>
    (\<forall>R \<in> keys_of rs. \<exists>s. fmlookup (e_resourceStore e') R = Some s \<and>
       (\<exists>r \<in> set rs. EnvoyResourceKeyFunc r = R \<and> published key r s) \<and> R |\<in>| pending e') \<and>
    (\<forall>R. R \<notin> keys_of rs \<longrightarrow> fmlookup (e_resourceStore e') R = fmlookup (e_resourceStore e) R) \<and>
    pending e |\<subseteq>| pending e'"
  using assms
proof (induction rs arbitrary: e)
  case Nil
  then show ?case by simp
next
  case (Cons r rs)
  let ?R = "EnvoyResourceKeyFunc r" and ?S = "e_resourceStore e"
  obtain s e1 where e1: "insert_resources key (r # rs) e = insert_resources key rs e1"
      "e_resourceStore e1 = fmupd ?R s ?S" "published key r s" "EnvoyResourceKeyFunc s = ?R" "fset (r_IngressRef s) = insert key (store_refs e ?R)"
      "e_resourceStoreLock e1 = e_resourceStoreLock e" "runs e1"
      "key |\<in>| fmdom (e_ingressToResourceNameStore e1)" "?R |\<in>| pending e1" "pending e |\<subseteq>| pending e1"
  proof (cases "fmlookup ?S ?R")
    case None
    obtain ns where ns: "fmlookup (e_ingressToResourceNameStore e) key = Some ns"
      using Cons.prems(1) by (auto simp: fmlookup_dom_iff)
    let ?r = "r\<lparr>r_IngressRef := finsert key (r_IngressRef r)\<rparr>"
    have "fset (r_IngressRef ?r) = insert key (store_refs e ?R)"
      using None Cons.prems(3) by (simp add: refs_of_def)
    then show thesis
      using None ns Cons.prems by (intro that [of "enqueueEnvoyResource ?r (e\<lparr>e_resourceStore := fmupd ?R ?r ?S,
        e_ingressToResourceNameStore := fmupd key (finsert ?R ns) (e_ingressToResourceNameStore e)\<rparr>)" ?r])
        (auto simp: Let_def published_def)
  next
    case (Some t)
    let ?t = "t\<lparr>r_IngressRef := finsert key (r_IngressRef t), r_Spec := r_Spec r, r_ResourceVersion := r_ResourceVersion r\<rparr>"
    have "EnvoyResourceKeyFunc t = ?R" using Cons.prems(4) Some by (simp add: keys_ok_def)
    moreover have "fset (r_IngressRef ?t) = insert key (store_refs e ?R)"
      by (simp add: refs_of_lookup [OF Some])
    ultimately show thesis
      using Some Cons.prems
      by (intro that [of "enqueueEnvoyResource ?t (e\<lparr>e_resourceStore := fmupd ?R ?t ?S\<rparr>)" ?t])
        (auto simp: Let_def published_def)
  qed
  have "keys_ok (e_resourceStore e1)" using Cons.prems(4) e1(2,4) by (simp add: keys_ok_def)
  then obtain e' where e': "insert_resources key rs e1 = Ok e'" "e_resourceStoreLock e' = e_resourceStoreLock e1"
      "runs e'" "store_refs e' = (\<lambda>R. if R \<in> keys_of rs then insert key (store_refs e1 R) else store_refs e1 R)"
      "\<forall>R \<in> keys_of rs. \<exists>s. fmlookup (e_resourceStore e') R = Some s \<and>
         (\<exists>r \<in> set rs. EnvoyResourceKeyFunc r = R \<and> published key r s) \<and> R |\<in>| pending e'"
      "\<forall>R. R \<notin> keys_of rs \<longrightarrow> fmlookup (e_resourceStore e') R = fmlookup (e_resourceStore e1) R"
      "pending e1 |\<subseteq>| pending e'"
    using Cons.IH [of e1] Cons.prems(3) e1 by auto
  show ?case
    unfolding e1(1)
  proof (intro exI [of _ e'] conjI)
    show "store_refs e' = (\<lambda>R. if R \<in> keys_of (r # rs) then insert key (store_refs e R) else store_refs e R)"
      by (auto simp: e'(4) e1(2,5) fun_eq_iff)
    show "\<forall>R \<in> keys_of (r # rs). \<exists>s. fmlookup (e_resourceStore e') R = Some s \<and>
        (\<exists>r \<in> set (r # rs). EnvoyResourceKeyFunc r = R \<and> published key r s) \<and> R |\<in>| pending e'"
    proof
      fix R assume R: "R \<in> keys_of (r # rs)"
      show "\<exists>s. fmlookup (e_resourceStore e') R = Some s \<and>
        (\<exists>r \<in> set (r # rs). EnvoyResourceKeyFunc r = R \<and> published key r s) \<and> R |\<in>| pending e'"
      proof (cases "R \<in> keys_of rs")
        case True
        then show ?thesis using e'(5) by fastforce
      next
        case False
        then have "R = ?R" using R by simp
        then show ?thesis using False e'(6,7) e1(2,3,9) by auto
      qed
    qed
  qed (use e' e1 in auto)
qed


section \<open>The table of references\<close>

text \<open>
  What the controller promises: a table that gives every resource the ingresses that need it. A
  synchronisation makes the ingress need exactly what was generated, a deletion makes it need
  nothing.
\<close>

type_synonym reftable = "string \<Rightarrow> string set"

definition table_sync :: "string \<Rightarrow> string set \<Rightarrow> reftable \<Rightarrow> reftable" where
  "table_sync key needed T = (\<lambda>R. if R \<in> needed then insert key (T R) else T R - {key})"

definition table_delete :: "string \<Rightarrow> reftable \<Rightarrow> reftable" where
  "table_delete key T = (\<lambda>R. T R - {key})"

lemma table_delete_sync: "table_delete key T = table_sync key {} T"
  by (simp add: table_delete_def table_sync_def)

text \<open>Every reference of the ingress is on record, which fails for a resource two ingresses share.\<close>

definition all_recorded :: "eic \<Rightarrow> string \<Rightarrow> bool" where
  "all_recorded e key \<longleftrightarrow> (\<forall>R. key \<in> store_refs e R \<longrightarrow> R |\<in>| recorded e key)"

lemma deletedIngress_spec:
  assumes "eic_inv e" and "range_order (p_ord P)" and "lk_idle (e_resourceStoreLock e)" and "runs e"
  shows "\<exists>e'. deletedIngress P key e = Finished e' None \<and> e_resourceStoreLock e' = e_resourceStoreLock e \<and>
    recorded e' key = {||} \<and>
    store_refs e' = (\<lambda>R. if R |\<in>| recorded e key then store_refs e R - {key} else store_refs e R) \<and>
    (\<forall>R. R |\<in>| recorded e key \<longrightarrow> store_refs e' R = {} \<longrightarrow> R |\<in>| pending e') \<and> pending e |\<subseteq>| pending e'"
proof -
  let ?names = "e_ingressToResourceNameStore e"
  let ?e1 = "e\<lparr>e_ingressToResourceNameStore := fmdrop key ?names\<rparr>"
  have si: "store_inv ?names (e_resourceStore e)"
    using assms(1) by (simp add: eic_inv_def core_inv_def)
  have todo: "set (p_ord P (recorded e key)) = fset (recorded e key)"
    by (rule range_orderD(2) [OF assms(2)])
  have "\<forall>R \<in> set (p_ord P (recorded e key)). R |\<in>| fmdom (e_resourceStore ?e1)"
    using store_inv_recorded [OF si] by (fastforce simp: todo fmlookup_dom_iff)
  moreover have "keys_ok (e_resourceStore ?e1)" using si by (simp add: store_inv_def)
  ultimately obtain e2 where "release_resources key (p_ord P (recorded e key)) ?e1 = Finished e2 ()"
      "e_resourceStoreLock e2 = e_resourceStoreLock e" "e_ingressToResourceNameStore e2 = fmdrop key ?names"
      "store_refs e2 = (\<lambda>R. if R |\<in>| recorded e key then store_refs e R - {key} else store_refs e R)"
      "\<forall>R. R |\<in>| recorded e key \<longrightarrow> store_refs e2 R = {} \<longrightarrow> R |\<in>| pending e2" "pending e |\<subseteq>| pending e2"
    using release_resources_spec [of ?e1 "p_ord P (recorded e key)" key] assms(3,4) by (auto simp: todo cong: if_cong)
  then show ?thesis
    by (simp add: deletedIngress_def Let_def)
qed

lemma storeResources_spec:
  assumes "eic_inv e" and "range_order (p_ord P)" and "lk_idle (e_resourceStoreLock e)" and "runs e"
    and "\<forall>r \<in> set rs. r_IngressRef r = {|key|}"
  shows "\<exists>e'. storeResources P key i rs e = Finished e' None \<and> e_resourceStoreLock e' = e_resourceStoreLock e \<and>
    store_refs e' = (\<lambda>R. if R \<in> keys_of rs then insert key (store_refs e R)
                         else if R |\<in>| recorded e key then store_refs e R - {key} else store_refs e R) \<and>
    (\<forall>R \<in> keys_of rs. \<exists>s. fmlookup (e_resourceStore e') R = Some s \<and>
       (\<exists>r \<in> set rs. EnvoyResourceKeyFunc r = R \<and> published key r s) \<and> R |\<in>| pending e') \<and>
    (\<forall>R. R |\<in>| recorded e key \<longrightarrow> store_refs e' R = {} \<longrightarrow> R |\<in>| pending e')"
proof -
  let ?names = "recorded e key" and ?fresh = "fset_of_list (map EnvoyResourceKeyFunc rs)"
  let ?e1 = "e\<lparr>e_ingressToResourceNameStore := fmupd key ?names (e_ingressToResourceNameStore e)\<rparr>"
  have si: "store_inv (e_ingressToResourceNameStore e) (e_resourceStore e)"
    and w: "\<not> lk_writer (e_resourceStoreLock e)"
    using assms(1) by (auto simp: eic_inv_def core_inv_def)
  have todo: "set (p_ord P ?names) = fset ?names" "distinct (p_ord P ?names)"
    by (rule range_orderD [OF assms(2)])+
  have "\<forall>R \<in> set (p_ord P ?names). R |\<in>| fmdom (e_resourceStore ?e1)"
    using store_inv_recorded [OF si] by (fastforce simp: todo fmlookup_dom_iff)
  moreover have "keys_ok (e_resourceStore ?e1)" using si by (simp add: store_inv_def)
  ultimately obtain e2 where e2: "drop_stale key ?fresh (p_ord P ?names) ?e1 = Finished e2 ()"
      "e_resourceStoreLock e2 = e_resourceStoreLock e" "runs e2"
      "store_refs e2 = (\<lambda>R. if R |\<in>| ?names \<and> R |\<notin>| ?fresh then store_refs e R - {key} else store_refs e R)"
      "\<forall>R. R |\<in>| ?names \<longrightarrow> R |\<notin>| ?fresh \<longrightarrow> store_refs e2 R = {} \<longrightarrow> R |\<in>| pending e2"
    using drop_stale_spec [of ?e1 "p_ord P ?names" key ?fresh] assms(3,4) by (auto simp: todo cong: if_cong)
  have "store_inv (e_ingressToResourceNameStore ?e1) (e_resourceStore ?e1)"
    using store_inv_fewer_names [OF si, of "e_ingressToResourceNameStore ?e1"] by simp
  then have inv2: "store_inv (e_ingressToResourceNameStore e2) (e_resourceStore e2)"
      "key |\<in>| fmdom (e_ingressToResourceNameStore e2)"
    using drop_stale_store_inv [of ?e1 "p_ord P ?names" key ?fresh] w e2(1) by (auto simp: todo cong: if_cong)
  let ?e3 = "(record_nodegroups key i e2)\<lparr>e_resourceStoreLock := (e_resourceStoreLock e)\<lparr>lk_writer := True\<rparr>\<rparr>"
  have "keys_ok (e_resourceStore ?e3)" using inv2 by (simp add: store_inv_def)
  then obtain e4 where e4: "insert_resources key rs ?e3 = Ok e4" "e_resourceStoreLock e4 = e_resourceStoreLock ?e3"
      "store_refs e4 = (\<lambda>R. if R \<in> keys_of rs then insert key (store_refs e2 R) else store_refs e2 R)"
      "\<forall>R \<in> keys_of rs. \<exists>s. fmlookup (e_resourceStore e4) R = Some s \<and>
         (\<exists>r \<in> set rs. EnvoyResourceKeyFunc r = R \<and> published key r s) \<and> R |\<in>| pending e4"
      "pending e2 |\<subseteq>| pending e4"
    using insert_resources_spec [of key ?e3 rs] inv2(2) e2(3) assms(5) by (auto cong: if_cong)
  let ?e' = "e4\<lparr>e_resourceStoreLock := e_resourceStoreLock e\<rparr>"
  have "storeResources P key i rs e = Finished ?e' None"
    using assms(3) by (simp add: storeResources_def Let_def e2(1,2) e4(1,2) lk_idle_Lock lk_idle_Unlock del: fset_of_list_map)
  then show ?thesis
    using e2(4,5) e4(3,4,5) by (intro exI [of _ ?e']) (auto simp: fset_of_list.rep_eq fun_eq_iff)
qed


section \<open>Readers of the store lock\<close>

text \<open>No handler gives back a read lock it has not taken: the number of readers never falls.\<close>

abbreviation readers :: "eic \<Rightarrow> nat" where
  "readers e \<equiv> lk_readers (e_resourceStoreLock e)"

lemma lk_readers_simps [simp]:
  "lk_readers (lk_Unlock l) = lk_readers l" "lk_readers (lk_RUnlock l) = lk_readers l - 1"
  by (simp_all add: lk_Unlock_def lk_RUnlock_def)

lemma lk_Lock_readers: "lk_Lock l = Some l' \<Longrightarrow> lk_readers l' = lk_readers l"
  by (simp add: lk_Lock_cases)

lemma leaves_eq: "leaves (\<lambda>e'. f e' = f e1) oc \<Longrightarrow> f e1 = f e \<Longrightarrow> leaves (\<lambda>e'. f e' = f e) oc"
  by (cases oc) auto

lemma release_resources_readers: "leaves (\<lambda>e'. readers e' = readers e) (release_resources key todo e)"
proof (induction todo arbitrary: e)
  case (Cons name names)
  show ?case
    by (auto simp: Let_def split: option.splits intro!: leaves_eq [OF Cons.IH] dest: lk_Lock_readers)
qed simp

lemma drop_stale_readers: "leaves (\<lambda>e'. readers e' = readers e) (drop_stale key fresh todo e)"
proof (induction todo arbitrary: e)
  case (Cons name names)
  show ?case
    by (auto simp: Let_def split: option.splits intro!: leaves_eq [OF Cons.IH] dest: lk_Lock_readers)
qed simp

lemma insert_resources_lock:
  "insert_resources key rs e = Ok e' \<Longrightarrow> e_resourceStoreLock e' = e_resourceStoreLock e"
  by (induction rs arbitrary: e) (auto simp: Let_def split: option.splits)

lemma deletedIngress_readers: "leaves (\<lambda>e'. readers e' = readers e) (deletedIngress P key e)"
  using release_resources_readers [of "e\<lparr>e_ingressToResourceNameStore := fmdrop key (e_ingressToResourceNameStore e)\<rparr>" key
      "p_ord P (recorded e key)"]
  by (auto simp: deletedIngress_def Let_def split: outcome.splits)

lemma storeResources_readers: "leaves (\<lambda>e'. readers e' = readers e) (storeResources P key i rs e)"
  using drop_stale_readers [of "e\<lparr>e_ingressToResourceNameStore :=
      fmupd key (recorded e key) (e_ingressToResourceNameStore e)\<rparr>" key
      "fset_of_list (map EnvoyResourceKeyFunc rs)" "p_ord P (recorded e key)"]
  by (auto simp: storeResources_def Let_def split: outcome.splits option.splits result.splits
      dest!: insert_resources_lock lk_Lock_readers simp del: fset_of_list_map)

lemma syncEnvoyIngress_readers: "leaves (\<lambda>e'. readers e' = readers e) (syncEnvoyIngress P c key e)"
  by (auto simp: syncEnvoyIngress_def storeResources_readers deletedIngress_readers
      split: result.split prod.split lookup.split)

lemma syncEnvoyResource_readers: "leaves (\<lambda>e'. readers e \<le> readers e') (syncEnvoyResource P R e)"
  by (auto simp: syncEnvoyResource_def Let_def lk_RLock_cases same_store_def split: option.splits result.splits
      dest!: dispatch_nodes_same)

lemma initiate_ingresses_lock:
  "initiate_ingresses c is e = Ok e' \<Longrightarrow> e_resourceStoreLock e' = e_resourceStoreLock e"
proof (induction "is" arbitrary: e)
  case (Cons i "is")
  have "e_resourceStoreLock (initiate_resources k rs e) = e_resourceStoreLock e" for k rs and e :: eic
    by (induction rs arbitrary: e) (auto simp: Let_def split: option.splits)
  then show ?case
    using Cons.prems by (auto simp: Let_def bind_iffs split: if_splits dest!: Cons.IH)
qed simp

lemma Run_init_readers: "Run_init c e = Ok e' \<Longrightarrow> readers e' = readers e"
  by (auto simp: Run_init_def initiateEnvoyResources_def bind_iffs same_store_def
      dest!: initCache_same initiate_ingresses_lock)

lemma same_store_readers: "same_store e e' \<Longrightarrow> readers e \<le> readers e'"
  by (simp add: same_store_def)

lemma eic_step_readers: "eic_step P e e' \<Longrightarrow> readers e \<le> readers e'"
proof (induction rule: eic_step.induct)
  case (ingress_done k e c e' u)
  then show ?case using syncEnvoyIngress_readers [of e P c k]
    by (auto simp: ingress_work_def finish_ingress_def Let_def split: outcome.splits)
next
  case (ingress_stuck k e c e')
  then show ?case using syncEnvoyIngress_readers [of e P c k]
    by (auto simp: ingress_work_def split: outcome.splits)
next
  case (resource_done k e e' u)
  then show ?case using syncEnvoyResource_readers [of e P k]
    by (auto simp: resource_work_def finish_resource_def Let_def split: outcome.splits)
next
  case (resource_stuck k e e')
  then show ?case using syncEnvoyResource_readers [of e P k]
    by (auto simp: resource_work_def split: outcome.splits)
next
  case (delete_v1beta1 bd e e')
  then show ?case
    by (auto simp: deleteV1beta1Ingress_def split: deleted.splits intro: same_store_readers deleteIngress_same)
next
  case (start c e e')
  then show ?case using Run_init_readers by simp
qed (auto simp: addV1beta1Ingress_def updateV1beta1Ingress_def intro: same_store_readers handlers_same)

lemma eic_run_readers: "(eic_step P)\<^sup>*\<^sup>* e e' \<Longrightarrow> readers e \<le> readers e'"
  by (induction rule: rtranclp_induct) (auto dest: eic_step_readers)

lemma drop_stale_locked:
  assumes "0 < readers e"
  shows "drop_stale key fresh todo e = Finished e () \<or> (\<exists>e'. drop_stale key fresh todo e = Blocked e')"
proof -
  have "lk_Lock (e_resourceStoreLock e) = None" using assms by (simp add: lk_Lock_def)
  then show ?thesis by (induction todo) auto
qed

lemma storeResources_locked:
  assumes "0 < readers e"
  shows "\<exists>e'. storeResources P key i rs e = Blocked e'"
proof -
  have l: "lk_Lock (e_resourceStoreLock e) = None" using assms by (simp add: lk_Lock_def)
  from drop_stale_locked [of "e\<lparr>e_ingressToResourceNameStore :=
      fmupd key (recorded e key) (e_ingressToResourceNameStore e)\<rparr>" key "fset_of_list (map EnvoyResourceKeyFunc rs)"
      "p_ord P (recorded e key)"]
  show ?thesis using assms l by (auto simp: storeResources_def Let_def simp del: fset_of_list_map)
qed

end
