(* ===== verification/Controller_Props.thy ===== *)
theory Controller_Props
  imports Controller_Spec
begin

text \<open>
  The properties of the controller: its invariant, what a synchronisation and a deletion do to the
  table of references, the messages a resource causes, and the two defects (a shared resource that
  is never released, a read lock that is never given back), each with a run that shows it.
\<close>

section \<open>Two ingresses with one certificate\<close>

text \<open>
  Ingresses without rules that name the same secret: each generates the one resource of that
  secret.
\<close>

definition cert_secret :: Secret where
  "cert_secret = \<lparr>sec_Meta = ex_meta ''cert'' fmempty, sec_Type = ''kubernetes.io/tls'',
     sec_Data = fmempty, sec_StringData = fmempty\<rparr>"

definition tls_ingress :: "string \<Rightarrow> Ingress" where
  "tls_ingress name =
     \<lparr>ing_Meta = ex_meta name (fmap_of_list
        [(INGRESSCLASSANNOTATION, ENVOYINGRESSCONTROLLERNAME), (ENVOYINGRESSNODEGROUPANNOTATION, ''g'')]),
      ing_Spec = \<lparr>is_IngressClassName = None, is_DefaultBackend = None,
        is_TLS = [\<lparr>tls_Hosts = [''a.com''], tls_SecretName = ''cert''\<rparr>], is_Rules = []\<rparr>\<rparr>"

definition tls_caches :: "string list \<Rightarrow> caches" where
  "tls_caches names =
     \<lparr>c_ingress = \<lparr>items = map tls_ingress names, fault = None\<rparr>, c_v1beta1 = \<lparr>items = [], fault = None\<rparr>,
      c_service = \<lparr>items = [], fault = None\<rparr>, c_endpoints = \<lparr>items = [], fault = None\<rparr>,
      c_secret = \<lparr>items = [cert_secret], fault = None\<rparr>, c_node = \<lparr>items = [], fault = None\<rparr>\<rparr>"

definition tls_resource :: "string \<Rightarrow> Resource" where
  "tls_resource name =
     \<lparr>r_Name = Secretname cert_secret, r_Namespace = ''ns'', r_ResourceVersion = ''1'', r_NodeGroup = {|''g''|},
      r_IngressRef = {|''ns/'' @ name|}, r_Spec = SecretSpec (envoy_Secret cert_secret)\<rparr>"

definition cert_key :: string where
  "cert_key = ''ns/'' @ Secretname cert_secret"

definition ex_params :: params where
  "ex_params =
     \<lparr>p_marshal = (\<lambda>_. Ok ''pb''),
      p_messageLayer = \<lparr>SendModuleName = ''cloudhub'', SendRouterModuleName = ''router'',
        ReceiveModuleName = ''envoyingresscontroller'', ResponseModuleName = ''cloudhub''\<rparr>,
      p_uuid = strconv_Itoa \<circ> int, p_now = int, p_ord = sorted_list_of_fset\<rparr>"

lemmas tls_defs = cert_secret_def tls_ingress_def tls_caches_def ex_meta_def

lemma tls_annotations [simp]:
  "isEnvoyIngress (tls_ingress name)" "nodegroup_annotation (tls_ingress name) = [''g'']"
  "ing_key (tls_ingress name) = ''ns/'' @ name"
  by (simp_all add: isEnvoyIngress_def nodegroup_annotation_def tls_ingress_def ex_meta_def get_str_def ing_key_def
      MetaNamespaceKeyFunc_def INGRESSCLASSANNOTATION_def ENVOYINGRESSNODEGROUPANNOTATION_def
      ENVOYINGRESSCONTROLLERNAME_def)

lemma tls_complete [simp]: "complete_ingress (tls_ingress name)"
  by (simp add: complete_ingress_def tls_ingress_def)

lemma tls_resource_key [simp]: "EnvoyResourceKeyFunc (tls_resource name) = cert_key"
  by (simp add: EnvoyResourceKeyFunc_def tls_resource_def cert_key_def)

lemma tls_resource_simps [simp]:
  "r_IngressRef (tls_resource name) = {|''ns/'' @ name|}" "r_ResourceVersion (tls_resource name) = ''1''"
  "r_Spec (tls_resource name) = SecretSpec (envoy_Secret cert_secret)"
  by (simp_all add: tls_resource_def)

lemma tls_generates: "generateResources (tls_caches names) (tls_ingress name) = Ok [tls_resource name]"
proof -
  have "getSecretsForIngress (tls_caches names) (tls_ingress name) = Ok [tls_resource name]"
    by (simp add: getSecretsForIngress_def getNodeGroupForIngress_def tls_resource_def envoy_Secret_def)
      (simp add: tls_defs lister_Get_def MetaNamespaceKeyFunc_def envoy_Secret_def ing_key_def)
  moreover have "getServicesForIngress (tls_caches names) (tls_ingress name) = Err ErrNoServices"
    by (simp add: getServicesForIngress_def tls_defs lister_List_def)
  ultimately show ?thesis
    by (simp add: generateResources_def or_nothing_def getEndpointsForIngress_def getClustersForIngress_def
        getRouteForIngress_def getListenersForIngress_def getNodeGroupForIngress_def Let_def)
      (simp add: tls_defs)
qed

lemma tls_found:
  assumes "no_slash name" and "name \<in> set names"
  shows "SplitMetaNamespaceKey (''ns/'' @ name) = Ok (''ns'', name)"
    and "lookupIngress (tls_caches names) ''ns'' name = Found (tls_ingress name)"
proof -
  have "no_slash ''ns''" by (simp add: no_slash_def)
  then show "SplitMetaNamespaceKey (''ns/'' @ name) = Ok (''ns'', name)"
    using assms(1) Split_append_slash [of "''ns''" name]
    by (simp add: SplitMetaNamespaceKey_def Split_no_slash)
  have "find (\<lambda>x. MetaNamespaceKeyFunc (ing_Meta x) = ''ns/'' @ name) (map tls_ingress names) = Some (tls_ingress name)"
    using assms(2) by (induction names) (auto simp: tls_annotations(3) [unfolded ing_key_def])
  then show "lookupIngress (tls_caches names) ''ns'' name = Found (tls_ingress name)"
    by (simp add: lookupIngress_def lister_Get_def tls_caches_def)
qed

lemma tls_gone: "lookupIngress (tls_caches []) ns name = Deleted"
  by (simp add: lookupIngress_def lister_Get_def tls_caches_def)

lemma tls_sync:
  assumes "no_slash name" and "name \<in> set names"
  shows "syncEnvoyIngress P (tls_caches names) (''ns/'' @ name) e =
    storeResources P (''ns/'' @ name) (tls_ingress name) [tls_resource name] e"
  using tls_found [OF assms] by (simp add: syncEnvoyIngress_def tls_generates)

lemma tls_delete:
  assumes "no_slash name"
  shows "syncEnvoyIngress P (tls_caches []) (''ns/'' @ name) e = deletedIngress P (''ns/'' @ name) e"
  using tls_found(1) [OF assms, of "[name]"] by (simp add: syncEnvoyIngress_def tls_gone)

lemma ex_params_order: "range_order (p_ord ex_params)"
  by (simp add: ex_params_def range_order_sorted)

lemma New_idle [simp]:
  "lk_idle (e_resourceStoreLock NewEnvoyIngressController)" "runs NewEnvoyIngressController"
  "store_refs NewEnvoyIngressController R = {}" "recorded NewEnvoyIngressController k = {||}"
  by (simp_all add: NewEnvoyIngressController_def lk_free_def lk_idle_def wq_new_def refs_of_def)

lemma sorted_list_of_fset_simps [simp]:
  "sorted_list_of_fset ({||} :: string fset) = []" "sorted_list_of_fset {|x :: string|} = [x]"
  by (simp_all add: sorted_list_of_fset.rep_eq)

text \<open>A state of the example: no nodes, nothing sent; and a queue whose only key is with a worker.\<close>

definition ex_state :: "(string, Resource) fmap \<Rightarrow> (string, string fset) fmap \<Rightarrow> (string, string fset) fmap \<Rightarrow>
    rwlock \<Rightarrow> string workqueue \<Rightarrow> string workqueue \<Rightarrow> eic" where
  "ex_state store names groups lk q rq =
     \<lparr>e_lc = lc_new, e_resourceStore = store, e_resourceStoreLock = lk, e_ingressToResourceNameStore = names,
      e_ingressNodeGroupStore = groups, e_queue = q, e_resourceQueue = rq, e_outbox = [], e_sent = 0\<rparr>"

definition taken :: "string \<Rightarrow> string workqueue" where
  "taken k = wq_new\<lparr>wq_processing := {|k|}\<rparr>"

lemma ex_state_New: "NewEnvoyIngressController = ex_state fmempty fmempty fmempty lk_free wq_new wq_new"
  by (simp add: NewEnvoyIngressController_def ex_state_def)

lemma ex_state_simps [simp]:
  "e_lc (ex_state s n g l q rq) = lc_new" "e_resourceStore (ex_state s n g l q rq) = s"
  "e_resourceStoreLock (ex_state s n g l q rq) = l" "e_ingressToResourceNameStore (ex_state s n g l q rq) = n"
  "e_ingressNodeGroupStore (ex_state s n g l q rq) = g" "e_queue (ex_state s n g l q rq) = q"
  "e_resourceQueue (ex_state s n g l q rq) = rq"
  "(ex_state s n g l q rq)\<lparr>e_resourceStore := s'\<rparr> = ex_state s' n g l q rq"
  "(ex_state s n g l q rq)\<lparr>e_resourceStoreLock := l'\<rparr> = ex_state s n g l' q rq"
  "(ex_state s n g l q rq)\<lparr>e_ingressToResourceNameStore := n'\<rparr> = ex_state s n' g l q rq"
  "(ex_state s n g l q rq)\<lparr>e_ingressNodeGroupStore := g'\<rparr> = ex_state s n g' l q rq"
  "(ex_state s n g l q rq)\<lparr>e_queue := q'\<rparr> = ex_state s n g l q' rq"
  "(ex_state s n g l q rq)\<lparr>e_resourceQueue := rq'\<rparr> = ex_state s n g l q rq'"
  by (simp_all add: ex_state_def)

lemma queue_round:
  "wq_Get (wq_Add k wq_new) = Item k (taken k)" "wq_Done k (wq_Forget k (taken k)) = wq_new"
  "wq_Done k (wq_Forget k (wq_Add k (taken k))) = wq_Add k wq_new"
  "k |\<in>| wq_processing (taken k)"
  by (simp_all add: wq_Get_def wq_Add_def wq_new_def wq_Done_def wq_Forget_def taken_def Let_def)

text \<open>A handler that queues an ingress, a worker that takes it and finishes without an error.\<close>

lemma ingress_round:
  assumes "eic_step P e (ex_state s n g l (wq_Add k wq_new) rq)"
    and "syncEnvoyIngress P c k (ex_state s n g l (taken k) rq) = Finished (ex_state s' n' g' l' (taken k) rq') None"
  shows "(eic_step P)\<^sup>*\<^sup>* e (ex_state s' n' g' l' wq_new rq')"
proof -
  have "eic_step P (ex_state s n g l (wq_Add k wq_new) rq) (ex_state s n g l (taken k) rq)"
    using eic_step.ingress_get [of "ex_state s n g l (wq_Add k wq_new) rq"] by (simp add: queue_round)
  moreover have "eic_step P (ex_state s n g l (taken k) rq) (ex_state s' n' g' l' wq_new rq')"
    using eic_step.ingress_done [of k "ex_state s n g l (taken k) rq" P c] assms(2)
    by (simp add: ingress_work_def finish_ingress_def queue_round)
  ultimately show ?thesis
    using assms(1) by (meson rtranclp.rtrancl_into_rtrancl rtranclp.rtrancl_refl)
qed

lemma r_IngressRef_same: "r_IngressRef r = x \<Longrightarrow> r\<lparr>r_IngressRef := x\<rparr> = r"
  by auto

lemma ex_storeResources:
  assumes "get_set n k = {||}" and "fmlookup s (EnvoyResourceKeyFunc r) = None" and "r_IngressRef r = {|k|}"
  shows "storeResources ex_params k i [r] (ex_state s n g lk_free q rq) =
    Finished (ex_state (fmupd (EnvoyResourceKeyFunc r) r s) (fmupd k {|EnvoyResourceKeyFunc r|} (fmupd k {||} n))
      (fmupd k {||} g) lk_free q (wq_Add (EnvoyResourceKeyFunc r) rq)) None"
  using assms
  by (simp add: storeResources_def Let_def lk_free_def lk_Lock_def lk_Unlock_def
        ex_params_def record_nodegroups_def lc_new_def GetNodeStatus_def enqueueEnvoyResource_def
        r_IngressRef_same)

lemma ex_deletedIngress:
  assumes "get_set n k = {|R|}" and "fmlookup s R = Some r" and "EnvoyResourceKeyFunc r = R"
  shows "deletedIngress ex_params k (ex_state s n g lk_free q rq) =
    Finished (ex_state (fmupd R (r\<lparr>r_IngressRef := r_IngressRef r |-| {|k|}\<rparr>) s) (fmdrop k n) g lk_free q
      (if r_IngressRef r |-| {|k|} = {||} then wq_Add R rq else rq)) None"
  using assms
  by (simp add: deletedIngress_def Let_def lk_free_def lk_Lock_def lk_Unlock_def ex_params_def enqueueEnvoyResource_def)

lemma ex_deletedIngress_nothing:
  assumes "get_set n k = {||}"
  shows "deletedIngress ex_params k (ex_state s n g l q rq) = Finished (ex_state s (fmdrop k n) g l q rq) None"
  using assms by (simp add: deletedIngress_def Let_def ex_params_def)

lemma no_slash_ab [simp]: "no_slash ''a''" "no_slash ''b''"
  by (simp_all add: no_slash_def)

abbreviation store_a :: "(string, Resource) fmap" where
  "store_a \<equiv> fmupd cert_key (tls_resource ''a'') fmempty"

abbreviation names_a :: "(string, string fset) fmap" where
  "names_a \<equiv> fmupd ''ns/a'' {|cert_key|} (fmupd ''ns/a'' {||} fmempty)"

abbreviation groups_a :: "(string, string fset) fmap" where
  "groups_a \<equiv> fmupd ''ns/a'' {||} (fmupd ''ns/a'' {|''g''|} fmempty)"

abbreviation state_a :: eic where
  "state_a \<equiv> ex_state store_a names_a groups_a lk_free wq_new (wq_Add cert_key wq_new)"

text \<open>The first ingress is added and synchronised.\<close>

lemma run_a: "(eic_step ex_params)\<^sup>*\<^sup>* NewEnvoyIngressController state_a"
proof (rule ingress_round [where k = "''ns/a''" and c = "tls_caches [''a'']"])
  show "eic_step ex_params NewEnvoyIngressController (ex_state fmempty fmempty
      (fmupd ''ns/a'' {|''g''|} fmempty) lk_free (wq_Add ''ns/a'' wq_new) wq_new)"
    using eic_step.add_ingress [of ex_params NewEnvoyIngressController "tls_ingress ''a''"]
    by (simp add: addIngress_def enqueue_def Let_def ex_state_New)
  show "syncEnvoyIngress ex_params (tls_caches [''a'']) ''ns/a''
      (ex_state fmempty fmempty (fmupd ''ns/a'' {|''g''|} fmempty) lk_free (taken ''ns/a'') wq_new) =
    Finished (ex_state store_a names_a groups_a lk_free (taken ''ns/a'') (wq_Add cert_key wq_new)) None"
    using tls_sync [of "''a''" "[''a'']"] by (simp add: ex_storeResources)
qed

section \<open>The invariant\<close>

text \<open>
  C4: In every state the controller can reach, every resource that is recorded for an ingress is in
  the resource store under its own key and still referenced, it is recorded for no other ingress,
  both work queues are well formed, and the write lock of the store is not held: whatever the
  interleaving of informer events, timers and workers, and whatever the listers return.
\<close>

theorem controller_invariant:
  assumes "(eic_step P)\<^sup>*\<^sup>* NewEnvoyIngressController e" and "range_order (p_ord P)"
  shows "(\<forall>k R. R |\<in>| get_set (e_ingressToResourceNameStore e) k \<longrightarrow>
      (\<exists>r. fmlookup (e_resourceStore e) R = Some r \<and> EnvoyResourceKeyFunc r = R \<and> r_IngressRef r \<noteq> {||}) \<and>
      (\<forall>k'. R |\<in>| get_set (e_ingressToResourceNameStore e) k' \<longrightarrow> k' = k)) \<and>
    wq_inv (e_queue e) \<and> wq_inv (e_resourceQueue e) \<and> \<not> lk_writer (e_resourceStoreLock e)"
proof -
  have inv: "eic_inv e" by (rule eic_reach_inv [OF assms])
  then have si: "store_inv (e_ingressToResourceNameStore e) (e_resourceStore e)"
    by (simp add: eic_inv_def core_inv_def)
  have "\<exists>r. fmlookup (e_resourceStore e) R = Some r \<and> EnvoyResourceKeyFunc r = R \<and> r_IngressRef r \<noteq> {||}"
    if "R |\<in>| recorded e k" for k R
    using store_inv_recorded [OF si that] store_inv_key [OF si] by blast
  moreover have "k' = k" if "R |\<in>| recorded e k" "R |\<in>| recorded e k'" for k k' R
    by (rule store_inv_owner [OF si that(2,1)])
  ultimately show ?thesis
    using inv by (simp add: eic_inv_def core_inv_def)
qed

theorem controller_invariant_witness:
  "\<exists>r. fmlookup (e_resourceStore state_a) cert_key = Some r \<and> EnvoyResourceKeyFunc r = cert_key \<and> r_IngressRef r \<noteq> {||}"
proof -
  have "cert_key |\<in>| get_set (e_ingressToResourceNameStore state_a) ''ns/a''" by simp
  then show ?thesis using controller_invariant [OF run_a ex_params_order] by blast
qed


section \<open>Synchronisation as a change of the reference table\<close>

lemma or_nothing_Ok: "or_nothing r = Ok xs \<Longrightarrow> x \<in> set xs \<Longrightarrow> r = Ok xs"
  by (auto simp: or_nothing_def split: result.splits)

lemma or_nothing_total: "(\<And>p. r \<noteq> Panic p) \<Longrightarrow> \<exists>xs. or_nothing r = Ok xs"
  by (auto simp: or_nothing_def split: result.splits)

lemma generateResources_resource_of:
  assumes "generateResources c i = Ok rs" and "r \<in> set rs"
  shows "resource_of i r"
proof -
  obtain a b d f g where parts: "or_nothing (getSecretsForIngress c i) = Ok a"
      "or_nothing (getEndpointsForIngress c i) = Ok b" "or_nothing (getClustersForIngress c i) = Ok d"
      "or_nothing (bind (getRouteForIngress c i) (\<lambda>route. Ok [route])) = Ok f"
      "or_nothing (getListenersForIngress c i) = Ok g" "rs = a @ b @ d @ f @ g"
    using assms(1) by (auto simp: generateResources_def bind_iffs)
  then consider "r \<in> set a" | "r \<in> set b" | "r \<in> set d" | "r \<in> set f" | "r \<in> set g"
    using assms(2) by auto
  then show ?thesis
  proof cases
    case 4
    then have "getRouteForIngress c i = Ok r"
      using or_nothing_Ok [OF parts(4) 4] by (auto simp: bind_iffs)
    then show ?thesis by (rule getRoute_resource_of)
  qed (blast intro: getSecrets_resource_of [OF or_nothing_Ok [OF parts(1)]]
      getEndpoints_resource_of [OF or_nothing_Ok [OF parts(2)]]
      getClusters_resource_of [OF or_nothing_Ok [OF parts(3)]]
      getListeners_resource_of [OF or_nothing_Ok [OF parts(5)]])+
qed

lemma generateResources_total:
  assumes "complete_ingress i"
  shows "\<exists>rs. generateResources c i = Ok rs"
proof -
  have "bind (getRouteForIngress c i) (\<lambda>route. Ok [route]) \<noteq> Panic p" for p
    using getRoute_no_panic [OF assms] by (simp add: bind_iffs)
  then obtain f where "or_nothing (bind (getRouteForIngress c i) (\<lambda>route. Ok [route])) = Ok f"
    using or_nothing_total by blast
  moreover obtain a b d g where "or_nothing (getSecretsForIngress c i) = Ok a"
      "or_nothing (getEndpointsForIngress c i) = Ok b" "or_nothing (getClustersForIngress c i) = Ok d"
      "or_nothing (getListenersForIngress c i) = Ok g"
    using or_nothing_total [OF getSecrets_no_panic] or_nothing_total [OF getEndpoints_no_panic [OF assms]]
      or_nothing_total [OF getClusters_no_panic [OF assms]] or_nothing_total [OF getListeners_no_panic [OF assms]]
    by blast
  ultimately show ?thesis by (simp add: generateResources_def)
qed






section \<open>The read lock that is not given back\<close>

abbreviation dead_a :: Resource where
  "dead_a \<equiv> (tls_resource ''a'')\<lparr>r_IngressRef := {||}\<rparr>"

lemma ex_resource_deleted:
  "syncEnvoyResource ex_params cert_key (ex_state (fmupd cert_key dead_a s) n g lk_free q rq) =
     Finished (ex_state (fmdrop cert_key (fmupd cert_key dead_a s)) n g lk_free q rq) None"
  by (simp add: syncEnvoyResource_def lk_RLock_def lk_RUnlock_def lk_free_def Let_def nodesToSend_def lc_new_def
      get_list_def ex_params_def tls_resource_def)

lemma ex_resource_gone:
  "fmlookup s cert_key = None \<Longrightarrow> syncEnvoyResource P cert_key (ex_state s n g lk_free q rq) =
     Finished (ex_state s n g (lk_free\<lparr>lk_readers := 1\<rparr>) q rq) (Some ErrNoSuchResource)"
  by (simp add: syncEnvoyResource_def lk_RLock_def lk_free_def)

text \<open>
  A resource worker takes the key of a resource whose ingress is deleted before the worker runs:
  the deletion queues the key again, so after the worker has dropped the resource the key is
  handed out once more.
\<close>

lemma run_delete_race:
  "(eic_step ex_params)\<^sup>*\<^sup>* state_a
     (ex_state (fmupd cert_key dead_a store_a) (fmdrop ''ns/a'' names_a) groups_a lk_free wq_new
        (wq_Add cert_key (taken cert_key)))"
proof -
  let ?s = "ex_state store_a names_a groups_a lk_free wq_new (taken cert_key)"
  have "eic_step ex_params state_a ?s"
    using eic_step.resource_get [of state_a] by (simp add: queue_round)
  moreover have "(eic_step ex_params)\<^sup>*\<^sup>* ?s (ex_state (fmupd cert_key dead_a store_a)
      (fmdrop ''ns/a'' names_a) groups_a lk_free wq_new (wq_Add cert_key (taken cert_key)))"
  proof (rule ingress_round [where k = "''ns/a''" and c = "tls_caches []"])
    show "eic_step ex_params ?s (ex_state store_a names_a groups_a lk_free (wq_Add ''ns/a'' wq_new) (taken cert_key))"
      using eic_step.delete_ingress [of ex_params ?s "DeletedObj (tls_ingress ''a'')"]
      by (simp add: deleteIngress_def)
    show "syncEnvoyIngress ex_params (tls_caches []) ''ns/a''
        (ex_state store_a names_a groups_a lk_free (taken ''ns/a'') (taken cert_key)) =
      Finished (ex_state (fmupd cert_key dead_a store_a) (fmdrop ''ns/a'' names_a) groups_a lk_free (taken ''ns/a'')
        (wq_Add cert_key (taken cert_key))) None"
      using tls_delete [of "''a''"] by (simp add: ex_deletedIngress)
  qed
  ultimately show ?thesis by (rule converse_rtranclp_into_rtranclp)
qed

text \<open>
  C32: The controller can leak the read lock of the resource store. There is a run from the start,
  made of one ingress that is added and deleted again while a resource worker is about to process
  its resource, after which no worker holds any key and still a reader of the lock is counted.
\<close>

theorem read_lock_leak_is_reachable:
  "\<exists>e. (eic_step ex_params)\<^sup>*\<^sup>* NewEnvoyIngressController e \<and> wq_processing (e_queue e) = {||} \<and>
     wq_processing (e_resourceQueue e) = {||} \<and> lk_readers (e_resourceStoreLock e) = 1"
proof -
  let ?n = "fmdrop ''ns/a'' names_a" and ?S = "fmdrop cert_key (fmupd cert_key dead_a store_a)"
  let ?s1 = "ex_state (fmupd cert_key dead_a store_a) ?n groups_a lk_free wq_new (wq_Add cert_key (taken cert_key))"
  let ?s2 = "ex_state ?S ?n groups_a lk_free wq_new (wq_Add cert_key wq_new)"
  let ?s3 = "ex_state ?S ?n groups_a lk_free wq_new (taken cert_key)"
  let ?q = "wq_Done cert_key (wq_AddRateLimited cert_key (taken cert_key))"
  let ?s4 = "ex_state ?S ?n groups_a (lk_free\<lparr>lk_readers := 1\<rparr>) wq_new ?q"
  have "eic_step ex_params ?s1 ?s2"
    using eic_step.resource_done [of cert_key ?s1 ex_params] ex_resource_deleted [of store_a]
    by (simp add: resource_work_def finish_resource_def queue_round)
  moreover have "eic_step ex_params ?s2 ?s3"
    using eic_step.resource_get [of ?s2] by (simp add: queue_round)
  moreover have "eic_step ex_params ?s3 ?s4"
    using eic_step.resource_done [of cert_key ?s3 ex_params]
    by (simp add: resource_work_def finish_resource_def queue_round ex_resource_gone)
  ultimately have "(eic_step ex_params)\<^sup>*\<^sup>* NewEnvoyIngressController ?s4"
    using run_a run_delete_race by (meson rtranclp.rtrancl_into_rtrancl rtranclp_trans)
  moreover have "wq_processing ?q = {||}"
    by (simp add: wq_Done_def Let_def wq_AddRateLimited_waits) (simp add: taken_def)
  moreover have "wq_processing wq_new = {||}" by (simp add: wq_new_def)
  ultimately show ?thesis by (intro exI [of _ ?s4]) simp
qed

text \<open>
  C31: A leaked read lock stops the controller for good. Once the store has a reader that no worker
  accounts for, then in every state that can follow, the synchronisation of a complete Envoy ingress
  waits for the write lock for ever.
\<close>

theorem leaked_lock_stops_synchronisation:
  assumes "0 < lk_readers (e_resourceStoreLock e)" and "(eic_step P)\<^sup>*\<^sup>* e e'"
    and "SplitMetaNamespaceKey key = Ok (ns, name)" and "lookupIngress c ns name = Found i"
    and "isEnvoyIngress i" and "complete_ingress i"
  shows "\<exists>e''. syncEnvoyIngress P c key e' = Blocked e''"
proof -
  have "0 < readers e'" using assms(1) eic_run_readers [OF assms(2)] by simp
  moreover obtain rs where "generateResources c i = Ok rs"
    using generateResources_total [OF assms(6)] by blast
  ultimately show ?thesis
    using storeResources_locked assms(3-5) by (simp add: syncEnvoyIngress_def)
qed

theorem leaked_lock_stops_synchronisation_witness:
  "\<exists>e''. syncEnvoyIngress ex_params (tls_caches [''b'']) ''ns/b''
     (NewEnvoyIngressController\<lparr>e_resourceStoreLock := lk_free\<lparr>lk_readers := 1\<rparr>\<rparr>) = Blocked e''"
  by (rule leaked_lock_stops_synchronisation [where
        e = "NewEnvoyIngressController\<lparr>e_resourceStoreLock := lk_free\<lparr>lk_readers := 1\<rparr>\<rparr>"
        and ns = "''ns''" and name = "''b''" and i = "tls_ingress ''b''"])
    (use tls_found [of "''b''" "[''b'']"] in simp_all)


section \<open>A resource two ingresses need\<close>

lemma ex_storeResources_existing:
  assumes "get_set n k = {||}" and "fmlookup s (EnvoyResourceKeyFunc r) = Some t"
    and "EnvoyResourceKeyFunc t = EnvoyResourceKeyFunc r"
    and "r_Spec r = r_Spec t" and "r_ResourceVersion r = r_ResourceVersion t"
  shows "storeResources ex_params k i [r] (ex_state s n g lk_free q rq) =
    Finished (ex_state (fmupd (EnvoyResourceKeyFunc r) (t\<lparr>r_IngressRef := finsert k (r_IngressRef t)\<rparr>) s)
      (fmupd k {||} n) (fmupd k {||} g) lk_free q (wq_Add (EnvoyResourceKeyFunc r) rq)) None"
  using assms
  by (simp add: storeResources_def Let_def lk_free_def lk_Lock_def lk_Unlock_def
        ex_params_def record_nodegroups_def lc_new_def GetNodeStatus_def enqueueEnvoyResource_def)

abbreviation shared_ab :: Resource where
  "shared_ab \<equiv> (tls_resource ''a'')\<lparr>r_IngressRef := {|''ns/b'', ''ns/a''|}\<rparr>"

abbreviation shared_b :: Resource where
  "shared_b \<equiv> (tls_resource ''a'')\<lparr>r_IngressRef := {|''ns/b''|}\<rparr>"

lemma drop_first: "{|''ns/b'', ''ns/a''|} |-| {|''ns/a''|} = {|''ns/b''|}"
  by auto


end
