(* ===== verification/Dispatch_Props.thy ===== *)
theory Dispatch_Props
  imports Controller_Props
begin

text \<open>
  The messages the controller sends: what the synchronisation of a resource and a node that
  becomes ready put on the way to the edge, what happens to a key whose synchronisation fails,
  and the informer handlers that miss an event.
\<close>

section \<open>Messages of a dispatch\<close>

text \<open>What a receiver sees of a message: everything but its id and its time stamp.\<close>

type_synonym sight = "string \<times> string \<times> string \<times> string \<times> content"

definition sight :: "string \<times> Message \<Rightarrow> sight" where
  "sight m = (fst m, GetResource (snd m), GetOperation (snd m), GetResourceVersion (snd m), m_Content (snd m))"

definition resource_path :: "string \<Rightarrow> Resource \<Rightarrow> string" where
  "resource_path node r =
     ''node/'' @ node @ ''/'' @ r_Namespace r @ ''/'' @ the (resource_type (r_Spec r)) @ ''/envoy'' @ r_Name r"

definition sight_of :: "params \<Rightarrow> string \<Rightarrow> string \<Rightarrow> Resource \<Rightarrow> string \<Rightarrow> sight" where
  "sight_of P opr pb r node =
     (SendModuleName (p_messageLayer P), resource_path node r, opr, r_ResourceVersion r,
      StringContent (b64_EncodeToString pb))"

text \<open>A resource that can be dispatched, and a name that can be a part of a path.\<close>

definition path_name :: "string \<Rightarrow> bool" where
  "path_name n \<longleftrightarrow> n \<noteq> [] \<and> no_slash n"

definition dispatchable :: "params \<Rightarrow> Resource \<Rightarrow> string \<Rightarrow> bool" where
  "dispatchable P r pb \<longleftrightarrow> r_Spec r \<noteq> NilSpec \<and> path_name (r_Namespace r) \<and> p_marshal P (r_Spec r) = Ok pb"

lemma resource_type_path:
  assumes "r_Spec r \<noteq> NilSpec"
  shows "\<exists>t. resource_type (r_Spec r) = Some t \<and> t \<noteq> [] \<and> no_slash t"
  using assms by (cases "r_Spec r") (auto simp: resource_type_def no_slash_def)

lemma dispatchResource_Ok:
  assumes "dispatchable P r pb" and "path_name node"
  shows "\<exists>e'. dispatchResource P r opr node e = Ok e' \<and> same_store e e' \<and> e_lc e' = e_lc e \<and>
    map sight (e_outbox e') = map sight (e_outbox e) @ [sight_of P opr pb r node]"
proof -
  obtain t where t: "resource_type (r_Spec r) = Some t" "t \<noteq> []" "no_slash t"
    using assms(1) resource_type_path by (auto simp: dispatchable_def)
  let ?msg = "dispatch_message (p_uuid P (e_sent e)) (p_now P (e_sent e)) r opr (resource_path node r) pb"
  let ?e = "e\<lparr>e_outbox := cml_Send (p_messageLayer P) ?msg (e_outbox e), e_sent := Suc (e_sent e)\<rparr>"
  have path: "BuildResource node (r_Namespace r) t (''envoy'' @ r_Name r) = Ok (resource_path node r)"
    using assms t by (simp add: BuildResource_Ok_iff resource_path_def dispatchable_def path_name_def)
  moreover have res: "GetResource ?msg = resource_path node r"
    by (simp add: dispatch_message_def message_defs)
  ultimately have "\<not> isRouterMsg ?msg"
    using assms t(3) BuildResource_not_router [of node "r_Namespace r" t "''envoy'' @ r_Name r" ?msg]
    by (simp add: dispatchable_def path_name_def)
  then have "map sight (e_outbox ?e) = map sight (e_outbox e) @ [sight_of P opr pb r node]"
    by (simp add: cml_Send_def sight_def sight_of_def res) (simp add: dispatch_message_def message_defs)
  moreover have "dispatchResource P r opr node e = Ok ?e"
    using assms(1) path by (simp add: dispatchResource_def t(1) Let_def dispatchable_def)
  ultimately show ?thesis
    by (intro exI [of _ ?e]) (simp add: same_store_def)
qed

lemma dispatch_nodes_Ok:
  assumes "dispatchable P r pb" and "\<forall>n \<in> set nodes. path_name n"
  shows "\<exists>e'. dispatch_nodes P r opr nodes e err = Ok (e', err) \<and> same_store e e' \<and>
    map sight (e_outbox e') = map sight (e_outbox e) @ map (sight_of P opr pb r) nodes"
  using assms(2)
proof (induction nodes arbitrary: e)
  case (Cons n nodes)
  obtain e1 where e1: "dispatchResource P r opr n e = Ok e1" "same_store e e1"
      "map sight (e_outbox e1) = map sight (e_outbox e) @ [sight_of P opr pb r n]"
    using dispatchResource_Ok [OF assms(1), of n opr e] Cons.prems by auto
  obtain e2 where "dispatch_nodes P r opr nodes e1 err = Ok (e2, err)" "same_store e1 e2"
      "map sight (e_outbox e2) = map sight (e_outbox e1) @ map (sight_of P opr pb r) nodes"
    using Cons.IH [of e1] Cons.prems by auto
  then show ?case using e1 same_store_trans by auto
qed simp

lemma dispatch_all_Ok:
  assumes "\<forall>r \<in> set rs. dispatchable P r (pb r)" and "path_name node"
  shows "\<exists>e'. dispatch_all P node rs e = Ok e' \<and> same_store e e' \<and> e_lc e' = e_lc e \<and>
    map sight (e_outbox e') = map sight (e_outbox e) @ map (\<lambda>r. sight_of P InsertOperation (pb r) r node) rs"
  using assms(1)
proof (induction rs arbitrary: e)
  case (Cons r rs)
  obtain e1 where e1: "dispatchResource P r InsertOperation node e = Ok e1" "same_store e e1" "e_lc e1 = e_lc e"
      "map sight (e_outbox e1) = map sight (e_outbox e) @ [sight_of P InsertOperation (pb r) r node]"
    using dispatchResource_Ok [OF _ assms(2), of P r "pb r" InsertOperation e] Cons.prems by auto
  obtain e2 where "dispatch_all P node rs e1 = Ok e2" "same_store e1 e2" "e_lc e2 = e_lc e1"
      "map sight (e_outbox e2) = map sight (e_outbox e1) @ map (\<lambda>r. sight_of P InsertOperation (pb r) r node) rs"
    using Cons.IH [of e1] Cons.prems by auto
  then show ?case using e1 same_store_trans by auto
qed simp

text \<open>
  C5: Synchronising a resource sends exactly one message to every ready node of its node groups and
  to no other: an insert while an ingress refers to the resource, a delete otherwise, each with the
  path of that node, the resource version and the encoded spec. A deleted resource leaves the store,
  any other stays; the lock is as before and no error is returned.
\<close>

theorem resource_sync_reaches_ready_nodes:
  assumes "fmlookup (e_resourceStore e) R = Some r" and "range_order (p_ord P)"
    and "\<not> lk_writer (e_resourceStoreLock e)" and "\<not> lk_waiting (e_resourceStoreLock e)"
    and "dispatchable P r pb" and "\<forall>n. GetNodeStatus (e_lc e) n = (''True'', True) \<longrightarrow> path_name n"
  shows "\<exists>e' nodes. syncEnvoyResource P R e = Finished e' None \<and> distinct nodes \<and>
    set nodes = {n. (\<exists>g. g |\<in>| r_NodeGroup r \<and> n \<in> set (get_list (Group2node (e_lc e)) g)) \<and>
                    GetNodeStatus (e_lc e) n = (''True'', True)} \<and>
    map sight (e_outbox e') = map sight (e_outbox e) @
      map (sight_of P (if r_IngressRef r = {||} then DeleteOperation else InsertOperation) pb r) nodes \<and>
    e_resourceStore e' = (if r_IngressRef r = {||} then fmdrop R (e_resourceStore e) else e_resourceStore e) \<and>
    e_resourceStoreLock e' = e_resourceStoreLock e"
proof -
  let ?nodes = "p_ord P (nodesToSend P (e_lc e) (r_NodeGroup r))"
  let ?opr = "if r_IngressRef r = {||} then DeleteOperation else InsertOperation"
  let ?e1 = "e\<lparr>e_resourceStore := (if r_IngressRef r = {||} then fmdrop R (e_resourceStore e) else e_resourceStore e)\<rparr>"
  have nodes: "set ?nodes = {n. (\<exists>g. g |\<in>| r_NodeGroup r \<and> n \<in> set (get_list (Group2node (e_lc e)) g)) \<and>
      GetNodeStatus (e_lc e) n = (''True'', True)}"
    by (auto simp: range_orderD(2) [OF assms(2)] nodesToSend_def fset_of_list.rep_eq)
  then have "\<forall>n \<in> set ?nodes. path_name n" using assms(6) by simp
  then obtain e' where e': "dispatch_nodes P r ?opr ?nodes ?e1 None = Ok (e', None)" "same_store ?e1 e'"
      "map sight (e_outbox e') = map sight (e_outbox ?e1) @ map (sight_of P ?opr pb r) ?nodes"
    using dispatch_nodes_Ok [OF assms(5)] by blast
  have "lk_RLock (e_resourceStoreLock e) = Some ((e_resourceStoreLock e)\<lparr>lk_readers := Suc (lk_readers (e_resourceStoreLock e))\<rparr>)"
    using assms(3,4) by (simp add: lk_RLock_cases)
  moreover have "lk_RUnlock ((e_resourceStoreLock e)\<lparr>lk_readers := Suc (lk_readers (e_resourceStoreLock e))\<rparr>)
      = e_resourceStoreLock e"
    by (simp add: lk_RUnlock_def)
  ultimately have "syncEnvoyResource P R e = Finished e' None"
    using e'(1) assms(1) by (cases "r_IngressRef r = {||}") (simp_all add: syncEnvoyResource_def Let_def)
  moreover have "distinct ?nodes" by (rule range_orderD(1) [OF assms(2)])
  moreover have "e_outbox ?e1 = e_outbox e" by simp
  ultimately show ?thesis
    using e'(2,3) nodes by (intro exI [of _ e'] exI [of _ ?nodes]) (simp add: same_store_def)
qed

text \<open>A ready node of the example.\<close>

definition ex_node :: "string \<Rightarrow> string \<Rightarrow> string \<Rightarrow> Node" where
  "ex_node name label status =
     \<lparr>node_Meta = \<lparr>om_Name = name, om_Namespace = [], om_UID = name, om_ResourceVersion = ''1'',
        om_Labels = fmupd NODEGROUPLABEL label fmempty, om_Annotations = fmempty\<rparr>,
      node_Conditions = [\<lparr>nc_Type = ''Ready'', nc_Status = status\<rparr>]\<rparr>"

definition ex_lc :: LocationCache where
  "ex_lc = \<lparr>EdgeNodes = fmupd ''n1'' ''True'' fmempty, Node2group = fmupd ''n1'' [''g''] fmempty,
     Group2node = fmupd ''g'' [''n1''] fmempty\<rparr>"

lemma ex_state_outbox [simp]: "e_outbox (ex_state s n g l q rq) = []"
  by (simp add: ex_state_def)

lemma tls_dispatchable: "dispatchable ex_params (tls_resource name) ''pb''"
  by (simp add: dispatchable_def ex_params_def path_name_def no_slash_def tls_resource_def)

lemma ex_lc_status: "GetNodeStatus ex_lc n = (''True'', True) \<longleftrightarrow> n = ''n1''"
  by (auto simp: ex_lc_def GetNodeStatus_def)

theorem resource_sync_reaches_ready_nodes_witness:
  "\<exists>e'. syncEnvoyResource ex_params cert_key (state_a\<lparr>e_lc := ex_lc\<rparr>) = Finished e' None \<and>
    map sight (e_outbox e') = [sight_of ex_params InsertOperation ''pb'' (tls_resource ''a'') ''n1'']"
proof -
  let ?e = "state_a\<lparr>e_lc := ex_lc\<rparr>"
  have "fmlookup (e_resourceStore ?e) cert_key = Some (tls_resource ''a'')"
    and "\<not> lk_writer (e_resourceStoreLock ?e)" and "\<not> lk_waiting (e_resourceStoreLock ?e)"
    and "\<forall>n. GetNodeStatus (e_lc ?e) n = (''True'', True) \<longrightarrow> path_name n"
    by (simp_all add: lk_free_def ex_lc_status path_name_def no_slash_def)
  from resource_sync_reaches_ready_nodes [OF this(1) ex_params_order this(2,3) tls_dispatchable this(4)]
  obtain e' nodes where e': "syncEnvoyResource ex_params cert_key ?e = Finished e' None" "distinct nodes"
      "set nodes = {n. (\<exists>g. g |\<in>| r_NodeGroup (tls_resource ''a'') \<and> n \<in> set (get_list (Group2node (e_lc ?e)) g)) \<and>
         GetNodeStatus (e_lc ?e) n = (''True'', True)}"
      "map sight (e_outbox e') = map sight (e_outbox ?e) @ map (sight_of ex_params
         (if r_IngressRef (tls_resource ''a'') = {||} then DeleteOperation else InsertOperation) ''pb'' (tls_resource ''a'')) nodes"
    by blast
  from e'(3) have "set nodes = {''n1''}"
    by (simp add: ex_lc_status) (auto simp: tls_resource_def ex_lc_def get_list_def)
  then have "nodes = [''n1'']"
    using e'(2) by (cases nodes; cases "tl nodes") auto
  then show ?thesis using e'(1,4) by simp
qed


section \<open>Nodes that become ready or change their groups\<close>

lemma node_conditions_not_ready:
  "\<forall>c \<in> set cs. nc_Type c \<noteq> NodeReady \<Longrightarrow> node_conditions P n (cs @ rest) e = node_conditions P n rest e"
  by (induction cs) auto

lemma node_conditions_one:
  assumes "filter (\<lambda>c. nc_Type c = NodeReady) cs = [nsc]"
  shows "node_conditions P n cs e = node_conditions P n [nsc] e"
proof -
  obtain xs ys where "cs = xs @ nsc # ys" and no: "\<forall>c \<in> set xs. nc_Type c \<noteq> NodeReady"
      "\<forall>c \<in> set ys. nc_Type c \<noteq> NodeReady" and "nc_Type nsc = NodeReady"
    using assms unfolding filter_eq_Cons_iff by (metis (mono_tags, lifting) filter_empty_conv)
  moreover have "node_conditions P n ys = node_conditions P n []"
    by (rule ext) (use node_conditions_not_ready [OF no(2), of P n "[]"] in simp)
  ultimately show ?thesis
    by (simp add: node_conditions_not_ready [OF no(1)] Let_def)
qed

text \<open>
  C25: A labelled node that becomes ready is sent an insert of every resource in the store, also of
  the resources that belong to node groups the node is not in.
\<close>

theorem ready_node_gets_every_resource:
  assumes "filter (\<lambda>c. nc_Type c = NodeReady) (node_Conditions cur) = [nsc]" and "nc_Status nsc = ConditionTrue"
    and "fst (GetNodeStatus (e_lc e) (om_Name (node_Meta cur))) \<noteq> ConditionTrue"
    and "node_label cur \<noteq> None" and "node_label cur = node_label old"
    and "path_name (om_Name (node_Meta cur))"
    and "\<forall>r \<in> set (stored_resources P e). dispatchable P r (pb r)"
  shows "\<exists>e'. updateNode P old cur e = Ok e' \<and>
    map sight (e_outbox e') = map sight (e_outbox e) @
      map (\<lambda>r. sight_of P InsertOperation (pb r) r (om_Name (node_Meta cur))) (stored_resources P e)"
proof -
  let ?e1 = "e\<lparr>e_lc := UpdateEdgeNode cur (e_lc e)\<rparr>"
  have "stored_resources P ?e1 = stored_resources P e" by (simp add: stored_resources_def)
  with assms(6,7) obtain e' where e': "dispatch_all P (om_Name (node_Meta cur)) (stored_resources P e) ?e1 = Ok e'"
      "map sight (e_outbox e') = map sight (e_outbox ?e1) @
         map (\<lambda>r. sight_of P InsertOperation (pb r) r (om_Name (node_Meta cur))) (stored_resources P e)"
    using dispatch_all_Ok by blast
  have "nc_Type nsc = NodeReady" using assms(1) by (auto simp: filter_eq_Cons_iff)
  then have "node_conditions P cur (node_Conditions cur) e = Ok e'"
    using assms(2-4) e'(1) \<open>stored_resources P ?e1 = _\<close>
    by (auto simp: node_conditions_one [OF assms(1)] Let_def syncAllResourcesToEdgeNodes_def split: option.splits)
  moreover have "get_str (om_Labels (node_Meta cur)) NODEGROUPLABEL = get_str (om_Labels (node_Meta old)) NODEGROUPLABEL"
    using assms(5) by (simp add: node_label_def get_str_def)
  ultimately show ?thesis using e'(2) by (auto simp: updateNode_def)
qed

theorem ready_node_gets_every_resource_witness:
  "\<exists>e'. updateNode ex_params (ex_node ''n1'' ''other'' ''False'') (ex_node ''n1'' ''other'' ''True'') state_a = Ok e' \<and>
    map sight (e_outbox e') = [sight_of ex_params InsertOperation ''pb'' (tls_resource ''a'') ''n1'']"
proof -
  have stored: "stored_resources ex_params (ex_state store_a n g l q rq) = [tls_resource ''a'']" for n g l q rq
    by (simp add: stored_resources_def ex_params_def)
  from ready_node_gets_every_resource [of "ex_node ''n1'' ''other'' ''True''" _ state_a
      "ex_node ''n1'' ''other'' ''False''" ex_params "\<lambda>_. ''pb''"]
  show ?thesis
    using tls_dispatchable
    by (simp add: stored ex_node_def NodeReady_def ConditionTrue_def GetNodeStatus_def lc_new_def node_label_def
        path_name_def no_slash_def)
qed

text \<open>
  A ready node that is moved into other node groups is sent nothing: the handler records the new
  groups, but it dispatches resources only when the ready status changes.
\<close>

lemma regrouped_node_gets_nothing:
  assumes "GetNodeStatus (e_lc e) (om_Name (node_Meta cur)) = (ConditionTrue, True)"
    and "filter (\<lambda>c. nc_Type c = NodeReady) (node_Conditions cur) = [nsc]" and "nc_Status nsc = ConditionTrue"
  shows "\<exists>e'. updateNode P old cur e = Ok e' \<and> e_outbox e' = e_outbox e"
proof -
  have "EdgeNodes (UpdateNodeGroup n (DeleteNodeGroup n' lc)) = EdgeNodes lc" for n n' lc
    by (simp add: UpdateNodeGroup_def DeleteNodeGroup_def split: option.splits)
  then have "GetNodeStatus (UpdateNodeGroup n (DeleteNodeGroup n' lc)) = GetNodeStatus lc" for n n' lc
    by (simp add: fun_eq_iff GetNodeStatus_def)
  then show ?thesis
    using assms by (simp add: updateNode_def node_conditions_one [OF assms(2)] Let_def)
qed

theorem regrouped_node_gets_nothing_witness:
  "\<exists>e'. updateNode ex_params (ex_node ''n1'' ''old'' ''True'') (ex_node ''n1'' ''g'' ''True'') (state_a\<lparr>e_lc := ex_lc\<rparr>) = Ok e' \<and>
    e_outbox e' = []"
  using regrouped_node_gets_nothing [of "state_a\<lparr>e_lc := ex_lc\<rparr>" "ex_node ''n1'' ''g'' ''True''" _ ex_params
      "ex_node ''n1'' ''old'' ''True''"]
  by (simp add: ex_node_def NodeReady_def ConditionTrue_def ex_lc_def GetNodeStatus_def)


section \<open>Retries\<close>

text \<open>
  C19: An ingress whose synchronisation returns an error is retried. While the queue runs, the worker
  gives the key back and leaves it to the rate limiter, and the timer puts it into the queue again,
  where an idle worker will find a key to process.
\<close>

theorem failed_sync_is_retried:
  assumes "eic_inv e" and "range_order (p_ord P)" and "\<not> wq_shuttingDown (e_queue e)"
    and "wq_processing (e_queue e) = {|k|}" and "syncEnvoyIngress P c k e = Finished e1 (Some err)"
  shows "\<exists>e'. ingress_work P c k e = Finished e' () \<and> k |\<in>| wq_waiting (e_queue e') \<and>
    wq_processing (e_queue e') = {||} \<and> k |\<in>| wq_dirty (wq_Timer k (e_queue e')) \<and>
    (\<exists>k' q'. wq_Get (wq_Timer k (e_queue e')) = Item k' q')"
proof -
  let ?q = "wq_Done k (wq_AddRateLimited k (e_queue e))"
  let ?e' = "e1\<lparr>e_queue := ?q\<rparr>"
  have q1: "e_queue e1 = e_queue e"
    using syncEnvoyIngress_inv [OF assms(1,2), of c k] assms(5) by (simp add: ing_frame_def)
  have work: "ingress_work P c k e = Finished ?e' ()"
    by (simp add: ingress_work_def assms(5) finish_ingress_def q1)
  have wait: "k |\<in>| wq_waiting ?q" and run: "\<not> wq_shuttingDown ?q"
    using assms(3) by (simp_all add: wq_AddRateLimited_waits)
  have idle: "wq_processing ?q = {||}"
    by (simp add: wq_Done_def Let_def wq_AddRateLimited_waits assms(4))
  have "wq_inv ?q"
    using assms(1,4) by (simp add: wq_inv_Done wq_inv_AddRateLimited eic_inv_wq wq_AddRateLimited_waits)
  then have inv: "wq_inv (wq_Timer k ?q)" by (rule wq_inv_Timer)
  have dirty: "k |\<in>| wq_dirty (wq_Timer k ?q)" and idle': "wq_processing (wq_Timer k ?q) = {||}"
    using wait run idle by (simp_all add: wq_Timer_def wq_pending_Add)
  have "\<exists>k' q'. wq_take (wq_Timer k ?q) = Some (k', q')"
    using wq.get_progress [OF inv, of k] dirty idle' by simp
  then show ?thesis
    using work wait idle dirty by (intro exI [of _ ?e']) (simp add: wq_take_Some)
qed

text \<open>The state in which a worker holds an ingress of another class.\<close>

definition other_ingress :: Ingress where
  "other_ingress = (tls_ingress ''a'')\<lparr>ing_Meta := ex_meta ''a'' fmempty\<rparr>"

definition other_caches :: caches where
  "other_caches = (tls_caches [])\<lparr>c_ingress := \<lparr>items = [other_ingress], fault = None\<rparr>\<rparr>"

definition busy_state :: eic where
  "busy_state = ex_state fmempty fmempty fmempty lk_free (taken ''ns/a'') wq_new"

lemma busy_reached: "(eic_step ex_params)\<^sup>*\<^sup>* NewEnvoyIngressController busy_state"
proof -
  let ?s = "ex_state fmempty fmempty fmempty lk_free (wq_Add ''ns/a'' wq_new) wq_new"
  have "eic_step ex_params NewEnvoyIngressController ?s"
    using eic_step.delete_ingress [of ex_params NewEnvoyIngressController "DeletedObj (tls_ingress ''a'')"]
    by (simp add: deleteIngress_def ex_state_New)
  moreover have "eic_step ex_params ?s busy_state"
    using eic_step.ingress_get [of ?s] by (simp add: queue_round busy_state_def)
  ultimately show ?thesis by (meson rtranclp.rtrancl_into_rtrancl rtranclp.rtrancl_refl)
qed

lemma other_sync: "syncEnvoyIngress ex_params other_caches ''ns/a'' busy_state = Finished busy_state (Some ErrNotEnvoyIngress)"
proof -
  have "\<not> isEnvoyIngress other_ingress"
    by (simp add: other_ingress_def isEnvoyIngress_def ex_meta_def get_str_def tls_ingress_def ENVOYINGRESSCONTROLLERNAME_def)
  moreover have "lookupIngress other_caches ''ns'' ''a'' = Found other_ingress"
    by (simp add: lookupIngress_def lister_Get_def other_caches_def other_ingress_def ex_meta_def MetaNamespaceKeyFunc_def)
  ultimately show ?thesis
    using tls_found(1) [of "''a''" "[''a'']"] by (simp add: syncEnvoyIngress_def)
qed

theorem failed_sync_is_retried_witness:
  "\<exists>e'. ingress_work ex_params other_caches ''ns/a'' busy_state = Finished e' () \<and> ''ns/a'' |\<in>| wq_waiting (e_queue e')"
proof -
  have "\<not> wq_shuttingDown (e_queue busy_state)" "wq_processing (e_queue busy_state) = {|''ns/a''|}"
    by (simp_all add: busy_state_def taken_def wq_new_def)
  from failed_sync_is_retried [OF eic_reach_inv [OF busy_reached ex_params_order] ex_params_order this other_sync]
  show ?thesis by blast
qed


section \<open>A change of class the v1beta1 handler misses\<close>

text \<open>
  The handler of v1beta1 updates hands the old and the new ingress over in the wrong order: an
  ingress that becomes an Envoy ingress is not queued, while one that stops being an Envoy ingress
  is; the v1 handler queues the first and not the second.
\<close>

lemma v1beta1_update_misses_class_change:
  assumes "om_UID (bing_Meta new) = om_UID (bing_Meta old)"
    and "\<not> isEnvoyIngress (toV1Ingress old)" and "isEnvoyIngress (toV1Ingress new)"
  shows "updateV1beta1Ingress old new e = e \<and>
    updateIngress (toV1Ingress old) (toV1Ingress new) e = enqueue (toV1Ingress new) e \<and>
    updateV1beta1Ingress new old e = enqueue (toV1Ingress new) e \<and>
    updateIngress (toV1Ingress new) (toV1Ingress old) e = e"
  using assms by (simp add: updateV1beta1Ingress_def updateIngress_def toV1Ingress_def)

definition ex_v1beta1 :: "strmap \<Rightarrow> V1beta1Ingress" where
  "ex_v1beta1 annotations =
     \<lparr>bing_Meta = ex_meta ''a'' annotations,
      bing_Spec = \<lparr>bs_IngressClassName = None, bs_Backend = None, bs_TLS = [], bs_Rules = []\<rparr>\<rparr>"

lemma v1beta1_update_misses_class_change_example:
  "updateV1beta1Ingress (ex_v1beta1 fmempty) (ex_v1beta1 (fmupd INGRESSCLASSANNOTATION ENVOYINGRESSCONTROLLERNAME fmempty))
     NewEnvoyIngressController = NewEnvoyIngressController"
  using v1beta1_update_misses_class_change [of
      "ex_v1beta1 (fmupd INGRESSCLASSANNOTATION ENVOYINGRESSCONTROLLERNAME fmempty)" "ex_v1beta1 fmempty"
      NewEnvoyIngressController]
  by (simp add: ex_v1beta1_def isEnvoyIngress_def toV1Ingress_def ex_meta_def get_str_def ENVOYINGRESSCONTROLLERNAME_def)

end
