(* ===== verification/Cloud_Queue.thy ===== *)
theory Cloud_Queue
  imports Beehive_Message Work_Queue
begin

text \<open>
  The message queues of the cloud hub (\<open>cloudhub/channelq/channelq.go\<close>), the classification of
  its messages (\<open>cloudhub/common/model/types.go\<close>) and the comparison of resource versions
  (\<open>synccontroller/objectsync.go\<close>). A node has two queues with a store each: one for objects,
  keyed by type, namespace and name and guarded by resource versions, and one for messages that are
  only passed on, keyed by message id. The lister of \<open>ObjectSync\<close> objects is an argument: it
  gives the resource version an object's status holds, if there is such an object.
\<close>

section \<open>Resource versions\<close>

definition CompareResourceVersion :: "string \<Rightarrow> string \<Rightarrow> int result" where
  "CompareResourceVersion rva rvb =
     (case strconv_ParseUint rva of
        Ok a \<Rightarrow>
          (case strconv_ParseUint rvb of
             Ok b \<Rightarrow> Ok (if a > b then 1 else if a = b then 0 else -1)
           | _ \<Rightarrow> Panic ExplicitPanic)
      | _ \<Rightarrow> Panic ExplicitPanic)"

definition BuildObjectSyncName :: "string \<Rightarrow> string \<Rightarrow> string" where
  "BuildObjectSyncName nodeName UID = nodeName @ ''.'' @ UID"

definition getNodeName :: "string \<Rightarrow> string" where
  "getNodeName syncName = strings_Join ''.'' (butlast (strings_Split (CHR ''.'') syncName))"

definition getObjectUID :: "string \<Rightarrow> string" where
  "getObjectUID syncName = last (strings_Split (CHR ''.'') syncName)"


section \<open>Classification of messages\<close>

definition GroupResource :: string where "GroupResource = ''resource''"

definition ResourceTypeNode :: string where "ResourceTypeNode = ''node''"

definition EdgeControllerModuleName :: string where "EdgeControllerModuleName = ''edgecontroller''"

definition UserGroup :: string where "UserGroup = ''user''"

definition ApplicationResp :: string where "ApplicationResp = ''applicationResponse''"

text \<open>A getter whose error is dropped gives the empty string.\<close>

definition or_empty :: "string result \<Rightarrow> string" where
  "or_empty r = (case r of Ok s \<Rightarrow> s | _ \<Rightarrow> [])"

definition GetMessageUID :: "Message \<Rightarrow> string result" where
  "GetMessageUID msg = (case m_Content msg of ObjectContent obj \<Rightarrow> Ok (ao_UID obj) | _ \<Rightarrow> Err ErrNotObject)"

text \<open>\<open>GetMessageDeletionTimestamp\<close>: whether the object has one.\<close>

definition GetMessageDeletionTimestamp :: "Message \<Rightarrow> bool result" where
  "GetMessageDeletionTimestamp msg =
     (case m_Content msg of ObjectContent obj \<Rightarrow> Ok (ao_Deleting obj) | _ \<Rightarrow> Err ErrNotObject)"

definition isDeleteMessage :: "Message \<Rightarrow> bool" where
  "isDeleteMessage msg =
     (if GetOperation msg = DeleteOperation then True
      else (case GetMessageDeletionTimestamp msg of Ok deleting \<Rightarrow> deleting | _ \<Rightarrow> False))"

definition isListResource :: "Message \<Rightarrow> bool" where
  "isListResource msg =
     (let msgResource = GetResource msg
      in if strings_Contains msgResource ''podlist'' \<or> strings_Contains msgResource ''servicelist'' \<or>
            strings_Contains msgResource ''endpointslist'' \<or> strings_Contains msgResource ''membership'' \<or>
            strings_Contains msgResource ''twin/cloud_updated'' \<or> strings_Contains msgResource ''envoy''
         then True
         else if GetOperation msg = ApplicationResp then True
         else if GetOperation msg = ResponseOperation \<and> m_Content msg = StringContent ''OK'' then True
         else if GetSource msg = EdgeControllerModuleName \<and> or_empty (GetResourceType msg) = ResourceTypeNode
         then True
         else GetGroup msg = UserGroup)"

text \<open>The node of a message: what follows the first part \<open>node\<close> that is followed by something.\<close>

fun node_after :: "string list \<Rightarrow> string result" where
  "node_after (token # nodeID # rest) =
     (if token = ''node'' \<and> nodeID \<noteq> [] then Ok nodeID else node_after (nodeID # rest))"
| "node_after _ = Err ErrNoNodeID"

definition cq_GetNodeID :: "Message \<Rightarrow> string result" where
  "cq_GetNodeID msg = node_after (strings_Split (CHR ''/'') (GetResource msg))"

definition getMsgKey :: "Message \<Rightarrow> string result" where
  "getMsgKey msg =
     (if GetGroup msg = GroupResource
      then Ok (strings_Join ''/''
             [or_empty (GetResourceType msg), or_empty (GetNamespace msg), or_empty (GetResourceName msg)])
      else Err ErrNoMessageKey)"

definition getListMsgKey :: "Message \<Rightarrow> string" where
  "getListMsgKey msg = GetID msg"

definition IsNodeStopped :: "Message \<Rightarrow> bool" where
  "IsNodeStopped msg =
     (if or_empty (GetResourceType msg) \<noteq> ResourceTypeNode then False else GetOperation msg = DeleteOperation)"

definition cloudModuleArray :: "string list" where
  "cloudModuleArray = [''cloudhub'', ''cloudStream'', ''devicecontroller'', ''edgecontroller'', ''synccontroller'']"

definition IsFromEdge :: "Message \<Rightarrow> bool" where
  "IsFromEdge msg \<longleftrightarrow> GetSource msg \<notin> set cloudModuleArray"

definition SrcManager :: string where "SrcManager = ''edgemgr''"

definition resOpMap :: "(string \<times> string list) list" where
  "resOpMap = [(''membership'', [''get'']), (''twin'', [''delta'', ''document'', ''get'']),
     (''auth_info'', [''get'']), (''node'', [''deleted''])]"

text \<open>A resource that starts with \<open>node\<close> without its first two parts, if it has three.\<close>

definition without_node :: "string \<Rightarrow> string" where
  "without_node resource =
     (if strings_HasPrefix resource ''node'' then
        (let tokens = strings_Split (CHR ''/'') resource
         in if length tokens < 3 then resource else strings_Join ''/'' (drop 2 tokens))
      else resource)"

definition IsToEdge :: "Message \<Rightarrow> bool" where
  "IsToEdge msg =
     (if GetSource msg \<noteq> SrcManager then True
      else \<not> list_ex (\<lambda>(res, ops). list_ex (\<lambda>opr. GetOperation msg = opr \<and>
                strings_Contains (without_node (GetResource msg)) res) ops) resOpMap)"


section \<open>The queues\<close>

record ChannelMessageQueue =
  queuePool :: "(string, string workqueue) fmap"
  storePool :: "(string, (string, Message) fmap) fmap"
  listQueuePool :: "(string, string workqueue) fmap"
  listStorePool :: "(string, (string, Message) fmap) fmap"

definition NewChannelMessageQueue :: ChannelMessageQueue where
  "NewChannelMessageQueue =
     \<lparr>queuePool = fmempty, storePool = fmempty, listQueuePool = fmempty, listStorePool = fmempty\<rparr>"

text \<open>The four getters allocate what they do not find.\<close>

definition GetNodeQueue :: "string \<Rightarrow> ChannelMessageQueue \<Rightarrow> string workqueue \<times> ChannelMessageQueue" where
  "GetNodeQueue nodeID q =
     (case fmlookup (queuePool q) nodeID of
        None \<Rightarrow> (wq_new, q\<lparr>queuePool := fmupd nodeID wq_new (queuePool q)\<rparr>)
      | Some nodeQueue \<Rightarrow> (nodeQueue, q))"

definition GetNodeListQueue :: "string \<Rightarrow> ChannelMessageQueue \<Rightarrow> string workqueue \<times> ChannelMessageQueue" where
  "GetNodeListQueue nodeID q =
     (case fmlookup (listQueuePool q) nodeID of
        None \<Rightarrow> (wq_new, q\<lparr>listQueuePool := fmupd nodeID wq_new (listQueuePool q)\<rparr>)
      | Some nodeListQueue \<Rightarrow> (nodeListQueue, q))"

definition GetNodeStore :: "string \<Rightarrow> ChannelMessageQueue \<Rightarrow> (string, Message) fmap \<times> ChannelMessageQueue" where
  "GetNodeStore nodeID q =
     (case fmlookup (storePool q) nodeID of
        None \<Rightarrow> (fmempty, q\<lparr>storePool := fmupd nodeID fmempty (storePool q)\<rparr>)
      | Some nodeStore \<Rightarrow> (nodeStore, q))"

definition GetNodeListStore :: "string \<Rightarrow> ChannelMessageQueue \<Rightarrow> (string, Message) fmap \<times> ChannelMessageQueue" where
  "GetNodeListStore nodeID q =
     (case fmlookup (listStorePool q) nodeID of
        None \<Rightarrow> (fmempty, q\<lparr>listStorePool := fmupd nodeID fmempty (listStorePool q)\<rparr>)
      | Some nodeListStore \<Rightarrow> (nodeListStore, q))"

definition addListMessageToQueue :: "string \<Rightarrow> Message \<Rightarrow> ChannelMessageQueue \<Rightarrow> ChannelMessageQueue" where
  "addListMessageToQueue nodeID msg q =
     (let (nodeListQueue, q1) = GetNodeListQueue nodeID q;
          (nodeListStore, q2) = GetNodeListStore nodeID q1;
          messageKey = getListMsgKey msg
      in q2\<lparr>listStorePool := fmupd nodeID (fmupd messageKey msg nodeListStore) (listStorePool q2),
            listQueuePool := fmupd nodeID (wq_Add messageKey nodeListQueue) (listQueuePool q2)\<rparr>)"

text \<open>
  Whether a message that is not a delete is dropped: it is not newer than what the \<open>ObjectSync\<close>
  records or than the message in the store, or the message in the store is a delete.
\<close>

type_synonym objectSyncs = "string \<Rightarrow> string \<Rightarrow> string option"

definition outdated :: "objectSyncs \<Rightarrow> string \<Rightarrow> Message \<Rightarrow> Message option \<Rightarrow> bool result" where
  "outdated syncs nodeID msg item =
     (case item of
        None \<Rightarrow>
          (case GetMessageUID msg of
             Ok resourceUID \<Rightarrow>
               (case syncs (or_empty (GetNamespace msg)) (BuildObjectSyncName nodeID resourceUID) of
                  Some version \<Rightarrow>
                    if version \<noteq> [] then bind (CompareResourceVersion (GetResourceVersion msg) version) (\<lambda>c. Ok (c \<le> 0))
                    else Ok False
                | None \<Rightarrow> Ok False)
           | _ \<Rightarrow> Ok True)
      | Some msgInStore \<Rightarrow>
          if isDeleteMessage msgInStore then Ok True
          else bind (CompareResourceVersion (GetResourceVersion msg) (GetResourceVersion msgInStore)) (\<lambda>c. Ok (c \<le> 0)))"

definition addMessageToQueue ::
  "objectSyncs \<Rightarrow> string \<Rightarrow> Message \<Rightarrow> ChannelMessageQueue \<Rightarrow> ChannelMessageQueue result" where
  "addMessageToQueue syncs nodeID msg q =
     (if GetResourceVersion msg = [] \<and> \<not> isDeleteMessage msg then Ok q
      else
        (let (nodeQueue, q1) = GetNodeQueue nodeID q;
             (nodeStore, q2) = GetNodeStore nodeID q1
         in case getMsgKey msg of
              Ok messageKey \<Rightarrow>
                bind (if isDeleteMessage msg then Ok False
                      else outdated syncs nodeID msg (fmlookup nodeStore messageKey)) (\<lambda>drop.
                  Ok (if drop then q2
                      else q2\<lparr>storePool := fmupd nodeID (fmupd messageKey msg nodeStore) (storePool q2),
                              queuePool := fmupd nodeID (wq_Add messageKey nodeQueue) (queuePool q2)\<rparr>))
            | _ \<Rightarrow> Ok q2))"

text \<open>One pass of the dispatch loop.\<close>

definition DispatchMessage :: "objectSyncs \<Rightarrow> Message \<Rightarrow> ChannelMessageQueue \<Rightarrow> ChannelMessageQueue result" where
  "DispatchMessage syncs msg q =
     (case cq_GetNodeID msg of
        Ok nodeID \<Rightarrow>
          if nodeID = [] then Ok q
          else if isListResource msg then Ok (addListMessageToQueue nodeID msg q)
          else addMessageToQueue syncs nodeID msg q
      | _ \<Rightarrow> Ok q)"

definition Connect :: "string \<Rightarrow> ChannelMessageQueue \<Rightarrow> ChannelMessageQueue" where
  "Connect nodeID q =
     q\<lparr>queuePool := (case fmlookup (queuePool q) nodeID of None \<Rightarrow> fmupd nodeID wq_new (queuePool q) | _ \<Rightarrow> queuePool q),
       storePool := (case fmlookup (storePool q) nodeID of None \<Rightarrow> fmupd nodeID fmempty (storePool q) | _ \<Rightarrow> storePool q),
       listQueuePool := (case fmlookup (listQueuePool q) nodeID of
          None \<Rightarrow> fmupd nodeID wq_new (listQueuePool q) | _ \<Rightarrow> listQueuePool q),
       listStorePool := (case fmlookup (listStorePool q) nodeID of
          None \<Rightarrow> fmupd nodeID fmempty (listStorePool q) | _ \<Rightarrow> listStorePool q)\<rparr>"

definition Close :: "string \<Rightarrow> ChannelMessageQueue \<Rightarrow> ChannelMessageQueue" where
  "Close nodeID q =
     q\<lparr>queuePool := fmdrop nodeID (queuePool q), storePool := fmdrop nodeID (storePool q),
       listQueuePool := fmdrop nodeID (listQueuePool q), listStorePool := fmdrop nodeID (listStorePool q)\<rparr>"

text \<open>The calls of the beehive context a module makes.\<close>

datatype beehive_call = Send string Message | SendToGroup string Message | SendResp Message

definition Publish :: "Message \<Rightarrow> beehive_call" where
  "Publish msg =
     (if GetSource msg = ''metaserver'' then Send ''dynamiccontroller'' msg
      else if GetSource msg = ''twin'' then SendToGroup ''devicecontroller'' msg
      else SendToGroup ''edgecontroller'' msg)"

end
