(* ===== verification/Cloud_Hub.thy ===== *)
theory Cloud_Hub
  imports Cloud_Queue
begin

text \<open>
  The message handler of the cloud hub (\<open>cloudhub/handler/messagehandler.go\<close>): registration of
  nodes, messages from the edge, and the two loops that write messages to a node. The hub's
  environment is an argument: whether the n-th write to a connection succeeds, the clock, and the
  client of the \<open>ObjectSync\<close> objects, whose state is a part of the handler's. A loop is one pass at a time; a
  pass reads the node's queues from the pools, where the loop has put them before its first pass.
\<close>

section \<open>Types of API objects\<close>

text \<open>
  \<open>pkg/metaserver/util/util.go\<close>: the resource of a kind. \<open>strings.ToLower\<close> is modelled on ASCII,
  which the kinds of Kubernetes are written in.
\<close>

definition to_lower :: "char \<Rightarrow> char" where
  "to_lower c = (if CHR ''A'' \<le> c \<and> c \<le> CHR ''Z'' then char_of (of_char c + 32 :: nat) else c)"

definition UnsafeKindToResource :: "string \<Rightarrow> string" where
  "UnsafeKindToResource k =
     (if k = [] then k
      else if k = ''Endpoints'' then ''endpoints''
      else
        (let r = map to_lower k
         in if last r = CHR ''s'' then r @ ''es''
            else if last r = CHR ''y'' then butlast r @ ''ies''
            else r @ ''s''))"

definition GetMessageAPIVerison :: "Message \<Rightarrow> string" where
  "GetMessageAPIVerison msg = (case m_Content msg of ObjectContent obj \<Rightarrow> ao_APIVersion obj | _ \<Rightarrow> [])"

definition GetMessageResourceType :: "Message \<Rightarrow> string" where
  "GetMessageResourceType msg = (case m_Content msg of ObjectContent obj \<Rightarrow> UnsafeKindToResource (ao_Kind obj) | _ \<Rightarrow> [])"


section \<open>State\<close>

record ObjectSync =
  os_Name :: string
  os_ObjectAPIVersion :: string
  os_ObjectKind :: string
  os_ObjectName :: string
  os_ObjectResourceVersion :: string

record 'api hub_env =
  he_write_ok :: "nat \<Rightarrow> bool"
  he_now :: int
  he_uuid :: string
  he_Get :: "string \<Rightarrow> string \<Rightarrow> 'api \<Rightarrow> ObjectSync result"
  he_Create :: "string \<Rightarrow> ObjectSync \<Rightarrow> 'api \<Rightarrow> 'api result"
  he_UpdateStatus :: "string \<Rightarrow> ObjectSync \<Rightarrow> 'api \<Rightarrow> 'api result"
  he_Delete :: "string \<Rightarrow> string \<Rightarrow> 'api \<Rightarrow> 'api result"

record 'api MessageHandle =
  mh_Nodes :: "string fset"
  mh_nodeConns :: "(string, nat) fmap"
  mh_nodeLocks :: "string fset"
  mh_nodeRegistered :: "string fset"
  mh_MessageQueue :: ChannelMessageQueue
  mh_NodeLimit :: int
  mh_KeepaliveChannel :: "(string, nat) fmap"
  mh_MessageAcks :: "string fset"
  mh_calls :: "beehive_call list"
  mh_writes :: nat
  mh_written :: "(string \<times> Message) list"
  mh_api :: 'api

datatype ExitCode = hubioReadFail | hubioWriteFail | messageQueueDisconnect | nodeStop | nodeDisconnect

definition InitHandler :: "int \<Rightarrow> ChannelMessageQueue \<Rightarrow> 'api \<Rightarrow> 'api MessageHandle" where
  "InitHandler NodeLimit eventq api =
     \<lparr>mh_Nodes = {||}, mh_nodeConns = fmempty, mh_nodeLocks = {||}, mh_nodeRegistered = {||},
      mh_MessageQueue = eventq, mh_NodeLimit = NodeLimit, mh_KeepaliveChannel = fmempty, mh_MessageAcks = {||},
      mh_calls = [], mh_writes = 0, mh_written = [], mh_api = api\<rparr>"

definition GetNodeCount :: "'api MessageHandle \<Rightarrow> int" where
  "GetNodeCount mh = int (fcard (mh_Nodes mh))"

definition call :: "beehive_call \<Rightarrow> 'api MessageHandle \<Rightarrow> 'api MessageHandle" where
  "call c mh = mh\<lparr>mh_calls := mh_calls mh @ [c]\<rparr>"


section \<open>Messages from the edge\<close>

text \<open>The characters \<open>\w\<close> of a regular expression, and the pattern of a volume resource.\<close>

definition word_char :: "char \<Rightarrow> bool" where
  "word_char c =
     (let n = (of_char c :: nat)
      in (48 \<le> n \<and> n \<le> 57) \<or> (65 \<le> n \<and> n \<le> 90) \<or> n = 95 \<or> (97 \<le> n \<and> n \<le> 122))"

definition VolumeRegExp :: "string \<Rightarrow> bool" where
  "VolumeRegExp resource =
     (case strings_Split (CHR ''/'') resource of
        (c # cs) # volume # (d # _) # _ \<Rightarrow>
          word_char c \<and> list_all (\<lambda>x. word_char x \<or> x = CHR ''-'' \<or> x = CHR ''.'' \<or> x = CHR ''+'') cs \<and>
          volume = ''volume'' \<and> word_char d
      | _ \<Rightarrow> False)"

definition PubToController :: "string \<Rightarrow> Message \<Rightarrow> 'api MessageHandle \<Rightarrow> 'api MessageHandle" where
  "PubToController nodeID msg mh =
     (let msg' = SetResourceOperation (''node/'' @ nodeID @ ''/'' @ GetResource msg) (GetOperation msg) msg
      in if IsFromEdge msg' then call (Publish msg') mh else mh)"

text \<open>
  A message from the edge. The keepalive channel has room for one signal; a handler that has to
  wait for room gives \<open>None\<close>.
\<close>

definition HandleServer :: "string \<Rightarrow> Message \<Rightarrow> 'api MessageHandle \<Rightarrow> 'api MessageHandle option" where
  "HandleServer nodeID msg mh =
     (if GetNodeCount mh \<ge> mh_NodeLimit mh then Some mh
      else if GetOperation msg = ''keepalive'' then
        (case fmlookup (mh_KeepaliveChannel mh) nodeID of
           None \<Rightarrow> Some mh
         | Some n \<Rightarrow>
             if n \<ge> 1 then None
             else Some (mh\<lparr>mh_KeepaliveChannel := fmupd nodeID (Suc n) (mh_KeepaliveChannel mh)\<rparr>))
      else if VolumeRegExp (GetResource msg) then Some (call (SendResp msg) mh)
      else if GetOperation msg = ResponseOperation then
        Some (mh\<lparr>mh_MessageAcks := mh_MessageAcks mh |-| {|GetParentID msg|}\<rparr>)
      else if GetOperation msg = ''upload'' \<and> GetGroup msg = UserGroup then
        Some (call (Send ''router''
          (SetResourceOperation (''node/'' @ nodeID @ ''/'' @ GetResource msg) (GetOperation msg) msg)) mh)
      else Some (PubToController nodeID msg mh))"


section \<open>Registration\<close>

definition NewResource :: "string \<Rightarrow> string \<Rightarrow> string option \<Rightarrow> string" where
  "NewResource resType resID info =
     (let prefix = (case info of None \<Rightarrow> [] | Some nodeID \<Rightarrow> ''node/'' @ nodeID @ ''/'')
      in if resID = [] then prefix @ resType else prefix @ resType @ ''/'' @ resID)"

definition constructConnectMessage :: "'api hub_env \<Rightarrow> string \<Rightarrow> bool \<Rightarrow> Message" where
  "constructConnectMessage E nodeID isConnected =
     (let connected = (if isConnected then ''connected'' else ''disconnected'');
          content = ''{'' @ json_Marshal_string ''client_id'' @ '':'' @ json_Marshal_string nodeID @ '','' @
            json_Marshal_string ''event_type'' @ '':'' @ json_Marshal_string connected @ '','' @
            json_Marshal_string ''timestamp'' @ '':'' @ strconv_Itoa (he_now E) @ ''}''
      in FillBody (BytesContent content)
           (BuildRouter ''cloudhub'' ''resource'' (NewResource ''node'' nodeID None) connected
             (NewMessage (he_uuid E) (he_now E) [])))"

text \<open>A new connection: whether the node still has to be served, and the handler's new state.\<close>

definition OnRegister :: "string \<Rightarrow> nat \<Rightarrow> 'api MessageHandle \<Rightarrow> bool \<times> 'api MessageHandle" where
  "OnRegister nodeID io mh =
     (let mh1 = (case fmlookup (mh_KeepaliveChannel mh) nodeID of
                   None \<Rightarrow> mh\<lparr>mh_KeepaliveChannel := fmupd nodeID 0 (mh_KeepaliveChannel mh)\<rparr>
                 | Some _ \<Rightarrow> mh)
      in (nodeID |\<notin>| mh_nodeRegistered mh, mh1\<lparr>mh_nodeConns := fmupd nodeID io (mh_nodeConns mh1)\<rparr>))"

definition RegisterNode :: "'api hub_env \<Rightarrow> string \<Rightarrow> 'api MessageHandle \<Rightarrow> 'api MessageHandle result" where
  "RegisterNode E nodeID mh =
     (case fmlookup (mh_nodeConns mh) nodeID of
        None \<Rightarrow> Err ErrNoConnection
      | Some hi \<Rightarrow>
          (let mh1 = call (Publish (constructConnectMessage E nodeID True))
                 (mh\<lparr>mh_MessageQueue := Connect nodeID (mh_MessageQueue mh)\<rparr>)
           in Ok (mh1\<lparr>mh_nodeLocks := finsert nodeID (mh_nodeLocks mh1), mh_Nodes := finsert nodeID (mh_Nodes mh1),
                      mh_nodeRegistered := finsert nodeID (mh_nodeRegistered mh1)\<rparr>)))"

text \<open>A write to a connection; \<open>hubIoWrite\<close> refuses a node without a lock.\<close>

definition WriteData :: "'api hub_env \<Rightarrow> string \<Rightarrow> Message \<Rightarrow> 'api MessageHandle \<Rightarrow> error option \<times> 'api MessageHandle" where
  "WriteData E nodeID msg mh =
     (if he_write_ok E (mh_writes mh)
      then (None, mh\<lparr>mh_writes := Suc (mh_writes mh), mh_written := mh_written mh @ [(nodeID, msg)]\<rparr>)
      else (Some ErrWrite, mh\<lparr>mh_writes := Suc (mh_writes mh)\<rparr>))"

definition hubIoWrite :: "'api hub_env \<Rightarrow> string \<Rightarrow> Message \<Rightarrow> 'api MessageHandle \<Rightarrow> error option \<times> 'api MessageHandle" where
  "hubIoWrite E nodeID msg mh =
     (if nodeID |\<notin>| mh_nodeLocks mh then (Some ErrNoConnection, mh) else WriteData E nodeID msg mh)"

definition notifyEventQueueError :: "'api hub_env \<Rightarrow> ExitCode \<Rightarrow> string \<Rightarrow> 'api MessageHandle \<Rightarrow> 'api MessageHandle" where
  "notifyEventQueueError E code nodeID mh =
     (if code = messageQueueDisconnect then
        snd (WriteData E nodeID
          (BuildRouter ''resource'' ''cloudhub'' (NewResource ''node'' nodeID None) ''disconnected''
            (NewMessage (he_uuid E) (he_now E) [])) mh)
      else mh)"

definition UnregisterNode :: "'api hub_env \<Rightarrow> string \<Rightarrow> ExitCode \<Rightarrow> 'api MessageHandle \<Rightarrow> 'api MessageHandle" where
  "UnregisterNode E nodeID code mh =
     (let mh1 = (case fmlookup (mh_nodeConns mh) nodeID of
                   None \<Rightarrow> mh | Some hi \<Rightarrow> notifyEventQueueError E code nodeID mh);
          mh2 = mh1\<lparr>mh_nodeLocks := mh_nodeLocks mh1 |-| {|nodeID|},
                    mh_nodeConns := fmdrop nodeID (mh_nodeConns mh1),
                    mh_nodeRegistered := mh_nodeRegistered mh1 |-| {|nodeID|},
                    mh_KeepaliveChannel := fmdrop nodeID (mh_KeepaliveChannel mh1)\<rparr>;
          mh3 = call (Publish (constructConnectMessage E nodeID False)) mh2;
          mh4 = mh3\<lparr>mh_Nodes := mh_Nodes mh3 |-| {|nodeID|}\<rparr>
      in if code = nodeStop then mh4\<lparr>mh_MessageQueue := Close nodeID (mh_MessageQueue mh4)\<rparr> else mh4)"

text \<open>The two events of the keepalive loop: a signal from the node, and the timer.\<close>

definition keepalive_signal :: "string \<Rightarrow> 'api MessageHandle \<Rightarrow> 'api MessageHandle" where
  "keepalive_signal nodeID mh =
     mh\<lparr>mh_KeepaliveChannel := fmmap_keys (\<lambda>k n. if k = nodeID then n - 1 else n) (mh_KeepaliveChannel mh)\<rparr>"

definition keepalive_timeout :: "string \<Rightarrow> 'api MessageHandle \<Rightarrow> 'api MessageHandle" where
  "keepalive_timeout nodeID mh = mh\<lparr>mh_nodeConns := fmdrop nodeID (mh_nodeConns mh)\<rparr>"


section \<open>Writing to a node\<close>

definition trimMessage :: "Message \<Rightarrow> Message" where
  "trimMessage msg =
     (if strings_HasPrefix (GetResource msg) ''node'' then
        (let tokens = strings_Split (CHR ''/'') (GetResource msg)
         in if length tokens < 3 then msg
            else SetResourceOperation (strings_Join ''/'' (drop 2 tokens)) (GetOperation msg) msg)
      else msg)"

text \<open>What one pass of a loop does: go on, return (with the exit code it sends), or wait.\<close>

datatype 'api pass = Continues "'api MessageHandle" | Returns "ExitCode option" "'api MessageHandle" | Waits_for "'api MessageHandle"

definition set_list_queue :: "string \<Rightarrow> string workqueue \<Rightarrow> 'api MessageHandle \<Rightarrow> 'api MessageHandle" where
  "set_list_queue nodeID w mh =
     mh\<lparr>mh_MessageQueue := (mh_MessageQueue mh)\<lparr>listQueuePool := fmupd nodeID w (listQueuePool (mh_MessageQueue mh))\<rparr>\<rparr>"

definition set_list_store :: "string \<Rightarrow> (string, Message) fmap \<Rightarrow> 'api MessageHandle \<Rightarrow> 'api MessageHandle" where
  "set_list_store nodeID s mh =
     mh\<lparr>mh_MessageQueue := (mh_MessageQueue mh)\<lparr>listStorePool := fmupd nodeID s (listStorePool (mh_MessageQueue mh))\<rparr>\<rparr>"

definition set_queue :: "string \<Rightarrow> string workqueue \<Rightarrow> 'api MessageHandle \<Rightarrow> 'api MessageHandle" where
  "set_queue nodeID w mh =
     mh\<lparr>mh_MessageQueue := (mh_MessageQueue mh)\<lparr>queuePool := fmupd nodeID w (queuePool (mh_MessageQueue mh))\<rparr>\<rparr>"

definition set_store :: "string \<Rightarrow> (string, Message) fmap \<Rightarrow> 'api MessageHandle \<Rightarrow> 'api MessageHandle" where
  "set_store nodeID s mh =
     mh\<lparr>mh_MessageQueue := (mh_MessageQueue mh)\<lparr>storePool := fmupd nodeID s (storePool (mh_MessageQueue mh))\<rparr>\<rparr>"

text \<open>
  The list loop. The message is the one in the store, so trimming it changes the store; four of
  its ways to go on do not give the key back.
\<close>

definition ListMessageWriteLoop :: "'api hub_env \<Rightarrow> string \<Rightarrow> 'api MessageHandle \<Rightarrow> 'api pass" where
  "ListMessageWriteLoop E nodeID mh =
     (let nodeListQueue = fst (GetNodeListQueue nodeID (mh_MessageQueue mh));
          nodeListStore = fst (GetNodeListStore nodeID (mh_MessageQueue mh));
          nodeQueue = fst (GetNodeQueue nodeID (mh_MessageQueue mh))
      in case wq_Get nodeListQueue of
           Quit \<Rightarrow> Returns None mh
         | Waits \<Rightarrow> Waits_for mh
         | Item key w \<Rightarrow>
             (let mh1 = set_list_queue nodeID w mh
              in case fmlookup nodeListStore key of
                   None \<Rightarrow> Continues mh1
                 | Some msg \<Rightarrow>
                     if IsNodeStopped msg then
                       Returns (Some nodeStop) (set_list_queue nodeID (wq_ShutDown w) (set_queue nodeID (wq_ShutDown nodeQueue) mh1))
                     else if \<not> IsToEdge msg then Continues mh1
                     else
                       (let mh2 = set_list_store nodeID (fmupd key (trimMessage msg) nodeListStore) mh1
                        in case fmlookup (mh_nodeConns mh2) nodeID of
                             None \<Rightarrow> Continues mh2
                           | Some hi \<Rightarrow>
                               (let mh3 = snd (hubIoWrite E nodeID (trimMessage msg) mh2);
                                    mh4 = set_list_store nodeID
                                      (fmdrop (getListMsgKey (trimMessage msg)) (fmupd key (trimMessage msg) nodeListStore)) mh3
                                in Continues (set_list_queue nodeID (wq_Done key (wq_Forget key w)) mh4)))))"

text \<open>An acknowledged message: its version is recorded, or, for a delete, the record removed.\<close>

definition saveSuccessPoint :: "'api hub_env \<Rightarrow> Message \<Rightarrow> string \<Rightarrow> 'api MessageHandle \<Rightarrow> 'api MessageHandle" where
  "saveSuccessPoint E msg nodeID mh =
     (if GetGroup msg \<noteq> GroupResource then mh
      else
        (let ns = or_empty (GetNamespace msg); name = or_empty (GetResourceName msg)
         in case GetMessageUID msg of
              Ok uid \<Rightarrow>
                (let objectSyncName = BuildObjectSyncName nodeID uid
                 in if GetOperation msg = DeleteOperation then
                      (case getMsgKey msg of
                         Ok key \<Rightarrow>
                           (let nodeStore = fst (GetNodeStore nodeID (mh_MessageQueue mh));
                                mh1 = set_store nodeID (fmdrop key nodeStore) mh
                            in case he_Delete E ns objectSyncName (mh_api mh1) of
                                 Ok api \<Rightarrow> mh1\<lparr>mh_api := api\<rparr> | _ \<Rightarrow> mh1)
                       | _ \<Rightarrow> mh)
                    else
                      (case he_Get E ns objectSyncName (mh_api mh) of
                         Ok objectSync \<Rightarrow>
                           (case he_UpdateStatus E ns (objectSync\<lparr>os_ObjectResourceVersion := GetResourceVersion msg\<rparr>) (mh_api mh) of
                              Ok api \<Rightarrow> mh\<lparr>mh_api := api\<rparr> | _ \<Rightarrow> mh)
                       | Err er \<Rightarrow>
                           if er \<noteq> ErrNotFound then mh
                           else
                             (case he_Create E ns \<lparr>os_Name = objectSyncName, os_ObjectAPIVersion = GetMessageAPIVerison msg,
                                 os_ObjectKind = GetMessageResourceType msg, os_ObjectName = name, os_ObjectResourceVersion = []\<rparr> (mh_api mh) of
                                Ok api \<Rightarrow>
                                  (let created = (case he_Get E ns objectSyncName api of
                                         Ok objectSync \<Rightarrow> objectSync
                                       | _ \<Rightarrow> \<lparr>os_Name = [], os_ObjectAPIVersion = [], os_ObjectKind = [], os_ObjectName = [], os_ObjectResourceVersion = []\<rparr>)
                                   in case he_UpdateStatus E ns (created\<lparr>os_ObjectResourceVersion := GetResourceVersion msg\<rparr>) api of
                                        Ok api' \<Rightarrow> mh\<lparr>mh_api := api'\<rparr> | _ \<Rightarrow> mh\<lparr>mh_api := api\<rparr>)
                              | _ \<Rightarrow> mh)
                       | Panic p \<Rightarrow> mh))
            | _ \<Rightarrow> mh))"

text \<open>
  Sending with retries: after the first write the loop waits for the acknowledgement or the timer;
  the fifth timer ends it. The events that happen are an argument; with too few of them the loop
  still waits.
\<close>

datatype send_event = Acked | Ticked

datatype 'api sending = Sent "'api MessageHandle" | SendFailed error "'api MessageHandle" | Sending "'api MessageHandle"

fun sendMsg_loop :: "'api hub_env \<Rightarrow> string \<Rightarrow> Message \<Rightarrow> Message \<Rightarrow> nat \<Rightarrow> send_event list \<Rightarrow> 'api MessageHandle \<Rightarrow> 'api sending" where
  "sendMsg_loop E nodeID copyMsg msg retry [] mh = Sending mh"
| "sendMsg_loop E nodeID copyMsg msg retry (Acked # events) mh = Sent (saveSuccessPoint E msg nodeID mh)"
| "sendMsg_loop E nodeID copyMsg msg retry (Ticked # events) mh =
     (if retry = 4 then Sent mh
      else (case hubIoWrite E nodeID copyMsg mh of
              (Some er, mh') \<Rightarrow> SendFailed er mh'
            | (None, mh') \<Rightarrow> sendMsg_loop E nodeID copyMsg msg (Suc retry) events mh'))"

definition sendMsg :: "'api hub_env \<Rightarrow> string \<Rightarrow> Message \<Rightarrow> Message \<Rightarrow> send_event list \<Rightarrow> 'api MessageHandle \<Rightarrow> 'api sending" where
  "sendMsg E nodeID copyMsg msg events mh =
     (let mh1 = mh\<lparr>mh_MessageAcks := finsert (GetID copyMsg) (mh_MessageAcks mh)\<rparr>
      in case hubIoWrite E nodeID copyMsg mh1 of
           (Some er, mh2) \<Rightarrow> SendFailed er mh2
         | (None, mh2) \<Rightarrow> sendMsg_loop E nodeID copyMsg msg 0 events mh2)"

definition MessageWriteLoop :: "'api hub_env \<Rightarrow> string \<Rightarrow> send_event list \<Rightarrow> 'api MessageHandle \<Rightarrow> 'api pass" where
  "MessageWriteLoop E nodeID events mh =
     (let nodeQueue = fst (GetNodeQueue nodeID (mh_MessageQueue mh));
          nodeStore = fst (GetNodeStore nodeID (mh_MessageQueue mh))
      in case wq_Get nodeQueue of
           Quit \<Rightarrow> Returns None mh
         | Waits \<Rightarrow> Waits_for mh
         | Item key w \<Rightarrow>
             (case fmlookup nodeStore key of
                None \<Rightarrow> Continues (set_queue nodeID (wq_Done key w) mh)
              | Some msg \<Rightarrow>
                  if \<not> IsToEdge msg then Continues (set_queue nodeID (wq_Done key w) mh)
                  else (case fmlookup (mh_nodeConns mh) nodeID of
                          None \<Rightarrow> Waits_for (set_queue nodeID w mh)
                        | Some hi \<Rightarrow>
                            (case sendMsg E nodeID (trimMessage msg) msg events mh of
                               Sending mh' \<Rightarrow> Waits_for (set_queue nodeID w mh')
                             | Sent mh' \<Rightarrow> Continues (set_queue nodeID (wq_Done key (wq_Forget key w)) mh')
                             | SendFailed er mh' \<Rightarrow>
                                 Continues (set_queue nodeID (wq_Done key (wq_Forget key (wq_AddRateLimited key w))) mh')))))"

end
