(* ===== verification/Cloud_Props.thy ===== *)
theory Cloud_Props
  imports Cloud_Hub
begin

text \<open>
  Properties of the cloud hub: the queues stay well formed, a message never overwrites a newer one,
  a message is retransmitted a bounded number of times, and what happens to the messages of the
  list queue, which the messages of the ingress controller go through.
\<close>

section \<open>The invariant of the queues\<close>

text \<open>The entry of a pool, or what a getter allocates when there is none.\<close>

definition pool_get :: "'a \<Rightarrow> (string, 'a) fmap \<Rightarrow> string \<Rightarrow> 'a" where
  "pool_get d m n = (case fmlookup m n of None \<Rightarrow> d | Some x \<Rightarrow> x)"

lemma pool_get_simps [simp]:
  "pool_get d (fmupd n x m) n' = (if n = n' then x else pool_get d m n')"
  "pool_get d (fmdrop n m) n' = (if n = n' then d else pool_get d m n')"
  "pool_get d fmempty n = d"
  by (simp_all add: pool_get_def)

abbreviation node_queue :: "ChannelMessageQueue \<Rightarrow> string \<Rightarrow> string workqueue" where
  "node_queue q \<equiv> pool_get wq_new (queuePool q)"

abbreviation node_store :: "ChannelMessageQueue \<Rightarrow> string \<Rightarrow> (string, Message) fmap" where
  "node_store q \<equiv> pool_get fmempty (storePool q)"

abbreviation list_queue :: "ChannelMessageQueue \<Rightarrow> string \<Rightarrow> string workqueue" where
  "list_queue q \<equiv> pool_get wq_new (listQueuePool q)"

abbreviation list_store :: "ChannelMessageQueue \<Rightarrow> string \<Rightarrow> (string, Message) fmap" where
  "list_store q \<equiv> pool_get fmempty (listStorePool q)"

definition node_ok :: "string workqueue \<Rightarrow> (string, Message) fmap \<Rightarrow> bool" where
  "node_ok w s \<longleftrightarrow> wq_inv w \<and> (\<forall>k m. fmlookup s k = Some m \<longrightarrow> getMsgKey m = Ok k)"

definition list_ok :: "string workqueue \<Rightarrow> (string, Message) fmap \<Rightarrow> bool" where
  "list_ok w s \<longleftrightarrow> wq_inv w \<and> (\<forall>k m. fmlookup s k = Some m \<longrightarrow> GetID m = k) \<and> wq_dirty w |\<subseteq>| fmdom s"

definition cq_inv :: "ChannelMessageQueue \<Rightarrow> bool" where
  "cq_inv q \<longleftrightarrow> (\<forall>n. node_ok (node_queue q n) (node_store q n) \<and> list_ok (list_queue q n) (list_store q n))"

text \<open>The getters in terms of the pools: allocation changes no entry.\<close>

lemma getters_fst [simp]:
  "fst (GetNodeQueue n q) = node_queue q n" "fst (GetNodeStore n q) = node_store q n"
  "fst (GetNodeListQueue n q) = list_queue q n" "fst (GetNodeListStore n q) = list_store q n"
  by (simp_all add: GetNodeQueue_def GetNodeStore_def GetNodeListQueue_def GetNodeListStore_def pool_get_def
      split: option.splits)

lemma getters_snd [simp]:
  "node_queue (snd (GetNodeQueue n q)) = node_queue q" "node_store (snd (GetNodeQueue n q)) = node_store q"
  "list_queue (snd (GetNodeQueue n q)) = list_queue q" "list_store (snd (GetNodeQueue n q)) = list_store q"
  "node_queue (snd (GetNodeStore n q)) = node_queue q" "node_store (snd (GetNodeStore n q)) = node_store q"
  "list_queue (snd (GetNodeStore n q)) = list_queue q" "list_store (snd (GetNodeStore n q)) = list_store q"
  "node_queue (snd (GetNodeListQueue n q)) = node_queue q" "node_store (snd (GetNodeListQueue n q)) = node_store q"
  "list_queue (snd (GetNodeListQueue n q)) = list_queue q" "list_store (snd (GetNodeListQueue n q)) = list_store q"
  "node_queue (snd (GetNodeListStore n q)) = node_queue q" "node_store (snd (GetNodeListStore n q)) = node_store q"
  "list_queue (snd (GetNodeListStore n q)) = list_queue q" "list_store (snd (GetNodeListStore n q)) = list_store q"
  by (simp_all add: fun_eq_iff GetNodeQueue_def GetNodeStore_def GetNodeListQueue_def GetNodeListStore_def pool_get_def
      split: option.splits)

text \<open>What the operations do to the entries.\<close>

definition same_but :: "string \<Rightarrow> ChannelMessageQueue \<Rightarrow> ChannelMessageQueue \<Rightarrow> bool" where
  "same_but n q q' \<longleftrightarrow> (\<forall>n'. n' \<noteq> n \<longrightarrow> node_queue q' n' = node_queue q n' \<and> node_store q' n' = node_store q n' \<and>
     list_queue q' n' = list_queue q n' \<and> list_store q' n' = list_store q n')"

lemma addListMessageToQueue_entries:
  "same_but n q (addListMessageToQueue n m q)"
  "node_queue (addListMessageToQueue n m q) = node_queue q" "node_store (addListMessageToQueue n m q) = node_store q"
  "list_queue (addListMessageToQueue n m q) n = wq_Add (GetID m) (list_queue q n)"
  "list_store (addListMessageToQueue n m q) n = fmupd (GetID m) m (list_store q n)"
proof -
  let ?q2 = "snd (GetNodeListStore n (snd (GetNodeListQueue n q)))"
  have eq: "addListMessageToQueue n m q =
      ?q2\<lparr>listStorePool := fmupd n (fmupd (GetID m) m (list_store q n)) (listStorePool ?q2),
          listQueuePool := fmupd n (wq_Add (GetID m) (list_queue q n)) (listQueuePool ?q2)\<rparr>"
    by (simp add: addListMessageToQueue_def Let_def split_beta getListMsgKey_def)
  show "same_but n q (addListMessageToQueue n m q)"
    "node_queue (addListMessageToQueue n m q) = node_queue q" "node_store (addListMessageToQueue n m q) = node_store q"
    "list_queue (addListMessageToQueue n m q) n = wq_Add (GetID m) (list_queue q n)"
    "list_store (addListMessageToQueue n m q) n = fmupd (GetID m) m (list_store q n)"
    by (simp_all add: eq same_but_def)
qed

lemma addMessageToQueue_entries:
  assumes "addMessageToQueue syncs n m q = Ok q'"
  shows "same_but n q q'" and "list_queue q' = list_queue q" and "list_store q' = list_store q"
    and "node_queue q' n = node_queue q n \<and> node_store q' n = node_store q n \<or>
      (\<exists>k. getMsgKey m = Ok k \<and> node_queue q' n = wq_Add k (node_queue q n) \<and>
         node_store q' n = fmupd k m (node_store q n) \<and>
         (isDeleteMessage m \<or> outdated syncs n m (fmlookup (node_store q n) k) = Ok False))"
proof -
  let ?q2 = "snd (GetNodeStore n (snd (GetNodeQueue n q)))"
  have "q' = q \<or> q' = ?q2 \<or> (\<exists>k. getMsgKey m = Ok k \<and>
      (isDeleteMessage m \<or> outdated syncs n m (fmlookup (node_store q n) k) = Ok False) \<and>
      q' = ?q2\<lparr>storePool := fmupd n (fmupd k m (node_store q n)) (storePool ?q2),
               queuePool := fmupd n (wq_Add k (node_queue q n)) (queuePool ?q2)\<rparr>)"
    using assms by (auto simp: addMessageToQueue_def Let_def split_beta bind_iffs split: if_splits result.splits)
  then show "same_but n q q'" "list_queue q' = list_queue q" "list_store q' = list_store q"
    "node_queue q' n = node_queue q n \<and> node_store q' n = node_store q n \<or>
      (\<exists>k. getMsgKey m = Ok k \<and> node_queue q' n = wq_Add k (node_queue q n) \<and>
         node_store q' n = fmupd k m (node_store q n) \<and>
         (isDeleteMessage m \<or> outdated syncs n m (fmlookup (node_store q n) k) = Ok False))"
    by (auto simp: same_but_def)
qed

lemma cq_inv_New: "cq_inv NewChannelMessageQueue"
  by (simp add: cq_inv_def NewChannelMessageQueue_def node_ok_def list_ok_def wq_inv_new) (simp add: wq_new_def)

lemma cq_inv_same_but:
  assumes "cq_inv q" and "same_but n q q'"
    and "node_ok (node_queue q' n) (node_store q' n)" and "list_ok (list_queue q' n) (list_store q' n)"
  shows "cq_inv q'"
  using assms unfolding cq_inv_def same_but_def by metis

lemma list_ok_Add: "list_ok w s \<Longrightarrow> list_ok (wq_Add (GetID m) w) (fmupd (GetID m) m s)"
  by (auto simp: list_ok_def wq_inv_Add wq_pending_Add split: if_splits)

lemma node_ok_Add: "node_ok w s \<Longrightarrow> getMsgKey m = Ok k \<Longrightarrow> node_ok (wq_Add k w) (fmupd k m s)"
  by (auto simp: node_ok_def wq_inv_Add)

lemma DispatchMessage_inv:
  assumes "cq_inv q" and "DispatchMessage syncs m q = Ok q'"
  shows "cq_inv q'"
proof -
  have ok: "node_ok (node_queue q n) (node_store q n)" "list_ok (list_queue q n) (list_store q n)" for n
    using assms(1) by (auto simp: cq_inv_def)
  have "q' = q \<or> (\<exists>n. q' = addListMessageToQueue n m q) \<or> (\<exists>n. addMessageToQueue syncs n m q = Ok q')"
    using assms(2) by (auto simp: DispatchMessage_def split: result.splits if_splits)
  then consider "q' = q" | n where "q' = addListMessageToQueue n m q" | n where "addMessageToQueue syncs n m q = Ok q'"
    by blast
  then show ?thesis
  proof cases
    case (2 n)
    show ?thesis
      unfolding 2 by (rule cq_inv_same_but [OF assms(1) addListMessageToQueue_entries(1)])
        (simp_all add: addListMessageToQueue_entries ok list_ok_Add)
  next
    case (3 n)
    note e = addMessageToQueue_entries [OF 3]
    have "node_ok (node_queue q' n) (node_store q' n)" using e(4) ok node_ok_Add by metis
    then show ?thesis
      using e(2,3) ok by (intro cq_inv_same_but [OF assms(1) e(1)]) simp_all
  qed (use assms in simp)
qed


section \<open>Runs of the hub\<close>

text \<open>The bookkeeping of nodes agrees and the queues are well formed.\<close>

definition hub_inv :: "'api MessageHandle \<Rightarrow> bool" where
  "hub_inv mh \<longleftrightarrow> cq_inv (mh_MessageQueue mh) \<and> mh_nodeLocks mh = mh_nodeRegistered mh \<and> mh_Nodes mh = mh_nodeRegistered mh"

fun pass_state :: "'api pass \<Rightarrow> 'api MessageHandle" where
  "pass_state (Continues mh) = mh"
| "pass_state (Returns code mh) = mh"
| "pass_state (Waits_for mh) = mh"

inductive hub_step :: "'api hub_env \<Rightarrow> 'api MessageHandle \<Rightarrow> 'api MessageHandle \<Rightarrow> bool" for E where
  dispatch: "DispatchMessage syncs m (mh_MessageQueue mh) = Ok q \<Longrightarrow> hub_step E mh (mh\<lparr>mh_MessageQueue := q\<rparr>)"
| from_edge: "HandleServer n m mh = Some mh' \<Longrightarrow> hub_step E mh mh'"
| connected: "OnRegister n io mh = (serve, mh') \<Longrightarrow> hub_step E mh mh'"
| registers: "RegisterNode E n mh = Ok mh' \<Longrightarrow> hub_step E mh mh'"
| unregisters: "hub_step E mh (UnregisterNode E n code mh)"
| signal: "hub_step E mh (keepalive_signal n mh)"
| timeout: "hub_step E mh (keepalive_timeout n mh)"
| list_pass: "hub_step E mh (pass_state (ListMessageWriteLoop E n mh))"
| node_pass: "hub_step E mh (pass_state (MessageWriteLoop E n events mh))"
| node_timer: "hub_step E mh (set_queue n (wq_Timer k (node_queue (mh_MessageQueue mh) n)) mh)"

definition same_nodes :: "'api MessageHandle \<Rightarrow> 'api MessageHandle \<Rightarrow> bool" where
  "same_nodes mh mh' \<longleftrightarrow> mh_nodeLocks mh' = mh_nodeLocks mh \<and> mh_nodeRegistered mh' = mh_nodeRegistered mh \<and>
     mh_Nodes mh' = mh_Nodes mh"

lemma hub_invI: "hub_inv mh \<Longrightarrow> same_nodes mh mh' \<Longrightarrow> cq_inv (mh_MessageQueue mh') \<Longrightarrow> hub_inv mh'"
  by (simp add: hub_inv_def same_nodes_def)

lemma HandleServer_same:
  "HandleServer n m mh = Some mh' \<Longrightarrow> same_nodes mh mh' \<and> mh_MessageQueue mh' = mh_MessageQueue mh"
  by (auto simp: HandleServer_def PubToController_def call_def same_nodes_def Let_def split: if_splits option.splits)

lemma hubIoWrite_same:
  "same_nodes mh (snd (hubIoWrite E n m mh))" "mh_MessageQueue (snd (hubIoWrite E n m mh)) = mh_MessageQueue mh"
  "mh_nodeConns (snd (hubIoWrite E n m mh)) = mh_nodeConns mh"
  by (simp_all add: hubIoWrite_def WriteData_def same_nodes_def)

lemma set_entries [simp]:
  "list_queue (mh_MessageQueue (set_list_queue n w mh)) = (list_queue (mh_MessageQueue mh))(n := w)"
  "list_store (mh_MessageQueue (set_list_store n s mh)) = (list_store (mh_MessageQueue mh))(n := s)"
  "node_queue (mh_MessageQueue (set_queue n w mh)) = (node_queue (mh_MessageQueue mh))(n := w)"
  "node_store (mh_MessageQueue (set_store n s mh)) = (node_store (mh_MessageQueue mh))(n := s)"
  "list_store (mh_MessageQueue (set_list_queue n w mh)) = list_store (mh_MessageQueue mh)"
  "node_queue (mh_MessageQueue (set_list_queue n w mh)) = node_queue (mh_MessageQueue mh)"
  "node_store (mh_MessageQueue (set_list_queue n w mh)) = node_store (mh_MessageQueue mh)"
  "list_queue (mh_MessageQueue (set_list_store n s mh)) = list_queue (mh_MessageQueue mh)"
  "node_queue (mh_MessageQueue (set_list_store n s mh)) = node_queue (mh_MessageQueue mh)"
  "node_store (mh_MessageQueue (set_list_store n s mh)) = node_store (mh_MessageQueue mh)"
  "list_queue (mh_MessageQueue (set_queue n w mh)) = list_queue (mh_MessageQueue mh)"
  "list_store (mh_MessageQueue (set_queue n w mh)) = list_store (mh_MessageQueue mh)"
  "node_store (mh_MessageQueue (set_queue n w mh)) = node_store (mh_MessageQueue mh)"
  "list_queue (mh_MessageQueue (set_store n s mh)) = list_queue (mh_MessageQueue mh)"
  "list_store (mh_MessageQueue (set_store n s mh)) = list_store (mh_MessageQueue mh)"
  "node_queue (mh_MessageQueue (set_store n s mh)) = node_queue (mh_MessageQueue mh)"
  by (simp_all add: fun_eq_iff set_list_queue_def set_list_store_def set_queue_def set_store_def)

lemma set_same_nodes [simp]:
  "same_nodes mh (set_list_queue n w mh') = same_nodes mh mh'" "same_nodes mh (set_list_store n s mh') = same_nodes mh mh'"
  "same_nodes mh (set_queue n w mh') = same_nodes mh mh'" "same_nodes mh (set_store n s mh') = same_nodes mh mh'"
  by (simp_all add: same_nodes_def set_list_queue_def set_list_store_def set_queue_def set_store_def)

lemma same_nodes_refl [simp]: "same_nodes mh mh"
  by (simp add: same_nodes_def)

lemma same_nodes_trans: "same_nodes mh mh' \<Longrightarrow> same_nodes mh' mh'' \<Longrightarrow> same_nodes mh mh''"
  by (simp add: same_nodes_def)

lemma GetID_trim [simp]: "GetID (trimMessage m) = GetID m"
  by (simp add: trimMessage_def message_defs Let_def)

lemma wq_Get_list_ok:
  assumes "list_ok w s" and "wq_Get w = Item k w'"
  shows "list_ok w' s" and "k |\<in>| wq_processing w'" and "k |\<notin>| wq_dirty w'" and "\<exists>m. fmlookup s k = Some m \<and> GetID m = k"
proof -
  from assms have inv: "wq_inv w" by (simp add: list_ok_def)
  note g = wq_Get_sets [OF inv assms(2)]
  show "list_ok w' s" using assms g wq_inv_Get [OF inv assms(2)] by (auto simp: list_ok_def)
  show "k |\<in>| wq_processing w'" "k |\<notin>| wq_dirty w'" using g by auto
  from g(1) assms(1) have "k |\<in>| fmdom s" by (auto simp: list_ok_def)
  then obtain m where "fmlookup s k = Some m" by (auto simp: fmlookup_dom_iff)
  then show "\<exists>m. fmlookup s k = Some m \<and> GetID m = k" using assms(1) by (auto simp: list_ok_def)
qed

lemma list_ok_trim: "list_ok w s \<Longrightarrow> fmlookup s k = Some m \<Longrightarrow> list_ok w (fmupd k (trimMessage m) s)"
  by (auto simp: list_ok_def)

lemma list_ok_done:
  assumes "list_ok w s" and "k |\<in>| wq_processing w" and "k |\<notin>| wq_dirty w"
  shows "list_ok (wq_Done k (wq_Forget k w)) (fmdrop k s)"
  using assms by (auto simp: list_ok_def wq_inv_Done wq_inv_Forget)

lemma list_ok_shut: "list_ok w s \<Longrightarrow> list_ok (wq_ShutDown w) s"
  by (simp add: list_ok_def wq_inv_ShutDown) (simp add: wq_ShutDown_def)

text \<open>A pass of the list loop, on a node whose entries are well formed.\<close>

definition entries_changed :: "string \<Rightarrow> string workqueue \<Rightarrow> (string, Message) fmap \<Rightarrow> string workqueue \<Rightarrow>
    (string, Message) fmap \<Rightarrow> 'api MessageHandle \<Rightarrow> 'api MessageHandle \<Rightarrow> bool" where
  "entries_changed n w s v t mh mh' \<longleftrightarrow> same_nodes mh mh' \<and>
     list_queue (mh_MessageQueue mh') = (list_queue (mh_MessageQueue mh))(n := w) \<and>
     list_store (mh_MessageQueue mh') = (list_store (mh_MessageQueue mh))(n := s) \<and>
     node_queue (mh_MessageQueue mh') = (node_queue (mh_MessageQueue mh))(n := v) \<and>
     node_store (mh_MessageQueue mh') = (node_store (mh_MessageQueue mh))(n := t)"

lemma entries_changed_refl:
  "entries_changed n (list_queue (mh_MessageQueue mh) n) (list_store (mh_MessageQueue mh) n)
     (node_queue (mh_MessageQueue mh) n) (node_store (mh_MessageQueue mh) n) mh mh"
  by (simp add: entries_changed_def)

lemma entries_changed_set:
  assumes "entries_changed n w s v t mh mh'"
  shows "entries_changed n w' s v t mh (set_list_queue n w' mh')" "entries_changed n w s' v t mh (set_list_store n s' mh')"
    "entries_changed n w s v' t mh (set_queue n v' mh')" "entries_changed n w s v t' mh (set_store n t' mh')"
    "entries_changed n w s v t mh (snd (hubIoWrite E n m mh'))"
  using assms same_nodes_trans [OF _ hubIoWrite_same(1)] by (auto simp: entries_changed_def hubIoWrite_same(2))

lemma entries_changed_inv:
  assumes "hub_inv mh" and "entries_changed n w s v t mh mh'" and "list_ok w s" and "node_ok v t"
  shows "hub_inv mh'"
proof (rule hub_invI [OF assms(1)])
  show "same_nodes mh mh'" using assms(2) by (simp add: entries_changed_def)
  show "cq_inv (mh_MessageQueue mh')"
    by (rule cq_inv_same_but [of "mh_MessageQueue mh" n])
      (use assms in \<open>simp_all add: hub_inv_def entries_changed_def same_but_def\<close>)
qed

lemma node_ok_shut: "node_ok v t \<Longrightarrow> node_ok (wq_ShutDown v) t"
  by (simp add: node_ok_def wq_inv_ShutDown)

lemma hub_inv_ok:
  assumes "hub_inv mh"
  shows "list_ok (list_queue (mh_MessageQueue mh) n) (list_store (mh_MessageQueue mh) n)"
    "node_ok (node_queue (mh_MessageQueue mh) n) (node_store (mh_MessageQueue mh) n)"
  using assms by (simp_all add: hub_inv_def cq_inv_def)

lemma ListMessageWriteLoop_inv:
  assumes "hub_inv mh"
  shows "hub_inv (pass_state (ListMessageWriteLoop E n mh))"
proof -
  let ?w = "list_queue (mh_MessageQueue mh) n" and ?s = "list_store (mh_MessageQueue mh) n"
  note ok = hub_inv_ok [OF assms, of n] and changed = entries_changed_inv [OF assms] and set = entries_changed_set
  show ?thesis
  proof (cases "wq_Get ?w")
    case (Item k w)
    note g = wq_Get_list_ok [OF ok(1) Item]
    obtain m where m: "fmlookup ?s k = Some m" "GetID m = k" using g(4) by blast
    let ?s1 = "fmupd k (trimMessage m) ?s"
    have trim: "list_ok w ?s1" by (rule list_ok_trim [OF g(1) m(1)])
    let ?mh1 = "set_list_queue n w mh" and ?mh2 = "set_list_store n ?s1 (set_list_queue n w mh)"
    consider "IsNodeStopped m" | "\<not> IsNodeStopped m" "\<not> IsToEdge m"
      | "\<not> IsNodeStopped m" "IsToEdge m" "fmlookup (mh_nodeConns mh) n = None"
      | hi where "\<not> IsNodeStopped m" "IsToEdge m" "fmlookup (mh_nodeConns mh) n = Some hi"
      by fastforce
    then show ?thesis
    proof cases
      case 1
      then have "pass_state (ListMessageWriteLoop E n mh) =
          set_list_queue n (wq_ShutDown w) (set_queue n (wq_ShutDown (node_queue (mh_MessageQueue mh) n)) ?mh1)"
        using Item m by (simp add: ListMessageWriteLoop_def Let_def)
      then show ?thesis
        using changed [OF set(1) [OF set(3) [OF set(1) [OF entries_changed_refl]]] list_ok_shut [OF g(1)] node_ok_shut [OF ok(2)]]
        by simp
    next
      case 2
      then have "pass_state (ListMessageWriteLoop E n mh) = ?mh1"
        using Item m by (simp add: ListMessageWriteLoop_def Let_def)
      then show ?thesis using changed [OF set(1) [OF entries_changed_refl] g(1) ok(2)] by simp
    next
      case 3
      then have "pass_state (ListMessageWriteLoop E n mh) = ?mh2"
        using Item m by (simp add: ListMessageWriteLoop_def Let_def set_list_queue_def set_list_store_def)
      then show ?thesis using changed [OF set(2) [OF set(1) [OF entries_changed_refl]] trim ok(2)] by simp
    next
      case 4
      then have "pass_state (ListMessageWriteLoop E n mh) = set_list_queue n (wq_Done k (wq_Forget k w))
          (set_list_store n (fmdrop k ?s1) (snd (hubIoWrite E n (trimMessage m) ?mh2)))"
        using Item m by (simp add: ListMessageWriteLoop_def Let_def getListMsgKey_def set_list_queue_def set_list_store_def)
      then show ?thesis
        using changed [OF set(1) [OF set(2) [OF set(5) [OF set(2) [OF set(1) [OF entries_changed_refl]]]]]
            list_ok_done [OF trim g(2,3)] ok(2)] by simp
    qed
  qed (use assms in \<open>simp_all add: ListMessageWriteLoop_def Let_def\<close>)
qed

text \<open>A pass of the other loop; an acknowledged delete drops its key from the store.\<close>

lemma node_ok_drop: "node_ok v t \<Longrightarrow> node_ok v (fmdrop k t)"
  by (auto simp: node_ok_def split: if_splits)

lemma node_ok_queue: "node_ok v t \<Longrightarrow> wq_inv v' \<Longrightarrow> node_ok v' t"
  by (simp add: node_ok_def)

definition node_kept :: "string \<Rightarrow> 'api MessageHandle \<Rightarrow> 'api MessageHandle \<Rightarrow> bool" where
  "node_kept n mh mh' \<longleftrightarrow> (\<exists>t. entries_changed n (list_queue (mh_MessageQueue mh) n) (list_store (mh_MessageQueue mh) n)
     (node_queue (mh_MessageQueue mh) n) t mh mh' \<and> node_ok (node_queue (mh_MessageQueue mh) n) t)"

lemma entries_changed_api [simp]:
  "entries_changed n w s v t mh (mh'\<lparr>mh_api := a\<rparr>) = entries_changed n w s v t mh mh'"
  "entries_changed n w s v t mh (mh'\<lparr>mh_MessageAcks := A\<rparr>) = entries_changed n w s v t mh mh'"
  by (simp_all add: entries_changed_def same_nodes_def)

lemma node_kept_store:
  assumes "node_kept n mh mh'"
  shows "node_kept n mh (set_store n (fmdrop k (node_store (mh_MessageQueue mh') n)) mh')"
proof -
  let ?v = "node_queue (mh_MessageQueue mh) n"
  obtain t where t: "entries_changed n (list_queue (mh_MessageQueue mh) n) (list_store (mh_MessageQueue mh) n) ?v t mh mh'"
      "node_ok ?v t" using assms by (auto simp: node_kept_def)
  then have "node_store (mh_MessageQueue mh') n = t" by (simp add: entries_changed_def)
  then show ?thesis
    using entries_changed_set(4) [OF t(1), of "fmdrop k t"] node_ok_drop [OF t(2)] by (auto simp: node_kept_def)
qed

lemma node_kept_simps:
  "node_kept n mh (mh'\<lparr>mh_api := a\<rparr>) = node_kept n mh mh'" "node_kept n mh (mh'\<lparr>mh_MessageAcks := A\<rparr>) = node_kept n mh mh'"
  "node_kept n mh mh' \<Longrightarrow> node_kept n mh (snd (hubIoWrite E n m mh'))"
  by (auto simp: node_kept_def intro: entries_changed_set(5))

lemma saveSuccessPoint_kept: "node_kept n mh mh' \<Longrightarrow> node_kept n mh (saveSuccessPoint E m n mh')"
  by (simp add: saveSuccessPoint_def Let_def node_kept_simps node_kept_store
      split: result.split)

fun sending_state :: "'api sending \<Rightarrow> 'api MessageHandle" where
  "sending_state (Sent mh) = mh"
| "sending_state (SendFailed er mh) = mh"
| "sending_state (Sending mh) = mh"

lemma sendMsg_loop_kept:
  "node_kept n mh mh' \<Longrightarrow> node_kept n mh (sending_state (sendMsg_loop E n c m retry events mh'))"
proof (induction E n c m retry events mh' rule: sendMsg_loop.induct)
  case (3 E n c m retry events mh')
  then show ?case
    using node_kept_simps(3) [OF 3(2), of E c] by (cases "hubIoWrite E n c mh'") (auto split: option.split)
qed (simp_all add: saveSuccessPoint_kept)

lemma sendMsg_kept:
  assumes "hub_inv mh"
  shows "node_kept n mh (sending_state (sendMsg E n c m events mh))"
proof -
  let ?mh1 = "mh\<lparr>mh_MessageAcks := finsert (GetID c) (mh_MessageAcks mh)\<rparr>"
  have "node_kept n mh mh"
    using entries_changed_refl hub_inv_ok(2) [OF assms] by (auto simp: node_kept_def)
  then have "node_kept n mh (snd (hubIoWrite E n c ?mh1))" by (intro node_kept_simps) (simp add: node_kept_simps)
  then show ?thesis
    using sendMsg_loop_kept by (cases "hubIoWrite E n c ?mh1") (auto simp: sendMsg_def Let_def split: option.split)
qed

lemma MessageWriteLoop_inv:
  assumes "hub_inv mh"
  shows "hub_inv (pass_state (MessageWriteLoop E n events mh))"
proof -
  let ?v = "node_queue (mh_MessageQueue mh) n" and ?t = "node_store (mh_MessageQueue mh) n"
  note ok = hub_inv_ok [OF assms, of n]
  have set: "hub_inv (set_queue n v mh')" if "node_kept n mh mh'" "wq_inv v" for v mh'
    using that ok(1) entries_changed_inv [OF assms entries_changed_set(3)] node_ok_queue unfolding node_kept_def by blast
  have refl: "node_kept n mh mh"
    using entries_changed_refl ok(2) by (auto simp: node_kept_def)
  show ?thesis
  proof (cases "wq_Get ?v")
    case (Item k v)
    have inv: "wq_inv ?v" using ok(2) by (simp add: node_ok_def)
    note v = wq_inv_Get [OF inv Item]
    have k: "k |\<in>| wq_processing v" using wq_Get_sets [OF inv Item] by simp
    have vs: "wq_inv (wq_Done k v)" "wq_inv (wq_Done k (wq_Forget k v))"
        "wq_inv (wq_Done k (wq_Forget k (wq_AddRateLimited k v)))"
      using v k by (simp_all add: wq_inv_Done wq_inv_Forget wq_inv_AddRateLimited wq_AddRateLimited_waits)
    have kept: "node_kept n mh (sending_state (sendMsg E n c m events mh))" for c m
      by (rule sendMsg_kept [OF assms])
    show ?thesis
      using set [OF refl] set [OF kept] v vs Item
      by (auto simp: MessageWriteLoop_def Let_def split: option.split sending.split) (metis sending_state.simps)+
  qed (use assms in \<open>simp_all add: MessageWriteLoop_def Let_def\<close>)
qed

lemma Connect_entries [simp]:
  "node_queue (Connect n q) = node_queue q" "node_store (Connect n q) = node_store q"
  "list_queue (Connect n q) = list_queue q" "list_store (Connect n q) = list_store q"
  by (simp_all add: fun_eq_iff Connect_def pool_get_def split: option.splits)

lemma cq_inv_Connect: "cq_inv q \<Longrightarrow> cq_inv (Connect n q)"
  by (simp add: cq_inv_def)

lemma cq_inv_Close: "cq_inv q \<Longrightarrow> cq_inv (Close n q)"
  using cq_inv_New by (simp add: cq_inv_def Close_def NewChannelMessageQueue_def)

lemma UnregisterNode_inv: "hub_inv mh \<Longrightarrow> hub_inv (UnregisterNode E n code mh)"
  by (simp add: UnregisterNode_def notifyEventQueueError_def WriteData_def call_def hub_inv_def Let_def cq_inv_Close
      split: option.split)

lemma OnRegister_same:
  "same_nodes mh (snd (OnRegister n io mh))" "mh_MessageQueue (snd (OnRegister n io mh)) = mh_MessageQueue mh"
  by (simp_all add: OnRegister_def Let_def same_nodes_def split: option.split)

lemma hub_step_inv: "hub_step E mh mh' \<Longrightarrow> hub_inv mh \<Longrightarrow> hub_inv mh'"
proof (induction rule: hub_step.induct)
  case (dispatch syncs m mh q)
  then show ?case using DispatchMessage_inv [OF _ dispatch(1)] by (simp add: hub_inv_def)
next
  case (from_edge n m mh mh')
  note same = HandleServer_same [OF from_edge(1)]
  have "cq_inv (mh_MessageQueue mh')"
    using from_edge(2) by (simp only: hub_inv_def same)
  then show ?case by (rule hub_invI [OF from_edge(2) same [THEN conjunct1]])
next
  case (connected n io mh serve mh')
  have "hub_inv (snd (OnRegister n io mh))"
    by (rule hub_invI [OF connected(2)]) (use connected(2) OnRegister_same [where mh = mh and n = n and io = io] in \<open>simp_all add: hub_inv_def\<close>)
  then show ?case by (simp add: connected(1))
next
  case (registers n mh mh')
  then obtain hi where "fmlookup (mh_nodeConns mh) n = Some hi" by (auto simp: RegisterNode_def split: option.splits)
  with registers(1) have "mh' = (call (Publish (constructConnectMessage E n True))
      (mh\<lparr>mh_MessageQueue := Connect n (mh_MessageQueue mh)\<rparr>))\<lparr>mh_nodeLocks := finsert n (mh_nodeLocks mh),
        mh_Nodes := finsert n (mh_Nodes mh), mh_nodeRegistered := finsert n (mh_nodeRegistered mh)\<rparr>"
    by (simp add: RegisterNode_def Let_def call_def)
  then show ?case using registers(2) by (simp add: hub_inv_def call_def cq_inv_Connect)
next
  case (node_timer mh n k)
  have "node_ok (wq_Timer k (node_queue (mh_MessageQueue mh) n)) (node_store (mh_MessageQueue mh) n)"
    using hub_inv_ok(2) [OF node_timer] by (simp add: node_ok_def wq_inv_Timer)
  then show ?case
    by (rule entries_changed_inv [OF node_timer entries_changed_set(3) [OF entries_changed_refl] hub_inv_ok(1) [OF node_timer]])
next
  case (signal mh n)
  then show ?case by (simp add: keepalive_signal_def hub_inv_def)
next
  case (timeout mh n)
  then show ?case by (simp add: keepalive_timeout_def hub_inv_def)
qed (simp_all add: UnregisterNode_inv ListMessageWriteLoop_inv MessageWriteLoop_inv)

lemma hub_inv_Init: "hub_inv (InitHandler limit NewChannelMessageQueue api)"
  by (simp add: hub_inv_def InitHandler_def cq_inv_New)

text \<open>
  C6: In every state the cloud hub can reach, the queues of every node are well formed, every stored
  message is stored under its own key, a key that waits in a list queue has its message in the list
  store, and the nodes that are counted, the registered ones and the ones with a write lock are the
  same.
\<close>

theorem hub_invariant:
  assumes "(hub_step E)\<^sup>*\<^sup>* (InitHandler limit NewChannelMessageQueue api) mh"
  shows "hub_inv mh"
  using assms by (induction rule: rtranclp_induct) (rule hub_inv_Init, rule hub_step_inv)

definition ex_env :: "unit hub_env" where
  "ex_env = \<lparr>he_write_ok = (\<lambda>_. True), he_now = 0, he_uuid = ''u'', he_Get = (\<lambda>_ _ _. Err ErrNotFound),
     he_Create = (\<lambda>_ _ a. Ok a), he_UpdateStatus = (\<lambda>_ _ a. Ok a), he_Delete = (\<lambda>_ _ a. Ok a)\<rparr>"

theorem hub_invariant_witness:
  "hub_inv (snd (OnRegister ''n1'' 0 (InitHandler 10 NewChannelMessageQueue ())))"
proof (rule hub_invariant)
  show "(hub_step ex_env)\<^sup>*\<^sup>* (InitHandler 10 NewChannelMessageQueue ())
      (snd (OnRegister ''n1'' 0 (InitHandler 10 NewChannelMessageQueue ())))"
    by (rule r_into_rtranclp, rule hub_step.connected [of "''n1''" 0 _ "fst (OnRegister ''n1'' 0 (InitHandler 10 NewChannelMessageQueue ()))"])
      (rule surjective_pairing)
qed


section \<open>Versions\<close>

lemma CompareResourceVersion_Ok:
  "CompareResourceVersion a b = Ok c \<longleftrightarrow> (\<exists>m n. strconv_ParseUint a = Ok m \<and> strconv_ParseUint b = Ok n \<and>
     c = (if m > n then 1 else if m = n then 0 else -1))"
  by (auto simp: CompareResourceVersion_def split: result.splits)

text \<open>
  C10: A message never overwrites a newer one. When a message is put into a node's store over an
  older entry, then either it is a delete, or the entry was not a delete and its resource version is
  strictly smaller; in every other case the store keeps what it has.
\<close>

theorem stale_message_never_overwrites:
  assumes "addMessageToQueue syncs n m q = Ok q'"
    and "fmlookup (pool_get fmempty (storePool q) n) k = Some old"
  shows "fmlookup (pool_get fmempty (storePool q') n) k = Some old \<or>
    fmlookup (pool_get fmempty (storePool q') n) k = Some m \<and>
      (isDeleteMessage m \<or> \<not> isDeleteMessage old \<and>
        (\<exists>v u. strconv_ParseUint (GetResourceVersion old) = Ok v \<and> strconv_ParseUint (GetResourceVersion m) = Ok u \<and> v < u))"
proof -
  consider "node_store q' n = node_store q n"
    | j where "node_store q' n = fmupd j m (node_store q n)"
        "isDeleteMessage m \<or> outdated syncs n m (fmlookup (node_store q n) j) = Ok False"
    using addMessageToQueue_entries(4) [OF assms(1)] by blast
  then show ?thesis
  proof cases
    case (2 j)
    show ?thesis
    proof (cases "j = k")
      case True
      then have "isDeleteMessage m \<or> outdated syncs n m (Some old) = Ok False" using 2(2) assms(2) by simp
      then show ?thesis
        using 2(1) True by (auto simp: outdated_def bind_iffs CompareResourceVersion_Ok split: if_splits)
    qed (use 2(1) assms(2) in simp)
  qed (use assms(2) in simp)
qed

text \<open>Messages about one pod, with a version and an operation, and the queue after one of them.\<close>

definition ex_pod :: api_object where
  "ex_pod =
     \<lparr>ao_APIVersion = ''v1'', ao_Kind = ''Pod'', ao_Namespace = ''ns'', ao_Name = ''p'', ao_UID = ''uid'', ao_ResourceVersion = ''7'',
      ao_Deleting = False, ao_JSON = ''{}''\<rparr>"

definition pod_message :: "string \<Rightarrow> string \<Rightarrow> Message" where
  "pod_message opr version =
     FillBody (ObjectContent ex_pod)
       (BuildRouter ''edgecontroller'' ''resource'' ''node/n1/ns/pod/p'' opr
         (SetResourceVersion version (NewMessage ''id'' 0 [])))"

definition pod_queue :: "string \<Rightarrow> string \<Rightarrow> ChannelMessageQueue" where
  "pod_queue opr version =
     NewChannelMessageQueue\<lparr>queuePool := fmupd ''n1'' (wq_Add ''pod/ns/p'' wq_new) fmempty,
       storePool := fmupd ''n1'' (fmupd ''pod/ns/p'' (pod_message opr version) fmempty) fmempty\<rparr>"

lemma pod_message_simps [simp]:
  "GetResource (pod_message opr v) = ''node/n1/ns/pod/p''" "GetGroup (pod_message opr v) = ''resource''"
  "GetResourceVersion (pod_message opr v) = v" "GetOperation (pod_message opr v) = opr"
  "m_Content (pod_message opr v) = ObjectContent ex_pod"
  "isDeleteMessage (pod_message opr v) = (opr = DeleteOperation)"
  by (simp_all add: pod_message_def message_defs isDeleteMessage_def GetMessageDeletionTimestamp_def ex_pod_def)

lemma pod_split: "strings_Split (CHR ''/'') ''node/n1/ns/pod/p'' = [''node'', ''n1'', ''ns'', ''pod'', ''p'']"
  by simp

lemma pod_message_key [simp]: "getMsgKey (pod_message opr v) = Ok ''pod/ns/p''"
  by (simp add: getMsgKey_def GroupResource_def or_empty_def GetResourceType_def GetNamespace_def GetResourceName_def path_part_def)

lemma pod_queue_store [simp]:
  "pool_get fmempty (storePool (pod_queue opr v)) ''n1'' = fmupd ''pod/ns/p'' (pod_message opr v) fmempty"
  "pool_get wq_new (queuePool (pod_queue opr v)) ''n1'' = wq_Add ''pod/ns/p'' wq_new"
  by (simp_all add: pod_queue_def)

lemma pod_getters [simp]:
  "GetNodeQueue ''n1'' (pod_queue opr v) = (wq_Add ''pod/ns/p'' wq_new, pod_queue opr v)"
  "GetNodeStore ''n1'' (pod_queue opr v) = (fmupd ''pod/ns/p'' (pod_message opr v) fmempty, pod_queue opr v)"
  by (simp_all add: GetNodeQueue_def GetNodeStore_def pod_queue_def)

theorem stale_message_never_overwrites_witness:
  "fmlookup (pool_get fmempty (storePool (pod_queue InsertOperation ''7'')) ''n1'') ''pod/ns/p''
     = Some (pod_message InsertOperation ''7'')"
proof -
  have "addMessageToQueue (\<lambda>_ _. None) ''n1'' (pod_message InsertOperation ''5'') (pod_queue InsertOperation ''7'') =
      Ok (pod_queue InsertOperation ''7'')"
    by (simp add: addMessageToQueue_def outdated_def CompareResourceVersion_def strconv_ParseUint_def digit_value_def
        InsertOperation_def DeleteOperation_def)
  from stale_message_never_overwrites [OF this, of "''pod/ns/p''" "pod_message InsertOperation ''7''"]
  show ?thesis by simp
qed

text \<open>
  While a delete that the edge has not acknowledged is in a node's store, every later message
  about that object that is not itself a delete is dropped, whatever its version: an object that is
  created again under its old name is not sent.
\<close>

lemma pending_delete_drops_new_object:
  assumes "getMsgKey m = Ok k" and "\<not> isDeleteMessage m" and "GetResourceVersion m \<noteq> []"
    and "fmlookup (pool_get fmempty (storePool q) n) k = Some old" and "isDeleteMessage old"
  shows "\<exists>q'. addMessageToQueue syncs n m q = Ok q' \<and> pool_get fmempty (storePool q') n = pool_get fmempty (storePool q) n \<and>
    pool_get wq_new (queuePool q') n = pool_get wq_new (queuePool q) n"
proof -
  let ?q2 = "snd (GetNodeStore n (snd (GetNodeQueue n q)))"
  have "outdated syncs n m (Some old) = Ok True" using assms(5) by (simp add: outdated_def)
  then have "addMessageToQueue syncs n m q = Ok ?q2"
    using assms(1-4) by (simp add: addMessageToQueue_def Let_def split_beta)
  then show ?thesis by simp
qed

lemma pending_delete_drops_new_object_example:
  "\<exists>q'. addMessageToQueue (\<lambda>_ _. None) ''n1'' (pod_message InsertOperation ''9'') (pod_queue DeleteOperation ''7'') = Ok q' \<and>
    pool_get fmempty (storePool q') ''n1'' = pool_get fmempty (storePool (pod_queue DeleteOperation ''7'')) ''n1''"
proof -
  have "getMsgKey (pod_message InsertOperation ''9'') = Ok ''pod/ns/p''"
    "\<not> isDeleteMessage (pod_message InsertOperation ''9'')" "GetResourceVersion (pod_message InsertOperation ''9'') \<noteq> []"
    "fmlookup (pool_get fmempty (storePool (pod_queue DeleteOperation ''7'')) ''n1'') ''pod/ns/p'' = Some (pod_message DeleteOperation ''7'')"
    "isDeleteMessage (pod_message DeleteOperation ''7'')"
    by (simp_all add: InsertOperation_def DeleteOperation_def)
  from pending_delete_drops_new_object [OF this, of "\<lambda>_ _. None"] show ?thesis by blast
qed


section \<open>Retransmission\<close>

lemma hubIoWrite_writes: "mh_writes (snd (hubIoWrite E n m mh)) \<le> Suc (mh_writes mh)"
  by (simp add: hubIoWrite_def WriteData_def)

lemma saveSuccessPoint_writes: "mh_writes (saveSuccessPoint E m n mh) = mh_writes mh"
  by (simp add: saveSuccessPoint_def Let_def set_store_def split: result.split)

lemma sendMsg_loop_writes:
  "retry \<le> 4 \<Longrightarrow> mh_writes (sending_state (sendMsg_loop E n c m retry events mh)) \<le> mh_writes mh + (4 - retry)"
proof (induction E n c m retry events mh rule: sendMsg_loop.induct)
  case (3 E n c m retry events mh)
  obtain err mh' where w: "hubIoWrite E n c mh = (err, mh')" by fastforce
  then have "mh_writes mh' \<le> Suc (mh_writes mh)" using hubIoWrite_writes [of E n c mh] by simp
  then show ?case using 3 w by (cases err) fastforce+
qed (simp_all add: saveSuccessPoint_writes)

lemma sendMsg_loop_returns:
  "retry \<le> 4 \<Longrightarrow> 4 - retry < length events \<Longrightarrow> sendMsg_loop E n c m retry events mh \<noteq> Sending mh'"
proof (induction E n c m retry events mh rule: sendMsg_loop.induct)
  case (3 E n c m retry events mh)
  then show ?case by (cases "hubIoWrite E n c mh") (auto split: option.split)
qed simp_all

text \<open>
  C23: A message is written to a node at most five times, and sending it ends: five events, each an
  acknowledgement or an expired timer, are enough for \<open>sendMsg\<close> to return, whatever the writes do.
\<close>

theorem retransmission_is_bounded:
  "mh_writes (sending_state (sendMsg E n c m events mh)) \<le> mh_writes mh + 5 \<and>
   (\<forall>mh'. sendMsg E n c m events mh = Sending mh' \<longrightarrow> length events < 5)"
proof -
  let ?mh1 = "mh\<lparr>mh_MessageAcks := finsert (GetID c) (mh_MessageAcks mh)\<rparr>"
  obtain err mh2 where w: "hubIoWrite E n c ?mh1 = (err, mh2)" by fastforce
  then have "mh_writes mh2 \<le> Suc (mh_writes mh)" using hubIoWrite_writes [of E n c ?mh1] by simp
  then have "mh_writes (sending_state (sendMsg E n c m events mh)) \<le> mh_writes mh + 5"
    using w sendMsg_loop_writes [of 0 E n c m events mh2] by (cases err) (simp_all add: sendMsg_def)
  moreover have "length events < 5" if "sendMsg E n c m events mh = Sending mh'" for mh'
  proof -
    have "\<not> 4 < length events"
      using that w sendMsg_loop_returns [of 0 events E n c m mh2 mh'] by (cases err) (auto simp: sendMsg_def)
    then show ?thesis by linarith
  qed
  ultimately show ?thesis by blast
qed

theorem retransmission_is_bounded_witness:
  "length [Ticked] < (5 :: nat) \<and>
   sendMsg ex_env ''n1'' (pod_message InsertOperation ''7'') (pod_message InsertOperation ''7'') [Ticked]
     ((InitHandler 10 NewChannelMessageQueue ())\<lparr>mh_nodeLocks := {|''n1''|}\<rparr>) =
     Sending ((InitHandler 10 NewChannelMessageQueue ())\<lparr>mh_nodeLocks := {|''n1''|}, mh_MessageAcks := {|''id''|},
       mh_writes := 2, mh_written := replicate 2 (''n1'', pod_message InsertOperation ''7'')\<rparr>)"
proof -
  let ?mh = "(InitHandler 10 NewChannelMessageQueue ())\<lparr>mh_nodeLocks := {|''n1''|}\<rparr>"
  let ?m = "pod_message InsertOperation ''7''"
  have "GetID ?m = ''id''" by (simp add: pod_message_def message_defs)
  then have send: "sendMsg ex_env ''n1'' ?m ?m [Ticked] ?mh =
      Sending (?mh\<lparr>mh_MessageAcks := {|''id''|}, mh_writes := 2, mh_written := replicate 2 (''n1'', ?m)\<rparr>)"
    by (simp add: sendMsg_def hubIoWrite_def WriteData_def ex_env_def InitHandler_def numeral_2_eq_2)
  then show ?thesis using retransmission_is_bounded [of ex_env "''n1''" ?m ?m "[Ticked]" ?mh] by simp
qed


section \<open>The list queue\<close>

text \<open>One pass of the list loop over a message for the edge of a connected node.\<close>

lemma list_loop_step:
  assumes "wq_Get (list_queue (mh_MessageQueue mh) n) = Item k w"
    and "fmlookup (list_store (mh_MessageQueue mh) n) k = Some m" and "GetID m = k"
    and "\<not> IsNodeStopped m" and "IsToEdge m" and "n |\<in>| mh_nodeLocks mh" and "fmlookup (mh_nodeConns mh) n = Some hi"
  obtains mh' where "ListMessageWriteLoop E n mh = Continues mh'"
    and "mh_written mh' = mh_written mh @ (if he_write_ok E (mh_writes mh) then [(n, trimMessage m)] else [])"
    and "list_queue (mh_MessageQueue mh') n = wq_Done k (wq_Forget k w)"
    and "list_store (mh_MessageQueue mh') n = fmdrop k (list_store (mh_MessageQueue mh) n)"
    and "mh_nodeLocks mh' = mh_nodeLocks mh" and "mh_nodeConns mh' = mh_nodeConns mh"
proof -
  let ?s = "list_store (mh_MessageQueue mh) n"
  let ?mh2 = "set_list_store n (fmupd k (trimMessage m) ?s) (set_list_queue n w mh)"
  let ?mh3 = "snd (hubIoWrite E n (trimMessage m) ?mh2)"
  let ?mh' = "set_list_queue n (wq_Done k (wq_Forget k w)) (set_list_store n (fmdrop k (fmupd k (trimMessage m) ?s)) ?mh3)"
  have "ListMessageWriteLoop E n mh = Continues ?mh'"
    using assms by (simp add: ListMessageWriteLoop_def Let_def getListMsgKey_def set_list_queue_def set_list_store_def)
  moreover have "mh_written ?mh' = mh_written mh @ (if he_write_ok E (mh_writes mh) then [(n, trimMessage m)] else [])"
    using assms(6) by (simp add: hubIoWrite_def WriteData_def set_list_queue_def set_list_store_def)
  moreover have "mh_nodeLocks ?mh' = mh_nodeLocks mh" "mh_nodeConns ?mh' = mh_nodeConns mh"
    by (simp_all add: hubIoWrite_def WriteData_def set_list_queue_def set_list_store_def)
  moreover have "fmdrop k (fmupd k (trimMessage m) ?s) = fmdrop k ?s" by (rule fmap_ext) simp
  ultimately show thesis by (intro that [of ?mh']) simp_all
qed

text \<open>
  C26: What the list loop does with the next message of a connected node. The message is trimmed and
  written once; then it is gone from the store and its key from the queue, also when the write
  failed: a message of the ingress controller is sent at most once and a failed write loses it.
\<close>

theorem list_message_is_sent_at_most_once:
  assumes "hub_inv mh" and "wq_Get (pool_get wq_new (listQueuePool (mh_MessageQueue mh)) n) = Item k w"
    and "fmlookup (pool_get fmempty (listStorePool (mh_MessageQueue mh)) n) k = Some m"
    and "\<not> IsNodeStopped m" and "IsToEdge m" and "n |\<in>| mh_nodeLocks mh" and "fmlookup (mh_nodeConns mh) n = Some hi"
  shows "\<exists>mh'. ListMessageWriteLoop E n mh = Continues mh' \<and>
    mh_written mh' = mh_written mh @ (if he_write_ok E (mh_writes mh) then [(n, trimMessage m)] else []) \<and>
    fmlookup (pool_get fmempty (listStorePool (mh_MessageQueue mh')) n) k = None \<and>
    (let w' = pool_get wq_new (listQueuePool (mh_MessageQueue mh')) n in k |\<notin>| wq_dirty w' \<and> k |\<notin>| wq_processing w')"
proof -
  note g = wq_Get_list_ok [OF hub_inv_ok(1) [OF assms(1)] assms(2)]
  have id: "GetID m = k" using g(4) assms(3) by auto
  obtain mh' where "ListMessageWriteLoop E n mh = Continues mh'"
    "mh_written mh' = mh_written mh @ (if he_write_ok E (mh_writes mh) then [(n, trimMessage m)] else [])"
    "list_queue (mh_MessageQueue mh') n = wq_Done k (wq_Forget k w)"
    "list_store (mh_MessageQueue mh') n = fmdrop k (list_store (mh_MessageQueue mh) n)"
    by (rule list_loop_step [OF assms(2,3) id assms(4-7)])
  then show ?thesis
    using g(2,3) by (intro exI [of _ mh']) (auto simp: Let_def wq_Done_def wq_Forget_def)
qed

text \<open>A hub with one connected node and one message of the ingress controller for it.\<close>

definition envoy_message :: Message where
  "envoy_message =
     FillBody (StringContent ''cGI='')
       (BuildRouter ''envoyingresscontroller'' ''envoy'' ''node/n1/ns/Secret/envoycert'' ''insert''
         (SetResourceVersion ''1'' (NewMessage ''id'' 0 [])))"

definition envoy_hub :: "unit MessageHandle" where
  "envoy_hub =
     (InitHandler 10 (addListMessageToQueue ''n1'' envoy_message NewChannelMessageQueue) ())
       \<lparr>mh_nodeConns := fmupd ''n1'' 0 fmempty, mh_nodeLocks := {|''n1''|}, mh_nodeRegistered := {|''n1''|}, mh_Nodes := {|''n1''|}\<rparr>"

lemma envoy_message_simps [simp]:
  "GetID envoy_message = ''id''" "GetResource envoy_message = ''node/n1/ns/Secret/envoycert''"
  "GetSource envoy_message = ''envoyingresscontroller''" "GetOperation envoy_message = ''insert''"
  by (simp_all add: envoy_message_def message_defs)

lemma envoy_hub_ok: "hub_inv envoy_hub"
  using addListMessageToQueue_entries(1) [of "''n1''" NewChannelMessageQueue envoy_message] cq_inv_New
    DispatchMessage_inv [OF cq_inv_New, of "\<lambda>_ _. None" envoy_message]
  by (simp add: hub_inv_def envoy_hub_def InitHandler_def DispatchMessage_def cq_GetNodeID_def isListResource_def Let_def)

theorem list_message_is_sent_at_most_once_witness:
  "\<exists>mh'. ListMessageWriteLoop ex_env ''n1'' envoy_hub = Continues mh' \<and> mh_written mh' = [(''n1'', trimMessage envoy_message)]"
proof -
  let ?q = "mh_MessageQueue envoy_hub"
  have q: "?q = addListMessageToQueue ''n1'' envoy_message NewChannelMessageQueue"
    by (simp add: envoy_hub_def InitHandler_def)
  have "pool_get wq_new (listQueuePool ?q) ''n1'' = wq_Add ''id'' wq_new"
    "fmlookup (pool_get fmempty (listStorePool ?q) ''n1'') ''id'' = Some envoy_message"
    unfolding q by (simp_all add: addListMessageToQueue_entries) (simp_all add: NewChannelMessageQueue_def)
  moreover have "wq_Get (wq_Add ''id'' wq_new) = Item ''id'' (wq_new\<lparr>wq_processing := {|''id''|}\<rparr>)"
    by (simp add: wq_Get_def wq_Add_def wq_new_def Let_def)
  moreover have "\<not> IsNodeStopped envoy_message" "IsToEdge envoy_message"
    by (simp_all add: IsNodeStopped_def IsToEdge_def DeleteOperation_def SrcManager_def)
  moreover have "''n1'' |\<in>| mh_nodeLocks envoy_hub" "fmlookup (mh_nodeConns envoy_hub) ''n1'' = Some 0"
      "mh_written envoy_hub = []" "he_write_ok ex_env (mh_writes envoy_hub)"
    by (simp_all add: envoy_hub_def InitHandler_def ex_env_def)
  ultimately show ?thesis
    using list_message_is_sent_at_most_once [OF envoy_hub_ok, of "''n1''" "''id''" _ envoy_message 0 ex_env] by fastforce
qed


section \<open>Names of ObjectSync objects\<close>

text \<open>
  The name of an \<open>ObjectSync\<close> gives the node and the object back: for every node name, dots
  included, and every uid without a dot.
\<close>

lemma object_sync_name_roundtrip:
  assumes "CHR ''.'' \<notin> set uid"
  shows "getNodeName (BuildObjectSyncName node uid) = node \<and> getObjectUID (BuildObjectSyncName node uid) = uid"
proof -
  have "strings_Split (CHR ''.'') (node @ ''.'' @ uid) = strings_Split (CHR ''.'') node @ [uid]"
  proof (induction node)
    case (Cons c cs)
    then show ?case by (cases "strings_Split (CHR ''.'') cs") (auto split: list.splits)
  qed (use assms in \<open>simp add: strings_Split_no_sep\<close>)
  then show ?thesis
    by (simp add: getNodeName_def getObjectUID_def BuildObjectSyncName_def butlast_append strings_Join_Split)
qed

theorem object_sync_name_roundtrip_witness:
  "getNodeName (BuildObjectSyncName ''edge.node.1'' ''4f-2a'') = ''edge.node.1''"
  using object_sync_name_roundtrip [of "''4f-2a''" "''edge.node.1''"] by simp

end
