(* ===== verification/Edge_Control_Plane.thy ===== *)
theory Edge_Control_Plane
  imports Resource_Gen Beehive_Message
begin

text \<open>
  The Envoy control plane on the edge (\<open>edge/pkg/envoycontrolplane\<close>) and the dispatch of the edge
  hub that hands it its messages (\<open>edge/pkg/edgehub/process.go\<close>). What comes from outside is an
  argument: the protobuf decoding, the JSON encoding that is stored for debugging, the database
  and the snapshot cache of go-control-plane, with their states. The five locks of the maps are
  always released by the function that took them.
\<close>

section \<open>Resources and their kinds\<close>

datatype ResourceKind = SECRET | ENDPOINT | CLUSTER | ROUTE | LISTENER

fun kind_name :: "ResourceKind \<Rightarrow> string" where
  "kind_name SECRET = ''Secret''"
| "kind_name ENDPOINT = ''Endpoint''"
| "kind_name CLUSTER = ''Cluster''"
| "kind_name ROUTE = ''Route''"
| "kind_name LISTENER = ''Listener''"

text \<open>The \<open>switch resType\<close>.\<close>

definition kind_of :: "string \<Rightarrow> ResourceKind option" where
  "kind_of resType =
     (if resType = ''Secret'' then Some SECRET
      else if resType = ''Endpoint'' then Some ENDPOINT
      else if resType = ''Cluster'' then Some CLUSTER
      else if resType = ''Route'' then Some ROUTE
      else if resType = ''Listener'' then Some LISTENER
      else None)"

text \<open>\<open>EnvoySecret\<close>, \<open>EnvoyEndpoint\<close> and so on, which differ in the message they hold.\<close>

record EdgeResource =
  er_Name :: string
  er_Namespace :: string
  er_Spec :: spec

text \<open>A row of one of the five tables.\<close>

record DaoResource =
  dao_Kind :: ResourceKind
  dao_ID :: string
  dao_Name :: string
  dao_Value :: string
  dao_JsonValue :: string

fun TableName :: "ResourceKind \<Rightarrow> string" where
  "TableName SECRET = ''secret''"
| "TableName ENDPOINT = ''endpoint''"
| "TableName CLUSTER = ''cluster''"
| "TableName ROUTE = ''router''"
| "TableName LISTENER = ''listener''"

text \<open>The arguments of \<open>NewSnapshot\<close>, in their order.\<close>

record Snapshot =
  sn_version :: string
  sn_endpoints :: "spec list"
  sn_clusters :: "spec list"
  sn_routes :: "spec list"
  sn_listeners :: "spec list"
  sn_runtimes :: "spec list"
  sn_secrets :: "spec list"

record ('db, 'xds) edge_env =
  ee_Unmarshal :: "ResourceKind \<Rightarrow> string \<Rightarrow> spec result"
  ee_json_Marshal :: "spec \<Rightarrow> string result"
  ee_InsertOrReplace :: "string \<Rightarrow> DaoResource \<Rightarrow> 'db \<Rightarrow> 'db result"
  ee_DeleteWhereName :: "string \<Rightarrow> string \<Rightarrow> 'db \<Rightarrow> 'db result"
  ee_SetSnapshot :: "string \<Rightarrow> Snapshot \<Rightarrow> 'xds \<Rightarrow> 'xds result"
  ee_ord :: "string order"

record ('db, 'xds) envoyControlPlane =
  ecp_enable :: bool
  envoySecrets :: "(string, EdgeResource) fmap"
  envoyEndpoints :: "(string, EdgeResource) fmap"
  envoyClusters :: "(string, EdgeResource) fmap"
  envoyRoutes :: "(string, EdgeResource) fmap"
  envoyListeners :: "(string, EdgeResource) fmap"
  xdsCache :: 'xds
  nodeName :: string
  ecp_version :: "64 word"
  ecp_db :: 'db

definition newControlPlane :: "bool \<Rightarrow> string \<Rightarrow> 'xds \<Rightarrow> 'db \<Rightarrow> ('db, 'xds) envoyControlPlane" where
  "newControlPlane enable node xds db =
     \<lparr>ecp_enable = enable, envoySecrets = fmempty, envoyEndpoints = fmempty, envoyClusters = fmempty,
      envoyRoutes = fmempty, envoyListeners = fmempty, xdsCache = xds, nodeName = node, ecp_version = 0, ecp_db = db\<rparr>"

text \<open>The map of a kind.\<close>

fun kind_map :: "ResourceKind \<Rightarrow> ('db, 'xds) envoyControlPlane \<Rightarrow> (string, EdgeResource) fmap" where
  "kind_map SECRET e = envoySecrets e"
| "kind_map ENDPOINT e = envoyEndpoints e"
| "kind_map CLUSTER e = envoyClusters e"
| "kind_map ROUTE e = envoyRoutes e"
| "kind_map LISTENER e = envoyListeners e"

fun set_kind_map :: "ResourceKind \<Rightarrow> (string, EdgeResource) fmap \<Rightarrow> ('db, 'xds) envoyControlPlane \<Rightarrow> ('db, 'xds) envoyControlPlane" where
  "set_kind_map SECRET m e = e\<lparr>envoySecrets := m\<rparr>"
| "set_kind_map ENDPOINT m e = e\<lparr>envoyEndpoints := m\<rparr>"
| "set_kind_map CLUSTER m e = e\<lparr>envoyClusters := m\<rparr>"
| "set_kind_map ROUTE m e = e\<lparr>envoyRoutes := m\<rparr>"
| "set_kind_map LISTENER m e = e\<lparr>envoyListeners := m\<rparr>"


section \<open>Messages\<close>

text \<open>The key and the type of a resource; a resource without a separator is indexed out of range.\<close>

definition parseResource :: "string \<Rightarrow> (string \<times> string) result" where
  "parseResource resource =
     (case strings_Split (CHR ''/'') resource of
        _ # resType # _ \<Rightarrow> Ok (resource, resType)
      | _ \<Rightarrow> Panic IndexOutOfRange)"

definition generateContent :: "Message \<Rightarrow> string" where
  "generateContent message =
     (case m_Content message of BytesContent b \<Rightarrow> b | c \<Rightarrow> json_Marshal_content c)"

definition edge_GetNamespace :: "Message \<Rightarrow> string result" where
  "edge_GetNamespace msg =
     (let sli = strings_Split (CHR ''/'') (GetResource msg)
      in if length sli \<le> 2 then Err ErrShortResource else Ok (sli ! 2))"

text \<open>What both handlers do first: the key, the kind and the decoded content, with its base64 text.\<close>

definition decodeMessage :: "Message \<Rightarrow> (string \<times> string \<times> string \<times> string) result" where
  "decodeMessage message =
     bind (parseResource (GetResource message)) (\<lambda>(resKey, resType).
       (case strconv_Unquote (generateContent message) of
          None \<Rightarrow> Err ErrUnquote
        | Some unquotedContent \<Rightarrow>
            (case b64_DecodeString unquotedContent of
               None \<Rightarrow> Err ErrBase64
             | Some envoyResourceString \<Rightarrow> Ok (resKey, resType, unquotedContent, envoyResourceString))))"

definition message_namespace :: "Message \<Rightarrow> string" where
  "message_namespace message = (case edge_GetNamespace message of Ok ns \<Rightarrow> ns | _ \<Rightarrow> ''default'')"

definition InsertOrUpdateResource :: "('db, 'xds) edge_env \<Rightarrow> DaoResource \<Rightarrow> 'db \<Rightarrow> 'db result" where
  "InsertOrUpdateResource E daoResource db = ee_InsertOrReplace E (TableName (dao_Kind daoResource)) daoResource db"

definition DeleteResource :: "('db, 'xds) edge_env \<Rightarrow> DaoResource \<Rightarrow> 'db \<Rightarrow> 'db result" where
  "DeleteResource E daoResource db = ee_DeleteWhereName E (TableName (dao_Kind daoResource)) (dao_Name daoResource) db"

text \<open>A handler gives the new state and the error it returned, or panics.\<close>

definition processInsert ::
  "('db, 'xds) edge_env \<Rightarrow> Message \<Rightarrow> ('db, 'xds) envoyControlPlane \<Rightarrow> (('db, 'xds) envoyControlPlane \<times> error option) result" where
  "processInsert E message e =
     (case decodeMessage message of
        Panic p \<Rightarrow> Panic p
      | Err er \<Rightarrow> Ok (e, Some er)
      | Ok (resKey, resType, unquotedContent, envoyResourceString) \<Rightarrow>
          (case kind_of resType of
             None \<Rightarrow> Ok (e, Some ErrUnknownResourceType)
           | Some kind \<Rightarrow>
               (case ee_Unmarshal E kind envoyResourceString of
                  Panic p \<Rightarrow> Panic p
                | Err er \<Rightarrow> Ok (e, Some er)
                | Ok spec \<Rightarrow>
                    (let envoyResource = \<lparr>er_Name = resKey, er_Namespace = message_namespace message, er_Spec = spec\<rparr>;
                         e1 = set_kind_map kind (fmupd (er_Name envoyResource) envoyResource (kind_map kind e)) e
                     in case ee_json_Marshal E spec of
                          Panic p \<Rightarrow> Panic p
                        | Err er \<Rightarrow> Ok (e1, Some er)
                        | Ok jsonContent \<Rightarrow>
                            (case InsertOrUpdateResource E
                                \<lparr>dao_Kind = kind, dao_ID = resKey, dao_Name = resKey, dao_Value = unquotedContent,
                                 dao_JsonValue = jsonContent\<rparr> (ecp_db e1) of
                               Panic p \<Rightarrow> Panic p
                             | Err er \<Rightarrow> Ok (e1, Some er)
                             | Ok db \<Rightarrow> Ok (e1\<lparr>ecp_db := db\<rparr>, None))))))"

text \<open>The delete handler decodes the content too, but it does not look at what decoding it gives.\<close>

definition processDelete ::
  "('db, 'xds) edge_env \<Rightarrow> Message \<Rightarrow> ('db, 'xds) envoyControlPlane \<Rightarrow> (('db, 'xds) envoyControlPlane \<times> error option) result" where
  "processDelete E message e =
     (case decodeMessage message of
        Panic p \<Rightarrow> Panic p
      | Err er \<Rightarrow> Ok (e, Some er)
      | Ok (resKey, resType, unquotedContent, envoyResourceString) \<Rightarrow>
          (case kind_of resType of
             None \<Rightarrow> Ok (e, Some ErrUnknownResourceType)
           | Some kind \<Rightarrow>
               (let e1 = set_kind_map kind (fmdrop resKey (kind_map kind e)) e
                in case DeleteResource E
                       \<lparr>dao_Kind = kind, dao_ID = resKey, dao_Name = resKey, dao_Value = [], dao_JsonValue = []\<rparr> (ecp_db e1) of
                     Panic p \<Rightarrow> Panic p
                   | Err er \<Rightarrow> Ok (e1, Some er)
                   | Ok db \<Rightarrow> Ok (e1\<lparr>ecp_db := db\<rparr>, None))))"

text \<open>An error is logged, an operation that is neither insert nor delete ignored.\<close>

definition process ::
  "('db, 'xds) edge_env \<Rightarrow> Message \<Rightarrow> ('db, 'xds) envoyControlPlane \<Rightarrow> ('db, 'xds) envoyControlPlane result" where
  "process E message e =
     (if GetOperation message = InsertOperation then bind (processInsert E message e) (\<lambda>(e', err). Ok e')
      else if GetOperation message = DeleteOperation then bind (processDelete E message e) (\<lambda>(e', err). Ok e')
      else Ok e)"

text \<open>The main loop on the messages it receives; a panic ends the process.\<close>

fun runEnvoyControlPlane ::
  "('db, 'xds) edge_env \<Rightarrow> Message list \<Rightarrow> ('db, 'xds) envoyControlPlane \<Rightarrow> ('db, 'xds) envoyControlPlane result" where
  "runEnvoyControlPlane E [] e = Ok e"
| "runEnvoyControlPlane E (msg # msgs) e = bind (process E msg e) (runEnvoyControlPlane E msgs)"


section \<open>Snapshots\<close>

text \<open>The messages of a map, in the order of the \<open>range\<close>.\<close>

definition map_specs :: "('db, 'xds) edge_env \<Rightarrow> (string, EdgeResource) fmap \<Rightarrow> spec list" where
  "map_specs E m = map (\<lambda>k. er_Spec (the (fmlookup m k))) (ee_ord E (fmdom m))"

definition Generate ::
  "('db, 'xds) edge_env \<Rightarrow> string \<Rightarrow> (ResourceKind \<Rightarrow> spec list) \<Rightarrow> string \<Rightarrow> 'xds \<Rightarrow> 'xds result" where
  "Generate E version resources node xds =
     ee_SetSnapshot E node
       \<lparr>sn_version = version, sn_endpoints = resources ENDPOINT, sn_clusters = resources CLUSTER,
        sn_routes = resources ROUTE, sn_listeners = resources LISTENER, sn_runtimes = [],
        sn_secrets = resources SECRET\<rparr> xds"

definition FlushXDSCache ::
  "('db, 'xds) edge_env \<Rightarrow> ('db, 'xds) envoyControlPlane \<Rightarrow> ('db, 'xds) envoyControlPlane result" where
  "FlushXDSCache E e =
     (let resources = (\<lambda>kind. map_specs E (kind_map kind e));
          e1 = e\<lparr>ecp_version := ecp_version e + 1\<rparr>
      in case Generate E (strconv_Itoa (sint (ecp_version e1))) resources (nodeName e1) (xdsCache e1) of
           Ok xds \<Rightarrow> Ok (e1\<lparr>xdsCache := xds\<rparr>)
         | Err _ \<Rightarrow> Ok e1
         | Panic p \<Rightarrow> Panic p)"


section \<open>The edge hub\<close>

datatype edge_call = EdgeResp Message | EdgeToGroup string Message

definition edgehub_dispatch :: "Message \<Rightarrow> edge_call result" where
  "edgehub_dispatch message =
     (let grp = GetGroup message;
          md = (if grp = ''resource'' then Some ''meta''
                else if grp = ''twin'' then Some ''twin''
                else if grp = ''func'' then Some ''meta''
                else if grp = ''user'' then Some ''bus''
                else if grp = ''envoy'' then Some ''envoy''
                else None)
      in case md of
           None \<Rightarrow> Err ErrGroupNotFound
         | Some m \<Rightarrow> if GetParentID message \<noteq> [] then Ok (EdgeResp message) else Ok (EdgeToGroup m message))"

end
