(* ===== verification/Edge_Props.thy ===== *)
theory Edge_Props
  imports Edge_Control_Plane
begin

text \<open>
  Properties of the Envoy control plane: every map holds only resources of its kind under their own
  names, the last message about a resource decides what the edge holds, a snapshot carries exactly
  what the maps hold, and the messages that are refused or crash the process.
\<close>

section \<open>The maps\<close>

fun spec_kind :: "spec \<Rightarrow> ResourceKind option" where
  "spec_kind (SecretSpec _) = Some SECRET"
| "spec_kind (EndpointSpec _) = Some ENDPOINT"
| "spec_kind (ClusterSpec _) = Some CLUSTER"
| "spec_kind (RouteSpec _) = Some ROUTE"
| "spec_kind (ListenerSpec _) = Some LISTENER"
| "spec_kind NilSpec = None"

lemma kind_of_name [simp]: "kind_of (kind_name k) = Some k"
  by (cases k) (simp_all add: kind_of_def)

lemma kind_of_Some: "kind_of t = Some k \<longleftrightarrow> t = kind_name k"
  by (cases k) (auto simp: kind_of_def)

lemma kind_map_set [simp]:
  "kind_map k (set_kind_map k' m e) = (if k = k' then m else kind_map k e)"
  by (cases k; cases k') simp_all

lemma kind_map_frame [simp]:
  "kind_map k (e\<lparr>ecp_db := d\<rparr>) = kind_map k e" "kind_map k (e\<lparr>xdsCache := x\<rparr>) = kind_map k e"
  "kind_map k (e\<lparr>ecp_version := v\<rparr>) = kind_map k e"
  by (cases k; simp)+

lemma set_kind_map_frame [simp]:
  "ecp_db (set_kind_map k m e) = ecp_db e" "ecp_version (set_kind_map k m e) = ecp_version e"
  "nodeName (set_kind_map k m e) = nodeName e" "xdsCache (set_kind_map k m e) = xdsCache e"
  by (cases k; simp)+

definition typed_Unmarshal :: "('db, 'xds) edge_env \<Rightarrow> bool" where
  "typed_Unmarshal E \<longleftrightarrow> (\<forall>k b s. ee_Unmarshal E k b = Ok s \<longrightarrow> spec_kind s = Some k)"

definition edge_inv :: "('db, 'xds) envoyControlPlane \<Rightarrow> bool" where
  "edge_inv e \<longleftrightarrow> (\<forall>k n r. fmlookup (kind_map k e) n = Some r \<longrightarrow> er_Name r = n \<and> spec_kind (er_Spec r) = Some k)"

lemma edge_inv_new: "edge_inv (newControlPlane enable node xds db)"
proof -
  have "kind_map k (newControlPlane enable node xds db) = fmempty" for k
    by (cases k) (simp_all add: newControlPlane_def)
  then show ?thesis by (simp add: edge_inv_def)
qed

text \<open>What a message asks of the maps: nothing, or to bind a key of a kind, or to unbind it.\<close>

definition message_effect ::
  "('db, 'xds) edge_env \<Rightarrow> Message \<Rightarrow> (ResourceKind \<times> string \<times> spec option) option" where
  "message_effect E m =
     (case decodeMessage m of
        Ok (key, t, tx, b) \<Rightarrow>
          (case kind_of t of
             None \<Rightarrow> None
           | Some k \<Rightarrow>
               if GetOperation m = InsertOperation
               then (case ee_Unmarshal E k b of Ok s \<Rightarrow> Some (k, key, Some s) | _ \<Rightarrow> None)
               else if GetOperation m = DeleteOperation then Some (k, key, None) else None)
      | _ \<Rightarrow> None)"

definition held :: "('db, 'xds) envoyControlPlane \<Rightarrow> ResourceKind \<Rightarrow> string \<Rightarrow> spec option" where
  "held e k n = map_option er_Spec (fmlookup (kind_map k e) n)"

text \<open>The map of a kind after a message, by the entry it writes.\<close>

definition applies :: "string \<Rightarrow> (ResourceKind \<times> string \<times> spec option) option \<Rightarrow>
    ('db, 'xds) envoyControlPlane \<Rightarrow> ('db, 'xds) envoyControlPlane \<Rightarrow> bool" where
  "applies ns eff e e' \<longleftrightarrow>
     (\<forall>k. kind_map k e' =
       (case eff of
          Some (k', key, Some s) \<Rightarrow>
            if k' = k then fmupd key \<lparr>er_Name = key, er_Namespace = ns, er_Spec = s\<rparr> (kind_map k e) else kind_map k e
        | Some (k', key, None) \<Rightarrow> if k' = k then fmdrop key (kind_map k e) else kind_map k e
        | None \<Rightarrow> kind_map k e))"

lemma Insert_Delete_differ [simp]: "InsertOperation \<noteq> DeleteOperation" "DeleteOperation \<noteq> InsertOperation"
  by (simp_all add: InsertOperation_def DeleteOperation_def)

lemma processInsert_applies:
  assumes "processInsert E m e = Ok (e', err)" and "GetOperation m = InsertOperation"
  shows "applies (message_namespace m) (message_effect E m) e e'"
  using assms
  by (auto simp: processInsert_def message_effect_def applies_def Let_def split: result.splits option.splits if_splits)

lemma processDelete_applies:
  assumes "processDelete E m e = Ok (e', err)" and "GetOperation m = DeleteOperation"
  shows "applies (message_namespace m) (message_effect E m) e e'"
  using assms
  by (auto simp: processDelete_def message_effect_def applies_def Let_def split: result.splits option.splits if_splits)

lemma process_applies:
  assumes "process E m e = Ok e'"
  shows "applies (message_namespace m) (message_effect E m) e e'"
proof (cases "GetOperation m = InsertOperation \<or> GetOperation m = DeleteOperation")
  case True
  then show ?thesis
    using assms processInsert_applies processDelete_applies
    by (fastforce simp: process_def bind_iffs split: if_splits)
next
  case False
  then have "message_effect E m = None"
    by (simp add: message_effect_def split: result.splits option.splits prod.splits)
  with False assms show ?thesis by (simp add: process_def applies_def)
qed

lemma applies_held:
  assumes "applies ns eff e e'"
  shows "held e' k n = (case eff of Some (k', key, v) \<Rightarrow> if k' = k \<and> key = n then v else held e k n | None \<Rightarrow> held e k n)"
  using assms by (auto simp: applies_def held_def split: option.splits)

lemma message_effect_kind:
  assumes "typed_Unmarshal E" "message_effect E m = Some (k, key, Some s)"
  shows "spec_kind s = Some k"
  using assms by (auto simp: message_effect_def typed_Unmarshal_def split: result.splits option.splits if_splits)

lemma process_edge_inv:
  assumes "process E m e = Ok e'" "typed_Unmarshal E" "edge_inv e"
  shows "edge_inv e'"
proof -
  have ap: "applies (message_namespace m) (message_effect E m) e e'" by (rule process_applies [OF assms(1)])
  show ?thesis
  proof (cases "message_effect E m")
    case None
    with ap assms(3) show ?thesis by (simp add: applies_def edge_inv_def)
  next
    case (Some eff)
    then obtain k key v where eff: "message_effect E m = Some (k, key, v)" by (cases eff) auto
    show ?thesis
    proof (cases v)
      case None
      with ap assms(3) eff show ?thesis by (auto simp: applies_def edge_inv_def)
    next
      case (Some s)
      with eff have "spec_kind s = Some k" using message_effect_kind [OF assms(2)] by simp
      with ap assms(3) eff Some show ?thesis by (auto simp: applies_def edge_inv_def)
    qed
  qed
qed

lemma FlushXDSCache_maps: "FlushXDSCache E e = Ok e' \<Longrightarrow> kind_map k e' = kind_map k e"
  by (auto simp: FlushXDSCache_def Let_def split: result.splits)

text \<open>The main loop and the periodic flush, interleaved.\<close>

inductive edge_step :: "('db, 'xds) edge_env \<Rightarrow> ('db, 'xds) envoyControlPlane \<Rightarrow> ('db, 'xds) envoyControlPlane \<Rightarrow> bool" for E where
  message: "process E m e = Ok e' \<Longrightarrow> edge_step E e e'"
| flush: "FlushXDSCache E e = Ok e' \<Longrightarrow> edge_step E e e'"

lemma edge_step_inv: "edge_step E e e' \<Longrightarrow> typed_Unmarshal E \<Longrightarrow> edge_inv e \<Longrightarrow> edge_inv e'"
proof (induction rule: edge_step.induct)
  case (message m e e')
  then show ?case by (auto intro: process_edge_inv)
next
  case (flush e e')
  then show ?case by (simp add: edge_inv_def FlushXDSCache_maps)
qed


section \<open>An example\<close>

text \<open>A database that is a map from a table and an id to a row, and a cache with one snapshot for a node.\<close>

definition ex_edge :: "((string \<times> string, DaoResource) fmap, (string, Snapshot) fmap) edge_env" where
  "ex_edge =
     \<lparr>ee_Unmarshal = (\<lambda>k b. if k = ENDPOINT then Ok (EndpointSpec \<lparr>cla_ClusterName = b, cla_Endpoints = []\<rparr>) else Err ErrUnmarshal),
      ee_json_Marshal = (\<lambda>s. Ok ''{}''),
      ee_InsertOrReplace = (\<lambda>t r db. Ok (fmupd (t, dao_ID r) r db)),
      ee_DeleteWhereName = (\<lambda>t n db. Ok (fmfilter (\<lambda>(t', i). \<not> (t' = t \<and> dao_Name (the (fmlookup db (t', i))) = n)) db)),
      ee_SetSnapshot = (\<lambda>node sn xds. Ok (fmupd node sn xds)),
      ee_ord = sorted_list_of_fset\<rparr>"

definition ex_edge_start :: "((string \<times> string, DaoResource) fmap, (string, Snapshot) fmap) envoyControlPlane" where
  "ex_edge_start = newControlPlane True ''n1'' fmempty fmempty"

definition edge_message :: "string \<Rightarrow> string \<Rightarrow> string \<Rightarrow> Message" where
  "edge_message resource op body =
     FillBody (StringContent (b64_EncodeToString body)) (SetResourceOperation resource op NewRawMessage)"

lemma edge_message_simps [simp]:
  "GetResource (edge_message r op b) = r" "GetOperation (edge_message r op b) = op"
  "GetParentID (edge_message r op b) = []"
  "generateContent (edge_message r op b) = json_Marshal_string (b64_EncodeToString b)"
  by (simp_all add: edge_message_def message_defs generateContent_def)

lemma Unquote_b64 [simp]: "strconv_Unquote (json_Marshal_string (b64_EncodeToString b)) = Some (b64_EncodeToString b)"
  by (rule quoted.dec_enc [OF b64_encode_ascii])

lemma decode_edge_message:
  "decodeMessage (edge_message r op b) =
     bind (parseResource r) (\<lambda>(key, t). Ok (key, t, b64_EncodeToString b, b))"
  by (simp add: decodeMessage_def b64_decode_encode case_prod_unfold)

lemma ex_edge_typed: "typed_Unmarshal ex_edge"
  by (auto simp: typed_Unmarshal_def ex_edge_def split: if_splits)

lemma ex_effect:
  "message_effect ex_edge (edge_message ''ns/Endpoint/a'' InsertOperation b) =
     Some (ENDPOINT, ''ns/Endpoint/a'', Some (EndpointSpec \<lparr>cla_ClusterName = b, cla_Endpoints = []\<rparr>))"
  by (simp add: message_effect_def decode_edge_message parseResource_def kind_of_def ex_edge_def)

lemma ex_insert:
  "process ex_edge (edge_message ''ns/Endpoint/a'' InsertOperation b) e =
     Ok (e\<lparr>envoyEndpoints := fmupd ''ns/Endpoint/a''
             \<lparr>er_Name = ''ns/Endpoint/a'', er_Namespace = ''a'', er_Spec = EndpointSpec \<lparr>cla_ClusterName = b, cla_Endpoints = []\<rparr>\<rparr>
             (envoyEndpoints e),
           ecp_db := fmupd (''endpoint'', ''ns/Endpoint/a'')
             \<lparr>dao_Kind = ENDPOINT, dao_ID = ''ns/Endpoint/a'', dao_Name = ''ns/Endpoint/a'',
              dao_Value = b64_EncodeToString b, dao_JsonValue = ''{}''\<rparr> (ecp_db e)\<rparr>)"
  by (simp add: process_def processInsert_def decode_edge_message parseResource_def kind_of_def ex_edge_def
      message_namespace_def edge_GetNamespace_def InsertOrUpdateResource_def)


section \<open>What the maps hold\<close>

text \<open>
  C12: At every moment, however the messages and the flushes interleave, each of the five maps
  holds only messages of its own kind, every one under the name it carries, provided the protobuf
  decoder gives a message of the type it is asked for.
\<close>

theorem edge_maps_stay_typed:
  assumes "typed_Unmarshal E" and "(edge_step E)\<^sup>*\<^sup>* (newControlPlane enable node xds db) e"
  shows "edge_inv e"
  using assms(2)
  by (induction rule: rtranclp_induct) (auto intro: edge_inv_new edge_step_inv [OF _ assms(1)])

theorem edge_maps_stay_typed_witness:
  "\<exists>e. (edge_step ex_edge)\<^sup>*\<^sup>* ex_edge_start e \<and> held e ENDPOINT ''ns/Endpoint/a'' \<noteq> None \<and> edge_inv e"
proof -
  obtain e where e: "process ex_edge (edge_message ''ns/Endpoint/a'' InsertOperation ''x'') ex_edge_start = Ok e"
    "held e ENDPOINT ''ns/Endpoint/a'' \<noteq> None"
    by (simp add: ex_insert held_def)
  then have "(edge_step ex_edge)\<^sup>*\<^sup>* ex_edge_start e" by (intro r_into_rtranclp edge_step.message)
  with e edge_maps_stay_typed [OF ex_edge_typed] show ?thesis unfolding ex_edge_start_def by blast
qed

text \<open>A run of the main loop, one message at a time.\<close>

lemma run_append:
  "runEnvoyControlPlane E (ms @ ns) e = bind (runEnvoyControlPlane E ms e) (runEnvoyControlPlane E ns)"
proof (induction ms arbitrary: e)
  case (Cons m ms)
  then show ?case by (cases "process E m e") simp_all
qed simp

definition about :: "('db, 'xds) edge_env \<Rightarrow> ResourceKind \<Rightarrow> string \<Rightarrow> Message \<Rightarrow> bool" where
  "about E k n m \<longleftrightarrow> (\<exists>v. message_effect E m = Some (k, n, v))"

lemma run_not_about:
  assumes "runEnvoyControlPlane E ms e = Ok e'" and "\<And>m. m \<in> set ms \<Longrightarrow> \<not> about E k n m"
  shows "held e' k n = held e k n"
  using assms
proof (induction ms arbitrary: e)
  case (Cons m ms)
  then obtain e1 where e1: "process E m e = Ok e1" "runEnvoyControlPlane E ms e1 = Ok e'"
    by (auto simp: bind_iffs)
  with Cons have "held e' k n = held e1 k n" by simp
  moreover have "held e1 k n = held e k n"
    using applies_held [OF process_applies [OF e1(1)]] Cons.prems(2) [of m]
    by (auto simp: about_def split: option.splits)
  ultimately show ?case by simp
qed simp

text \<open>
  C7: The last message about a resource decides: after any run of messages, a resource that no
  later message is about is held with the content of its last insert message, or not at all
  when that was a delete message, whatever the messages before it said and whether or not the
  database accepted them.
\<close>

theorem last_message_decides:
  assumes "runEnvoyControlPlane E (before @ m # after) e = Ok e'"
    and "message_effect E m = Some (k, n, v)"
    and "\<forall>m'\<in>set after. \<not> about E k n m'"
  shows "held e' k n = v"
proof -
  from assms(1) obtain e1 e2 where "process E m e1 = Ok e2" "runEnvoyControlPlane E after e2 = Ok e'"
    by (auto simp: run_append bind_iffs)
  then show ?thesis
    using applies_held [OF process_applies, of E m e1 e2 k n] run_not_about [of E after e2 e' k n] assms(2,3) by simp
qed

theorem last_message_decides_witness:
  "\<exists>e'. runEnvoyControlPlane ex_edge
      ([edge_message ''ns/Endpoint/a'' InsertOperation ''x''] @ edge_message ''ns/Endpoint/a'' InsertOperation ''y'' # [])
      ex_edge_start = Ok e' \<and>
    held e' ENDPOINT ''ns/Endpoint/a'' = Some (EndpointSpec \<lparr>cla_ClusterName = ''y'', cla_Endpoints = []\<rparr>)"
proof -
  obtain e' where "runEnvoyControlPlane ex_edge
      ([edge_message ''ns/Endpoint/a'' InsertOperation ''x''] @ edge_message ''ns/Endpoint/a'' InsertOperation ''y'' # [])
      ex_edge_start = Ok e'"
    by (simp add: ex_insert)
  with last_message_decides [OF this ex_effect] show ?thesis by simp
qed


section \<open>The database\<close>

text \<open>
  What the control plane relies on of the database, where \<open>rows db t i\<close> is the row of table \<open>t\<close>
  with id \<open>i\<close>: \<open>INSERT OR REPLACE\<close> writes one row, the delete removes the rows with a name, and
  neither fails.
\<close>

definition db_law :: "('db, 'xds) edge_env \<Rightarrow> ('db \<Rightarrow> string \<Rightarrow> string \<Rightarrow> DaoResource option) \<Rightarrow> bool" where
  "db_law E rows \<longleftrightarrow>
     (\<forall>t r db. \<exists>db'. ee_InsertOrReplace E t r db = Ok db' \<and>
        (\<forall>t' i. rows db' t' i = (if t' = t \<and> i = dao_ID r then Some r else rows db t' i))) \<and>
     (\<forall>t n db. \<exists>db'. ee_DeleteWhereName E t n db = Ok db' \<and>
        (\<forall>t' i. rows db' t' i =
           (case rows db t' i of
              Some r \<Rightarrow> if t' = t \<and> dao_Name r = n then None else Some r
            | None \<Rightarrow> None)))"

text \<open>The resource a row stands for.\<close>

definition row_spec :: "('db, 'xds) edge_env \<Rightarrow> ResourceKind \<Rightarrow> DaoResource \<Rightarrow> spec option" where
  "row_spec E k r =
     (case b64_DecodeString (dao_Value r) of
        Some b \<Rightarrow> (case ee_Unmarshal E k b of Ok s \<Rightarrow> Some s | _ \<Rightarrow> None)
      | None \<Rightarrow> None)"

definition mirrored ::
  "('db, 'xds) edge_env \<Rightarrow> ('db \<Rightarrow> string \<Rightarrow> string \<Rightarrow> DaoResource option) \<Rightarrow> ('db, 'xds) envoyControlPlane \<Rightarrow> bool" where
  "mirrored E rows e \<longleftrightarrow>
     (\<forall>k n. case rows (ecp_db e) (TableName k) n of
        None \<Rightarrow> held e k n = None
      | Some r \<Rightarrow> dao_Name r = n \<and> held e k n = row_spec E k r \<and> held e k n \<noteq> None)"

lemma TableName_inject [simp]: "TableName a = TableName b \<longleftrightarrow> a = b"
  by (cases a; cases b) simp_all

lemma held_set [simp]:
  "held (set_kind_map k m e) k' n = (if k' = k then map_option er_Spec (fmlookup m n) else held e k' n)"
  by (simp add: held_def)

lemma held_db [simp]: "held (e\<lparr>ecp_db := d\<rparr>) k n = held e k n"
  by (simp add: held_def)

lemma decodeMessage_value:
  "decodeMessage m = Ok (key, t, tx, b) \<Longrightarrow> b64_DecodeString tx = Some b"
  by (auto simp: decodeMessage_def bind_iffs split: option.splits)

lemma processInsert_mirrored:
  assumes "processInsert E m e = Ok (e', err)" "db_law E rows" "\<forall>s. is_ok (ee_json_Marshal E s)" "mirrored E rows e"
  shows "mirrored E rows e'"
proof (cases "e' = e")
  case False
  then obtain key t tx b k s where d: "decodeMessage m = Ok (key, t, tx, b)" "kind_of t = Some k" "ee_Unmarshal E k b = Ok s"
    using assms(1) by (auto simp: processInsert_def split: result.splits option.splits)
  obtain j where j: "ee_json_Marshal E s = Ok j" using assms(3) by (meson is_ok.elims(2))
  define row where row: "row = \<lparr>dao_Kind = k, dao_ID = key, dao_Name = key, dao_Value = tx, dao_JsonValue = j\<rparr>"
  obtain db where db: "ee_InsertOrReplace E (TableName k) row (ecp_db e) = Ok db"
    "\<And>t' i. rows db t' i = (if t' = TableName k \<and> i = key then Some row else rows (ecp_db e) t' i)"
    using assms(2) unfolding db_law_def row by fastforce
  have "e' = (set_kind_map k (fmupd key \<lparr>er_Name = key, er_Namespace = message_namespace m, er_Spec = s\<rparr> (kind_map k e)) e)\<lparr>ecp_db := db\<rparr>"
    using assms(1) d j db(1) by (simp add: processInsert_def Let_def InsertOrUpdateResource_def row)
  moreover have row_key: "row_spec E k row = Some s" "dao_Name row = key"
    using d decodeMessage_value [OF d(1)] by (simp_all add: row_spec_def row)
  ultimately have held: "held e' k' n = (if k' = k \<and> n = key then Some s else held e k' n)"
    and rows: "rows (ecp_db e') (TableName k') n = (if k' = k \<and> n = key then Some row else rows (ecp_db e) (TableName k') n)" for k' n
    by (simp_all add: db(2) held_def)
  show ?thesis
    using assms(4) row_key unfolding mirrored_def held rows by (simp split: option.splits)
qed (use assms(4) in simp)

lemma processDelete_mirrored:
  assumes "processDelete E m e = Ok (e', err)" "db_law E rows" "mirrored E rows e"
  shows "mirrored E rows e'"
proof (cases "e' = e")
  case False
  then obtain key t tx b k where d: "decodeMessage m = Ok (key, t, tx, b)" "kind_of t = Some k"
    using assms(1) by (auto simp: processDelete_def split: result.splits option.splits)
  obtain db where db: "ee_DeleteWhereName E (TableName k) key (ecp_db e) = Ok db"
    "\<And>t' i. rows db t' i = (case rows (ecp_db e) t' i of
        Some r \<Rightarrow> if t' = TableName k \<and> dao_Name r = key then None else Some r | None \<Rightarrow> None)"
    using assms(2) unfolding db_law_def by meson
  have "e' = (set_kind_map k (fmdrop key (kind_map k e)) e)\<lparr>ecp_db := db\<rparr>"
    using assms(1) d db(1) by (simp add: processDelete_def Let_def DeleteResource_def)
  then have held: "held e' k' n = (if k' = k \<and> n = key then None else held e k' n)"
    and rows: "rows (ecp_db e') (TableName k') n = (case rows (ecp_db e) (TableName k') n of
        Some r \<Rightarrow> if k' = k \<and> dao_Name r = key then None else Some r | None \<Rightarrow> None)" for k' n
    by (simp_all add: db(2) held_def cong: option.case_cong)
  show ?thesis
    unfolding mirrored_def held rows
  proof (intro allI)
    fix k' n
    have "case rows (ecp_db e) (TableName k') n of
        None \<Rightarrow> held e k' n = None
      | Some r \<Rightarrow> dao_Name r = n \<and> held e k' n = row_spec E k' r \<and> held e k' n \<noteq> None"
      using assms(3) unfolding mirrored_def by blast
    then show "case case rows (ecp_db e) (TableName k') n of
        Some r \<Rightarrow> if k' = k \<and> dao_Name r = key then None else Some r | None \<Rightarrow> None of
        None \<Rightarrow> (if k' = k \<and> n = key then None else held e k' n) = None
      | Some r \<Rightarrow> dao_Name r = n \<and> (if k' = k \<and> n = key then None else held e k' n) = row_spec E k' r \<and>
          (if k' = k \<and> n = key then None else held e k' n) \<noteq> None"
      by (cases "rows (ecp_db e) (TableName k') n"; cases "k' = k \<and> n = key") auto
  qed
qed (use assms(3) in simp)


lemma ex_edge_db_law: "db_law ex_edge (\<lambda>db t i. fmlookup db (t, i))"
  by (auto simp: db_law_def ex_edge_def split: option.splits)



section \<open>Snapshots\<close>

fun published_of :: "ResourceKind \<Rightarrow> Snapshot \<Rightarrow> spec list" where
  "published_of SECRET sn = sn_secrets sn"
| "published_of ENDPOINT sn = sn_endpoints sn"
| "published_of CLUSTER sn = sn_clusters sn"
| "published_of ROUTE sn = sn_routes sn"
| "published_of LISTENER sn = sn_listeners sn"

lemma map_specs_set:
  assumes "range_order (ee_ord E)"
  shows "set (map_specs E (kind_map k e)) = {s. \<exists>n. held e k n = Some s}"
    and "length (map_specs E (kind_map k e)) = fcard (fmdom (kind_map k e))"
proof -
  note ord = range_orderD [OF assms]
  show "set (map_specs E (kind_map k e)) = {s. \<exists>n. held e k n = Some s}"
    using ord by (auto simp: map_specs_def held_def image_iff fmlookup_dom_iff) (metis fmdomI option.sel)+
  show "length (map_specs E (kind_map k e)) = fcard (fmdom (kind_map k e))"
    using ord by (simp add: map_specs_def fcard.rep_eq distinct_card [symmetric])
qed

text \<open>
  C15: A flush hands the snapshot cache, for the node's own name, a snapshot that holds for each
  kind exactly the resources the maps hold at that moment, as many as there are keys, under the
  next version; and it changes nothing else.
\<close>

theorem flush_publishes_the_maps:
  assumes "range_order (ee_ord E)"
    and "\<And>sn. ee_SetSnapshot E (nodeName e) sn (xdsCache e) = Ok (cache sn)"
  shows "\<exists>sn. FlushXDSCache E e = Ok (e\<lparr>ecp_version := ecp_version e + 1, xdsCache := cache sn\<rparr>) \<and>
    sn_version sn = strconv_Itoa (sint (ecp_version e + 1)) \<and> sn_runtimes sn = [] \<and>
    (\<forall>k. set (published_of k sn) = {s. \<exists>n. held e k n = Some s} \<and>
         length (published_of k sn) = fcard (fmdom (kind_map k e)))"
proof -
  define sn where "sn = \<lparr>sn_version = strconv_Itoa (sint (ecp_version e + 1)),
    sn_endpoints = map_specs E (kind_map ENDPOINT e), sn_clusters = map_specs E (kind_map CLUSTER e),
    sn_routes = map_specs E (kind_map ROUTE e), sn_listeners = map_specs E (kind_map LISTENER e), sn_runtimes = [],
    sn_secrets = map_specs E (kind_map SECRET e)\<rparr>"
  have "published_of k sn = map_specs E (kind_map k e)" for k
    by (cases k) (simp_all add: sn_def)
  moreover have "FlushXDSCache E e = Ok (e\<lparr>ecp_version := ecp_version e + 1, xdsCache := cache sn\<rparr>)"
    using assms(2) [of sn] by (simp add: FlushXDSCache_def Generate_def Let_def sn_def)
  ultimately show ?thesis
    by (intro exI [of _ sn]) (simp add: map_specs_set [OF assms(1)], simp add: sn_def)
qed

theorem flush_publishes_the_maps_witness:
  "\<exists>sn. FlushXDSCache ex_edge ex_edge_start =
     Ok (ex_edge_start\<lparr>ecp_version := 1, xdsCache := fmupd ''n1'' sn fmempty\<rparr>) \<and> sn_version sn = ''1'' \<and> sn_clusters sn = []"
proof -
  have set: "ee_SetSnapshot ex_edge (nodeName ex_edge_start) sn (xdsCache ex_edge_start) = Ok (fmupd ''n1'' sn fmempty)" for sn
    by (simp add: ex_edge_def ex_edge_start_def newControlPlane_def)
  have "range_order (ee_ord ex_edge)" by (simp add: ex_edge_def range_order_sorted)
  from flush_publishes_the_maps [OF this, where e = ex_edge_start, OF set] obtain sn where "FlushXDSCache ex_edge ex_edge_start =
      Ok (ex_edge_start\<lparr>ecp_version := ecp_version ex_edge_start + 1, xdsCache := fmupd ''n1'' sn fmempty\<rparr>)"
    "sn_version sn = strconv_Itoa (sint (ecp_version ex_edge_start + 1))"
    "length (published_of CLUSTER sn) = fcard (fmdom (kind_map CLUSTER ex_edge_start))"
    by blast
  then show ?thesis
    by (intro exI [of _ sn])
      (simp add: ex_edge_start_def newControlPlane_def strconv_Itoa_def nat_digits.simps digit_char_def
        char_of_def fcard.rep_eq bit_0)
qed

fun flushes :: "('db, 'xds) edge_env \<Rightarrow> nat \<Rightarrow> ('db, 'xds) envoyControlPlane \<Rightarrow> ('db, 'xds) envoyControlPlane result" where
  "flushes E 0 e = Ok e"
| "flushes E (Suc n) e = bind (FlushXDSCache E e) (flushes E n)"

lemma flushes_version: "flushes E n e = Ok e' \<Longrightarrow> ecp_version e' = ecp_version e + of_nat n"
proof (induction n arbitrary: e)
  case (Suc n)
  then obtain e1 where e1: "FlushXDSCache E e = Ok e1" "flushes E n e1 = Ok e'" by (auto simp: bind_iffs)
  then have "ecp_version e1 = ecp_version e + 1"
    by (auto simp: FlushXDSCache_def Let_def split: result.splits)
  with Suc.IH e1 show ?case by simp
qed simp

text \<open>
  The version string a snapshot carries comes back only after a multiple of two to the
  sixty-fourth flushes, so that no two snapshots a proxy can confuse have the same version.
\<close>

lemma snapshot_versions_repeat_after_wrap:
  assumes "flushes E n e = Ok e'"
  shows "strconv_Itoa (sint (ecp_version e')) = strconv_Itoa (sint (ecp_version e)) \<longleftrightarrow> 2 ^ 64 dvd n"
proof -
  have "strconv_Itoa (sint (ecp_version e')) = strconv_Itoa (sint (ecp_version e)) \<longleftrightarrow> ecp_version e' = ecp_version e"
    unfolding strconv_Itoa_inject by (rule word_eq_iff_signed [symmetric])
  also have "\<dots> \<longleftrightarrow> (of_nat n :: 64 word) = 0" using flushes_version [OF assms] by simp
  also have "\<dots> \<longleftrightarrow> 2 ^ 64 dvd n" by (simp add: word_of_nat_eq_0_iff)
  finally show ?thesis .
qed

lemma snapshot_versions_repeat_after_wrap_example:
  "\<exists>e'. flushes ex_edge 3 ex_edge_start = Ok e' \<and>
     strconv_Itoa (sint (ecp_version e')) \<noteq> strconv_Itoa (sint (ecp_version ex_edge_start))"
proof -
  obtain e' where "flushes ex_edge 3 ex_edge_start = Ok e'"
    by (simp add: numeral_3_eq_3 FlushXDSCache_def Generate_def Let_def ex_edge_def)
  with snapshot_versions_repeat_after_wrap [OF this] show ?thesis by auto
qed


section \<open>Messages that are refused and messages that crash\<close>

definition env_never_panics :: "('db, 'xds) edge_env \<Rightarrow> bool" where
  "env_never_panics E \<longleftrightarrow>
     (\<forall>k b p. ee_Unmarshal E k b \<noteq> Panic p) \<and> (\<forall>s p. ee_json_Marshal E s \<noteq> Panic p) \<and>
     (\<forall>t r db p. ee_InsertOrReplace E t r db \<noteq> Panic p) \<and> (\<forall>t n db p. ee_DeleteWhereName E t n db \<noteq> Panic p)"

definition crashes :: "Message \<Rightarrow> bool" where
  "crashes m \<longleftrightarrow> (GetOperation m = InsertOperation \<or> GetOperation m = DeleteOperation) \<and> CHR ''/'' \<notin> set (GetResource m)"

lemma parseResource_Panic: "parseResource r = Panic p \<longleftrightarrow> CHR ''/'' \<notin> set r \<and> p = IndexOutOfRange"
proof
  assume "parseResource r = Panic p"
  then have "length (strings_Split (CHR ''/'') r) < 2" "p = IndexOutOfRange"
    by (auto simp: parseResource_def split: list.splits)
  moreover have "CHR ''/'' \<in> set r \<Longrightarrow> 2 \<le> length (strings_Split (CHR ''/'') r)"
    by (induction r) (auto split: list.splits simp: Suc_le_eq length_strings_Split)
  ultimately show "CHR ''/'' \<notin> set r \<and> p = IndexOutOfRange" by auto
next
  assume "CHR ''/'' \<notin> set r \<and> p = IndexOutOfRange"
  then show "parseResource r = Panic p" by (simp add: parseResource_def strings_Split_no_sep)
qed

lemma parseResource_no_Err: "parseResource r \<noteq> Err er"
  by (simp add: parseResource_def split: list.splits)

lemma decodeMessage_Panic: "decodeMessage m = Panic p \<longleftrightarrow> CHR ''/'' \<notin> set (GetResource m) \<and> p = IndexOutOfRange"
  by (auto simp: decodeMessage_def bind_iffs parseResource_Panic split: option.splits)

lemma process_Panic:
  assumes "env_never_panics E"
  shows "process E m e = Panic p \<longleftrightarrow> crashes m \<and> p = IndexOutOfRange"
  using assms decodeMessage_Panic [of m]
  by (auto simp: process_def processInsert_def processDelete_def crashes_def bind_iffs env_never_panics_def Let_def
      InsertOrUpdateResource_def DeleteResource_def
      split: result.splits option.splits)

lemma process_no_Err: "process E m e \<noteq> Err er"
  by (auto simp: process_def processInsert_def processDelete_def bind_iffs Let_def split: result.splits option.splits)

text \<open>
  C24: The main loop gets through every run of messages, whatever they contain and whatever errors
  the decoder and the database report, unless one is an insert or delete message whose resource
  has no separator: that one ends the process with an index out of range.
\<close>

theorem main_loop_survives_iff:
  assumes "env_never_panics E"
  shows "(\<exists>e'. runEnvoyControlPlane E ms e = Ok e') \<longleftrightarrow> \<not> (\<exists>m\<in>set ms. crashes m)"
proof (induction ms arbitrary: e)
  case (Cons m ms)
  show ?case
  proof (cases "process E m e")
    case (Ok e1)
    moreover from this have "\<not> crashes m" using process_Panic [OF assms, of m e] by auto
    ultimately show ?thesis using Cons [of e1] by simp
  next
    case (Panic p)
    with process_Panic [OF assms, of m e] show ?thesis by auto
  next
    case (Err er)
    with process_no_Err show ?thesis by metis
  qed
qed simp

theorem main_loop_survives_iff_witness:
  "\<not> (\<exists>e'. runEnvoyControlPlane ex_edge [edge_message ''Endpoint'' InsertOperation ''x''] ex_edge_start = Ok e') \<and>
   (\<exists>e'. runEnvoyControlPlane ex_edge [edge_message ''ns/Unknown'' InsertOperation ''x''] ex_edge_start = Ok e')"
proof -
  have E: "env_never_panics ex_edge" by (simp add: env_never_panics_def ex_edge_def)
  show ?thesis unfolding main_loop_survives_iff [OF E] by (simp add: crashes_def)
qed

lemma Unquote_plain_text:
  assumes "\<And>c. c \<in> set s \<Longrightarrow> b64_text c"
  shows "strconv_Unquote s = None"
proof (cases s)
  case (Cons c cs)
  have "CHR 0x60 \<notin> set b64_alphabet" "char_quote \<notin> set b64_alphabet" "CHR 0x27 \<notin> set b64_alphabet"
    by (simp_all add: b64_alphabet_def char_quote_def)
  with Cons assms [of c] have "c \<noteq> CHR 0x60" "c \<noteq> char_quote" "c \<noteq> CHR 0x27"
    by (auto simp: b64_text_def char_quote_def)
  with Cons show ?thesis by (simp add: strconv_Unquote_def Let_def)
qed (simp add: strconv_Unquote_def)

text \<open>
  An insert or delete message whose content arrives as bytes is refused: the base64 text is
  not a quoted string, so the handler returns the error of \<open>strconv.Unquote\<close> and changes nothing.
\<close>

lemma bytes_content_is_refused:
  assumes "m_Content m = BytesContent (b64_EncodeToString b)" and "CHR ''/'' \<in> set (GetResource m)"
  shows "processInsert E m e = Ok (e, Some ErrUnquote) \<and> processDelete E m e = Ok (e, Some ErrUnquote)"
proof -
  obtain x where "parseResource (GetResource m) = Ok x"
    using parseResource_Panic [of "GetResource m"] parseResource_no_Err assms(2) by (cases "parseResource (GetResource m)") auto
  moreover have "strconv_Unquote (generateContent m) = None"
    using assms(1) b64_encode_text by (auto simp: generateContent_def intro!: Unquote_plain_text)
  ultimately have "decodeMessage m = Err ErrUnquote" by (simp add: decodeMessage_def case_prod_unfold)
  then show ?thesis by (simp add: processInsert_def processDelete_def)
qed

lemma bytes_content_example:
  "processInsert ex_edge ((edge_message ''ns/Endpoint/a'' InsertOperation ''x'')\<lparr>m_Content := BytesContent (b64_EncodeToString ''x'')\<rparr>)
     ex_edge_start = Ok (ex_edge_start, Some ErrUnquote)"
  by (rule bytes_content_is_refused [where b = "''x''", THEN conjunct1]) (simp_all add: edge_message_def message_defs)

end
