(* ===== verification/Viaduct.thy ===== *)
theory Viaduct
  imports Beehive_Message
begin

text \<open>
  The transport between cloud and edge (\<open>staging/.../viaduct/pkg\<close>): the packages of a byte stream
  (\<open>packer\<close>), the translation of messages (\<open>translator\<close>), the lanes of the two protocols
  (\<open>lane\<close>), the queue of received messages (\<open>fifo\<close>), the keeper of synchronous calls (\<open>keeper\<close>)
  and the handling of a received message (\<open>conn/ws.go\<close>, \<open>conn/quic.go\<close>). The protobuf encoding
  of a message is an argument.
\<close>

unbundle bit_operations_syntax


section \<open>Packages\<close>

type_synonym byte = "8 word"

record PackageHeader =
  ph_Version :: uint32
  ph_PackageType :: byte
  ph_Flags :: byte
  ph_PayloadLen :: uint32

definition HeaderSize :: nat where "HeaderSize = 10"

definition makeUpVersion :: "byte \<Rightarrow> byte \<Rightarrow> byte \<Rightarrow> uint32" where
  "makeUpVersion major minor fixv =
     push_bit 24 (ucast major) OR push_bit 16 (ucast minor) OR push_bit 8 (ucast fixv)"

definition breadDownVersion :: "uint32 \<Rightarrow> byte \<times> byte \<times> byte" where
  "breadDownVersion version =
     (ucast (drop_bit 24 version), ucast (drop_bit 16 version), ucast (drop_bit 8 version))"

definition NewPackageHeader :: "byte \<Rightarrow> PackageHeader" where
  "NewPackageHeader packageType =
     \<lparr>ph_Version = makeUpVersion 1 1 1, ph_PackageType = packageType, ph_Flags = 0, ph_PayloadLen = 0\<rparr>"

definition SetPayloadLen :: "uint32 \<Rightarrow> PackageHeader \<Rightarrow> PackageHeader" where
  "SetPayloadLen payloadLen h = h\<lparr>ph_PayloadLen := payloadLen\<rparr>"

text \<open>The four bytes of a number, high byte first, as \<open>byte(v>>24)\<close> and so on give them.\<close>

definition bytes4 :: "uint32 \<Rightarrow> byte list" where
  "bytes4 v = [ucast (drop_bit 24 v), ucast (drop_bit 16 v), ucast (drop_bit 8 v), ucast v]"

definition uint32_of :: "byte \<Rightarrow> byte \<Rightarrow> byte \<Rightarrow> byte \<Rightarrow> uint32" where
  "uint32_of a b c d = push_bit 24 (ucast a) OR push_bit 16 (ucast b) OR push_bit 8 (ucast c) OR ucast d"

definition Pack :: "PackageHeader \<Rightarrow> byte list \<Rightarrow> byte list" where
  "Pack h buffer = buffer @ bytes4 (ph_Version h) @ [ph_PackageType h, ph_Flags h] @ bytes4 (ph_PayloadLen h)"

text \<open>A header of fewer than ten bytes is indexed out of range.\<close>

fun Unpack :: "byte list \<Rightarrow> PackageHeader result" where
  "Unpack (v1 # v2 # v3 # v4 # t # f # l1 # l2 # l3 # l4 # _) =
     Ok \<lparr>ph_Version = uint32_of v1 v2 v3 v4, ph_PackageType = t, ph_Flags = f, ph_PayloadLen = uint32_of l1 l2 l3 l4\<rparr>"
| "Unpack _ = Panic IndexOutOfRange"

text \<open>What \<open>Writer.Write\<close> puts on the stream for a payload, and \<open>io.ReadFull\<close> on a stream.\<close>

definition Write :: "byte list \<Rightarrow> byte list" where
  "Write data = Pack (SetPayloadLen (of_nat (length data)) (NewPackageHeader 1)) [] @ data"

definition io_ReadFull :: "nat \<Rightarrow> byte list \<Rightarrow> (byte list \<times> byte list) result" where
  "io_ReadFull n stream =
     (if length stream < n then Err (if stream = [] then ErrEOF else ErrUnexpectedEOF)
      else Ok (take n stream, drop n stream))"

definition Read :: "byte list \<Rightarrow> (byte list \<times> byte list) result" where
  "Read stream =
     bind (io_ReadFull HeaderSize stream) (\<lambda>(headerBuffer, rest).
       bind (Unpack headerBuffer) (\<lambda>header. io_ReadFull (unat (ph_PayloadLen header)) rest))"


section \<open>Messages as protobuf\<close>

record ProtoMessage =
  pm_ID :: string
  pm_ParentID :: string
  pm_Timestamp :: int
  pm_Sync :: bool
  pm_Source :: string
  pm_Group :: string
  pm_Resouce :: string
  pm_Operaion :: string
  pm_Content :: string

text \<open>The body of a message; a message without a content gives no bytes.\<close>

definition body_bytes :: "content \<Rightarrow> string" where
  "body_bytes c =
     (case c of
        NilContent \<Rightarrow> []
      | BytesContent b \<Rightarrow> b
      | StringContent s \<Rightarrow> s
      | ObjectContent obj \<Rightarrow> ao_JSON obj)"

definition modelToProto :: "Message \<Rightarrow> ProtoMessage" where
  "modelToProto src =
     \<lparr>pm_ID = GetID src, pm_ParentID = GetParentID src, pm_Timestamp = mh_Timestamp (m_Header src),
      pm_Sync = mh_Sync (m_Header src), pm_Source = GetSource src, pm_Group = GetGroup src,
      pm_Resouce = GetResource src, pm_Operaion = GetOperation src, pm_Content = body_bytes (m_Content src)\<rparr>"

definition protoToModel :: "ProtoMessage \<Rightarrow> Message \<Rightarrow> Message" where
  "protoToModel src dst =
     (let msg = FillBody (BytesContent (pm_Content src))
            (BuildRouter (pm_Source src) (pm_Group src) (pm_Resouce src) (pm_Operaion src)
              (BuildHeader (pm_ID src) (pm_ParentID src) (pm_Timestamp src) dst))
      in msg\<lparr>m_Header := (m_Header msg)\<lparr>mh_Sync := pm_Sync src\<rparr>\<rparr>)"

record proto_codec =
  proto_Marshal :: "ProtoMessage \<Rightarrow> byte list result"
  proto_Unmarshal :: "byte list \<Rightarrow> ProtoMessage result"

definition Encode :: "proto_codec \<Rightarrow> Message \<Rightarrow> byte list result" where
  "Encode C msg = proto_Marshal C (modelToProto msg)"

definition Decode :: "proto_codec \<Rightarrow> byte list \<Rightarrow> Message \<Rightarrow> Message result" where
  "Decode C raw msg = bind (proto_Unmarshal C raw) (\<lambda>protoMessage. Ok (protoToModel protoMessage msg))"


section \<open>Lanes\<close>

text \<open>A QUIC lane on a stream: what is written, and the message read with the rest of the stream.\<close>

definition quic_WriteMessage :: "proto_codec \<Rightarrow> Message \<Rightarrow> byte list result" where
  "quic_WriteMessage C msg = bind (Encode C msg) (\<lambda>rawData. Ok (Write rawData))"

definition quic_ReadMessage :: "proto_codec \<Rightarrow> byte list \<Rightarrow> Message \<Rightarrow> (Message \<times> byte list) result" where
  "quic_ReadMessage C stream msg =
     bind (Read stream) (\<lambda>(rawData, rest). bind (Decode C rawData msg) (\<lambda>m. Ok (m, rest)))"

text \<open>
  A WebSocket lane writes a message with \<open>WriteJSON\<close> and reads it with \<open>ReadJSON\<close>. The fields of
  header and route are strings, a number and a boolean, which come back as they are. Of the content
  \<open>encoding/json\<close> brings back what its text says: nil and a string as they are, a byte slice as
  the string of its base64 text. An API object comes back as a generic map, which the contents of
  this model do not have, and strings with bytes above 127 are left out, because \<open>encoding/json\<close>
  replaces those that are not UTF-8.
\<close>

fun json_content :: "content \<Rightarrow> content option" where
  "json_content NilContent = Some NilContent"
| "json_content (StringContent s) = (if list_all ascii s then Some (StringContent s) else None)"
| "json_content (BytesContent b) = Some (StringContent (b64_EncodeToString b))"
| "json_content (ObjectContent obj) = None"

definition ascii_fields :: "Message \<Rightarrow> bool" where
  "ascii_fields msg \<longleftrightarrow>
     list_all (list_all ascii)
       [GetID msg, GetParentID msg, GetResourceVersion msg, GetSource msg, GetGroup msg, GetOperation msg, GetResource msg]"

definition ws_transfer :: "Message \<Rightarrow> Message option" where
  "ws_transfer msg =
     (if ascii_fields msg then map_option (\<lambda>c. msg\<lparr>m_Content := c\<rparr>) (json_content (m_Content msg)) else None)"

text \<open>\<open>WriteMessageAsync\<close> of both connections clears the flag of synchronous messages first.\<close>

definition async :: "Message \<Rightarrow> Message" where
  "async msg = msg\<lparr>m_Header := (m_Header msg)\<lparr>mh_Sync := False\<rparr>\<rparr>"


section \<open>The queue of received messages\<close>

definition MessageFiFoSizeMax :: nat where "MessageFiFoSizeMax = 100"

record MessageFifo =
  ff_buf :: "Message list"
  ff_closed :: bool

definition NewMessageFifo :: MessageFifo where
  "NewMessageFifo = \<lparr>ff_buf = [], ff_closed = False\<rparr>"

text \<open>
  \<open>Put\<close> by the reader of the connection, step by step, because the consumer takes messages in
  between: try to append, else take the oldest out, then append. A step that has to wait gives
  \<open>None\<close>.
\<close>

datatype put_at = Trying | Dropping | Pushing | PutDone

definition put_step :: "Message \<Rightarrow> put_at \<Rightarrow> MessageFifo \<Rightarrow> (put_at \<times> MessageFifo) option result" where
  "put_step msg pc f =
     (case pc of
        Trying \<Rightarrow>
          if ff_closed f then Panic ClosedChannel
          else if length (ff_buf f) < MessageFiFoSizeMax then Ok (Some (PutDone, f\<lparr>ff_buf := ff_buf f @ [msg]\<rparr>))
          else Ok (Some (Dropping, f))
      | Dropping \<Rightarrow>
          (case ff_buf f of
             [] \<Rightarrow> if ff_closed f then Ok (Some (Pushing, f)) else Ok None
           | _ # rest \<Rightarrow> Ok (Some (Pushing, f\<lparr>ff_buf := rest\<rparr>)))
      | Pushing \<Rightarrow>
          if ff_closed f then Panic ClosedChannel
          else if length (ff_buf f) < MessageFiFoSizeMax then Ok (Some (PutDone, f\<lparr>ff_buf := ff_buf f @ [msg]\<rparr>))
          else Ok None
      | PutDone \<Rightarrow> Ok (Some (PutDone, f)))"

text \<open>The steps in a row, which is \<open>Put\<close> when the consumer does not come in between.\<close>

definition Put :: "Message \<Rightarrow> MessageFifo \<Rightarrow> MessageFifo option result" where
  "Put msg f =
     bind (put_step msg Trying f) (\<lambda>s1. case s1 of None \<Rightarrow> Ok None | Some (pc1, f1) \<Rightarrow>
     bind (put_step msg pc1 f1) (\<lambda>s2. case s2 of None \<Rightarrow> Ok None | Some (pc2, f2) \<Rightarrow>
     bind (put_step msg pc2 f2) (\<lambda>s3. case s3 of None \<Rightarrow> Ok None | Some (pc3, f3) \<Rightarrow> Ok (Some f3))))"

text \<open>\<open>Get\<close> waits on an empty queue, and fails on an empty one that is closed.\<close>

definition Get :: "MessageFifo \<Rightarrow> (Message \<times> MessageFifo) option result" where
  "Get f =
     (case ff_buf f of
        m # rest \<Rightarrow> Ok (Some (m, f\<lparr>ff_buf := rest\<rparr>))
      | [] \<Rightarrow> if ff_closed f then Err ErrEOF else Ok None)"

definition fifo_Close :: "MessageFifo \<Rightarrow> MessageFifo" where
  "fifo_Close f = f\<lparr>ff_closed := True\<rparr>"


section \<open>Synchronous calls\<close>

text \<open>
  The keeper's channels have no room: a response is handed over only while the caller waits for it,
  otherwise it is dropped. Of a channel it is kept whether its caller waits and what it got.
\<close>

datatype waiting = Registered | Receiving | Responded Message

type_synonym SyncKeeper = "(string, waiting) fmap"

definition addKeepChannel :: "string \<Rightarrow> SyncKeeper \<Rightarrow> SyncKeeper" where
  "addKeepChannel msgID k = fmupd msgID Registered k"

definition sendToKeepChannel :: "Message \<Rightarrow> SyncKeeper \<Rightarrow> error option \<times> SyncKeeper" where
  "sendToKeepChannel msg k =
     (case fmlookup k (GetParentID msg) of
        Some Receiving \<Rightarrow> (None, fmupd (GetParentID msg) (Responded msg) k)
      | Some _ \<Rightarrow> (Some ErrChannelFull, k)
      | None \<Rightarrow> (Some ErrNotFound, k))"

definition Match :: "Message \<Rightarrow> SyncKeeper \<Rightarrow> bool" where
  "Match msg k \<longleftrightarrow> fmlookup k (GetParentID msg) \<noteq> None"

definition MatchAndNotify :: "Message \<Rightarrow> SyncKeeper \<Rightarrow> bool \<times> SyncKeeper" where
  "MatchAndNotify msg k = (if \<not> Match msg k then (False, k) else (True, snd (sendToKeepChannel msg k)))"

text \<open>The parts of \<open>WaitResponse\<close>: it waits, then it takes the response, or the timer ends it.\<close>

definition wait_start :: "string \<Rightarrow> SyncKeeper \<Rightarrow> SyncKeeper" where
  "wait_start msgID k = fmupd msgID Receiving k"

definition wait_end :: "string \<Rightarrow> SyncKeeper \<Rightarrow> Message result \<times> SyncKeeper" where
  "wait_end msgID k =
     ((case fmlookup k msgID of Some (Responded resp) \<Rightarrow> Ok resp | _ \<Rightarrow> Err ErrTimeout), fmdrop msgID k)"


section \<open>A received message\<close>

record connection =
  cn_autoRoute :: bool
  cn_fifo :: MessageFifo
  cn_keeper :: SyncKeeper
  cn_replies :: "Message list"
  cn_routed :: "Message list"

definition isControl :: "Message \<Rightarrow> bool" where
  "isControl msg \<longleftrightarrow> GetOperation msg \<in> {''config'', ''ping'', ''pong''}"

text \<open>
  \<open>handleMessage\<close> of a WebSocket connection, for one message: control messages are answered, responses
  go to their caller, and the others into the queue or to the handler. The answer's id and time
  are arguments.
\<close>

definition ws_handleMessage :: "string \<Rightarrow> int \<Rightarrow> Message \<Rightarrow> connection \<Rightarrow> connection option result" where
  "ws_handleMessage uuid now msg c =
     (if isControl msg then
        Ok (Some (c\<lparr>cn_replies := cn_replies c @ [NewRespByMessage uuid now msg (StringContent ''ack'')]\<rparr>))
      else
        (let (matched, k) = MatchAndNotify msg (cn_keeper c); c1 = c\<lparr>cn_keeper := k\<rparr>
         in if matched then Ok (Some c1)
            else if \<not> cn_autoRoute c1 then
              bind (Put msg (cn_fifo c1)) (\<lambda>r. Ok (map_option (\<lambda>f. c1\<lparr>cn_fifo := f\<rparr>) r))
            else Ok (Some (c1\<lparr>cn_routed := cn_routed c1 @ [msg]\<rparr>))))"

definition quic_handleMessage :: "Message \<Rightarrow> connection \<Rightarrow> connection option result" where
  "quic_handleMessage msg c =
     (let (matched, k) = MatchAndNotify msg (cn_keeper c); c1 = c\<lparr>cn_keeper := k\<rparr>
      in if matched then Ok (Some c1)
         else if \<not> cn_autoRoute c1 then
           bind (Put msg (cn_fifo c1)) (\<lambda>r. Ok (map_option (\<lambda>f. c1\<lparr>cn_fifo := f\<rparr>) r))
         else Ok (Some (c1\<lparr>cn_routed := cn_routed c1 @ [msg]\<rparr>)))"

end
