(* ===== verification/Viaduct_Props.thy ===== *)
theory Viaduct_Props
  imports Viaduct
begin

text \<open>
  Properties of the transport: what is written to a stream of packages is read back, what QUIC makes
  of a message, what a burst of messages leaves in the queue, and which response reaches a caller.
\<close>

section \<open>Packages\<close>

lemma uint32_of_bytes4:
  "uint32_of (ucast (drop_bit 24 v)) (ucast (drop_bit 16 v)) (ucast (drop_bit 8 v)) (ucast v) = v"
proof (rule bit_word_eqI)
  fix n
  assume "n < LENGTH(32)"
  then consider "n < 8" | "8 \<le> n" "n < 16" | "16 \<le> n" "n < 24" | "24 \<le> n" "n < 32" by fastforce
  then show "bit (uint32_of (ucast (drop_bit 24 v)) (ucast (drop_bit 16 v)) (ucast (drop_bit 8 v)) (ucast v)) n = bit v n"
    by cases (auto simp: uint32_of_def bit_simps)
qed

lemma length_Pack: "length (Pack h []) = HeaderSize"
  by (simp add: Pack_def bytes4_def HeaderSize_def)

lemma Unpack_Pack: "Unpack (Pack h [] @ rest) = Ok h"
  by (simp add: Pack_def bytes4_def uint32_of_bytes4)

text \<open>The packages of a stream, read one after the other.\<close>

fun read_all :: "nat \<Rightarrow> byte list \<Rightarrow> byte list list result" where
  "read_all 0 stream = Ok []"
| "read_all (Suc n) stream =
     bind (Read stream) (\<lambda>(data, rest). bind (read_all n rest) (\<lambda>ds. Ok (data # ds)))"

lemma Read_Write:
  assumes "length data < 2 ^ 32"
  shows "Read (Write data @ rest) = Ok (data, rest)"
proof -
  define h where "h = SetPayloadLen (of_nat (length data)) (NewPackageHeader 1)"
  have "io_ReadFull HeaderSize (Pack h [] @ data @ rest) = Ok (Pack h [], data @ rest)"
    using length_Pack [of h] by (simp add: io_ReadFull_def)
  moreover have "Unpack (Pack h []) = Ok h" using Unpack_Pack [of h "[]"] by simp
  moreover have "unat (ph_PayloadLen h) = length data"
    using assms by (simp add: h_def SetPayloadLen_def unat_of_nat take_bit_eq_mod)
  ultimately show ?thesis
    by (simp add: Read_def Write_def h_def [symmetric] io_ReadFull_def [of "length data"])
qed

text \<open>
  C37: Every sequence of payloads that a writer puts on a stream, each shorter than four gibibytes,
  is read back payload by payload, in order, whatever the payloads contain.
\<close>

theorem packages_roundtrip:
  assumes "\<forall>d\<in>set ds. length d < 2 ^ 32"
  shows "read_all (length ds) (concat (map Write ds)) = Ok ds"
  using assms by (induction ds) (simp_all add: Read_Write)

theorem packages_roundtrip_witness:
  "read_all (length [[1, 2, 3 :: byte], []]) (concat (map Write [[1, 2, 3], []])) = Ok [[1, 2, 3], []]"
  by (rule packages_roundtrip) simp

text \<open>
  The length field wraps: of a payload of four gibibytes or more a reader gets only as many bytes
  as the length modulo two to the thirty-second says, and takes the rest for the next package.
\<close>

lemma long_payload_is_truncated:
  shows "Read (Write data) =
    Ok (take (length data mod 2 ^ 32) data, drop (length data mod 2 ^ 32) data)"
proof -
  define h where "h = SetPayloadLen (of_nat (length data)) (NewPackageHeader 1)"
  have "io_ReadFull HeaderSize (Pack h [] @ data) = Ok (Pack h [], data)"
    using length_Pack [of h] by (simp add: io_ReadFull_def)
  moreover have "Unpack (Pack h []) = Ok h" using Unpack_Pack [of h "[]"] by simp
  moreover have "unat (ph_PayloadLen h) = length data mod 2 ^ 32"
    by (simp add: h_def SetPayloadLen_def unat_of_nat take_bit_eq_mod)
  moreover have "io_ReadFull (length data mod 2 ^ 32) data =
      Ok (take (length data mod 2 ^ 32) data, drop (length data mod 2 ^ 32) data)"
    by (simp add: io_ReadFull_def not_less del: One_nat_def)
  ultimately show ?thesis
    by (simp add: Read_def Write_def h_def [symmetric])
qed


section \<open>Messages over QUIC\<close>

text \<open>
  What the protobuf package promises, as \<open>proto.Marshal\<close> and \<open>proto.Unmarshal\<close> document it: a
  message that was encoded is decoded to itself.
\<close>

definition proto_law :: "proto_codec \<Rightarrow> bool" where
  "proto_law C \<longleftrightarrow> (\<forall>p b. proto_Marshal C p = Ok b \<longrightarrow> proto_Unmarshal C b = Ok p)"

text \<open>The message QUIC delivers: without its resource version, and its content as bytes.\<close>

definition quic_transfer :: "Message \<Rightarrow> Message" where
  "quic_transfer m = (SetResourceVersion [] m)\<lparr>m_Content := BytesContent (body_bytes (m_Content m))\<rparr>"

lemma proto_roundtrip: "protoToModel (modelToProto m) NewRawMessage = quic_transfer m"
  by (cases m; cases "m_Header m"; cases "m_Router m")
    (simp add: protoToModel_def modelToProto_def quic_transfer_def message_defs)

text \<open>
  Over QUIC a message arrives with its header and route, except that the resource version is lost,
  and with its content turned into bytes, whatever it was before.
\<close>

lemma quic_delivers_without_version:
  assumes "proto_law C" and "quic_WriteMessage C m = Ok stream"
    and "\<And>b. proto_Marshal C (modelToProto m) = Ok b \<Longrightarrow> length b < 2 ^ 32"
  shows "quic_ReadMessage C (stream @ rest) NewRawMessage = Ok (quic_transfer m, rest)"
proof -
  obtain raw where raw: "proto_Marshal C (modelToProto m) = Ok raw" "stream = Write raw"
    using assms(2) by (auto simp: quic_WriteMessage_def Encode_def bind_iffs)
  moreover have "proto_Unmarshal C raw = Ok (modelToProto m)" using assms(1) raw(1) by (simp add: proto_law_def)
  ultimately show ?thesis
    using Read_Write [OF assms(3)] by (simp add: quic_ReadMessage_def Decode_def proto_roundtrip)
qed

definition ex_message :: Message where
  "ex_message = FillBody (StringContent ''hi'') (SetResourceVersion ''7'' (SetResourceOperation ''ns/Route/a'' InsertOperation NewRawMessage))"

definition ex_codec :: proto_codec where
  "ex_codec = \<lparr>proto_Marshal = (\<lambda>p. if p = modelToProto ex_message then Ok [42] else Err ErrMarshal),
     proto_Unmarshal = (\<lambda>b. if b = [42] then Ok (modelToProto ex_message) else Err ErrUnmarshal)\<rparr>"

lemma quic_delivers_without_version_example:
  "quic_ReadMessage ex_codec (Write [42]) NewRawMessage = Ok (quic_transfer ex_message, []) \<and>
   GetResourceVersion (quic_transfer ex_message) = [] \<and> m_Content (quic_transfer ex_message) = BytesContent ''hi''"
proof -
  have "quic_ReadMessage ex_codec (Write [42] @ []) NewRawMessage = Ok (quic_transfer ex_message, [])"
    by (rule quic_delivers_without_version)
      (auto simp: proto_law_def ex_codec_def quic_WriteMessage_def Encode_def split: if_splits)
  then show ?thesis
    by (simp add: quic_transfer_def ex_message_def message_defs body_bytes_def)
qed


section \<open>The queue of received messages\<close>

lemma Put_open:
  assumes "\<not> ff_closed f" and "length (ff_buf f) \<le> MessageFiFoSizeMax"
  shows "Put m f = Ok (Some (f\<lparr>ff_buf := (if length (ff_buf f) < MessageFiFoSizeMax then ff_buf f else tl (ff_buf f)) @ [m]\<rparr>))"
proof (cases "length (ff_buf f) < MessageFiFoSizeMax")
  case True
  with assms show ?thesis by (simp add: Put_def put_step_def)
next
  case False
  then obtain x xs where "ff_buf f = x # xs" by (cases "ff_buf f") (auto simp: MessageFiFoSizeMax_def)
  with False assms show ?thesis by (simp add: Put_def put_step_def)
qed

text \<open>The reader puts messages one after the other while nobody takes any.\<close>

fun put_all :: "Message list \<Rightarrow> MessageFifo \<Rightarrow> MessageFifo option result" where
  "put_all [] f = Ok (Some f)"
| "put_all (m # ms) f = bind (Put m f) (\<lambda>r. case r of None \<Rightarrow> Ok None | Some f' \<Rightarrow> put_all ms f')"

definition newest :: "'a list \<Rightarrow> 'a list" where
  "newest xs = drop (length xs - MessageFiFoSizeMax) xs"

lemma newest_snoc:
  "(if length (newest xs) < MessageFiFoSizeMax then newest xs else tl (newest xs)) @ [y] = newest (xs @ [y])"
proof (cases "length xs < MessageFiFoSizeMax")
  case False
  then have "Suc (length xs) - MessageFiFoSizeMax = Suc (length xs - MessageFiFoSizeMax)" by simp
  moreover have "0 < MessageFiFoSizeMax" by (simp add: MessageFiFoSizeMax_def)
  ultimately show ?thesis using False by (simp add: newest_def tl_drop drop_Suc)
qed (simp add: newest_def)

text \<open>
  C38: A burst of messages that arrives faster than the edge takes them leaves the newest hundred in the
  queue: the older ones are dropped, and no error is reported to anyone.
\<close>

theorem burst_keeps_newest_hundred:
  assumes "\<not> ff_closed f" and "ff_buf f = newest old"
  shows "put_all ms f = Ok (Some (f\<lparr>ff_buf := newest (old @ ms)\<rparr>))"
  using assms
proof (induction ms arbitrary: f old)
  case (Cons m ms)
  have "length (newest old) \<le> MessageFiFoSizeMax" by (auto simp: newest_def)
  then have "Put m f = Ok (Some (f\<lparr>ff_buf := newest (old @ [m])\<rparr>))"
    using Put_open [OF Cons.prems(1), of m] unfolding Cons.prems(2) newest_snoc by blast
  then show ?case
    using Cons.IH [of "f\<lparr>ff_buf := newest (old @ [m])\<rparr>" "old @ [m]"] Cons.prems(1) by simp
qed simp

theorem burst_keeps_newest_hundred_witness:
  "\<exists>f. put_all (map (\<lambda>i. UpdateID (strconv_Itoa (int i)) NewRawMessage) [0..<130]) NewMessageFifo = Ok (Some f) \<and>
     length (ff_buf f) = 100 \<and> GetID (hd (ff_buf f)) = strconv_Itoa 30"
proof -
  let ?ms = "map (\<lambda>i. UpdateID (strconv_Itoa (int i)) NewRawMessage) [0..<130]"
  have "put_all ?ms NewMessageFifo = Ok (Some (NewMessageFifo\<lparr>ff_buf := newest ([] @ ?ms)\<rparr>))"
    by (rule burst_keeps_newest_hundred) (simp_all add: NewMessageFifo_def newest_def)
  moreover have "newest ?ms = map (\<lambda>i. UpdateID (strconv_Itoa (int i)) NewRawMessage) [30..<130]"
    by (simp add: newest_def MessageFiFoSizeMax_def drop_map)
  moreover have "hd [30..<130] = (30 :: nat)" by (subst upt_conv_Cons) simp_all
  ultimately show ?thesis by (simp add: hd_map UpdateID_def GetID_def)
qed

text \<open>
  The reader can stop for good: it found the queue full, and before it drops a message the consumer
  empties the queue. The reader alone fills the queue, so it waits for ever.
\<close>

lemma put_can_stall:
  assumes "\<not> ff_closed f" and "length (ff_buf f) = MessageFiFoSizeMax"
  shows "put_step m Trying f = Ok (Some (Dropping, f)) \<and> put_step m Dropping (f\<lparr>ff_buf := []\<rparr>) = Ok None"
  using assms by (simp add: put_step_def)


section \<open>Responses\<close>

lemma MatchAndNotify_other:
  "n \<noteq> GetParentID m \<Longrightarrow> fmlookup (snd (MatchAndNotify m k)) n = fmlookup k n"
  by (auto simp: MatchAndNotify_def sendToKeepChannel_def split: option.splits waiting.splits)

text \<open>The steps of the keeper: a call registers and waits, messages arrive, calls end.\<close>

inductive keeper_step :: "SyncKeeper \<Rightarrow> SyncKeeper \<Rightarrow> bool" where
  register: "keeper_step k (addKeepChannel i k)"
| receive: "fmlookup k i = Some Registered \<Longrightarrow> keeper_step k (wait_start i k)"
| arrive: "keeper_step k (snd (MatchAndNotify m k))"
| finish: "keeper_step k (snd (wait_end i k))"

definition keeper_inv :: "SyncKeeper \<Rightarrow> bool" where
  "keeper_inv k \<longleftrightarrow> (\<forall>i m. fmlookup k i = Some (Responded m) \<longrightarrow> GetParentID m = i)"

lemma keeper_step_inv: "keeper_step k k' \<Longrightarrow> keeper_inv k \<Longrightarrow> keeper_inv k'"
proof (induction rule: keeper_step.induct)
  case (arrive k m)
  then show ?case
    by (auto simp: keeper_inv_def MatchAndNotify_def sendToKeepChannel_def split: option.splits waiting.splits if_splits)
qed (auto simp: keeper_inv_def addKeepChannel_def wait_start_def wait_end_def split: if_splits)

text \<open>
  C39: A synchronous call that ends with a message ends with a response to its own request: whatever
  messages arrive and however the calls of a connection interleave, the parent of the message is
  the id the call was registered under.
\<close>

theorem sync_call_gets_its_own_response:
  assumes "keeper_step\<^sup>*\<^sup>* fmempty k" and "fst (wait_end i k) = Ok resp"
  shows "GetParentID resp = i"
proof -
  have "keeper_inv k"
    using assms(1)
  proof (induction rule: rtranclp_induct)
    case base
    show ?case by (simp add: keeper_inv_def)
  next
    case (step k k')
    then show ?case by (blast intro: keeper_step_inv)
  qed
  with assms(2) show ?thesis
    by (auto simp: wait_end_def keeper_inv_def split: option.splits waiting.splits)
qed


definition ex_response :: Message where
  "ex_response = NewRespByMessage ''r'' 0 (UpdateID ''q'' NewRawMessage) (StringContent ''OK'')"

theorem sync_call_gets_its_own_response_witness:
  "\<exists>k. keeper_step\<^sup>*\<^sup>* fmempty k \<and> fst (wait_end ''q'' k) = Ok ex_response \<and> GetParentID ex_response = ''q''"
proof -
  define k where "k = snd (MatchAndNotify ex_response (wait_start ''q'' (addKeepChannel ''q'' fmempty)))"
  have parent: "GetParentID ex_response = ''q''"
    by (simp add: ex_response_def message_defs)
  have "keeper_step\<^sup>*\<^sup>* fmempty (wait_start ''q'' (addKeepChannel ''q'' fmempty))"
    by (rule rtranclp.rtrancl_into_rtrancl [OF r_into_rtranclp [where r = keeper_step, OF keeper_step.register]])
      (rule keeper_step.receive, simp add: addKeepChannel_def)
  then have run: "keeper_step\<^sup>*\<^sup>* fmempty k"
    unfolding k_def by (rule rtranclp.rtrancl_into_rtrancl) (rule keeper_step.arrive)
  have "fst (wait_end ''q'' k) = Ok ex_response"
    by (simp add: k_def wait_end_def MatchAndNotify_def Match_def sendToKeepChannel_def wait_start_def parent)
  with run sync_call_gets_its_own_response [OF run] show ?thesis by blast
qed

text \<open>A response that arrives before its caller waits is consumed and lost: nobody gets it.\<close>

lemma early_response_is_lost:
  assumes "fmlookup k (GetParentID m) = Some Registered"
  shows "MatchAndNotify m k = (True, k)"
  using assms by (simp add: MatchAndNotify_def Match_def sendToKeepChannel_def)

end
