(* ===== verification/Beehive_Context.thy ===== *)
theory Beehive_Context
  imports Beehive_Message "HOL-Library.Multiset"
begin

text \<open>
  The message bus between the modules of a process (\<open>staging/.../beehive/pkg/core/context\<close>): the
  channels of the modules and groups, synchronous calls and their responses. Channels are objects
  in a heap, because a module's channel is reached by its name and through its group. The locks
  of the two channel maps are always released by the function that took them; the lock of the
  anonymous channels is part of the state, because a response is sent while it is held.
\<close>

section \<open>Channels\<close>

record 'm chan =
  ch_cap :: nat
  ch_buf :: "'m list"
  ch_closed :: bool

record ChannelContext =
  channels :: "(string, nat) fmap"
  typeChannels :: "(string, (string, nat) fmap) fmap"
  anonChannels :: "(string, nat) fmap"
  anonChsLock :: rwlock
  heap :: "(nat, Message chan) fmap"
  fresh_id :: nat

definition ChannelSizeDefault :: nat where "ChannelSizeDefault = 1024"

definition NewChannelContext :: ChannelContext where
  "NewChannelContext =
     \<lparr>channels = fmempty, typeChannels = fmempty, anonChannels = fmempty, anonChsLock = lk_free,
      heap = fmempty, fresh_id = 0\<rparr>"

definition make_chan :: "nat \<Rightarrow> ChannelContext \<Rightarrow> nat \<times> ChannelContext" where
  "make_chan cap ctx =
     (fresh_id ctx, ctx\<lparr>heap := fmupd (fresh_id ctx) \<lparr>ch_cap = cap, ch_buf = [], ch_closed = False\<rparr> (heap ctx),
                        fresh_id := Suc (fresh_id ctx)\<rparr>)"

definition close_chan :: "nat \<Rightarrow> ChannelContext \<Rightarrow> ChannelContext" where
  "close_chan i ctx = ctx\<lparr>heap := fmmap_keys (\<lambda>j c. if j = i then c\<lparr>ch_closed := True\<rparr> else c) (heap ctx)\<rparr>"

text \<open>A send on a channel: done, waiting for room, or a panic on a closed channel.\<close>

datatype sent = SentTo ChannelContext | NoRoom | SentOnClosed

definition chan_send :: "nat \<Rightarrow> Message \<Rightarrow> ChannelContext \<Rightarrow> sent" where
  "chan_send i m ctx =
     (case fmlookup (heap ctx) i of
        None \<Rightarrow> NoRoom
      | Some c \<Rightarrow>
          if ch_closed c then SentOnClosed
          else if length (ch_buf c) < ch_cap c
          then SentTo (ctx\<lparr>heap := fmupd i (c\<lparr>ch_buf := ch_buf c @ [m]\<rparr>) (heap ctx)\<rparr>)
          else NoRoom)"


section \<open>Modules\<close>

definition getChannel :: "ChannelContext \<Rightarrow> string \<Rightarrow> nat option" where
  "getChannel ctx module = fmlookup (channels ctx) module"

definition addChannel :: "string \<Rightarrow> nat \<Rightarrow> ChannelContext \<Rightarrow> ChannelContext" where
  "addChannel module ch ctx = ctx\<lparr>channels := fmupd module ch (channels ctx)\<rparr>"

definition addTypeChannel :: "string \<Rightarrow> string \<Rightarrow> nat \<Rightarrow> ChannelContext \<Rightarrow> ChannelContext" where
  "addTypeChannel module grp ch ctx =
     ctx\<lparr>typeChannels :=
        fmupd grp (fmupd module ch (case fmlookup (typeChannels ctx) grp of None \<Rightarrow> fmempty | Some g \<Rightarrow> g))
          (typeChannels ctx)\<rparr>"

definition AddModule :: "string \<Rightarrow> ChannelContext \<Rightarrow> ChannelContext" where
  "AddModule module ctx = (let (ch, ctx1) = make_chan ChannelSizeDefault ctx in addChannel module ch ctx1)"

definition AddModuleGroup :: "string \<Rightarrow> string \<Rightarrow> ChannelContext \<Rightarrow> ChannelContext" where
  "AddModuleGroup module grp ctx =
     (case getChannel ctx module of None \<Rightarrow> ctx | Some ch \<Rightarrow> addTypeChannel module grp ch ctx)"

text \<open>The first group, in the order of the \<open>range\<close>, that has the module loses it.\<close>

fun remove_first :: "string \<Rightarrow> string list \<Rightarrow> (string, (string, nat) fmap) fmap \<Rightarrow> (string, (string, nat) fmap) fmap" where
  "remove_first module [] t = t"
| "remove_first module (g # gs) t =
     (case fmlookup t g of
        None \<Rightarrow> remove_first module gs t
      | Some mods \<Rightarrow>
          if fmlookup mods module \<noteq> None then fmupd g (fmdrop module mods) t else remove_first module gs t)"

definition delChannel :: "string order \<Rightarrow> string \<Rightarrow> ChannelContext \<Rightarrow> ChannelContext" where
  "delChannel ord module ctx =
     (if fmlookup (channels ctx) module = None then ctx
      else ctx\<lparr>channels := fmdrop module (channels ctx),
               typeChannels := remove_first module (ord (fmdom (typeChannels ctx))) (typeChannels ctx)\<rparr>)"

definition getTypeChannel :: "ChannelContext \<Rightarrow> string \<Rightarrow> (string, nat) fmap option" where
  "getTypeChannel ctx moduleType = fmlookup (typeChannels ctx) moduleType"

text \<open>\<open>StartModules\<close>: the registered modules with their groups, in the order of the \<open>range\<close>.\<close>

definition StartModules :: "(string \<times> string) list \<Rightarrow> ChannelContext" where
  "StartModules modules =
     fold (\<lambda>(name, grp) ctx. AddModuleGroup name grp (AddModule name ctx)) modules NewChannelContext"


section \<open>Sending and receiving\<close>

text \<open>
  \<open>Send\<close> recovers from the panic of a closed channel; a call that has to wait gives \<open>None\<close>.
\<close>

definition ctx_Send :: "string \<Rightarrow> Message \<Rightarrow> ChannelContext \<Rightarrow> ChannelContext option" where
  "ctx_Send module message ctx =
     (case getChannel ctx module of
        None \<Rightarrow> Some ctx
      | Some ch \<Rightarrow>
          (case chan_send ch message ctx of SentTo ctx' \<Rightarrow> Some ctx' | SentOnClosed \<Rightarrow> Some ctx | NoRoom \<Rightarrow> None))"

text \<open>
  A receive from a channel: a message, or the zero message of a closed empty channel, or waiting.
\<close>

definition chan_receive :: "nat \<Rightarrow> ChannelContext \<Rightarrow> (Message \<times> ChannelContext) option" where
  "chan_receive i ctx =
     (case fmlookup (heap ctx) i of
        None \<Rightarrow> None
      | Some c \<Rightarrow>
          (case ch_buf c of
             m # rest \<Rightarrow> Some (m, ctx\<lparr>heap := fmupd i (c\<lparr>ch_buf := rest\<rparr>) (heap ctx)\<rparr>)
           | [] \<Rightarrow> if ch_closed c then Some (NewRawMessage, ctx) else None))"

definition ctx_Receive :: "string \<Rightarrow> ChannelContext \<Rightarrow> (Message \<times> ChannelContext) option result" where
  "ctx_Receive module ctx =
     (case getChannel ctx module of None \<Rightarrow> Err ErrNotFound | Some ch \<Rightarrow> Ok (chan_receive ch ctx))"


section \<open>The bus\<close>

text \<open>
  The goroutines that are on the way: a group send that has not found room yet, a cleanup before it
  closes the channel, the stages of a synchronous call, and the stages of a response. A stage that
  needs the lock for writing first announces itself, which keeps new readers out, and goes on when
  the readers have left.
\<close>

datatype thread =
    GroupSend nat Message
  | Closing nat
  | SyncSend nat Message
  | SyncRegister Message
  | SyncRegistering Message
  | SyncWait string nat
  | SyncClean string nat "Message result"
  | SyncCleaning string nat "Message result"
  | RespSend nat Message

record bus =
  b_ctx :: ChannelContext
  b_threads :: "thread multiset"
  b_results :: "(string \<times> Message result) list"
  b_received :: "(string \<times> Message) list"

definition lk_announce :: "rwlock \<Rightarrow> rwlock option" where
  "lk_announce l = (if lk_writer l \<or> lk_waiting l then None else Some (l\<lparr>lk_waiting := True\<rparr>))"

text \<open>A writer that has announced itself gets the lock and, after its short section, leaves it.\<close>

definition lk_pass :: "rwlock \<Rightarrow> rwlock option" where
  "lk_pass l = (if lk_waiting l \<and> lk_readers l = 0 then Some (l\<lparr>lk_waiting := False\<rparr>) else None)"

definition set_sync :: "Message \<Rightarrow> Message" where
  "set_sync message = message\<lparr>m_Header := (m_Header message)\<lparr>mh_Sync := True\<rparr>\<rparr>"

definition SendToGroup_threads :: "string order \<Rightarrow> string \<Rightarrow> Message \<Rightarrow> ChannelContext \<Rightarrow> thread list" where
  "SendToGroup_threads ord moduleType message ctx =
     (case getTypeChannel ctx moduleType of
        None \<Rightarrow> []
      | Some list \<Rightarrow> map (\<lambda>module. GroupSend (the (fmlookup list module)) message) (ord (fmdom list)))"

text \<open>The start of a synchronous call: an error at once for an unknown module.\<close>

definition SendSync_start :: "string \<Rightarrow> Message \<Rightarrow> bus \<Rightarrow> bus" where
  "SendSync_start module message b =
     (case getChannel (b_ctx b) module of
        None \<Rightarrow> b\<lparr>b_results := b_results b @ [(GetID message, Err ErrNotFound)]\<rparr>
      | Some ch \<Rightarrow> b\<lparr>b_threads := b_threads b + {#SyncSend ch (set_sync message)#}\<rparr>)"

text \<open>
  The request is put on the module's channel. On a closed channel the call recovers and returns the
  zero values: an empty message and no error.
\<close>

definition SendSync_send :: "nat \<Rightarrow> Message \<Rightarrow> bus \<Rightarrow> bus option" where
  "SendSync_send ch message b =
     (case chan_send ch message (b_ctx b) of
        SentTo ctx' \<Rightarrow> Some (b\<lparr>b_ctx := ctx', b_threads := b_threads b + {#SyncRegister message#}\<rparr>)
      | SentOnClosed \<Rightarrow> Some (b\<lparr>b_results := b_results b @ [(GetID message, Ok NewRawMessage)]\<rparr>)
      | NoRoom \<Rightarrow> None)"

text \<open>Then the anonymous channel for the response is made and registered.\<close>

definition SendSync_register :: "Message \<Rightarrow> bus \<Rightarrow> bus option" where
  "SendSync_register message b =
     (let (anonChan, ctx1) = make_chan 0 (b_ctx b)
      in case lk_pass (anonChsLock ctx1) of
           None \<Rightarrow> None
         | Some lk \<Rightarrow>
             Some (b\<lparr>b_ctx := ctx1\<lparr>anonChannels := fmupd (GetID message) anonChan (anonChannels ctx1), anonChsLock := lk\<rparr>,
                     b_threads := b_threads b + {#SyncWait (GetID message) anonChan#}\<rparr>))"

definition SendSync_clean :: "string \<Rightarrow> nat \<Rightarrow> Message result \<Rightarrow> bus \<Rightarrow> bus option" where
  "SendSync_clean anonName anonChan r b =
     (case lk_pass (anonChsLock (b_ctx b)) of
        None \<Rightarrow> None
      | Some lk \<Rightarrow>
          Some (b\<lparr>b_ctx := close_chan anonChan
                    ((b_ctx b)\<lparr>anonChannels := fmdrop anonName (anonChannels (b_ctx b)), anonChsLock := lk\<rparr>),
                  b_results := b_results b @ [(anonName, r)]\<rparr>))"

text \<open>A response: it is dropped when nobody has registered for it, else sent with the lock held.\<close>

definition SendResp_start :: "Message \<Rightarrow> bus \<Rightarrow> bus option" where
  "SendResp_start message b =
     (case lk_RLock (anonChsLock (b_ctx b)) of
        None \<Rightarrow> None
      | Some lk \<Rightarrow>
          (case fmlookup (anonChannels (b_ctx b)) (GetParentID message) of
             None \<Rightarrow> Some b
           | Some ch \<Rightarrow> Some (b\<lparr>b_ctx := (b_ctx b)\<lparr>anonChsLock := lk\<rparr>, b_threads := b_threads b + {#RespSend ch message#}\<rparr>)))"

text \<open>The steps of the bus.\<close>

definition take_out :: "thread \<Rightarrow> bus \<Rightarrow> bus" where
  "take_out t b = b\<lparr>b_threads := b_threads b - {#t#}\<rparr>"

inductive bus_step :: "string order \<Rightarrow> bus \<Rightarrow> bus \<Rightarrow> bool" for ord where
  add_module: "fmlookup (channels (b_ctx b)) name = None \<Longrightarrow>
     bus_step ord b (b\<lparr>b_ctx := AddModuleGroup name grp (AddModule name (b_ctx b))\<rparr>)"
| cleanup: "getChannel (b_ctx b) name = Some ch \<Longrightarrow>
     bus_step ord b (b\<lparr>b_ctx := delChannel ord name (b_ctx b), b_threads := b_threads b + {#Closing ch#}\<rparr>)"
| closing: "Closing ch \<in># b_threads b \<Longrightarrow>
     bus_step ord b (take_out (Closing ch) (b\<lparr>b_ctx := close_chan ch (b_ctx b)\<rparr>))"
| send: "ctx_Send name m (b_ctx b) = Some ctx \<Longrightarrow> bus_step ord b (b\<lparr>b_ctx := ctx\<rparr>)"
| receive: "ctx_Receive name (b_ctx b) = Ok (Some (m, ctx)) \<Longrightarrow>
     bus_step ord b (b\<lparr>b_ctx := ctx, b_received := b_received b @ [(name, m)]\<rparr>)"
| group_send: "bus_step ord b (b\<lparr>b_threads := b_threads b + mset (SendToGroup_threads ord grp m (b_ctx b))\<rparr>)"
| group_sent: "GroupSend ch m \<in># b_threads b \<Longrightarrow> chan_send ch m (b_ctx b) = SentTo ctx \<Longrightarrow>
     bus_step ord b (take_out (GroupSend ch m) (b\<lparr>b_ctx := ctx\<rparr>))"
| group_closed: "GroupSend ch m \<in># b_threads b \<Longrightarrow> chan_send ch m (b_ctx b) = SentOnClosed \<Longrightarrow>
     bus_step ord b (take_out (GroupSend ch m) b)"
| sync: "bus_step ord b (SendSync_start name m b)"
| sync_sent: "SyncSend ch m \<in># b_threads b \<Longrightarrow> SendSync_send ch m (take_out (SyncSend ch m) b) = Some b' \<Longrightarrow> bus_step ord b b'"
| sync_timeout: "SyncSend ch m \<in># b_threads b \<Longrightarrow>
     bus_step ord b (take_out (SyncSend ch m) (b\<lparr>b_results := b_results b @ [(GetID m, Err ErrTimeout)]\<rparr>))"
| sync_announce: "SyncRegister m \<in># b_threads b \<Longrightarrow> lk_announce (anonChsLock (b_ctx b)) = Some lk \<Longrightarrow>
     bus_step ord b ((take_out (SyncRegister m) b)
       \<lparr>b_ctx := (b_ctx b)\<lparr>anonChsLock := lk\<rparr>, b_threads := b_threads b - {#SyncRegister m#} + {#SyncRegistering m#}\<rparr>)"
| sync_register: "SyncRegistering m \<in># b_threads b \<Longrightarrow>
     SendSync_register m (take_out (SyncRegistering m) b) = Some b' \<Longrightarrow> bus_step ord b b'"
| sync_response: "SyncWait n ch \<in># b_threads b \<Longrightarrow> RespSend ch m \<in># b_threads b \<Longrightarrow>
     bus_step ord b (b\<lparr>b_ctx := (b_ctx b)\<lparr>anonChsLock := lk_RUnlock (anonChsLock (b_ctx b))\<rparr>,
       b_threads := b_threads b - {#SyncWait n ch, RespSend ch m#} + {#SyncClean n ch (Ok m)#}\<rparr>)"
| sync_wait_timeout: "SyncWait n ch \<in># b_threads b \<Longrightarrow>
     bus_step ord b (b\<lparr>b_threads := b_threads b - {#SyncWait n ch#} + {#SyncClean n ch (Err ErrTimeout)#}\<rparr>)"
| sync_clean: "SyncClean n ch r \<in># b_threads b \<Longrightarrow> lk_announce (anonChsLock (b_ctx b)) = Some lk \<Longrightarrow>
     bus_step ord b (b\<lparr>b_ctx := (b_ctx b)\<lparr>anonChsLock := lk\<rparr>,
       b_threads := b_threads b - {#SyncClean n ch r#} + {#SyncCleaning n ch r#}\<rparr>)"
| sync_cleaned: "SyncCleaning n ch r \<in># b_threads b \<Longrightarrow>
     SendSync_clean n ch r (take_out (SyncCleaning n ch r) b) = Some b' \<Longrightarrow> bus_step ord b b'"
| resp: "SendResp_start m b = Some b' \<Longrightarrow> bus_step ord b b'"

definition bus_init :: bus where
  "bus_init = \<lparr>b_ctx = NewChannelContext, b_threads = {#}, b_results = [], b_received = []\<rparr>"

end
