(* ===== verification/Beehive_Props.thy ===== *)
theory Beehive_Props
  imports Beehive_Context
begin

text \<open>
  Properties of the message bus: the lock of the anonymous channels counts its users, buffers are
  bounded, a response is never sent on a closed channel and reaches only the call it answers; and
  three runs that lose a response, block the bus, and deliver messages in another order.
\<close>

lemmas bus_defs = take_out_def SendSync_start_def SendSync_send_def SendSync_register_def SendSync_clean_def
  SendResp_start_def lk_announce_def lk_pass_def lk_RLock_def lk_RUnlock_def make_chan_def

section \<open>The lock\<close>

fun is_resp :: "thread \<Rightarrow> bool" where
  "is_resp (RespSend _ _) = True"
| "is_resp _ = False"

fun is_writer :: "thread \<Rightarrow> bool" where
  "is_writer (SyncRegistering _) = True"
| "is_writer (SyncCleaning _ _ _) = True"
| "is_writer _ = False"

definition how_many :: "(thread \<Rightarrow> bool) \<Rightarrow> thread multiset \<Rightarrow> nat" where
  "how_many P M = size (filter_mset P M)"

lemma how_many_simps [simp]:
  "how_many P {#} = 0" "how_many P (add_mset t M) = (if P t then Suc (how_many P M) else how_many P M)"
  "how_many P (M + N) = how_many P M + how_many P N"
  by (simp_all add: how_many_def)

lemma how_many_0: "(\<And>t. t \<in># M \<Longrightarrow> \<not> P t) \<Longrightarrow> how_many P M = 0"
  by (induction M) simp_all

lemma how_many_member: "t \<in># M \<Longrightarrow> P t \<Longrightarrow> 0 < how_many P M"
  by (auto dest!: multi_member_split)

definition lock_inv :: "bus \<Rightarrow> bool" where
  "lock_inv b \<longleftrightarrow>
     (let l = anonChsLock (b_ctx b)
      in \<not> lk_writer l \<and> lk_readers l = how_many is_resp (b_threads b) \<and>
         how_many is_writer (b_threads b) = (if lk_waiting l then 1 else 0))"

lemma chan_send_frame:
  assumes "chan_send ch m ctx = SentTo ctx'"
  shows "anonChsLock ctx' = anonChsLock ctx" "anonChannels ctx' = anonChannels ctx" "channels ctx' = channels ctx"
    "typeChannels ctx' = typeChannels ctx" "fresh_id ctx' = fresh_id ctx"
  using assms by (auto simp: chan_send_def split: option.splits if_splits)

lemma ctx_Send_frame:
  assumes "ctx_Send n m ctx = Some ctx'"
  shows "anonChsLock ctx' = anonChsLock ctx" "anonChannels ctx' = anonChannels ctx" "channels ctx' = channels ctx"
    "typeChannels ctx' = typeChannels ctx" "fresh_id ctx' = fresh_id ctx"
  using assms by (auto simp: ctx_Send_def chan_send_frame split: option.splits sent.splits)

lemma ctx_Receive_frame:
  assumes "ctx_Receive n ctx = Ok (Some (m, ctx'))"
  shows "anonChsLock ctx' = anonChsLock ctx" "anonChannels ctx' = anonChannels ctx" "channels ctx' = channels ctx"
    "typeChannels ctx' = typeChannels ctx" "fresh_id ctx' = fresh_id ctx"
  using assms by (auto simp: ctx_Receive_def chan_receive_def split: option.splits list.splits if_splits)

lemma module_frame [simp]:
  "anonChsLock (AddModule n ctx) = anonChsLock ctx" "anonChannels (AddModule n ctx) = anonChannels ctx"
  "anonChsLock (AddModuleGroup n g ctx) = anonChsLock ctx" "anonChannels (AddModuleGroup n g ctx) = anonChannels ctx"
  "heap (AddModuleGroup n g ctx) = heap ctx" "fresh_id (AddModuleGroup n g ctx) = fresh_id ctx"
  "anonChsLock (delChannel ord n ctx) = anonChsLock ctx" "anonChannels (delChannel ord n ctx) = anonChannels ctx"
  "heap (delChannel ord n ctx) = heap ctx" "fresh_id (delChannel ord n ctx) = fresh_id ctx"
  "anonChsLock (close_chan ch ctx) = anonChsLock ctx" "anonChannels (close_chan ch ctx) = anonChannels ctx"
  "channels (close_chan ch ctx) = channels ctx" "typeChannels (close_chan ch ctx) = typeChannels ctx"
  "fresh_id (close_chan ch ctx) = fresh_id ctx"
  by (simp_all add: AddModule_def AddModuleGroup_def make_chan_def addChannel_def addTypeChannel_def delChannel_def close_chan_def
      split: option.splits)

lemma group_threads_plain:
  "how_many is_resp (mset (SendToGroup_threads ord g m ctx)) = 0"
  "how_many is_writer (mset (SendToGroup_threads ord g m ctx)) = 0"
  by (auto simp: SendToGroup_threads_def split: option.splits intro!: how_many_0)

lemma lock_inv_step:
  assumes "bus_step ord b b'" and "lock_inv b"
  shows "lock_inv b'"
  using assms
proof (induction rule: bus_step.induct)
  case (sync_response n ch b m)
  then obtain M where "b_threads b = add_mset (SyncWait n ch) (add_mset (RespSend ch m) M)"
    by (metis insert_noteq_member multi_member_split thread.simps)
  with sync_response show ?case by (auto simp: lock_inv_def bus_defs Let_def)
qed (auto simp: lock_inv_def bus_defs Let_def chan_send_frame ctx_Send_frame ctx_Receive_frame group_threads_plain
    dest!: multi_member_split split: option.splits if_splits sent.splits)


section \<open>Channels\<close>

definition cap_of :: "ChannelContext \<Rightarrow> nat \<Rightarrow> nat option" where
  "cap_of ctx i = map_option ch_cap (fmlookup (heap ctx) i)"

definition is_open :: "ChannelContext \<Rightarrow> nat \<Rightarrow> bool" where
  "is_open ctx i \<longleftrightarrow> (\<exists>c. fmlookup (heap ctx) i = Some c \<and> \<not> ch_closed c)"

definition heap_inv :: "ChannelContext \<Rightarrow> bool" where
  "heap_inv ctx \<longleftrightarrow>
     (\<forall>i. fmlookup (heap ctx) i \<noteq> None \<longleftrightarrow> i < fresh_id ctx) \<and>
     (\<forall>i c. fmlookup (heap ctx) i = Some c \<longrightarrow> length (ch_buf c) \<le> ch_cap c)"

lemma cap_of_frame [simp]:
  "cap_of (ctx\<lparr>channels := x\<rparr>) i = cap_of ctx i" "cap_of (ctx\<lparr>typeChannels := t\<rparr>) i = cap_of ctx i"
  "cap_of (ctx\<lparr>anonChannels := a\<rparr>) i = cap_of ctx i" "cap_of (ctx\<lparr>anonChsLock := l\<rparr>) i = cap_of ctx i"
  "cap_of (close_chan j ctx) i = cap_of ctx i" "cap_of (AddModuleGroup n g ctx) i = cap_of ctx i"
  "cap_of (delChannel ord n ctx) i = cap_of ctx i"
  by (simp_all add: cap_of_def close_chan_def option.map_comp comp_def) (auto simp: if_distrib option.map_comp comp_def cong: if_cong)

lemma is_open_frame [simp]:
  "is_open (ctx\<lparr>channels := x\<rparr>) i = is_open ctx i" "is_open (ctx\<lparr>typeChannels := t\<rparr>) i = is_open ctx i"
  "is_open (ctx\<lparr>anonChannels := a\<rparr>) i = is_open ctx i" "is_open (ctx\<lparr>anonChsLock := l\<rparr>) i = is_open ctx i"
  "is_open (close_chan j ctx) i = (is_open ctx i \<and> i \<noteq> j)" "is_open (AddModuleGroup n g ctx) i = is_open ctx i"
  "is_open (delChannel ord n ctx) i = is_open ctx i"
proof -
  show "is_open (close_chan j ctx) i = (is_open ctx i \<and> i \<noteq> j)"
    by (cases "fmlookup (heap ctx) i") (simp_all add: is_open_def close_chan_def)
qed (simp_all add: is_open_def)

lemma chan_send_chans:
  assumes "chan_send ch m ctx = SentTo ctx'"
  shows "cap_of ctx' i = cap_of ctx i" "is_open ctx' i = is_open ctx i"
  using assms by (auto simp: chan_send_def cap_of_def is_open_def split: option.splits if_splits)

lemma ctx_Send_chans:
  assumes "ctx_Send n m ctx = Some ctx'"
  shows "cap_of ctx' i = cap_of ctx i" "is_open ctx' i = is_open ctx i"
  using assms by (auto simp: ctx_Send_def chan_send_chans split: option.splits sent.splits)

lemma ctx_Receive_chans:
  assumes "ctx_Receive n ctx = Ok (Some (m, ctx'))"
  shows "cap_of ctx' i = cap_of ctx i" "is_open ctx' i = is_open ctx i"
  using assms
  by (auto simp: ctx_Receive_def chan_receive_def cap_of_def is_open_def split: option.splits list.splits if_splits)

lemma heap_inv_frame [simp]:
  "heap_inv (ctx\<lparr>channels := x\<rparr>) = heap_inv ctx" "heap_inv (ctx\<lparr>typeChannels := t\<rparr>) = heap_inv ctx"
  "heap_inv (ctx\<lparr>anonChannels := a\<rparr>) = heap_inv ctx" "heap_inv (ctx\<lparr>anonChsLock := l\<rparr>) = heap_inv ctx"
  "heap_inv (AddModuleGroup n g ctx) = heap_inv ctx" "heap_inv (delChannel ord n ctx) = heap_inv ctx"
  by (simp_all add: heap_inv_def)

lemma heap_inv_close: "heap_inv ctx \<Longrightarrow> heap_inv (close_chan i ctx)"
  by (auto simp: heap_inv_def close_chan_def split: if_splits)

lemma heap_inv_make: "heap_inv ctx \<Longrightarrow> heap_inv (snd (make_chan c ctx))"
  by (auto simp: heap_inv_def make_chan_def less_Suc_eq split: if_splits)

lemma heap_inv_send: "chan_send ch m ctx = SentTo ctx' \<Longrightarrow> heap_inv ctx \<Longrightarrow> heap_inv ctx'"
  by (auto simp: heap_inv_def chan_send_def split: option.splits if_splits)

lemma heap_inv_receive: "ctx_Receive n ctx = Ok (Some (m, ctx')) \<Longrightarrow> heap_inv ctx \<Longrightarrow> heap_inv ctx'"
  by (fastforce simp: heap_inv_def ctx_Receive_def chan_receive_def split: option.splits list.splits if_splits)

lemma heap_inv_step:
  assumes "bus_step ord b b'" and "heap_inv (b_ctx b)"
  shows "heap_inv (b_ctx b')"
  using assms
proof (induction rule: bus_step.induct)
  case (add_module b name grp)
  then show ?case using heap_inv_make [of "b_ctx b" ChannelSizeDefault]
    by (simp add: AddModule_def addChannel_def case_prod_unfold Let_def)
next
  case (send name m b ctx)
  then show ?case by (auto simp: ctx_Send_def heap_inv_send split: option.splits sent.splits)
next
  case (sync_register m b b')
  then show ?case using heap_inv_make [of "b_ctx b" 0]
    by (auto simp: SendSync_register_def take_out_def case_prod_unfold Let_def split: option.splits)
qed (auto simp: heap_inv_close heap_inv_send heap_inv_receive take_out_def SendSync_start_def SendSync_send_def SendSync_clean_def
    SendResp_start_def split: option.splits sent.splits)


text \<open>The channels of modules have room for messages, those of calls have none.\<close>

fun module_chan :: "thread \<Rightarrow> nat option" where
  "module_chan (GroupSend i _) = Some i"
| "module_chan (Closing i) = Some i"
| "module_chan (SyncSend i _) = Some i"
| "module_chan _ = None"

definition module_ids :: "bus \<Rightarrow> nat set" where
  "module_ids b =
     {i. \<exists>n. fmlookup (channels (b_ctx b)) n = Some i} \<union>
     {i. \<exists>g mods n. fmlookup (typeChannels (b_ctx b)) g = Some mods \<and> fmlookup mods n = Some i} \<union>
     {i. \<exists>t. t \<in># b_threads b \<and> module_chan t = Some i}"

definition module_inv :: "bus \<Rightarrow> bool" where
  "module_inv b \<longleftrightarrow> (\<forall>i\<in>module_ids b. cap_of (b_ctx b) i = Some ChannelSizeDefault)"

lemma module_inv_frame:
  assumes "module_inv b" "channels (b_ctx b') = channels (b_ctx b)" "typeChannels (b_ctx b') = typeChannels (b_ctx b)"
    and "\<And>t i. t \<in># b_threads b' \<Longrightarrow> module_chan t = Some i \<Longrightarrow> i \<in> module_ids b"
    and "\<And>i. cap_of (b_ctx b) i = Some ChannelSizeDefault \<Longrightarrow> cap_of (b_ctx b') i = Some ChannelSizeDefault"
  shows "module_inv b'"
proof -
  have "module_ids b' \<subseteq> module_ids b"
    using assms(4) unfolding module_ids_def [of b'] assms(2,3) by (auto simp: module_ids_def)
  with assms(1,5) show ?thesis unfolding module_inv_def by blast
qed

lemma module_ids_thread: "t \<in># b_threads b \<Longrightarrow> module_chan t = Some i \<Longrightarrow> i \<in> module_ids b"
  by (auto simp: module_ids_def)

lemma module_ids_diff: "t \<in># b_threads b - X \<Longrightarrow> module_chan t = Some i \<Longrightarrow> i \<in> module_ids b"
  by (rule module_ids_thread [OF in_diffD])

lemma remove_first_sub:
  "fmlookup (remove_first n gs t) g = Some mods \<Longrightarrow> fmlookup mods k = Some i \<Longrightarrow>
     \<exists>mods'. fmlookup t g = Some mods' \<and> fmlookup mods' k = Some i"
proof (induction gs)
  case (Cons a gs)
  show ?case
  proof (cases "fmlookup t a")
    case (Some mm)
    with Cons show ?thesis by (cases "fmlookup mm n"; cases "g = a") (auto split: if_splits)
  qed (use Cons in simp)
qed simp

lemma make_chan_cap:
  assumes "heap_inv ctx"
  shows "cap_of (snd (make_chan c ctx)) i = (if i = fresh_id ctx then Some c else cap_of ctx i)"
    and "is_open (snd (make_chan c ctx)) i = (i = fresh_id ctx \<or> is_open ctx i)"
    and "cap_of ctx (fresh_id ctx) = None"
  using assms by (auto simp: cap_of_def is_open_def make_chan_def heap_inv_def)

lemma AddModule_cap:
  assumes "heap_inv ctx"
  shows "cap_of (AddModule n ctx) i = (if i = fresh_id ctx then Some ChannelSizeDefault else cap_of ctx i)"
    and "is_open (AddModule n ctx) i = (i = fresh_id ctx \<or> is_open ctx i)"
  by (simp_all add: AddModule_def addChannel_def case_prod_unfold Let_def make_chan_cap [OF assms])

lemma AddModule_ids:
  "module_ids (b\<lparr>b_ctx := AddModuleGroup n g (AddModule n (b_ctx b))\<rparr>) \<subseteq> insert (fresh_id (b_ctx b)) (module_ids b)"
  by (auto simp: module_ids_def AddModuleGroup_def AddModule_def addTypeChannel_def addChannel_def make_chan_def getChannel_def
      split: if_splits option.splits)

lemma delChannel_ids:
  "getChannel (b_ctx b) n = Some ch \<Longrightarrow>
     module_ids (b\<lparr>b_ctx := delChannel ord n (b_ctx b), b_threads := b_threads b + {#Closing ch#}\<rparr>) \<subseteq> module_ids b"
  by (auto simp: module_ids_def delChannel_def getChannel_def split: if_splits dest: remove_first_sub)

lemma SendSync_register_eq:
  assumes "SendSync_register m (take_out (SyncRegistering m) b) = Some b'"
  obtains lk where "b' = b\<lparr>b_ctx := (snd (make_chan 0 (b_ctx b)))
        \<lparr>anonChannels := fmupd (GetID m) (fresh_id (b_ctx b)) (anonChannels (b_ctx b)), anonChsLock := lk\<rparr>,
      b_threads := b_threads b - {#SyncRegistering m#} + {#SyncWait (GetID m) (fresh_id (b_ctx b))#}\<rparr>"
  using assms by (auto simp: SendSync_register_def take_out_def make_chan_def split: option.splits)

lemma SendSync_clean_eq:
  assumes "SendSync_clean n ch r (take_out (SyncCleaning n ch r) b) = Some b'"
  obtains lk where "lk_pass (anonChsLock (b_ctx b)) = Some lk"
    "b' = b\<lparr>b_ctx := close_chan ch ((b_ctx b)\<lparr>anonChannels := fmdrop n (anonChannels (b_ctx b)), anonChsLock := lk\<rparr>),
       b_threads := b_threads b - {#SyncCleaning n ch r#}, b_results := b_results b @ [(n, r)]\<rparr>"
  using assms by (auto simp: SendSync_clean_def take_out_def split: option.splits)

lemma SendResp_start_cases:
  assumes "SendResp_start m b = Some b'"
  obtains (dropped) "fmlookup (anonChannels (b_ctx b)) (GetParentID m) = None" "b' = b"
  | (answered) ch lk where "fmlookup (anonChannels (b_ctx b)) (GetParentID m) = Some ch"
      "lk_RLock (anonChsLock (b_ctx b)) = Some lk"
      "b' = b\<lparr>b_ctx := (b_ctx b)\<lparr>anonChsLock := lk\<rparr>, b_threads := b_threads b + {#RespSend ch m#}\<rparr>"
  using assms by (auto simp: SendResp_start_def split: option.splits)

lemma make_chan_frame [simp]:
  "channels (snd (make_chan c ctx)) = channels ctx" "typeChannels (snd (make_chan c ctx)) = typeChannels ctx"
  by (simp_all add: make_chan_def)

lemma module_inv_step:
  assumes "bus_step ord b b'" and "heap_inv (b_ctx b)" and "module_inv b" and ord: "range_order ord"
  shows "module_inv b'"
  using assms(1-3)
proof (induction rule: bus_step.induct)
  case (add_module b name grp)
  then show ?case
    using AddModule_ids [where b = b and n = name and g = grp] AddModule_cap(1) [where ctx = "b_ctx b" and n = name]
    by (auto simp: module_inv_def subset_iff)
next
  case (cleanup b name ch)
  then show ?case using delChannel_ids [where b = b and n = name and ch = ch and ord = ord] by (auto simp: module_inv_def subset_iff)
next
  case (group_send b grp m)
  have "i \<in> module_ids b" if "t \<in> set (SendToGroup_threads ord grp m (b_ctx b))" "module_chan t = Some i" for t i
    using that range_orderD [OF ord]
    by (auto simp: SendToGroup_threads_def getTypeChannel_def module_ids_def fmlookup_dom_iff split: option.splits) metis
  then show ?case using group_send by (intro module_inv_frame [OF group_send(2)]) (auto dest: module_ids_thread)
next
  case (sync b name m)
  then show ?case
    by (intro module_inv_frame [OF sync(2)])
      (auto simp: SendSync_start_def getChannel_def module_ids_def split: option.splits if_splits)
next
  case (sync_sent ch m b b')
  then show ?case
    by (intro module_inv_frame [OF sync_sent.prems(2)])
      (auto simp: SendSync_send_def take_out_def chan_send_frame chan_send_chans split: sent.splits
        intro: module_ids_diff module_ids_thread)
next
  case (sync_register m b b')
  from sync_register.hyps(2) obtain lk where b': "b' = b\<lparr>b_ctx := (snd (make_chan 0 (b_ctx b)))
        \<lparr>anonChannels := fmupd (GetID m) (fresh_id (b_ctx b)) (anonChannels (b_ctx b)), anonChsLock := lk\<rparr>,
      b_threads := b_threads b - {#SyncRegistering m#} + {#SyncWait (GetID m) (fresh_id (b_ctx b))#}\<rparr>"
    by (rule SendSync_register_eq)
  show ?case
    unfolding b' using make_chan_cap [OF sync_register.prems(1)]
    by (intro module_inv_frame [OF sync_register.prems(2)]) (auto intro: module_ids_diff module_ids_thread)
qed (erule module_inv_frame; auto intro: module_ids_diff module_ids_thread
    simp: take_out_def chan_send_frame chan_send_chans ctx_Send_frame ctx_Send_chans ctx_Receive_frame ctx_Receive_chans
      SendSync_send_def SendSync_clean_def SendResp_start_def
    split: option.splits sent.splits)+


section \<open>Calls and responses\<close>

text \<open>
  Which call an anonymous channel belongs to: by the table, by the threads of the call, and by the
  responses on their way.
\<close>

fun call_chan :: "thread \<Rightarrow> (string \<times> nat) option" where
  "call_chan (SyncWait n i) = Some (n, i)"
| "call_chan (SyncClean n i _) = Some (n, i)"
| "call_chan (SyncCleaning n i _) = Some (n, i)"
| "call_chan (RespSend i m) = Some (GetParentID m, i)"
| "call_chan _ = None"

definition called :: "bus \<Rightarrow> (string \<times> nat) set" where
  "called b =
     {(n, i). fmlookup (anonChannels (b_ctx b)) n = Some i} \<union> {c. \<exists>t. t \<in># b_threads b \<and> call_chan t = Some c}"

definition call_inv :: "bus \<Rightarrow> bool" where
  "call_inv b \<longleftrightarrow>
     (\<forall>n i. (n, i) \<in> called b \<longrightarrow> cap_of (b_ctx b) i = Some 0) \<and>
     (\<forall>n n' i. (n, i) \<in> called b \<longrightarrow> (n', i) \<in> called b \<longrightarrow> n = n')"

lemma called_thread: "t \<in># b_threads b \<Longrightarrow> call_chan t = Some c \<Longrightarrow> c \<in> called b"
  by (auto simp: called_def)

lemma called_diff: "t \<in># b_threads b - X \<Longrightarrow> call_chan t = Some c \<Longrightarrow> c \<in> called b"
  by (rule called_thread [OF in_diffD])

lemma called_anon: "fmlookup (anonChannels (b_ctx b)) n = Some i \<Longrightarrow> (n, i) \<in> called b"
  by (simp add: called_def)

lemma call_inv_frame:
  assumes "call_inv b"
    and "\<And>n i. fmlookup (anonChannels (b_ctx b')) n = Some i \<Longrightarrow> (n, i) \<in> called b"
    and "\<And>t c. t \<in># b_threads b' \<Longrightarrow> call_chan t = Some c \<Longrightarrow> c \<in> called b"
    and "\<And>i. cap_of (b_ctx b) i = Some 0 \<Longrightarrow> cap_of (b_ctx b') i = Some 0"
  shows "call_inv b'"
proof -
  have "called b' \<subseteq> called b" using assms(2,3) unfolding called_def [of b'] by blast
  with assms(1,4) show ?thesis unfolding call_inv_def by blast
qed

lemmas called_intros = called_thread called_diff called_anon

lemma call_inv_step:
  assumes "bus_step ord b b'" and "heap_inv (b_ctx b)" and "call_inv b"
  shows "call_inv b'"
  using assms
proof (induction rule: bus_step.induct)
  case (add_module b name grp)
  then show ?case
    using make_chan_cap(3) [OF add_module.prems(1)]
    by (intro call_inv_frame [OF add_module.prems(2)]) (auto simp: AddModule_cap intro: called_intros)
next
  case (group_send b grp m)
  have "call_chan t = None" if "t \<in> set (SendToGroup_threads ord grp m (b_ctx b))" for t
    using that by (auto simp: SendToGroup_threads_def split: option.splits)
  with group_send show ?case
    by (intro call_inv_frame [OF group_send.prems(2)]) (auto intro: called_intros)
next
  case (sync_register m b b')
  from sync_register.hyps(2) obtain lk where b': "b' = b\<lparr>b_ctx := (snd (make_chan 0 (b_ctx b)))
        \<lparr>anonChannels := fmupd (GetID m) (fresh_id (b_ctx b)) (anonChannels (b_ctx b)), anonChsLock := lk\<rparr>,
      b_threads := b_threads b - {#SyncRegistering m#} + {#SyncWait (GetID m) (fresh_id (b_ctx b))#}\<rparr>"
    by (rule SendSync_register_eq)
  have sub: "called b' \<subseteq> insert (GetID m, fresh_id (b_ctx b)) (called b)"
    unfolding b' by (auto simp: called_def split: if_splits dest: in_diffD)
  have new: "(n, fresh_id (b_ctx b)) \<notin> called b" for n
    using make_chan_cap(3) [OF sync_register.prems(1)] sync_register.prems(2) by (auto simp: call_inv_def)
  have "cap_of (b_ctx b') i = (if i = fresh_id (b_ctx b) then Some 0 else cap_of (b_ctx b) i)" for i
    unfolding b' by (simp add: make_chan_cap [OF sync_register.prems(1)])
  with sub new sync_register.prems(2) show ?case
    unfolding call_inv_def subset_iff by (metis insert_iff prod.inject)
next
  case (sync_response n ch b m)
  then show ?case
    by (intro call_inv_frame [OF sync_response.prems(2)]) (auto intro: called_intros)
next
  case (resp m b b')
  from resp.hyps show ?case
  proof (cases rule: SendResp_start_cases)
    case (answered ch lk)
    have "call_inv (b\<lparr>b_ctx := (b_ctx b)\<lparr>anonChsLock := lk\<rparr>, b_threads := b_threads b + {#RespSend ch m#}\<rparr>)"
      using answered(1) by (intro call_inv_frame [OF resp.prems(2)]) (auto intro: called_intros)
    with answered(3) show ?thesis by simp
  qed (use resp.prems(2) in simp)
next
  case (sync_cleaned n ch r b b')
  then show ?case
    by (intro call_inv_frame [OF sync_cleaned.prems(2)])
      (auto simp: SendSync_clean_def take_out_def split: option.splits if_splits intro: called_intros)
next
  case (sync_sent ch m b b')
  then show ?case
    by (intro call_inv_frame [OF sync_sent.prems(2)])
      (auto simp: SendSync_send_def take_out_def chan_send_frame chan_send_chans split: sent.splits intro: called_intros)
qed (erule call_inv_frame; auto intro: called_intros
    simp: take_out_def chan_send_frame chan_send_chans ctx_Send_frame ctx_Send_chans ctx_Receive_frame ctx_Receive_chans
      SendSync_start_def
    split: option.splits sent.splits)+

text \<open>Registered channels, and those a response is being sent on, are open.\<close>

definition open_inv :: "bus \<Rightarrow> bool" where
  "open_inv b \<longleftrightarrow>
     (\<forall>n i. fmlookup (anonChannels (b_ctx b)) n = Some i \<longrightarrow> is_open (b_ctx b) i) \<and>
     (\<forall>i m. RespSend i m \<in># b_threads b \<longrightarrow> is_open (b_ctx b) i)"

lemma open_invD:
  assumes "open_inv b"
  shows "fmlookup (anonChannels (b_ctx b)) n = Some i \<Longrightarrow> is_open (b_ctx b) i"
    and "RespSend i m \<in># b_threads b \<Longrightarrow> is_open (b_ctx b) i"
    and "RespSend i m \<in># b_threads b - X \<Longrightarrow> is_open (b_ctx b) i"
  using assms unfolding open_inv_def by (blast dest: in_diffD)+

lemma open_inv_step:
  assumes "bus_step ord b b'" and "heap_inv (b_ctx b)" and "lock_inv b" and "module_inv b" and "call_inv b" and "open_inv b"
  shows "open_inv b'"
  using assms
proof (induction rule: bus_step.induct)
  case (add_module b name grp)
  note opn = open_invD [OF add_module.prems(5)]
  show ?case using add_module.prems(1) by (auto simp: open_inv_def AddModule_cap intro: opn)
next
  case (closing ch b)
  note opn = open_invD [OF closing.prems(5)]
  have "cap_of (b_ctx b) ch = Some ChannelSizeDefault"
    using closing.prems(3) module_ids_thread [OF closing.hyps] by (simp add: module_inv_def)
  then have "(n, ch) \<notin> called b" for n
    using closing.prems(4) by (auto simp: call_inv_def ChannelSizeDefault_def)
  then show ?case using called_anon [of b] called_diff [of _ b _ "(_, ch)"]
    by (fastforce simp: open_inv_def take_out_def intro: opn)
next
  case (group_send b grp m)
  have "RespSend i m' \<notin> set (SendToGroup_threads ord grp m (b_ctx b))" for i m'
    by (auto simp: SendToGroup_threads_def split: option.splits)
  with group_send show ?case by (simp add: open_inv_def)
next
  case (sync_register m b b')
  note opn = open_invD [OF sync_register.prems(5)]
  from sync_register.hyps(2) obtain lk where b': "b' = b\<lparr>b_ctx := (snd (make_chan 0 (b_ctx b)))
        \<lparr>anonChannels := fmupd (GetID m) (fresh_id (b_ctx b)) (anonChannels (b_ctx b)), anonChsLock := lk\<rparr>,
      b_threads := b_threads b - {#SyncRegistering m#} + {#SyncWait (GetID m) (fresh_id (b_ctx b))#}\<rparr>"
    by (rule SendSync_register_eq)
  show ?case unfolding b'
    using opn by (auto simp: open_inv_def make_chan_cap [OF sync_register.prems(1)])
next
  case (resp m b b')
  note opn = open_invD [OF resp.prems(5)]
  from resp.hyps show ?case
    by (cases rule: SendResp_start_cases) (use resp.prems(5) opn in \<open>auto simp: open_inv_def\<close>)
next
  case (sync_cleaned n ch r b b')
  note opn = open_invD [OF sync_cleaned.prems(5)]
  from sync_cleaned.hyps(2) obtain lk where b': "lk_pass (anonChsLock (b_ctx b)) = Some lk"
    "b' = b\<lparr>b_ctx := close_chan ch ((b_ctx b)\<lparr>anonChannels := fmdrop n (anonChannels (b_ctx b)), anonChsLock := lk\<rparr>),
       b_threads := b_threads b - {#SyncCleaning n ch r#}, b_results := b_results b @ [(n, r)]\<rparr>"
    by (rule SendSync_clean_eq)
  then have "how_many is_resp (b_threads b) = 0"
    using sync_cleaned.prems(2) by (auto simp: lock_inv_def lk_pass_def Let_def split: if_splits)
  then have none: "RespSend i m \<notin># b_threads b" for i m using how_many_member [of "RespSend i m" _ is_resp] by fastforce
  have own: "(n, ch) \<in> called b" using called_thread [OF sync_cleaned.hyps(1)] by simp
  have "n' = n" if "fmlookup (anonChannels (b_ctx b)) n' = Some ch" for n'
    using that own sync_cleaned.prems(4) called_anon [of b n' ch] unfolding call_inv_def by blast
  then show ?case
    unfolding b'(2) using opn none by (auto simp: open_inv_def dest: in_diffD)
qed (auto simp: open_inv_def take_out_def chan_send_frame chan_send_chans ctx_Send_frame ctx_Send_chans ctx_Receive_frame ctx_Receive_chans
      SendSync_start_def SendSync_send_def
    split: option.splits sent.splits, (blast dest: in_diffD)+)

text \<open>What a call returns is empty or answers it.\<close>

fun thread_result :: "thread \<Rightarrow> (string \<times> Message result) option" where
  "thread_result (SyncClean n _ r) = Some (n, r)"
| "thread_result (SyncCleaning n _ r) = Some (n, r)"
| "thread_result _ = None"

definition answers :: "string \<times> Message result \<Rightarrow> bool" where
  "answers c \<longleftrightarrow> (case c of (n, Ok m) \<Rightarrow> m = NewRawMessage \<or> GetParentID m = n | _ \<Rightarrow> True)"

definition result_inv :: "bus \<Rightarrow> bool" where
  "result_inv b \<longleftrightarrow>
     (\<forall>c \<in> set (b_results b). answers c) \<and>
     (\<forall>t c. t \<in># b_threads b \<longrightarrow> thread_result t = Some c \<longrightarrow> answers c)"

lemma answers_simps [simp]:
  "answers (n, Err e)" "answers (n, Ok NewRawMessage)" "answers (GetParentID m, Ok m)"
  by (simp_all add: answers_def)

lemma result_inv_frame:
  assumes "result_inv b"
    and "\<And>c. c \<in> set (b_results b') \<Longrightarrow> c \<in> set (b_results b) \<or> answers c \<or> (\<exists>t. t \<in># b_threads b \<and> thread_result t = Some c)"
    and "\<And>t c. t \<in># b_threads b' \<Longrightarrow> thread_result t = Some c \<Longrightarrow> answers c \<or> (\<exists>t. t \<in># b_threads b \<and> thread_result t = Some c)"
  shows "result_inv b'"
  using assms unfolding result_inv_def by blast

lemma thread_result_diff:
  "t \<in># M - X \<Longrightarrow> thread_result t = Some c \<Longrightarrow> \<exists>t. t \<in># M \<and> thread_result t = Some c"
  by (blast dest: in_diffD)

lemma result_inv_step:
  assumes "bus_step ord b b'" and "call_inv b" and "result_inv b"
  shows "result_inv b'"
  using assms
proof (induction rule: bus_step.induct)
  case (group_send b grp m)
  have "thread_result t = None" if "t \<in> set (SendToGroup_threads ord grp m (b_ctx b))" for t
    using that by (auto simp: SendToGroup_threads_def split: option.splits)
  with group_send show ?case by (intro result_inv_frame [OF group_send.prems(2)]) auto
next
  case (sync_response n ch b m)
  have "(n, ch) \<in> called b" "(GetParentID m, ch) \<in> called b"
    using sync_response.hyps by (auto intro: called_thread)
  with sync_response.prems(1) have "n = GetParentID m" unfolding call_inv_def by blast
  then show ?case
    by (intro result_inv_frame [OF sync_response.prems(2)]) (auto dest: thread_result_diff)
next
  case (sync_register m b b')
  from sync_register.hyps(2) obtain lk where b': "b' = b\<lparr>b_ctx := (snd (make_chan 0 (b_ctx b)))
        \<lparr>anonChannels := fmupd (GetID m) (fresh_id (b_ctx b)) (anonChannels (b_ctx b)), anonChsLock := lk\<rparr>,
      b_threads := b_threads b - {#SyncRegistering m#} + {#SyncWait (GetID m) (fresh_id (b_ctx b))#}\<rparr>"
    by (rule SendSync_register_eq)
  show ?case unfolding b'
    by (intro result_inv_frame [OF sync_register.prems(2)]) (auto dest: thread_result_diff)
next
  case (resp m b b')
  from resp.hyps show ?case
    by (cases rule: SendResp_start_cases) (use resp.prems(2) in \<open>auto simp: result_inv_def\<close>)
next
  case (sync_cleaned n ch r b b')
  from sync_cleaned.hyps(2) obtain lk where b':
    "b' = b\<lparr>b_ctx := close_chan ch ((b_ctx b)\<lparr>anonChannels := fmdrop n (anonChannels (b_ctx b)), anonChsLock := lk\<rparr>),
       b_threads := b_threads b - {#SyncCleaning n ch r#}, b_results := b_results b @ [(n, r)]\<rparr>"
    by (rule SendSync_clean_eq)
  have "\<exists>t. t \<in># b_threads b \<and> thread_result t = Some (n, r)"
    using sync_cleaned.hyps(1) by (intro exI [of _ "SyncCleaning n ch r"]) simp
  then show ?case unfolding b'
    by (intro result_inv_frame [OF sync_cleaned.prems(2)]) (auto dest: thread_result_diff)
next
  case (sync_sent ch m b b')
  then show ?case
    by (intro result_inv_frame [OF sync_sent.prems(2)])
      (auto simp: take_out_def SendSync_send_def split: sent.splits, (blast dest: in_diffD)+)
next
  case (sync_clean n ch r b lk)
  then have "\<exists>t. t \<in># b_threads b \<and> thread_result t = Some (n, r)"
    by (intro exI [of _ "SyncClean n ch r"]) simp
  then show ?case
    by (intro result_inv_frame [OF sync_clean.prems(2)]) (auto dest: thread_result_diff)
qed (erule result_inv_frame; auto dest: thread_result_diff simp: take_out_def SendSync_start_def SendSync_send_def
    split: option.splits sent.splits)+

definition bus_inv :: "bus \<Rightarrow> bool" where
  "bus_inv b \<longleftrightarrow> lock_inv b \<and> heap_inv (b_ctx b) \<and> module_inv b \<and> call_inv b \<and> open_inv b \<and> result_inv b"

lemma bus_inv_init: "bus_inv bus_init"
  by (simp add: bus_inv_def bus_init_def lock_inv_def heap_inv_def module_inv_def call_inv_def open_inv_def result_inv_def
      module_ids_def called_def NewChannelContext_def lk_free_def)

lemma bus_inv_step: "bus_step ord b b' \<Longrightarrow> range_order ord \<Longrightarrow> bus_inv b \<Longrightarrow> bus_inv b'"
  unfolding bus_inv_def
  using lock_inv_step heap_inv_step module_inv_step call_inv_step open_inv_step result_inv_step by blast

lemma bus_reach_inv: "(bus_step ord)\<^sup>*\<^sup>* bus_init b \<Longrightarrow> range_order ord \<Longrightarrow> bus_inv b"
  by (induction rule: rtranclp_induct) (auto intro: bus_inv_init bus_inv_step)


section \<open>What the bus promises\<close>

text \<open>A module, a request to it and the responses of two modules to requests, for the runs below.\<close>

definition ex_request :: Message where
  "ex_request = set_sync (UpdateID ''1'' NewRawMessage)"

definition ex_reply :: Message where
  "ex_reply = NewRespByMessage ''2'' 0 ex_request (StringContent ''ok'')"

text \<open>The run of a synchronous call up to the point where the request waits in the module's channel.\<close>

definition ex_ctx :: ChannelContext where
  "ex_ctx = AddModuleGroup ''edge'' ''envoy'' (AddModule ''edge'' NewChannelContext)"

definition ex_called :: ChannelContext where
  "ex_called = ex_ctx\<lparr>heap := fmupd 0 \<lparr>ch_cap = ChannelSizeDefault, ch_buf = [ex_request], ch_closed = False\<rparr> (heap ex_ctx)\<rparr>"

lemmas ex_bus_defs = bus_init_def NewChannelContext_def ex_ctx_def ex_called_def AddModuleGroup_def AddModule_def
  addTypeChannel_def addChannel_def getChannel_def make_chan_def chan_send_def ctx_Receive_def chan_receive_def
  ChannelSizeDefault_def getTypeChannel_def SendToGroup_threads_def

lemma ex_module: "(bus_step ord)\<^sup>*\<^sup>* bus_init (bus_init\<lparr>b_ctx := ex_ctx\<rparr>)"
  using bus_step.add_module [of bus_init "''edge''" ord "''envoy''"] by (auto simp: bus_init_def NewChannelContext_def ex_ctx_def)

lemma ex_call:
  "(bus_step ord)\<^sup>*\<^sup>* bus_init (bus_init\<lparr>b_ctx := ex_called, b_threads := {#SyncRegister ex_request#}\<rparr>)"
proof -
  let ?b = "bus_init\<lparr>b_ctx := ex_ctx\<rparr>"
  have "SendSync_start ''edge'' (UpdateID ''1'' NewRawMessage) ?b = ?b\<lparr>b_threads := {#SyncSend 0 ex_request#}\<rparr>"
    by (simp add: SendSync_start_def ex_request_def ex_bus_defs)
  then have s: "bus_step ord ?b (?b\<lparr>b_threads := {#SyncSend 0 ex_request#}\<rparr>)" by (metis bus_step.sync)
  have "bus_step ord (?b\<lparr>b_threads := {#SyncSend 0 ex_request#}\<rparr>)
      (bus_init\<lparr>b_ctx := ex_called, b_threads := {#SyncRegister ex_request#}\<rparr>)"
    by (rule bus_step.sync_sent [where ch = 0 and m = ex_request])
      (simp_all add: take_out_def SendSync_send_def ex_bus_defs)
  with s show ?thesis using ex_module [of ord] by (meson rtranclp.rtrancl_into_rtrancl)
qed

text \<open>
  C35: In every reachable state of the message bus no channel holds more than it has room for, every
  response that is on its way goes to a channel that is still open, so that no response panics, the
  read locks held are exactly those of the responses on their way, and a synchronous call that
  returned without an error returned a response to its own request or, when the module went away,
  the empty message.
\<close>

theorem bus_invariant:
  assumes "(bus_step ord)\<^sup>*\<^sup>* bus_init b" and "range_order ord"
  shows "(\<forall>i c. fmlookup (heap (b_ctx b)) i = Some c \<longrightarrow> length (ch_buf c) \<le> ch_cap c) \<and>
    (\<forall>i m. RespSend i m \<in># b_threads b \<longrightarrow> is_open (b_ctx b) i) \<and>
    lk_readers (anonChsLock (b_ctx b)) = size (filter_mset is_resp (b_threads b)) \<and>
    (\<forall>n m. (n, Ok m) \<in> set (b_results b) \<longrightarrow> m = NewRawMessage \<or> GetParentID m = n)"
proof -
  have "bus_inv b" using assms by (rule bus_reach_inv)
  then show ?thesis
    by (fastforce simp: bus_inv_def heap_inv_def open_inv_def lock_inv_def how_many_def result_inv_def answers_def Let_def)
qed

theorem bus_invariant_witness:
  "\<exists>b :: bus. b_threads b = {#SyncRegister ex_request#} \<and> lk_readers (anonChsLock (b_ctx b)) = 0 \<and>
     (\<forall>i c. fmlookup (heap (b_ctx b)) i = Some c \<longrightarrow> length (ch_buf c) \<le> ch_cap c)"
  using bus_invariant [OF ex_call range_order_sorted]
  by (intro exI [of _ "bus_init\<lparr>b_ctx := ex_called, b_threads := {#SyncRegister ex_request#}\<rparr>"]) simp

text \<open>
  A response can come too early: there is a run in which a module has received a synchronous
  request, and any answer it gives at once is dropped without a trace, because the caller
  registers for the response only after it has sent the request.
\<close>

lemma early_answer_is_dropped:
  "\<exists>b req. (bus_step ord)\<^sup>*\<^sup>* bus_init b \<and> (''edge'', req) \<in> set (b_received b) \<and> SyncRegister req \<in># b_threads b \<and>
     (\<forall>uuid now c. SendResp_start (NewRespByMessage uuid now req c) b = Some b)"
proof -
  let ?b = "bus_init\<lparr>b_ctx := ex_called, b_threads := {#SyncRegister ex_request#}\<rparr>"
  let ?b' = "?b\<lparr>b_ctx := ex_ctx, b_received := [(''edge'', ex_request)]\<rparr>"
  have "bus_step ord ?b (?b\<lparr>b_ctx := ex_ctx, b_received := b_received ?b @ [(''edge'', ex_request)]\<rparr>)"
    by (rule bus_step.receive) (simp add: ex_bus_defs)
  then have "(bus_step ord)\<^sup>*\<^sup>* bus_init ?b'"
    using ex_call [of ord] by (simp add: bus_init_def rtranclp.rtrancl_into_rtrancl)
  moreover have "SendResp_start (NewRespByMessage uuid now ex_request c) ?b' = Some ?b'" for uuid now c
    by (simp add: SendResp_start_def ex_bus_defs lk_free_def lk_RLock_def)
  ultimately show ?thesis by (intro exI [of _ ?b'] exI [of _ ex_request]) simp
qed

text \<open>
  The order of two messages to a group can be reversed: after \<open>SendToGroup\<close> of one message and then
  of another, there is a run in which the only module of the group receives the second one first.
\<close>

lemma group_messages_can_overtake:
  "\<exists>b :: bus. (bus_step sorted_list_of_fset)\<^sup>*\<^sup>* bus_init b \<and>
     (\<exists>b'. (bus_step sorted_list_of_fset)\<^sup>*\<^sup>*
        (b\<lparr>b_threads := b_threads b + mset (SendToGroup_threads sorted_list_of_fset ''envoy'' m1 (b_ctx b))
                       + mset (SendToGroup_threads sorted_list_of_fset ''envoy'' m2 (b_ctx b))\<rparr>) b' \<and>
        b_received b' = [(''edge'', m2), (''edge'', m1)])"
proof -
  let ?c = "\<lambda>ms. ex_ctx\<lparr>heap := fmupd 0 \<lparr>ch_cap = ChannelSizeDefault, ch_buf = ms, ch_closed = False\<rparr> (heap ex_ctx)\<rparr>"
  let ?b = "bus_init\<lparr>b_ctx := ex_ctx, b_threads := {#GroupSend 0 m1, GroupSend 0 m2#}\<rparr>"
  have threads: "SendToGroup_threads sorted_list_of_fset ''envoy'' m ex_ctx = [GroupSend 0 m]" for m
    by (simp add: ex_bus_defs sorted_list_of_fset.rep_eq)
  have "bus_step sorted_list_of_fset ?b (take_out (GroupSend 0 m2) (?b\<lparr>b_ctx := ?c [m2]\<rparr>))"
    by (rule bus_step.group_sent) (simp_all add: ex_bus_defs)
  then have s1: "bus_step sorted_list_of_fset ?b (?b\<lparr>b_ctx := ?c [m2], b_threads := {#GroupSend 0 m1#}\<rparr>)"
    by (simp add: take_out_def)
  have "bus_step sorted_list_of_fset (?b\<lparr>b_ctx := ?c [m2], b_threads := {#GroupSend 0 m1#}\<rparr>)
     (take_out (GroupSend 0 m1) (?b\<lparr>b_ctx := ?c [m2, m1], b_threads := {#GroupSend 0 m1#}\<rparr>))"
    using bus_step.group_sent [of 0 m1 "?b\<lparr>b_ctx := ?c [m2], b_threads := {#GroupSend 0 m1#}\<rparr>" "?c [m2, m1]" sorted_list_of_fset]
    by (simp add: ex_bus_defs)
  then have s2: "bus_step sorted_list_of_fset (?b\<lparr>b_ctx := ?c [m2], b_threads := {#GroupSend 0 m1#}\<rparr>) (?b\<lparr>b_ctx := ?c [m2, m1], b_threads := {#}\<rparr>)"
    by (simp add: take_out_def)
  have s3: "bus_step sorted_list_of_fset (?b\<lparr>b_ctx := ?c [m2, m1], b_threads := {#}\<rparr>)
     (?b\<lparr>b_ctx := ?c [m1], b_threads := {#}, b_received := [(''edge'', m2)]\<rparr>)"
    using bus_step.receive [of "''edge''" "?b\<lparr>b_ctx := ?c [m2, m1], b_threads := {#}\<rparr>" m2 "?c [m1]" sorted_list_of_fset]
    by (simp add: ex_bus_defs)
  have s4: "bus_step sorted_list_of_fset (?b\<lparr>b_ctx := ?c [m1], b_threads := {#}, b_received := [(''edge'', m2)]\<rparr>)
     (?b\<lparr>b_ctx := ?c [], b_threads := {#}, b_received := [(''edge'', m2), (''edge'', m1)]\<rparr>)"
    using bus_step.receive [of "''edge''" "?b\<lparr>b_ctx := ?c [m1], b_threads := {#}, b_received := [(''edge'', m2)]\<rparr>" m1 "?c []" sorted_list_of_fset]
    by (simp add: ex_bus_defs)
  have "(bus_step sorted_list_of_fset)\<^sup>*\<^sup>* ?b (?b\<lparr>b_ctx := ?c [], b_threads := {#}, b_received := [(''edge'', m2), (''edge'', m1)]\<rparr>)"
    using s1 s2 s3 s4 by (meson converse_rtranclp_into_rtranclp rtranclp.rtrancl_refl)
  moreover have "?b = bus_init\<lparr>b_ctx := ex_ctx, b_threads := b_threads (bus_init\<lparr>b_ctx := ex_ctx\<rparr>) + mset [GroupSend 0 m1] + mset [GroupSend 0 m2]\<rparr>"
    by (simp add: bus_init_def)
  ultimately show ?thesis
    using ex_module [of sorted_list_of_fset] by (intro exI [of _ "bus_init\<lparr>b_ctx := ex_ctx\<rparr>"] conjI exI) (auto simp: threads)
qed


section \<open>A response nobody waits for\<close>

text \<open>
  A response is being sent to a channel whose caller has given up, and a writer has announced
  itself for the lock that the response holds for reading.
\<close>

definition stuck :: "nat \<Rightarrow> Message \<Rightarrow> bus \<Rightarrow> bool" where
  "stuck ch m b \<longleftrightarrow>
     bus_inv b \<and> RespSend ch m \<in># b_threads b \<and> (\<forall>n. SyncWait n ch \<notin># b_threads b) \<and> lk_waiting (anonChsLock (b_ctx b))"

lemma stuck_lock:
  assumes "stuck ch m b"
  shows "lk_pass (anonChsLock (b_ctx b)) = None" "lk_RLock (anonChsLock (b_ctx b)) = None"
    "lk_announce (anonChsLock (b_ctx b)) = None"
proof -
  have "0 < how_many is_resp (b_threads b)"
    using assms by (intro how_many_member [of "RespSend ch m"]) (simp_all add: stuck_def)
  then show "lk_pass (anonChsLock (b_ctx b)) = None" "lk_RLock (anonChsLock (b_ctx b)) = None"
    "lk_announce (anonChsLock (b_ctx b)) = None"
    using assms by (auto simp: stuck_def bus_inv_def lock_inv_def Let_def lk_pass_def lk_RLock_def lk_announce_def)
qed

lemma stuck_frame:
  assumes "stuck ch m b" and "bus_inv b'" and "lk_waiting (anonChsLock (b_ctx b')) = lk_waiting (anonChsLock (b_ctx b))"
    and "count (b_threads b) (RespSend ch m) \<le> count (b_threads b') (RespSend ch m)"
    and "\<And>n. SyncWait n ch \<in># b_threads b' \<Longrightarrow> SyncWait n ch \<in># b_threads b"
  shows "stuck ch m b'"
  using assms by (auto simp: stuck_def count_greater_zero_iff [symmetric] simp del: count_greater_zero_iff)

lemma group_threads_count:
  "count (mset (SendToGroup_threads ord g m ctx)) (RespSend i x) = 0"
  "SyncWait n i \<notin> set (SendToGroup_threads ord g m ctx)"
  by (auto simp: SendToGroup_threads_def count_eq_zero_iff split: option.splits)

lemma stuck_step:
  assumes "bus_step ord b b'" and "range_order ord" and "stuck ch m b"
  shows "stuck ch m b' \<and> anonChannels (b_ctx b') = anonChannels (b_ctx b)"
proof -
  have inv: "bus_inv b'" using bus_inv_step assms unfolding stuck_def by blast
  note frame = stuck_frame [OF assms(3) inv]
  from assms(1,3) show ?thesis
  proof cases
    case (sync_response n i x)
    with assms(3) have "i \<noteq> ch" by (auto simp: stuck_def)
    with sync_response show ?thesis
      by (intro conjI frame) (auto simp: lk_RUnlock_def dest: in_diffD)
  next
    case (sync_register x)
    with stuck_lock [OF assms(3)] show ?thesis
      by (auto simp: SendSync_register_def take_out_def make_chan_def)
  next
    case (sync_cleaned n i r)
    with stuck_lock [OF assms(3)] show ?thesis
      by (auto simp: SendSync_clean_def take_out_def)
  next
    case (resp x)
    with stuck_lock [OF assms(3)] show ?thesis by (simp add: SendResp_start_def)
  qed (intro conjI frame; use stuck_lock [OF assms(3)] in \<open>auto simp: take_out_def SendSync_start_def SendSync_send_def
      chan_send_frame ctx_Send_frame ctx_Receive_frame group_threads_count dest: in_diffD split: option.splits sent.splits\<close>)+
qed

lemma stuck_for_ever:
  assumes "(bus_step ord)\<^sup>*\<^sup>* b b'" and "range_order ord" and "stuck ch m b"
  shows "stuck ch m b' \<and> anonChannels (b_ctx b') = anonChannels (b_ctx b)"
  using assms(1)
proof (induction rule: rtranclp_induct)
  case base
  from assms(3) show ?case by simp
next
  case (step x y)
  with stuck_step [OF step.hyps(2) assms(2)] show ?case by metis
qed

text \<open>
  C36: A response that comes when its caller has just timed out stops all synchronous calls of the
  process for good. The response waits, with the lock held for reading, for a receiver that is
  gone, and the caller waits for that lock to clean up: from then on no run makes either of them
  go on, no call registers for its response, and no other response gets through the lock.
\<close>

theorem late_response_blocks_for_ever:
  assumes "(bus_step ord)\<^sup>*\<^sup>* bus_init b" and "range_order ord"
    and "RespSend ch m \<in># b_threads b" and "\<forall>n. SyncWait n ch \<notin># b_threads b"
    and "lk_waiting (anonChsLock (b_ctx b))" and "(bus_step ord)\<^sup>*\<^sup>* b b'"
  shows "RespSend ch m \<in># b_threads b' \<and> anonChannels (b_ctx b') = anonChannels (b_ctx b) \<and>
    SendSync_register req b' = None \<and> SendSync_clean n i r b' = None \<and> SendResp_start resp b' = None"
proof -
  have "stuck ch m b" using bus_reach_inv [OF assms(1,2)] assms(3-5) by (simp add: stuck_def)
  from stuck_for_ever [OF assms(6,2) this]
  have b': "stuck ch m b'" "anonChannels (b_ctx b') = anonChannels (b_ctx b)" by simp_all
  with stuck_lock [OF b'(1)] show ?thesis
    by (simp add: stuck_def SendSync_register_def SendSync_clean_def SendResp_start_def make_chan_def)
qed

definition ex_registered :: ChannelContext where
  "ex_registered = (snd (make_chan 0 ex_called))\<lparr>anonChannels := fmupd ''1'' 1 fmempty\<rparr>"

lemma ex_late_response:
  "(bus_step ord)\<^sup>*\<^sup>* bus_init
     (bus_init\<lparr>b_ctx := ex_registered\<lparr>anonChsLock := \<lparr>lk_readers = 1, lk_writer = False, lk_waiting = True\<rparr>\<rparr>,
        b_threads := {#RespSend 1 ex_reply, SyncCleaning ''1'' 1 (Err ErrTimeout)#}\<rparr>)"
proof -
  let ?lk = "\<lambda>r w. \<lparr>lk_readers = r, lk_writer = False, lk_waiting = w\<rparr>"
  let ?b = "\<lambda>ctx T. bus_init\<lparr>b_ctx := ctx, b_threads := T\<rparr>"
  let ?c = "\<lambda>r w. ex_registered\<lparr>anonChsLock := ?lk r w\<rparr>"
  have s1: "bus_step ord (?b ex_called {#SyncRegister ex_request#})
      (?b (ex_called\<lparr>anonChsLock := ?lk 0 True\<rparr>) {#SyncRegistering ex_request#})"
    using bus_step.sync_announce [of ex_request "?b ex_called {#SyncRegister ex_request#}" "?lk 0 True" ord]
    by (simp add: take_out_def ex_bus_defs lk_announce_def lk_free_def)
  have s2: "bus_step ord (?b (ex_called\<lparr>anonChsLock := ?lk 0 True\<rparr>) {#SyncRegistering ex_request#})
      (?b (?c 0 False) {#SyncWait ''1'' 1#})"
    by (rule bus_step.sync_register [where m = ex_request])
      (simp_all add: SendSync_register_def take_out_def ex_registered_def lk_pass_def ex_bus_defs ex_request_def set_sync_def message_defs)
  have s3: "bus_step ord (?b (?c 0 False) {#SyncWait ''1'' 1#}) (?b (?c 1 False) {#RespSend 1 ex_reply, SyncWait ''1'' 1#})"
    by (rule bus_step.resp [where m = ex_reply])
      (simp add: SendResp_start_def ex_registered_def lk_RLock_def ex_reply_def ex_request_def set_sync_def message_defs ex_bus_defs)
  have s4: "bus_step ord (?b (?c 1 False) {#RespSend 1 ex_reply, SyncWait ''1'' 1#})
      (?b (?c 1 False) {#RespSend 1 ex_reply, SyncClean ''1'' 1 (Err ErrTimeout)#})"
    using bus_step.sync_wait_timeout [of "''1''" 1 "?b (?c 1 False) {#RespSend 1 ex_reply, SyncWait ''1'' 1#}" ord]
    by (simp add: add_mset_commute)
  have s5: "bus_step ord (?b (?c 1 False) {#RespSend 1 ex_reply, SyncClean ''1'' 1 (Err ErrTimeout)#})
      (?b (?c 1 True) {#RespSend 1 ex_reply, SyncCleaning ''1'' 1 (Err ErrTimeout)#})"
    using bus_step.sync_clean [of "''1''" 1 "Err ErrTimeout" "?b (?c 1 False) {#RespSend 1 ex_reply, SyncClean ''1'' 1 (Err ErrTimeout)#}" "?lk 1 True" ord]
    by (simp add: lk_announce_def add_mset_commute)
  from ex_call [of ord] s1 s2 s3 s4 s5 show ?thesis by (meson rtranclp.rtrancl_into_rtrancl)
qed

theorem late_response_blocks_for_ever_witness:
  "\<exists>b ch m. (bus_step sorted_list_of_fset)\<^sup>*\<^sup>* bus_init b \<and> RespSend ch m \<in># b_threads b \<and>
     SendSync_clean ''1'' ch (Err ErrTimeout) b = None \<and> SendResp_start ex_reply b = None"
  using late_response_blocks_for_ever [OF ex_late_response range_order_sorted, of 1 ex_reply _ ex_request "''1''" 1 "Err ErrTimeout" ex_reply]
    ex_late_response [of sorted_list_of_fset]
  by (intro exI [of _ "bus_init\<lparr>b_ctx := ex_registered\<lparr>anonChsLock := \<lparr>lk_readers = 1, lk_writer = False, lk_waiting = True\<rparr>\<rparr>,
        b_threads := {#RespSend 1 ex_reply, SyncCleaning ''1'' 1 (Err ErrTimeout)#}\<rparr>"] exI [of _ 1] exI [of _ ex_reply]) simp

end
