(* ===== verification/Delivery.thy ===== *)
theory Delivery
  imports Dispatch_Props Cloud_Props Edge_Props Viaduct_Props Beehive_Props
begin

text \<open>
  The way of a resource from the controller to the maps of an edge node, through the components
  between them: the message of a dispatch, the list queue of the node in the cloud hub, the write
  loop, the transport, the dispatch of the edge hub and the main loop of the edge control plane.
\<close>

section \<open>The message of a dispatch\<close>

definition edge_path :: "Resource \<Rightarrow> string" where
  "edge_path r = r_Namespace r @ ''/'' @ the (resource_type (r_Spec r)) @ ''/envoy'' @ r_Name r"

text \<open>A resource whose message the transport carries unchanged: it has a spec and a plain text path.\<close>

definition plain :: "string \<Rightarrow> bool" where
  "plain s \<longleftrightarrow> list_all ascii s"

definition sendable :: "Resource \<Rightarrow> bool" where
  "sendable r \<longleftrightarrow> r_Spec r \<noteq> NilSpec \<and> path_name (r_Namespace r) \<and> plain (r_Namespace r) \<and> plain (r_Name r) \<and>
     plain (r_ResourceVersion r)"

definition to_node :: "string \<Rightarrow> int \<Rightarrow> string \<Rightarrow> Resource \<Rightarrow> string \<Rightarrow> string \<Rightarrow> Message" where
  "to_node uuid now node r opr pb = dispatch_message uuid now r opr (resource_path node r) pb"

lemma to_node_simps [simp]:
  "GetID (to_node uuid now node r opr pb) = uuid" "GetParentID (to_node uuid now node r opr pb) = []"
  "GetResource (to_node uuid now node r opr pb) = resource_path node r" "GetOperation (to_node uuid now node r opr pb) = opr"
  "GetSource (to_node uuid now node r opr pb) = ''envoyingress''" "GetGroup (to_node uuid now node r opr pb) = ''envoy''"
  "GetResourceVersion (to_node uuid now node r opr pb) = r_ResourceVersion r"
  "m_Content (to_node uuid now node r opr pb) = StringContent (b64_EncodeToString pb)"
  by (simp_all add: to_node_def dispatch_message_def message_defs ENVOYINGRESSCONTROLLERNAME_def GROUPRESOURCE_def)

lemma resource_type_cases:
  assumes "r_Spec r \<noteq> NilSpec"
  obtains k where "resource_type (r_Spec r) = Some (kind_name k)" "spec_kind (r_Spec r) = Some k"
  using assms by (cases "r_Spec r") (auto simp: resource_type_def)

lemma kind_name_plain: "kind_name k \<noteq> []" "no_slash (kind_name k)" "plain (kind_name k)" "kind_name k \<noteq> ''node''"
  by (cases k; simp add: no_slash_def plain_def ascii_def)+

lemma resource_path_parts:
  assumes "sendable r" and "path_name node"
  shows "strings_Split (CHR ''/'') (resource_path node r) =
    [''node'', node, r_Namespace r, the (resource_type (r_Spec r))] @ strings_Split (CHR ''/'') (''envoy'' @ r_Name r)"
proof -
  obtain k where k: "resource_type (r_Spec r) = Some (kind_name k)"
    using assms(1) resource_type_cases unfolding sendable_def by metis
  have "BuildResource node (r_Namespace r) (kind_name k) (''envoy'' @ r_Name r) = Ok (resource_path node r)"
    using assms k kind_name_plain(1) by (simp add: BuildResource_Ok_iff resource_path_def sendable_def path_name_def)
  from BuildResource_parts [OF this] show ?thesis
    using assms k kind_name_plain(2) by (simp add: sendable_def path_name_def)
qed

lemma edge_path_parts:
  assumes "sendable r"
  shows "strings_Split (CHR ''/'') (edge_path r) =
    [r_Namespace r, the (resource_type (r_Spec r))] @ strings_Split (CHR ''/'') (''envoy'' @ r_Name r)"
proof -
  obtain k where k: "resource_type (r_Spec r) = Some (kind_name k)"
    using assms resource_type_cases unfolding sendable_def by metis
  have "edge_path r = r_Namespace r @ CHR ''/'' # kind_name k @ CHR ''/'' # (''envoy'' @ r_Name r)"
    by (simp add: edge_path_def k)
  then show ?thesis
    using assms k kind_name_plain(2) Split_append_slash by (simp add: sendable_def path_name_def del: append_Cons append.simps)
qed

text \<open>The write loop cuts the node off.\<close>

lemma trim_to_node:
  assumes "sendable r" and "path_name node"
  shows "trimMessage (to_node uuid now node r opr pb) =
    SetResourceOperation (edge_path r) opr (to_node uuid now node r opr pb)"
proof -
  have "strings_Join ''/'' (strings_Split (CHR ''/'') (edge_path r)) = edge_path r"
    by (rule strings_Join_Split)
  moreover have "strings_HasPrefix (resource_path node r) ''node''"
    by (simp add: resource_path_def)
  ultimately show ?thesis
    using edge_path_parts [OF assms(1)] by (simp add: trimMessage_def Let_def resource_path_parts [OF assms])
qed


section \<open>Through the cloud hub\<close>

lemma dispatch_to_node:
  assumes "sendable r" and "path_name node"
  shows "DispatchMessage syncs (to_node uuid now node r opr pb) q =
    Ok (addListMessageToQueue node (to_node uuid now node r opr pb) q)"
proof -
  let ?m = "to_node uuid now node r opr pb"
  have "cq_GetNodeID ?m = Ok node"
    using assms(2) by (simp add: cq_GetNodeID_def resource_path_parts [OF assms] path_name_def)
  moreover have "strings_Contains (resource_path node r) ''envoy''"
    unfolding strings_Contains_iff
    by (intro exI [of _ "''node/'' @ node @ ''/'' @ r_Namespace r @ ''/'' @ the (resource_type (r_Spec r)) @ ''/''"] exI [of _ "r_Name r"])
      (simp add: resource_path_def)
  then have "isListResource ?m" by (simp add: isListResource_def Let_def)
  ultimately show ?thesis using assms(2) by (simp add: DispatchMessage_def path_name_def)
qed

lemma to_node_passes:
  assumes "sendable r" and "path_name node"
  shows "\<not> IsNodeStopped (to_node uuid now node r opr pb)" and "IsToEdge (to_node uuid now node r opr pb)"
proof -
  obtain k where "resource_type (r_Spec r) = Some (kind_name k)"
    using assms(1) resource_type_cases unfolding sendable_def by metis
  then show "\<not> IsNodeStopped (to_node uuid now node r opr pb)"
    using kind_name_plain(4)
    by (simp add: IsNodeStopped_def GetResourceType_def path_part_def resource_path_parts [OF assms] ResourceTypeNode_def
        Let_def or_empty_def)
qed (simp add: IsToEdge_def SrcManager_def)

text \<open>Messages dispatched one after the other, and passes of the write loop.\<close>

fun dispatch_burst :: "objectSyncs \<Rightarrow> Message list \<Rightarrow> 'api MessageHandle \<Rightarrow> 'api MessageHandle result" where
  "dispatch_burst syncs [] mh = Ok mh"
| "dispatch_burst syncs (m # ms) mh =
     bind (DispatchMessage syncs m (mh_MessageQueue mh)) (\<lambda>q. dispatch_burst syncs ms (mh\<lparr>mh_MessageQueue := q\<rparr>))"

fun list_passes :: "nat \<Rightarrow> 'api hub_env \<Rightarrow> string \<Rightarrow> 'api MessageHandle \<Rightarrow> 'api pass" where
  "list_passes 0 E node mh = Continues mh"
| "list_passes (Suc i) E node mh =
     (case ListMessageWriteLoop E node mh of Continues mh' \<Rightarrow> list_passes i E node mh' | p \<Rightarrow> p)"

text \<open>The list queue of a node holds these messages, in this order, and nothing else.\<close>

definition queued :: "string \<Rightarrow> Message list \<Rightarrow> 'api MessageHandle \<Rightarrow> bool" where
  "queued node ms mh \<longleftrightarrow>
     (let w = list_queue (mh_MessageQueue mh) node; s = list_store (mh_MessageQueue mh) node
      in wq_queue w = map GetID ms \<and> wq_dirty w = fset_of_list (map GetID ms) \<and> wq_processing w = {||} \<and>
         \<not> wq_shuttingDown w \<and> (\<forall>m\<in>set ms. fmlookup s (GetID m) = Some m))"

lemma queued_add:
  assumes "queued node ms mh" and "GetID m \<notin> GetID ` set ms"
  shows "queued node (ms @ [m]) (mh\<lparr>mh_MessageQueue := addListMessageToQueue node m (mh_MessageQueue mh)\<rparr>)"
  using assms
  by (auto simp: queued_def Let_def addListMessageToQueue_entries wq_Add_def fset_of_list_elem)

lemma dispatch_burst_queues:
  assumes "queued node old mh" and "distinct (map GetID (old @ ms))"
    and "\<forall>m\<in>set ms. \<forall>q. DispatchMessage syncs m q = Ok (addListMessageToQueue node m q)"
  obtains mh' where "dispatch_burst syncs ms mh = Ok mh'" "queued node (old @ ms) mh'"
    "mh_nodeLocks mh' = mh_nodeLocks mh" "mh_nodeConns mh' = mh_nodeConns mh" "mh_written mh' = mh_written mh"
  using assms
proof (induction ms arbitrary: mh old thesis)
  case (Cons m ms)
  let ?mh1 = "mh\<lparr>mh_MessageQueue := addListMessageToQueue node m (mh_MessageQueue mh)\<rparr>"
  have "queued node (old @ [m]) ?mh1" using Cons.prems(2,3) by (intro queued_add) auto
  from Cons.IH [OF _ this] obtain mh' where "dispatch_burst syncs ms ?mh1 = Ok mh'" "queued node ((old @ [m]) @ ms) mh'"
      "mh_nodeLocks mh' = mh_nodeLocks ?mh1" "mh_nodeConns mh' = mh_nodeConns ?mh1" "mh_written mh' = mh_written ?mh1"
    using Cons.prems(3,4) by auto
  then show ?case using Cons.prems(1,4) by simp
qed simp

lemma list_passes_write:
  assumes "queued node ms mh" and "distinct (map GetID ms)" and "node |\<in>| mh_nodeLocks mh"
    and "fmlookup (mh_nodeConns mh) node = Some hi" and "\<And>i. he_write_ok E i"
    and "\<forall>m\<in>set ms. \<not> IsNodeStopped m \<and> IsToEdge m"
  obtains mh' where "list_passes (length ms) E node mh = Continues mh'" "queued node [] mh'"
    "mh_written mh' = mh_written mh @ map (\<lambda>m. (node, trimMessage m)) ms"
  using assms
proof (induction ms arbitrary: mh thesis)
  case (Cons m ms)
  let ?w = "list_queue (mh_MessageQueue mh) node"
  have q: "wq_queue ?w = GetID m # map GetID ms" "wq_dirty ?w = fset_of_list (GetID m # map GetID ms)" "wq_processing ?w = {||}"
      "\<not> wq_shuttingDown ?w" "\<forall>x\<in>set (m # ms). fmlookup (list_store (mh_MessageQueue mh) node) (GetID x) = Some x"
    using Cons.prems(2) by (simp_all add: queued_def Let_def)
  let ?w' = "?w\<lparr>wq_queue := map GetID ms, wq_processing := {|GetID m|}, wq_dirty := wq_dirty ?w |-| {|GetID m|}\<rparr>"
  have "wq_Get ?w = Item (GetID m) ?w'" using q(1,3) by (simp add: wq_Get_def)
  from list_loop_step [OF this _ refl, where hi = hi and E = E] q(5) Cons.prems(4,5,7)
  obtain mh1 where mh1: "ListMessageWriteLoop E node mh = Continues mh1"
      "mh_written mh1 = mh_written mh @ (if he_write_ok E (mh_writes mh) then [(node, trimMessage m)] else [])"
      "list_queue (mh_MessageQueue mh1) node = wq_Done (GetID m) (wq_Forget (GetID m) ?w')"
      "list_store (mh_MessageQueue mh1) node = fmdrop (GetID m) (list_store (mh_MessageQueue mh) node)"
      "mh_nodeLocks mh1 = mh_nodeLocks mh" "mh_nodeConns mh1 = mh_nodeConns mh"
    by auto
  have other: "\<forall>x\<in>set ms. GetID x \<noteq> GetID m" using Cons.prems(3) by (auto simp: image_iff)
  then have "fset_of_list (GetID m # map GetID ms) |-| {|GetID m|} = fset_of_list (map GetID ms)"
    by (auto simp: fset_of_list_elem)
  with q(2) have "wq_dirty ?w' = fset_of_list (map GetID ms)" by simp
  moreover have "GetID m |\<notin>| fset_of_list (map GetID ms)" using other by (auto simp: fset_of_list_elem)
  ultimately have "queued node ms mh1"
    unfolding queued_def Let_def mh1(3,4) using q(4,5) other by (simp add: wq_Done_def wq_Forget_def Let_def)
  from Cons.IH [OF _ this] obtain mh' where "list_passes (length ms) E node mh1 = Continues mh'" "queued node [] mh'"
      "mh_written mh' = mh_written mh1 @ map (\<lambda>m. (node, trimMessage m)) ms"
    using Cons.prems(3-7) mh1(5,6) by auto
  then show ?case using Cons.prems(1,6) mh1(1,2) by simp
qed simp


section \<open>To the maps of the edge\<close>

text \<open>
  What arrives over a WebSocket connection is what was sent, with the node cut off; the edge hub
  passes it to the group of the edge control plane.
\<close>

lemma at_edge:
  assumes "sendable r" and "path_name node" and m: "m = async (trimMessage (to_node uuid now node r opr pb))"
  shows "GetID m = uuid" "GetParentID m = []" "GetResource m = edge_path r" "GetOperation m = opr"
    "GetSource m = ''envoyingress''" "GetGroup m = ''envoy''" "GetResourceVersion m = r_ResourceVersion r"
    "m_Content m = StringContent (b64_EncodeToString pb)"
  unfolding m trim_to_node [OF assms(1,2)]
  by (simp_all add: async_def to_node_def dispatch_message_def message_defs ENVOYINGRESSCONTROLLERNAME_def GROUPRESOURCE_def)

lemma to_node_arrives:
  assumes "sendable r" and "path_name node" and "plain uuid" and "plain opr"
    and m: "m = async (trimMessage (to_node uuid now node r opr pb))"
  shows "ws_transfer m = Some m" and "edgehub_dispatch m = Ok (EdgeToGroup ''envoy'' m)"
proof -
  note v = at_edge [OF assms(1,2) m]
  obtain k where k: "resource_type (r_Spec r) = Some (kind_name k)"
    using assms(1) resource_type_cases unfolding sendable_def by metis
  have path: "plain (edge_path r)"
    using assms(1) kind_name_plain(3) [of k] by (simp add: edge_path_def k sendable_def plain_def ascii_def)
  then have "ascii_fields m"
    using assms(1,3,4) by (simp add: ascii_fields_def v plain_def sendable_def ascii_def)
  then show "ws_transfer m = Some m"
    by (simp add: ws_transfer_def v b64_encode_ascii)
  show "edgehub_dispatch m = Ok (EdgeToGroup ''envoy'' m)"
    by (simp add: edgehub_dispatch_def Let_def v)
qed

text \<open>What the protobuf package and the JSON encoder promise for the specs of resources.\<close>

definition spec_law :: "(spec \<Rightarrow> string result) \<Rightarrow> ('db, 'xds) edge_env \<Rightarrow> bool" where
  "spec_law marshal E \<longleftrightarrow>
     (\<forall>s k b. marshal s = Ok b \<longrightarrow> spec_kind s = Some k \<longrightarrow> ee_Unmarshal E k b = Ok s)"

lemma decode_to_node:
  assumes "sendable r" and "path_name node" and "spec_kind (r_Spec r) = Some k"
    and m: "m = async (trimMessage (to_node uuid now node r opr pb))"
  shows "decodeMessage m = Ok (edge_path r, kind_name k, b64_EncodeToString pb, pb)" "GetOperation m = opr"
proof -
  note v = at_edge [OF assms(1,2) m]
  have "resource_type (r_Spec r) = Some (kind_name k)"
    using assms(3) by (cases "r_Spec r") (auto simp: resource_type_def)
  then have "parseResource (edge_path r) = Ok (edge_path r, kind_name k)"
    by (simp add: parseResource_def edge_path_parts [OF assms(1)])
  moreover have "generateContent m = json_Marshal_string (b64_EncodeToString pb)"
    by (simp add: generateContent_def v)
  ultimately show "decodeMessage m = Ok (edge_path r, kind_name k, b64_EncodeToString pb, pb)" "GetOperation m = opr"
    by (simp_all add: decodeMessage_def b64_decode_encode v)
qed

lemma effect_of_update:
  assumes "sendable r" and "path_name node" and "spec_kind (r_Spec r) = Some k" and "spec_law marshal E"
    and "marshal (r_Spec r) = Ok pb" and "opr = InsertOperation \<or> opr = DeleteOperation"
  shows "message_effect E (async (trimMessage (to_node uuid now node r opr pb))) =
    Some (k, edge_path r, if opr = InsertOperation then Some (r_Spec r) else None)"
proof -
  note d = decode_to_node [OF assms(1-3) refl]
  have "ee_Unmarshal E k pb = Ok (r_Spec r)" using assms(3-5) unfolding spec_law_def by blast
  then show ?thesis using assms(6) by (auto simp: message_effect_def d)
qed

text \<open>
  A sequence of updates for a node: each inserts or deletes a resource, with the id, the time and the
  encoded spec of its message. Its intended effect is on a table of kinds and paths.
\<close>

record resource_update =
  u_id :: string
  u_time :: int
  u_resource :: Resource
  u_operation :: string
  u_bytes :: string

definition update_message :: "string \<Rightarrow> resource_update \<Rightarrow> Message" where
  "update_message node u = to_node (u_id u) (u_time u) node (u_resource u) (u_operation u) (u_bytes u)"

definition valid_update :: "(spec \<Rightarrow> string result) \<Rightarrow> resource_update \<Rightarrow> bool" where
  "valid_update marshal u \<longleftrightarrow>
     sendable (u_resource u) \<and> plain (u_id u) \<and> u_operation u \<in> {InsertOperation, DeleteOperation} \<and>
     marshal (r_Spec (u_resource u)) = Ok (u_bytes u)"

fun intended :: "resource_update list \<Rightarrow> (ResourceKind \<Rightarrow> string \<Rightarrow> spec option) \<Rightarrow> ResourceKind \<Rightarrow> string \<Rightarrow> spec option" where
  "intended [] t = t"
| "intended (u # us) t =
     intended us (\<lambda>k p. if spec_kind (r_Spec (u_resource u)) = Some k \<and> p = edge_path (u_resource u)
                        then if u_operation u = InsertOperation then Some (r_Spec (u_resource u)) else None
                        else t k p)"

lemma plain_operation: "opr \<in> {InsertOperation, DeleteOperation} \<Longrightarrow> plain opr"
  by (auto simp: plain_def InsertOperation_def DeleteOperation_def ascii_def)

lemma run_updates:
  assumes "\<forall>u\<in>set us. valid_update marshal u" and "path_name node" and "spec_law marshal E" and "env_never_panics E"
  obtains e' where "runEnvoyControlPlane E (map (\<lambda>u. async (trimMessage (update_message node u))) us) e = Ok e'"
    "held e' = intended us (held e)"
  using assms(1)
proof (induction us arbitrary: e thesis)
  case (Cons u us)
  let ?m = "async (trimMessage (update_message node u))" and ?r = "u_resource u"
  have u: "sendable ?r" "marshal (r_Spec ?r) = Ok (u_bytes u)" "u_operation u = InsertOperation \<or> u_operation u = DeleteOperation"
    using Cons.prems(2) by (auto simp: valid_update_def)
  then obtain k where k: "spec_kind (r_Spec ?r) = Some k"
    using resource_type_cases unfolding sendable_def by metis
  have eff: "message_effect E ?m = Some (k, edge_path ?r, if u_operation u = InsertOperation then Some (r_Spec ?r) else None)"
    unfolding update_message_def by (rule effect_of_update [OF u(1) assms(2) k assms(3) u(2,3)])
  have "decodeMessage ?m = Ok (edge_path ?r, kind_name k, b64_EncodeToString (u_bytes u), u_bytes u)"
    by (rule decode_to_node [OF u(1) assms(2) k]) (simp add: update_message_def)
  then have "\<not> crashes ?m"
    using decodeMessage_Panic [of ?m IndexOutOfRange] by (auto simp: crashes_def)
  then obtain e1 where e1: "process E ?m e = Ok e1"
    using process_Panic [OF assms(4), of ?m e] process_no_Err [of E ?m e] by (cases "process E ?m e") auto
  have held1: "held e1 = (\<lambda>k p. if spec_kind (r_Spec ?r) = Some k \<and> p = edge_path ?r
      then if u_operation u = InsertOperation then Some (r_Spec ?r) else None else held e k p)"
    using applies_held [OF process_applies [OF e1]] k eff by (intro ext) simp
  obtain e' where "runEnvoyControlPlane E (map (\<lambda>u. async (trimMessage (update_message node u))) us) e1 = Ok e'"
    "held e' = intended us (held e1)"
    using Cons.IH [of e1] Cons.prems(2) by auto
  then show ?case using Cons.prems(1) [of e'] e1 held1 by simp
qed simp

text \<open>
  What the edge hub hands to the modules of the group \<open>envoy\<close> when the cloud hub writes a message,
  over a WebSocket connection and over QUIC.
\<close>

definition to_group :: "Message \<Rightarrow> Message option" where
  "to_group m = (case edgehub_dispatch m of Ok (EdgeToGroup grp m') \<Rightarrow> if grp = ''envoy'' then Some m' else None | _ \<Rightarrow> None)"

definition over_ws :: "Message \<Rightarrow> Message option" where
  "over_ws m = Option.bind (ws_transfer (async m)) to_group"

definition over_quic :: "proto_codec \<Rightarrow> Message \<Rightarrow> Message option" where
  "over_quic C m =
     (case bind (quic_WriteMessage C (async m)) (\<lambda>stream. quic_ReadMessage C stream NewRawMessage) of
        Ok (m', rest) \<Rightarrow> to_group m'
      | _ \<Rightarrow> None)"

lemma over_ws_update:
  assumes "valid_update marshal u" and "path_name node"
  shows "over_ws (trimMessage (update_message node u)) = Some (async (trimMessage (update_message node u)))"
  using assms to_node_arrives [of "u_resource u" node "u_id u" "u_operation u" _ "u_time u" "u_bytes u"]
  by (auto simp: valid_update_def over_ws_def to_group_def update_message_def plain_operation)

text \<open>The protobuf package encodes the message of a write, and a package can carry it.\<close>

definition fits :: "proto_codec \<Rightarrow> Message \<Rightarrow> bool" where
  "fits C m \<longleftrightarrow> (case proto_Marshal C (modelToProto (async m)) of Ok b \<Rightarrow> length b < 2 ^ 32 | _ \<Rightarrow> False)"

lemma quic_roundtrip:
  assumes "proto_law C" and "fits C m"
  shows "bind (quic_WriteMessage C (async m)) (\<lambda>stream. quic_ReadMessage C stream NewRawMessage) = Ok (quic_transfer (async m), [])"
proof -
  obtain b where b: "proto_Marshal C (modelToProto (async m)) = Ok b" "length b < 2 ^ 32"
    using assms(2) by (auto simp: fits_def split: result.splits)
  then have "proto_Unmarshal C b = Ok (modelToProto (async m))" using assms(1) unfolding proto_law_def by blast
  then show ?thesis
    using b Read_Write [of b "[]"]
    by (simp add: quic_WriteMessage_def quic_ReadMessage_def Encode_def Decode_def proto_roundtrip)
qed

lemma over_quic_update:
  assumes "valid_update marshal u" and "path_name node" and "proto_law C" and "fits C (trimMessage (update_message node u))"
  obtains m where "over_quic C (trimMessage (update_message node u)) = Some m"
    "m_Content m = BytesContent (b64_EncodeToString (u_bytes u))" "CHR ''/'' \<in> set (GetResource m)"
proof -
  let ?m = "async (trimMessage (update_message node u))"
  have s: "sendable (u_resource u)" using assms(1) by (simp add: valid_update_def)
  note v = at_edge [OF s assms(2), of ?m, unfolded update_message_def, OF refl, folded update_message_def]
  have q: "GetGroup (quic_transfer ?m) = GetGroup ?m" "GetParentID (quic_transfer ?m) = GetParentID ?m"
      "GetResource (quic_transfer ?m) = GetResource ?m"
      "m_Content (quic_transfer ?m) = BytesContent (body_bytes (m_Content ?m))"
    by (simp_all add: quic_transfer_def message_defs)
  have "edgehub_dispatch (quic_transfer ?m) = Ok (EdgeToGroup ''envoy'' (quic_transfer ?m))"
    by (simp add: edgehub_dispatch_def Let_def q v)
  then have "over_quic C (trimMessage (update_message node u)) = Some (quic_transfer ?m)"
    using quic_roundtrip [OF assms(3,4)] by (simp add: over_quic_def to_group_def)
  moreover have "CHR ''/'' \<in> set (GetResource (quic_transfer ?m))" by (simp add: q v edge_path_def)
  ultimately show thesis using that [of "quic_transfer ?m"] by (simp add: q v body_bytes_def)
qed

end
