(* ===== verification/Sync_Controller.thy ===== *)
theory Sync_Controller
  imports Cloud_Hub
begin

text \<open>
  The synchronisation controller (\<open>cloud/pkg/synccontroller\<close>): every five seconds it compares the
  versions recorded in the \<open>ObjectSync\<close> objects with the objects of the API server and sends
  messages for those that differ, and it deletes the \<open>ObjectSync\<close> objects of nodes that are gone.
  The clients of the API server are arguments; an \<open>ObjectSync\<close> comes with its namespace. The
  functions for objects of the whole cluster and for failed creations are empty in the code.
\<close>

section \<open>Comparing versions\<close>

definition ParseGroupVersion :: "string \<Rightarrow> (string \<times> string) result" where
  "ParseGroupVersion gv =
     (if gv = [] \<or> gv = ''/'' then Ok ([], [])
      else
        (case strings_Split (CHR ''/'') gv of
           [version] \<Rightarrow> Ok ([], version)
         | [grp, version] \<Rightarrow> Ok (grp, version)
         | _ \<Rightarrow> Err ErrSyntax))"

record sync_env =
  se_Get :: "string \<times> string \<Rightarrow> string \<Rightarrow> string \<Rightarrow> string \<Rightarrow> api_object result"
  se_GetNode :: "string \<Rightarrow> unit result"
  se_uuid :: "nat \<Rightarrow> string"
  se_now :: "nat \<Rightarrow> int"

text \<open>A message, or nil when its path cannot be built.\<close>

definition buildEdgeControllerMessage ::
  "string \<Rightarrow> int \<Rightarrow> string \<Rightarrow> string \<Rightarrow> string \<Rightarrow> string \<Rightarrow> string \<Rightarrow> api_object \<Rightarrow> Message option" where
  "buildEdgeControllerMessage uuid now nodeName namespace resourceType resourceName operationType obj =
     (case BuildResource nodeName namespace resourceType resourceName of
        Ok resource \<Rightarrow>
          Some (SetResourceVersion (ao_ResourceVersion obj)
            (FillBody (ObjectContent obj)
              (BuildRouter EdgeControllerModuleName GroupResource resource operationType (NewMessage uuid now []))))
      | _ \<Rightarrow> None)"

definition send_built :: "Message option \<Rightarrow> outbox \<Rightarrow> outbox result" where
  "send_built msg out = (case msg of None \<Rightarrow> Panic NilDereference | Some m \<Rightarrow> Ok (out @ [(''cloudhub'', m)]))"

definition sendEvents :: "sync_env \<Rightarrow> bool \<Rightarrow> string \<Rightarrow> string \<Rightarrow> ObjectSync \<Rightarrow> api_object \<Rightarrow> outbox \<Rightarrow> outbox result" where
  "sendEvents S notFound nodeName namespace sync obj out =
     (let build = (\<lambda>operationType. buildEdgeControllerMessage (se_uuid S (length out)) (se_now S (length out)) nodeName namespace
            (os_ObjectKind sync) (os_ObjectName sync) operationType obj)
      in if notFound then send_built (build DeleteOperation) out
         else if os_ObjectResourceVersion sync = [] then Ok out
         else
           bind (CompareResourceVersion (ao_ResourceVersion obj) (os_ObjectResourceVersion sync)) (\<lambda>c.
             if c > 0 then send_built (build UpdateOperation) out else Ok out))"

text \<open>
  An object that the API server does not give is left alone. One with another uid than the name of
  the \<open>ObjectSync\<close> says counts as deleted; the message about it carries the object that was found.
\<close>

definition manageObject :: "sync_env \<Rightarrow> string \<Rightarrow> ObjectSync \<Rightarrow> outbox \<Rightarrow> outbox result" where
  "manageObject S namespace sync out =
     (case ParseGroupVersion (os_ObjectAPIVersion sync) of
        Ok gv \<Rightarrow>
          (case se_Get S gv (os_ObjectKind sync) namespace (os_ObjectName sync) of
             Ok object \<Rightarrow>
               sendEvents S (getObjectUID (os_Name sync) \<noteq> ao_UID object) (getNodeName (os_Name sync)) namespace sync object out
           | Err er \<Rightarrow> Ok out
           | Panic p \<Rightarrow> Panic p)
      | _ \<Rightarrow> Ok out)"

fun manageObjectSync :: "sync_env \<Rightarrow> (string \<times> ObjectSync) list \<Rightarrow> outbox \<Rightarrow> outbox result" where
  "manageObjectSync S [] out = Ok out"
| "manageObjectSync S ((namespace, sync) # syncs) out = bind (manageObject S namespace sync out) (manageObjectSync S syncs)"

text \<open>A lister that fails gives no objects.\<close>

definition reconcile :: "sync_env \<Rightarrow> (string \<times> ObjectSync) list result \<Rightarrow> outbox \<Rightarrow> outbox result" where
  "reconcile S listed out = manageObjectSync S (case listed of Ok syncs \<Rightarrow> syncs | _ \<Rightarrow> []) out"


section \<open>Nodes that are gone\<close>

definition checkObjectSync :: "sync_env \<Rightarrow> ObjectSync \<Rightarrow> bool \<times> error option" where
  "checkObjectSync S sync =
     (case se_GetNode S (getNodeName (os_Name sync)) of
        Err er \<Rightarrow> if er = ErrNotFound then (True, None) else (False, Some er)
      | _ \<Rightarrow> (False, None))"

text \<open>The deletions asked for, in order; one that fails is only logged.\<close>

definition deleteObjectSyncs ::
  "sync_env \<Rightarrow> (string \<Rightarrow> string \<Rightarrow> 'api \<Rightarrow> 'api result) \<Rightarrow> (string \<times> ObjectSync) list result \<Rightarrow> 'api \<Rightarrow> 'api" where
  "deleteObjectSyncs S delete listed api =
     fold (\<lambda>(namespace, sync) a.
         if fst (checkObjectSync S sync)
         then (case delete namespace (os_Name sync) a of Ok a' \<Rightarrow> a' | _ \<Rightarrow> a) else a)
       (case listed of Ok syncs \<Rightarrow> syncs | _ \<Rightarrow> []) api"

end
