(* ===== verification/Sync_Props.thy ===== *)
theory Sync_Props
  imports Sync_Controller Cloud_Props
begin

text \<open>
  Properties of the synchronisation controller together with the queues and save points of the
  cloud hub: a change that a node has not confirmed is sent again until it has, what happens to an
  object that is deleted and created again, and which \<open>ObjectSync\<close> objects are removed.
\<close>

section \<open>The messages of the controller\<close>

text \<open>What the client of the \<open>ObjectSync\<close> objects promises, by what a lookup gives.\<close>

definition sync_client :: "'api hub_env \<Rightarrow> ('api \<Rightarrow> string \<Rightarrow> string \<Rightarrow> ObjectSync option) \<Rightarrow> bool" where
  "sync_client E lookup \<longleftrightarrow>
     (\<forall>a ns n. he_Get E ns n a = (case lookup a ns n of Some s \<Rightarrow> Ok s | None \<Rightarrow> Err ErrNotFound)) \<and>
     (\<forall>a ns s old. lookup a ns (os_Name s) = Some old \<longrightarrow>
        (\<exists>a'. he_UpdateStatus E ns s a = Ok a' \<and>
          (\<forall>ns' n. lookup a' ns' n =
             (if ns' = ns \<and> n = os_Name s then Some (old\<lparr>os_ObjectResourceVersion := os_ObjectResourceVersion s\<rparr>) else lookup a ns' n)))) \<and>
     (\<forall>a ns n. case lookup a ns n of
          None \<Rightarrow> he_Delete E ns n a = Err ErrNotFound
        | Some s \<Rightarrow> \<exists>a'. he_Delete E ns n a = Ok a' \<and> (\<forall>ns' n'. lookup a' ns' n' = (if ns' = ns \<and> n' = n then None else lookup a ns' n')))"

text \<open>A name that can be a part of a resource path, and an \<open>ObjectSync\<close> of a node and a uid.\<close>

definition part :: "string \<Rightarrow> bool" where
  "part s \<longleftrightarrow> s \<noteq> [] \<and> no_slash s"

definition sync_of :: "string \<Rightarrow> string \<Rightarrow> string \<Rightarrow> ObjectSync \<Rightarrow> bool" where
  "sync_of node uid ns sync \<longleftrightarrow>
     os_Name sync = BuildObjectSyncName node uid \<and> CHR ''.'' \<notin> set uid \<and> part node \<and> part ns \<and>
     part (os_ObjectKind sync) \<and> part (os_ObjectName sync)"

definition the_path :: "string \<Rightarrow> string \<Rightarrow> ObjectSync \<Rightarrow> string" where
  "the_path node ns sync = ''node/'' @ node @ ''/'' @ ns @ ''/'' @ os_ObjectKind sync @ ''/'' @ os_ObjectName sync"

definition event :: "sync_env \<Rightarrow> nat \<Rightarrow> string \<Rightarrow> string \<Rightarrow> ObjectSync \<Rightarrow> string \<Rightarrow> api_object \<Rightarrow> Message" where
  "event S i node ns sync opr obj =
     SetResourceVersion (ao_ResourceVersion obj) (FillBody (ObjectContent obj)
       (BuildRouter EdgeControllerModuleName GroupResource (the_path node ns sync) opr (NewMessage (se_uuid S i) (se_now S i) [])))"

lemma event_simps [simp]:
  "GetResource (event S i node ns sync opr obj) = the_path node ns sync" "GetOperation (event S i node ns sync opr obj) = opr"
  "GetGroup (event S i node ns sync opr obj) = GroupResource" "GetResourceVersion (event S i node ns sync opr obj) = ao_ResourceVersion obj"
  "m_Content (event S i node ns sync opr obj) = ObjectContent obj" "GetMessageUID (event S i node ns sync opr obj) = Ok (ao_UID obj)"
  by (simp_all add: event_def message_defs GetMessageUID_def)

lemma event_parts:
  assumes "sync_of node uid ns sync"
  shows "GetNamespace (event S i node ns sync opr obj) = Ok ns" "GetResourceType (event S i node ns sync opr obj) = Ok (os_ObjectKind sync)"
    "GetResourceName (event S i node ns sync opr obj) = Ok (os_ObjectName sync)"
    "cq_GetNodeID (event S i node ns sync opr obj) = Ok node"
    "getMsgKey (event S i node ns sync opr obj) = Ok (os_ObjectKind sync @ ''/'' @ ns @ ''/'' @ os_ObjectName sync)"
proof -
  have b: "BuildResource node ns (os_ObjectKind sync) (os_ObjectName sync) = Ok (GetResource (event S i node ns sync opr obj))"
    using assms by (simp add: BuildResource_Ok_iff sync_of_def part_def the_path_def)
  have p: "no_slash node" "no_slash ns" "no_slash (os_ObjectKind sync)" "no_slash (os_ObjectName sync)" "os_ObjectName sync \<noteq> []"
    using assms by (simp_all add: sync_of_def part_def)
  note g = BuildResource_getters [OF b p]
  show n: "GetNamespace (event S i node ns sync opr obj) = Ok ns" "GetResourceType (event S i node ns sync opr obj) = Ok (os_ObjectKind sync)"
    "GetResourceName (event S i node ns sync opr obj) = Ok (os_ObjectName sync)"
    using g by simp_all
  show "cq_GetNodeID (event S i node ns sync opr obj) = Ok node"
    using BuildResource_parts [OF b p(1-3,5)] assms by (simp add: cq_GetNodeID_def sync_of_def part_def)
  show "getMsgKey (event S i node ns sync opr obj) = Ok (os_ObjectKind sync @ ''/'' @ ns @ ''/'' @ os_ObjectName sync)"
    by (simp add: getMsgKey_def n or_empty_def)
qed

lemma sync_of_name:
  assumes "sync_of node uid ns sync"
  shows "getNodeName (os_Name sync) = node" "getObjectUID (os_Name sync) = uid"
  using assms object_sync_name_roundtrip [of uid node] by (simp_all add: sync_of_def)

lemma build_event:
  assumes "sync_of node uid ns sync"
  shows "buildEdgeControllerMessage (se_uuid S i) (se_now S i) node ns (os_ObjectKind sync) (os_ObjectName sync) opr obj =
    Some (event S i node ns sync opr obj)"
proof -
  have "BuildResource node ns (os_ObjectKind sync) (os_ObjectName sync) = Ok (the_path node ns sync)"
    using assms by (simp add: BuildResource_Ok_iff sync_of_def part_def the_path_def)
  then show ?thesis by (simp add: buildEdgeControllerMessage_def event_def)
qed

text \<open>What the controller does with an \<open>ObjectSync\<close> whose object the API server gives.\<close>

lemma manageObject_found:
  assumes "sync_of node uid ns sync" and "ParseGroupVersion (os_ObjectAPIVersion sync) = Ok gv"
    and "se_Get S gv (os_ObjectKind sync) ns (os_ObjectName sync) = Ok obj"
  shows "manageObject S ns sync out =
    (if ao_UID obj \<noteq> uid then Ok (out @ [(''cloudhub'', event S (length out) node ns sync DeleteOperation obj)])
     else if os_ObjectResourceVersion sync = [] then Ok out
     else bind (CompareResourceVersion (ao_ResourceVersion obj) (os_ObjectResourceVersion sync))
       (\<lambda>c. if c > 0 then Ok (out @ [(''cloudhub'', event S (length out) node ns sync UpdateOperation obj)]) else Ok out))"
  using assms(2,3) sync_of_name [OF assms(1)]
  by (auto simp: manageObject_def sendEvents_def Let_def send_built_def build_event [OF assms(1)] cong: if_cong)

text \<open>Save points of the hub for these messages.\<close>

lemma sync_client_Update:
  assumes "sync_client E lookup" and "lookup a ns (os_Name s) = Some old"
  shows "\<exists>a'. he_UpdateStatus E ns s a = Ok a' \<and>
    (\<forall>ns' n. lookup a' ns' n =
      (if ns' = ns \<and> n = os_Name s then Some (old\<lparr>os_ObjectResourceVersion := os_ObjectResourceVersion s\<rparr>) else lookup a ns' n))"
  using assms unfolding sync_client_def by blast

lemma sync_client_Delete:
  assumes "sync_client E lookup"
  shows "lookup a ns n = None \<Longrightarrow> he_Delete E ns n a = Err ErrNotFound"
    and "lookup a ns n = Some s \<Longrightarrow>
      \<exists>a'. he_Delete E ns n a = Ok a' \<and> (\<forall>ns' n'. lookup a' ns' n' = (if ns' = ns \<and> n' = n then None else lookup a ns' n'))"
proof -
  have "case lookup a ns n of None \<Rightarrow> he_Delete E ns n a = Err ErrNotFound
      | Some s \<Rightarrow> \<exists>a'. he_Delete E ns n a = Ok a' \<and> (\<forall>ns' n'. lookup a' ns' n' = (if ns' = ns \<and> n' = n then None else lookup a ns' n'))"
    using assms unfolding sync_client_def by blast
  then show "lookup a ns n = None \<Longrightarrow> he_Delete E ns n a = Err ErrNotFound"
    and "lookup a ns n = Some s \<Longrightarrow>
      \<exists>a'. he_Delete E ns n a = Ok a' \<and> (\<forall>ns' n'. lookup a' ns' n' = (if ns' = ns \<and> n' = n then None else lookup a ns' n'))"
    by simp_all
qed

lemma save_update:
  assumes "sync_client E lookup" and "sync_of node uid ns sync" and "lookup (mh_api mh) ns (os_Name sync) = Some sync"
    and "ao_UID obj = uid"
  shows "lookup (mh_api (saveSuccessPoint E (event S i node ns sync UpdateOperation obj) node mh)) ns' n =
    (if ns' = ns \<and> n = os_Name sync then Some (sync\<lparr>os_ObjectResourceVersion := ao_ResourceVersion obj\<rparr>) else lookup (mh_api mh) ns' n)"
proof -
  let ?s = "sync\<lparr>os_ObjectResourceVersion := ao_ResourceVersion obj\<rparr>"
  have name: "os_Name sync = BuildObjectSyncName node uid" using assms(2) by (simp add: sync_of_def)
  have get: "he_Get E ns (os_Name sync) (mh_api mh) = Ok sync"
    using assms(1,3) by (simp add: sync_client_def)
  from assms(3) have "lookup (mh_api mh) ns (os_Name ?s) = Some sync" by simp
  from sync_client_Update [OF assms(1) this] obtain a' where a': "he_UpdateStatus E ns ?s (mh_api mh) = Ok a'"
    "\<forall>ns' n. lookup a' ns' n = (if ns' = ns \<and> n = os_Name ?s then Some (sync\<lparr>os_ObjectResourceVersion := os_ObjectResourceVersion ?s\<rparr>) else lookup (mh_api mh) ns' n)"
    by blast
  have "UpdateOperation \<noteq> DeleteOperation" by (simp add: UpdateOperation_def DeleteOperation_def)
  then have "mh_api (saveSuccessPoint E (event S i node ns sync UpdateOperation obj) node mh) = a'"
    using get a'(1) assms(4) name
    by (simp add: saveSuccessPoint_def Let_def event_parts [OF assms(2)] or_empty_def)
  then show ?thesis using a'(2) by simp
qed

lemma save_delete:
  assumes "sync_client E lookup" and "sync_of node uid ns sync"
  shows "lookup (mh_api (saveSuccessPoint E (event S i node ns sync DeleteOperation obj) node mh)) ns' n =
    (if ns' = ns \<and> n = BuildObjectSyncName node (ao_UID obj) then None else lookup (mh_api mh) ns' n)"
proof -
  let ?n = "BuildObjectSyncName node (ao_UID obj)"
  note parts = event_parts [OF assms(2)]
  show ?thesis
  proof (cases "lookup (mh_api mh) ns ?n")
    case None
    then have "he_Delete E ns ?n (mh_api mh) = Err ErrNotFound"
      by (rule sync_client_Delete(1) [OF assms(1)])
    then show ?thesis using None by (simp add: saveSuccessPoint_def Let_def parts or_empty_def set_store_def)
  next
    case (Some s)
    then obtain a' where "he_Delete E ns ?n (mh_api mh) = Ok a'" "\<forall>ns' n'. lookup a' ns' n' = (if ns' = ns \<and> n' = ?n then None else lookup (mh_api mh) ns' n')"
      using sync_client_Delete(2) [OF assms(1) Some] by blast
    then show ?thesis by (simp add: saveSuccessPoint_def Let_def parts or_empty_def set_store_def)
  qed
qed


section \<open>Unconfirmed changes\<close>

lemma newer_version:
  assumes "strconv_ParseUint a = Ok m" and "strconv_ParseUint b = Ok n"
  shows "CompareResourceVersion a b = Ok (if m > n then 1 else if m = n then 0 else -1)"
  using assms by (simp add: CompareResourceVersion_def)

lemma event_is_queued:
  assumes "sync_of node uid ns sync" and "\<not> ao_Deleting obj" and "ao_UID obj = uid"
    and "\<not> isListResource (event S i node ns sync UpdateOperation obj)"
    and "strconv_ParseUint (ao_ResourceVersion obj) = Ok new" and "strconv_ParseUint (os_ObjectResourceVersion sync) = Ok old" and "old < new"
    and "syncs ns (os_Name sync) = Some (os_ObjectResourceVersion sync)"
    and "fmlookup (node_store q node) (os_ObjectKind sync @ ''/'' @ ns @ ''/'' @ os_ObjectName sync) = None"
  shows "\<exists>q'. DispatchMessage syncs (event S i node ns sync UpdateOperation obj) q = Ok q' \<and>
    fmlookup (node_store q' node) (os_ObjectKind sync @ ''/'' @ ns @ ''/'' @ os_ObjectName sync) = Some (event S i node ns sync UpdateOperation obj)"
proof -
  let ?m = "event S i node ns sync UpdateOperation obj"
  note parts = event_parts [OF assms(1)]
  have u: "UpdateOperation \<noteq> DeleteOperation" by (simp add: UpdateOperation_def DeleteOperation_def)
  have nd: "\<not> isDeleteMessage ?m" using assms(2) u by (simp add: isDeleteMessage_def GetMessageDeletionTimestamp_def)
  have v: "ao_ResourceVersion obj \<noteq> []" "os_ObjectResourceVersion sync \<noteq> []"
    using assms(5,6) by (auto simp: strconv_ParseUint_def)
  have "outdated syncs node ?m None = Ok False"
    using assms(1,3,7,8) v newer_version [OF assms(5,6)]
    by (simp add: outdated_def parts or_empty_def sync_of_def)
  then show ?thesis
    using assms(1,4,9) nd v parts
    by (simp add: DispatchMessage_def addMessageToQueue_def Let_def split_beta sync_of_def part_def)
qed


definition ex_object :: "string \<Rightarrow> string \<Rightarrow> api_object" where
  "ex_object uid version =
     \<lparr>ao_APIVersion = ''v1'', ao_Kind = ''Pod'', ao_Namespace = ''ns'', ao_Name = ''p'', ao_UID = uid, ao_ResourceVersion = version,
      ao_Deleting = False, ao_JSON = ''{}''\<rparr>"

definition ex_sync :: ObjectSync where
  "ex_sync =
     \<lparr>os_Name = ''n1.a'', os_ObjectAPIVersion = ''v1'', os_ObjectKind = ''pods'', os_ObjectName = ''p'', os_ObjectResourceVersion = ''7''\<rparr>"

definition ex_senv :: "string \<Rightarrow> sync_env" where
  "ex_senv uid =
     \<lparr>se_Get = (\<lambda>gv kind ns name. if name = ''p'' then Ok (ex_object uid ''9'') else Err ErrNotFound),
      se_GetNode = (\<lambda>n. if n = ''n1'' then Ok () else Err ErrNotFound), se_uuid = (\<lambda>i. ''u''), se_now = (\<lambda>i. 0)\<rparr>"

definition ex_client :: "(string \<times> string, ObjectSync) fmap hub_env" where
  "ex_client =
     \<lparr>he_write_ok = (\<lambda>_. True), he_now = 0, he_uuid = ''u'',
      he_Get = (\<lambda>ns n a. case fmlookup a (ns, n) of Some s \<Rightarrow> Ok s | None \<Rightarrow> Err ErrNotFound),
      he_Create = (\<lambda>ns s a. Ok (fmupd (ns, os_Name s) s a)),
      he_UpdateStatus = (\<lambda>ns s a. case fmlookup a (ns, os_Name s) of
          Some old \<Rightarrow> Ok (fmupd (ns, os_Name s) (old\<lparr>os_ObjectResourceVersion := os_ObjectResourceVersion s\<rparr>) a) | None \<Rightarrow> Err ErrNotFound),
      he_Delete = (\<lambda>ns n a. case fmlookup a (ns, n) of Some s \<Rightarrow> Ok (fmdrop (ns, n) a) | None \<Rightarrow> Err ErrNotFound)\<rparr>"

lemma ex_client_ok: "sync_client ex_client (\<lambda>a ns n. fmlookup a (ns, n))"
  by (auto simp: sync_client_def ex_client_def split: option.splits)

definition ex_cloud :: "(string \<times> string, ObjectSync) fmap MessageHandle" where
  "ex_cloud = InitHandler 10 NewChannelMessageQueue (fmupd (''ns'', ''n1.a'') ex_sync fmempty)"

lemma ex_sync_ok: "sync_of ''n1'' ''a'' ''ns'' ex_sync" "ParseGroupVersion (os_ObjectAPIVersion ex_sync) = Ok ([], ''v1'')"
  by (simp_all add: sync_of_def ex_sync_def BuildObjectSyncName_def part_def no_slash_def ParseGroupVersion_def)

lemma ex_versions: "strconv_ParseUint ''9'' = Ok 9" "strconv_ParseUint ''7'' = Ok 7"
  by (simp_all add: strconv_ParseUint_def digit_value_def)



section \<open>Objects that are deleted\<close>

text \<open>
  An object that is gone from the API server is left alone: nothing is sent for it, although its
  \<open>ObjectSync\<close> says that the node has it.
\<close>

lemma gone_object_is_ignored:
  assumes "\<And>gv. se_Get S gv (os_ObjectKind sync) ns (os_ObjectName sync) = Err ErrNotFound"
  shows "manageObject S ns sync out = Ok out"
  using assms by (auto simp: manageObject_def ParseGroupVersion_def split: list.splits)

text \<open>
  An object that was deleted and created again is deleted from the node over and over. The
  \<open>ObjectSync\<close> of the old object makes the controller send a delete message that carries the
  new one; when the node confirms it, the save point removes the \<open>ObjectSync\<close> of the new object
  and leaves the old one, so that every later round sends the delete message again.
\<close>

lemma recreated_object_is_deleted_every_round:
  assumes "sync_client E lookup" and "sync_of node uid ns sync" and "lookup (mh_api mh) ns (os_Name sync) = Some sync"
    and "ParseGroupVersion (os_ObjectAPIVersion sync) = Ok gv" and "se_Get S gv (os_ObjectKind sync) ns (os_ObjectName sync) = Ok obj"
    and "ao_UID obj \<noteq> uid"
  shows "\<exists>m. manageObject S ns sync out = Ok (out @ [(''cloudhub'', m)]) \<and> GetOperation m = DeleteOperation \<and>
    GetResource m = the_path node ns sync \<and> GetMessageUID m = Ok (ao_UID obj) \<and>
    lookup (mh_api (saveSuccessPoint E m node mh)) ns (BuildObjectSyncName node (ao_UID obj)) = None \<and>
    lookup (mh_api (saveSuccessPoint E m node mh)) ns (os_Name sync) = Some sync"
proof -
  let ?m = "event S (length out) node ns sync DeleteOperation obj"
  have "manageObject S ns sync out = Ok (out @ [(''cloudhub'', ?m)])"
    using assms(6) by (simp add: manageObject_found [OF assms(2,4,5)])
  moreover have "os_Name sync \<noteq> BuildObjectSyncName node (ao_UID obj)"
    using assms(2,6) by (simp add: sync_of_def BuildObjectSyncName_def)
  ultimately show ?thesis
    using assms(3) by (intro exI [of _ ?m]) (simp add: save_delete [OF assms(1,2)])
qed

lemma recreated_object_is_deleted_every_round_example:
  "\<exists>m. manageObject (ex_senv ''b'') ''ns'' ex_sync [] = Ok ([] @ [(''cloudhub'', m)]) \<and> GetOperation m = DeleteOperation \<and>
     fmlookup (mh_api (saveSuccessPoint ex_client m ''n1'' ex_cloud)) (''ns'', os_Name ex_sync) = Some ex_sync"
proof -
  have "fmlookup (mh_api ex_cloud) (''ns'', os_Name ex_sync) = Some ex_sync"
    by (simp add: ex_cloud_def InitHandler_def ex_sync_def)
  moreover have "se_Get (ex_senv ''b'') ([], ''v1'') (os_ObjectKind ex_sync) ''ns'' (os_ObjectName ex_sync) = Ok (ex_object ''b'' ''9'')"
    "ao_UID (ex_object ''b'' ''9'') \<noteq> ''a''"
    by (simp_all add: ex_senv_def ex_sync_def ex_object_def)
  ultimately show ?thesis
    using recreated_object_is_deleted_every_round [OF ex_client_ok ex_sync_ok(1) _ ex_sync_ok(2), of ex_cloud "ex_senv ''b''" "ex_object ''b'' ''9''" "[]"]
    by blast
qed


section \<open>Nodes that are gone\<close>

lemma delete_step:
  assumes "sync_client E lookup"
  shows "lookup (case he_Delete E ns n a of Ok a' \<Rightarrow> a' | _ \<Rightarrow> a) ns' n' = (if ns' = ns \<and> n' = n then None else lookup a ns' n')"
proof (cases "lookup a ns n")
  case None
  then show ?thesis using sync_client_Delete(1) [OF assms None] by simp
next
  case (Some s)
  then obtain a' where "he_Delete E ns n a = Ok a'" "\<forall>ns' n'. lookup a' ns' n' = (if ns' = ns \<and> n' = n then None else lookup a ns' n')"
    using sync_client_Delete(2) [OF assms Some] by blast
  then show ?thesis by simp
qed

text \<open>
  Exactly the listed \<open>ObjectSync\<close> objects of nodes that the API server does not know are removed.
\<close>

lemma deleteObjectSyncs_removes:
  assumes "sync_client E lookup"
  shows "lookup (deleteObjectSyncs S (he_Delete E) (Ok syncs) api) ns n =
    (if \<exists>s. (ns, s) \<in> set syncs \<and> os_Name s = n \<and> se_GetNode S (getNodeName n) = Err ErrNotFound then None else lookup api ns n)"
proof (induction syncs arbitrary: api)
  case (Cons x syncs)
  obtain ns1 s1 where x: "x = (ns1, s1)" by fastforce
  have gone: "fst (checkObjectSync S s) \<longleftrightarrow> se_GetNode S (getNodeName (os_Name s)) = Err ErrNotFound" for s
    by (auto simp: checkObjectSync_def split: result.splits)
  let ?api = "if fst (checkObjectSync S s1) then (case he_Delete E ns1 (os_Name s1) api of Ok a' \<Rightarrow> a' | _ \<Rightarrow> api) else api"
  have "deleteObjectSyncs S (he_Delete E) (Ok (x # syncs)) api = deleteObjectSyncs S (he_Delete E) (Ok syncs) ?api"
    by (simp add: deleteObjectSyncs_def x)
  moreover have "lookup ?api ns n = (if ns = ns1 \<and> n = os_Name s1 \<and> fst (checkObjectSync S s1) then None else lookup api ns n)"
    using delete_step [OF assms, where ns = ns1 and n = "os_Name s1" and a = api] by auto
  ultimately show ?case using Cons.IH [of ?api] by (auto simp: x gone)
qed (simp add: deleteObjectSyncs_def)

end
