(* ===== verification/Twin_Types.thy ===== *)
theory Twin_Types
  imports Beehive_Message
begin

text \<open>
  Data of the device twin (\<open>edge/pkg/devicetwin/dttype\<close>, \<open>dtclient\<close>, \<open>dtcommon\<close>). A device has
  twins: named values with an expected and an actual side, each with a version that counts the
  updates of the cloud and of the edge. Pointers that may be nil are options. A column of the
  database that holds the JSON text of a version or of a time stamp is the value it encodes, and
  nothing when it is empty; \<open>dttype.CopyMsgTwin\<close>, which goes through JSON, copies. The syntax
  \<open>strconv.ParseFloat\<close> accepts is an argument.
\<close>

section \<open>Versions, values and twins\<close>

record TwinVersion =
  CloudVersion :: int64
  EdgeVersion :: int64

record TwinValue =
  tv_Value :: "string option"
  tv_Metadata :: "int option"

record MsgTwin =
  mt_Expected :: "TwinValue option"
  mt_Actual :: "TwinValue option"
  mt_Optional :: "bool option"
  mt_Metadata :: "string option"
  mt_ExpectedVersion :: "TwinVersion option"
  mt_ActualVersion :: "TwinVersion option"

definition zero_version :: TwinVersion where
  "zero_version = \<lparr>CloudVersion = 0, EdgeVersion = 0\<rparr>"

definition empty_twin :: MsgTwin where
  "empty_twin = \<lparr>mt_Expected = None, mt_Actual = None, mt_Optional = None, mt_Metadata = None, mt_ExpectedVersion = None, mt_ActualVersion = None\<rparr>"

definition CopyMsgTwin :: "MsgTwin \<Rightarrow> bool \<Rightarrow> MsgTwin" where
  "CopyMsgTwin msgTwin noVersion =
     (if noVersion then msgTwin\<lparr>mt_ActualVersion := None, mt_ExpectedVersion := None\<rparr> else msgTwin)"

record TwinDoc =
  LastState :: "MsgTwin option"
  CurrentState :: "MsgTwin option"

text \<open>A row of the table of twins.\<close>

record DeviceTwin =
  dt_DeviceID :: string
  dt_Name :: string
  dt_Expected :: string
  dt_Actual :: string
  dt_ExpectedMeta :: "int option"
  dt_ActualMeta :: "int option"
  dt_ExpectedVersion :: "TwinVersion option"
  dt_ActualVersion :: "TwinVersion option"
  dt_Optional :: bool
  dt_AttrType :: string
  dt_Metadata :: string

text \<open>
  The twin of a row. The metadata of the actual value is read and then not used.
\<close>

definition DeviceTwinToMsgTwin :: "DeviceTwin \<Rightarrow> MsgTwin" where
  "DeviceTwinToMsgTwin twin =
     \<lparr>mt_Expected = (if dt_Expected twin \<noteq> [] then Some \<lparr>tv_Value = Some (dt_Expected twin), tv_Metadata = dt_ExpectedMeta twin\<rparr> else None),
      mt_Actual = (if dt_Actual twin \<noteq> [] then Some \<lparr>tv_Value = Some (dt_Actual twin), tv_Metadata = None\<rparr> else None),
      mt_Optional = Some (dt_Optional twin), mt_Metadata = Some (dt_AttrType twin),
      mt_ExpectedVersion = dt_ExpectedVersion twin, mt_ActualVersion = dt_ActualVersion twin\<rparr>"

definition MsgTwinToDeviceTwin :: "string \<Rightarrow> MsgTwin \<Rightarrow> DeviceTwin" where
  "MsgTwinToDeviceTwin name msgTwin =
     \<lparr>dt_DeviceID = [], dt_Name = name, dt_Expected = [], dt_Actual = [], dt_ExpectedMeta = None, dt_ActualMeta = None,
      dt_ExpectedVersion = None, dt_ActualVersion = None,
      dt_Optional = (case mt_Optional msgTwin of None \<Rightarrow> True | Some b \<Rightarrow> b),
      dt_AttrType = (case mt_Metadata msgTwin of None \<Rightarrow> ''string'' | Some t \<Rightarrow> t), dt_Metadata = []\<rparr>"

text \<open>The columns an update writes; a null column reads back as the zero value.\<close>

datatype col = ColNull | ColText string | ColTime int | ColVersion TwinVersion | ColBool bool

type_synonym cols = "(string, col) fmap"

record DeviceTwinUpdate =
  du_DeviceID :: string
  du_Name :: string
  du_Cols :: cols

fun col_text :: "col option \<Rightarrow> string \<Rightarrow> string" where
  "col_text None old = old"
| "col_text (Some (ColText s)) old = s"
| "col_text (Some _) old = []"

fun col_time :: "col option \<Rightarrow> int option \<Rightarrow> int option" where
  "col_time None old = old"
| "col_time (Some (ColTime t)) old = Some t"
| "col_time (Some _) old = None"

fun col_version :: "col option \<Rightarrow> TwinVersion option \<Rightarrow> TwinVersion option" where
  "col_version None old = old"
| "col_version (Some (ColVersion v)) old = Some v"
| "col_version (Some _) old = None"

fun col_bool :: "col option \<Rightarrow> bool \<Rightarrow> bool" where
  "col_bool None old = old"
| "col_bool (Some (ColBool b)) old = b"
| "col_bool (Some _) old = False"

definition write_cols :: "cols \<Rightarrow> DeviceTwin \<Rightarrow> DeviceTwin" where
  "write_cols c row =
     row\<lparr>dt_Expected := col_text (fmlookup c ''expected'') (dt_Expected row),
         dt_Actual := col_text (fmlookup c ''actual'') (dt_Actual row),
         dt_ExpectedMeta := col_time (fmlookup c ''expected_meta'') (dt_ExpectedMeta row),
         dt_ActualMeta := col_time (fmlookup c ''actual_meta'') (dt_ActualMeta row),
         dt_ExpectedVersion := col_version (fmlookup c ''expected_version'') (dt_ExpectedVersion row),
         dt_ActualVersion := col_version (fmlookup c ''actual_version'') (dt_ActualVersion row),
         dt_Optional := col_bool (fmlookup c ''optional'') (dt_Optional row),
         dt_AttrType := col_text (fmlookup c ''attr_type'') (dt_AttrType row),
         dt_Metadata := col_text (fmlookup c ''metadata'') (dt_Metadata row)\<rparr>"


section \<open>Validation\<close>

definition ValidateValue :: "(string \<Rightarrow> bool) \<Rightarrow> string \<Rightarrow> string \<Rightarrow> error option" where
  "ValidateValue isFloat valueType value =
     (if valueType = [] \<or> valueType = ''string'' then None
      else if valueType = ''int'' then
        (case strconv_ParseInt value of Ok _ \<Rightarrow> None | _ \<Rightarrow> Some (ErrOther ''the value is not int''))
      else if valueType = ''float'' then (if isFloat value then None else Some (ErrOther ''the value is not float''))
      else if valueType = ''boolean'' then
        (if value \<noteq> ''true'' \<and> value \<noteq> ''false'' then Some (ErrOther ''the bool value must be true or false'') else None)
      else if valueType = ''deleted'' then None
      else Some (ErrOther ''the value type is not allowed''))"

text \<open>The characters of \<open>[a-zA-Z0-9-_.,:/@#]\<close>.\<close>

definition twin_char :: "char \<Rightarrow> bool" where
  "twin_char c \<longleftrightarrow>
     (CHR ''a'' \<le> c \<and> c \<le> CHR ''z'') \<or> (CHR ''A'' \<le> c \<and> c \<le> CHR ''Z'') \<or> (CHR ''0'' \<le> c \<and> c \<le> CHR ''9'') \<or>
     c \<in> set ''-_.,:/@#''"

definition ValidateTwinKey :: "string \<Rightarrow> bool" where
  "ValidateTwinKey key \<longleftrightarrow> 1 \<le> length key \<and> length key \<le> 128 \<and> list_all twin_char key"

definition ValidateTwinValue :: "string \<Rightarrow> bool" where
  "ValidateTwinValue value \<longleftrightarrow> 1 \<le> length value \<and> length value \<le> 512 \<and> list_all twin_char value"

text \<open>
  The checks of \<open>UnmarshalDeviceTwinUpdate\<close> on a decoded update, twin by twin in the order of the
  \<open>range\<close>.
\<close>

definition valid_side :: "TwinValue option \<Rightarrow> bool" where
  "valid_side v \<longleftrightarrow> (case Option.bind v tv_Value of Some s \<Rightarrow> s = [] \<or> ValidateTwinValue s | None \<Rightarrow> True)"

fun check_twins :: "(string, MsgTwin option) fmap \<Rightarrow> string list \<Rightarrow> error option" where
  "check_twins twins [] = None"
| "check_twins twins (key # keys) =
     (if \<not> ValidateTwinKey key then Some (ErrOther ''ErrorKey'')
      else
        (case fmlookup twins key of
           Some (Some value) \<Rightarrow>
             if valid_side (mt_Expected value) \<and> valid_side (mt_Actual value) then check_twins twins keys
             else Some (ErrOther ''ErrorValue'')
         | _ \<Rightarrow> check_twins twins keys))"

end
