(* ===== verification/Twin_Store.thy ===== *)
theory Twin_Store
  imports Twin_Types
begin

text \<open>
  The tables of devices, attributes and twins and the transactions on them
  (\<open>edge/pkg/devicetwin/dtclient\<close>). A statement does to the tables what its SQL says; which
  statements fail, for another reason than their content, is an argument. A transaction begins by
  keeping the tables, a rollback takes them back. The code ignores the error of a commit: a
  commit that fails leaves the tables as they were and counts as success.
\<close>

section \<open>Rows and tables\<close>

record DeviceRow =
  rw_ID :: string
  rw_Name :: string
  rw_Description :: string
  rw_State :: string
  rw_LastOnline :: string

record DeviceAttr =
  at_DeviceID :: string
  at_Name :: string
  at_Value :: string
  at_Optional :: bool
  at_AttrType :: string
  at_Metadata :: string

record DeviceDelete =
  dd_DeviceID :: string
  dd_Name :: string

record DeviceAttrUpdate =
  au_DeviceID :: string
  au_Name :: string
  au_Cols :: cols

record tables =
  tb_Devices :: "DeviceRow list"
  tb_Attrs :: "DeviceAttr list"
  tb_Twins :: "DeviceTwin list"

text \<open>Which writes fail, which queries and which commits, by the number of the statement.\<close>

record db_env =
  dbe_fails :: "nat \<Rightarrow> bool"
  dbe_unread :: "nat \<Rightarrow> bool"
  dbe_lost :: "nat \<Rightarrow> bool"

record twin_db =
  db_tables :: tables
  db_statements :: nat

definition exec :: "db_env \<Rightarrow> (tables \<Rightarrow> tables option) \<Rightarrow> twin_db \<Rightarrow> error option \<times> twin_db" where
  "exec F f d =
     (let d' = d\<lparr>db_statements := Suc (db_statements d)\<rparr>
      in if dbe_fails F (db_statements d) then (Some ErrDatabase, d')
         else (case f (db_tables d) of None \<Rightarrow> (Some ErrDatabase, d') | Some t \<Rightarrow> (None, d'\<lparr>db_tables := t\<rparr>)))"

text \<open>Statements one after the other, up to the first that fails.\<close>

fun exec_all :: "db_env \<Rightarrow> (tables \<Rightarrow> tables option) list \<Rightarrow> twin_db \<Rightarrow> error option \<times> twin_db" where
  "exec_all F [] d = (None, d)"
| "exec_all F (f # fs) d =
     (case exec F f d of (Some e, d') \<Rightarrow> (Some e, d') | (None, d') \<Rightarrow> exec_all F fs d')"

text \<open>Begin, the statements, and a rollback or a commit whose error is ignored.\<close>

definition transaction :: "db_env \<Rightarrow> (tables \<Rightarrow> tables option) list \<Rightarrow> twin_db \<Rightarrow> error option \<times> twin_db" where
  "transaction F fs d =
     (case exec_all F fs d of
        (Some e, d') \<Rightarrow> (Some e, d'\<lparr>db_tables := db_tables d\<rparr>)
      | (None, d') \<Rightarrow>
          (None, d'\<lparr>db_statements := Suc (db_statements d'),
                    db_tables := (if dbe_lost F (db_statements d') then db_tables d else db_tables d')\<rparr>))"


section \<open>Statements\<close>

text \<open>The identifier of a device is the primary key of its table.\<close>

definition SaveDevice :: "DeviceRow \<Rightarrow> tables \<Rightarrow> tables option" where
  "SaveDevice doc t =
     (if rw_ID doc \<in> set (map rw_ID (tb_Devices t)) then None
      else Some (t\<lparr>tb_Devices := tb_Devices t @ [doc]\<rparr>))"

definition DeleteDeviceByID :: "string \<Rightarrow> tables \<Rightarrow> tables option" where
  "DeleteDeviceByID i t = Some (t\<lparr>tb_Devices := filter (\<lambda>row. rw_ID row \<noteq> i) (tb_Devices t)\<rparr>)"

definition UpdateDeviceField :: "string \<Rightarrow> (DeviceRow \<Rightarrow> DeviceRow) \<Rightarrow> tables \<Rightarrow> tables option" where
  "UpdateDeviceField i write t =
     Some (t\<lparr>tb_Devices := map (\<lambda>row. if rw_ID row = i then write row else row) (tb_Devices t)\<rparr>)"

definition SaveDeviceAttr :: "DeviceAttr \<Rightarrow> tables \<Rightarrow> tables option" where
  "SaveDeviceAttr doc t = Some (t\<lparr>tb_Attrs := tb_Attrs t @ [doc]\<rparr>)"

definition DeleteDeviceAttrByDeviceID :: "string \<Rightarrow> tables \<Rightarrow> tables option" where
  "DeleteDeviceAttrByDeviceID deviceID t = Some (t\<lparr>tb_Attrs := filter (\<lambda>row. at_DeviceID row \<noteq> deviceID) (tb_Attrs t)\<rparr>)"

definition DeleteDeviceAttr :: "DeviceDelete \<Rightarrow> tables \<Rightarrow> tables option" where
  "DeleteDeviceAttr d t =
     Some (t\<lparr>tb_Attrs := filter (\<lambda>row. \<not> (at_DeviceID row = dd_DeviceID d \<and> at_Name row = dd_Name d)) (tb_Attrs t)\<rparr>)"

definition write_attr_cols :: "cols \<Rightarrow> DeviceAttr \<Rightarrow> DeviceAttr" where
  "write_attr_cols c row =
     row\<lparr>at_Value := col_text (fmlookup c ''value'') (at_Value row),
         at_Optional := col_bool (fmlookup c ''optional'') (at_Optional row),
         at_AttrType := col_text (fmlookup c ''attr_type'') (at_AttrType row),
         at_Metadata := col_text (fmlookup c ''metadata'') (at_Metadata row)\<rparr>"

definition UpdateDeviceAttrFields :: "DeviceAttrUpdate \<Rightarrow> tables \<Rightarrow> tables option" where
  "UpdateDeviceAttrFields u t =
     Some (t\<lparr>tb_Attrs := map (\<lambda>row. if at_DeviceID row = au_DeviceID u \<and> at_Name row = au_Name u
                                      then write_attr_cols (au_Cols u) row else row) (tb_Attrs t)\<rparr>)"

definition SaveDeviceTwin :: "DeviceTwin \<Rightarrow> tables \<Rightarrow> tables option" where
  "SaveDeviceTwin doc t = Some (t\<lparr>tb_Twins := tb_Twins t @ [doc]\<rparr>)"

definition DeleteDeviceTwinByDeviceID :: "string \<Rightarrow> tables \<Rightarrow> tables option" where
  "DeleteDeviceTwinByDeviceID deviceID t = Some (t\<lparr>tb_Twins := filter (\<lambda>row. dt_DeviceID row \<noteq> deviceID) (tb_Twins t)\<rparr>)"

definition DeleteDeviceTwin :: "DeviceDelete \<Rightarrow> tables \<Rightarrow> tables option" where
  "DeleteDeviceTwin d t =
     Some (t\<lparr>tb_Twins := filter (\<lambda>row. \<not> (dt_DeviceID row = dd_DeviceID d \<and> dt_Name row = dd_Name d)) (tb_Twins t)\<rparr>)"

definition UpdateDeviceTwinFields :: "DeviceTwinUpdate \<Rightarrow> tables \<Rightarrow> tables option" where
  "UpdateDeviceTwinFields u t =
     Some (t\<lparr>tb_Twins := map (\<lambda>row. if dt_DeviceID row = du_DeviceID u \<and> dt_Name row = du_Name u
                                      then write_cols (du_Cols u) row else row) (tb_Twins t)\<rparr>)"


section \<open>Transactions and queries\<close>

definition DeviceTwinTrans ::
    "db_env \<Rightarrow> DeviceTwin list \<Rightarrow> DeviceDelete list \<Rightarrow> DeviceTwinUpdate list \<Rightarrow> twin_db \<Rightarrow> error option \<times> twin_db" where
  "DeviceTwinTrans F adds deletes updates =
     transaction F (map SaveDeviceTwin adds @ map DeleteDeviceTwin deletes @ map UpdateDeviceTwinFields updates)"

definition DeviceAttrTrans ::
    "db_env \<Rightarrow> DeviceAttr list \<Rightarrow> DeviceDelete list \<Rightarrow> DeviceAttrUpdate list \<Rightarrow> twin_db \<Rightarrow> error option \<times> twin_db" where
  "DeviceAttrTrans F adds deletes updates =
     transaction F (map SaveDeviceAttr adds @ map DeleteDeviceAttr deletes @ map UpdateDeviceAttrFields updates)"

definition AddDeviceTrans ::
    "db_env \<Rightarrow> DeviceRow list \<Rightarrow> DeviceAttr list \<Rightarrow> DeviceTwin list \<Rightarrow> twin_db \<Rightarrow> error option \<times> twin_db" where
  "AddDeviceTrans F adds addAttrs addTwins =
     transaction F (map SaveDevice adds @ map SaveDeviceAttr addAttrs @ map SaveDeviceTwin addTwins)"

definition DeleteDeviceTrans :: "db_env \<Rightarrow> string list \<Rightarrow> twin_db \<Rightarrow> error option \<times> twin_db" where
  "DeleteDeviceTrans F deletes =
     transaction F (concat (map (\<lambda>i. [DeleteDeviceByID i, DeleteDeviceAttrByDeviceID i, DeleteDeviceTwinByDeviceID i]) deletes))"

definition query :: "db_env \<Rightarrow> (tables \<Rightarrow> 'a) \<Rightarrow> twin_db \<Rightarrow> 'a result \<times> twin_db" where
  "query F f d =
     (if dbe_unread F (db_statements d) then Err ErrDatabase else Ok (f (db_tables d)), d\<lparr>db_statements := Suc (db_statements d)\<rparr>)"

definition QueryDevice :: "db_env \<Rightarrow> string \<Rightarrow> twin_db \<Rightarrow> DeviceRow list result \<times> twin_db" where
  "QueryDevice F i = query F (\<lambda>t. filter (\<lambda>row. rw_ID row = i) (tb_Devices t))"

definition QueryDeviceAll :: "db_env \<Rightarrow> twin_db \<Rightarrow> DeviceRow list result \<times> twin_db" where
  "QueryDeviceAll F = query F tb_Devices"

definition QueryDeviceAttr :: "db_env \<Rightarrow> string \<Rightarrow> twin_db \<Rightarrow> DeviceAttr list result \<times> twin_db" where
  "QueryDeviceAttr F deviceID = query F (\<lambda>t. filter (\<lambda>row. at_DeviceID row = deviceID) (tb_Attrs t))"

definition QueryDeviceTwin :: "db_env \<Rightarrow> string \<Rightarrow> twin_db \<Rightarrow> DeviceTwin list result \<times> twin_db" where
  "QueryDeviceTwin F deviceID = query F (\<lambda>t. filter (\<lambda>row. dt_DeviceID row = deviceID) (tb_Twins t))"

text \<open>The retry loops around the transactions: at most \<open>RetryTimes\<close> tries, until one succeeds.\<close>

definition RetryTimes :: nat where
  "RetryTimes = 5"

fun retry :: "nat \<Rightarrow> (twin_db \<Rightarrow> error option \<times> twin_db) \<Rightarrow> twin_db \<Rightarrow> error option \<times> twin_db" where
  "retry 0 f d = (None, d)"
| "retry (Suc n) f d =
     (case f d of
        (None, d') \<Rightarrow> (None, d')
      | (Some e, d') \<Rightarrow> if n = 0 then (Some e, d') else retry n f d')"


section \<open>A transaction happens as a whole or not at all\<close>

fun apply_all :: "(tables \<Rightarrow> tables option) list \<Rightarrow> tables \<Rightarrow> tables option" where
  "apply_all [] t = Some t"
| "apply_all (f # fs) t = Option.bind (f t) (apply_all fs)"

lemma exec_all_tables: "exec_all F fs d = (None, d') \<Longrightarrow> apply_all fs (db_tables d) = Some (db_tables d')"
  by (induction fs arbitrary: d) (fastforce simp: exec_def Let_def split: if_splits option.splits prod.splits)+

lemma transaction_cases:
  assumes "transaction F fs d = (err, d')"
  obtains (failed) "db_tables d' = db_tables d" "err \<noteq> None"
  | (committed) "apply_all fs (db_tables d) = Some (db_tables d')" "err = None"
  | (lost) "db_tables d' = db_tables d" "err = None" "\<exists>n. dbe_lost F n"
proof (cases "exec_all F fs d")
  case (Pair e d1)
  show ?thesis
  proof (cases e)
    case None
    from Pair None exec_all_tables [of F fs d d1] assms show ?thesis
      by (cases "dbe_lost F (db_statements d1)") (auto simp: transaction_def intro: that)
  next
    case (Some x)
    with Pair assms show ?thesis by (auto simp: transaction_def intro: that)
  qed
qed

lemma retry_transaction:
  assumes "retry n (transaction F fs) d = (err, d')" and "\<forall>n. \<not> dbe_lost F n" and "0 < n"
  shows "(err = None \<longrightarrow> apply_all fs (db_tables d) = Some (db_tables d')) \<and> (err \<noteq> None \<longrightarrow> db_tables d' = db_tables d)"
  using assms(1,3)
proof (induction n arbitrary: d)
  case (Suc n)
  obtain e d1 where t: "transaction F fs d = (e, d1)" by (cases "transaction F fs d")
  show ?case
  proof (cases rule: transaction_cases [OF t])
    case 1
    then obtain x where e: "e = Some x" by blast
    show ?thesis
    proof (cases "n = 0")
      case True
      with Suc.prems(1) t e 1 show ?thesis by auto
    next
      case False
      with Suc.prems(1) t e have "retry n (transaction F fs) d1 = (err, d')" by simp
      from Suc.IH [OF this] False 1 show ?thesis by simp
    qed
  next
    case 2
    with Suc.prems(1) t show ?thesis by simp
  next
    case 3
    with assms(2) show ?thesis by blast
  qed
qed simp

end
