(* ===== verification/Twin_Deal.thy ===== *)
theory Twin_Deal
  imports Twin_Store
begin

text \<open>
  The update of a device's twins (\<open>edge/pkg/devicetwin/dtmanager/twin.go\<close>, from \<open>dealVersion\<close> to
  \<open>DealMsgTwin\<close>): one twin is deleted, compared with the message or added, and what has to be
  written to the database, answered, documented and reported to the cloud is collected. The
  twins in memory are pointers that the code changes in place; here they are returned. The maps of
  the collected result are changed in place too, also on the ways out with an error.
\<close>

datatype deal_type = RestDealType | SyncDealType | DetailDealType | SyncTwinDeleteDealType

datatype twin_side = DealExpected | DealActual

record DealTwinResult =
  dr_Add :: "DeviceTwin list"
  dr_Delete :: "DeviceDelete list"
  dr_Update :: "DeviceTwinUpdate list"
  dr_Result :: "(string, MsgTwin option) fmap"
  dr_SyncResult :: "(string, MsgTwin) fmap"
  dr_Document :: "(string, TwinDoc) fmap"
  dr_Err :: "error option"

definition no_result :: DealTwinResult where
  "no_result = \<lparr>dr_Add = [], dr_Delete = [], dr_Update = [], dr_Result = fmempty, dr_SyncResult = fmempty, dr_Document = fmempty, dr_Err = None\<rparr>"

abbreviation drop_entries :: "string \<Rightarrow> DealTwinResult \<Rightarrow> DealTwinResult" where
  "drop_entries key r \<equiv> r\<lparr>dr_Document := fmdrop key (dr_Document r), dr_SyncResult := fmdrop key (dr_SyncResult r)\<rparr>"

text \<open>
  The version after an update; with an error the version stays. \<open>CompareWithCloud\<close> and the
  comparisons here are between signed integers.
\<close>

definition dealVersion :: "TwinVersion \<Rightarrow> TwinVersion option \<Rightarrow> deal_type \<Rightarrow> TwinVersion result" where
  "dealVersion version reqVersion dealType =
     (if dealType = RestDealType then Ok (version\<lparr>EdgeVersion := EdgeVersion version + 1\<rparr>)
      else
        (case reqVersion of
           None \<Rightarrow>
             if dealType = SyncTwinDeleteDealType then Ok version
             else Err (ErrOther ''Version not allowed be nil while syncing'')
         | Some req \<Rightarrow>
             if sint (CloudVersion version) > sint (CloudVersion req) then Err (ErrOther ''Version not allowed'')
             else if sint (EdgeVersion version) > sint (EdgeVersion req) then
               Err (ErrOther ''Not allowed to sync due to version conflict'')
             else Ok (version\<lparr>CloudVersion := CloudVersion req, EdgeVersion := EdgeVersion req\<rparr>)))"


section \<open>Deleting a twin\<close>

text \<open>Whether the deletion is on, and the dereferences on the way to know.\<close>

definition delete_wanted :: "MsgTwin \<Rightarrow> MsgTwin option \<Rightarrow> deal_type \<Rightarrow> bool result" where
  "delete_wanted twin msgTwin dealType =
     (if dealType = RestDealType then
        (if msgTwin = None then (case mt_Optional twin of None \<Rightarrow> Panic NilDereference | Some optional \<Rightarrow> Ok optional)
         else Ok False)
      else
        (case msgTwin of
           None \<Rightarrow> Panic NilDereference
         | Some m \<Rightarrow> (case mt_Metadata m of None \<Rightarrow> Panic NilDereference | Some t \<Rightarrow> Ok (t = ''deleted''))))"

record delete_acc =
  da_twin :: MsgTwin
  da_cols :: cols
  da_sync :: MsgTwin
  da_change :: bool

text \<open>A way out of the function, or the way on.\<close>

datatype 'a flow = Return 'a | Next 'a

definition delete_expected :: "deal_type \<Rightarrow> TwinVersion option \<Rightarrow> delete_acc \<Rightarrow> delete_acc flow" where
  "delete_expected dealType reqVersion a =
     (case mt_ExpectedVersion (da_twin a) of
        None \<Rightarrow> Next (a\<lparr>da_twin := (da_twin a)\<lparr>mt_ExpectedVersion := Some zero_version\<rparr>\<rparr>)
      | Some expectedVersion \<Rightarrow>
          (case dealVersion expectedVersion reqVersion dealType of
             Ok v \<Rightarrow>
               (let twin = (da_twin a)\<lparr>mt_Expected := Some \<lparr>tv_Value = None, tv_Metadata = None\<rparr>, mt_ExpectedVersion := Some v,
                                       mt_Metadata := Some ''deleted''\<rparr>
                in Next (a\<lparr>da_twin := twin,
                           da_cols := fmupd ''expected'' ColNull (fmupd ''expected_meta'' ColNull
                             (fmupd ''attr_type'' (ColText ''deleted'') (fmupd ''expected_version'' (ColVersion v) (da_cols a)))),
                           da_sync := (if dealType = RestDealType then CopyMsgTwin twin False else da_sync a),
                           da_change := True\<rparr>))
           | _ \<Rightarrow>
               if dealType \<noteq> RestDealType then Return (a\<lparr>da_sync := CopyMsgTwin (da_twin a) False\<rparr>)
               else Next a))"

definition delete_actual :: "deal_type \<Rightarrow> TwinVersion option \<Rightarrow> delete_acc \<Rightarrow> delete_acc flow" where
  "delete_actual dealType reqVersion a =
     (case mt_ActualVersion (da_twin a) of
        None \<Rightarrow> Next (a\<lparr>da_twin := (da_twin a)\<lparr>mt_ActualVersion := Some zero_version\<rparr>\<rparr>)
      | Some actualVersion \<Rightarrow>
          (case dealVersion actualVersion reqVersion dealType of
             Ok v \<Rightarrow>
               (let twin = (da_twin a)\<lparr>mt_Actual := Some \<lparr>tv_Value = None, tv_Metadata = None\<rparr>, mt_ActualVersion := Some v,
                                       mt_Metadata := Some ''deleted''\<rparr>
                in Next (a\<lparr>da_twin := twin,
                           da_cols := fmupd ''actual'' ColNull (fmupd ''actual_meta'' ColNull
                             (fmupd ''attr_type'' (ColText ''deleted'') (fmupd ''actual_version'' (ColVersion v) (da_cols a)))),
                           da_sync := (if dealType = RestDealType then CopyMsgTwin twin False else da_sync a),
                           da_change := True\<rparr>))
           | _ \<Rightarrow>
               if dealType \<noteq> RestDealType then Return (a\<lparr>da_sync := CopyMsgTwin (da_twin a) False\<rparr>)
               else Next a))"

text \<open>
  Both sides in turn. The message is only looked at when the cloud wants the deletion, and then it
  is there.
\<close>

definition delete_sides :: "MsgTwin \<Rightarrow> MsgTwin option \<Rightarrow> deal_type \<Rightarrow> delete_acc flow" where
  "delete_sides twin msgTwin dealType0 =
     (let dealType = (if dealType0 \<noteq> RestDealType then SyncTwinDeleteDealType else dealType0);
          req = (\<lambda>version. if dealType \<noteq> RestDealType then Option.bind msgTwin version else None)
      in case delete_expected dealType (req mt_ExpectedVersion)
                \<lparr>da_twin = twin, da_cols = fmempty, da_sync = empty_twin, da_change = False\<rparr> of
           Return a \<Rightarrow> Return a
         | Next a \<Rightarrow> delete_actual dealType (req mt_ActualVersion) a)"

definition dealTwinDelete ::
    "DealTwinResult \<Rightarrow> string \<Rightarrow> string \<Rightarrow> MsgTwin \<Rightarrow> MsgTwin option \<Rightarrow> deal_type \<Rightarrow> (DealTwinResult \<times> MsgTwin) result" where
  "dealTwinDelete returnResult deviceID key twin msgTwin dealType =
     bind (delete_wanted twin msgTwin dealType) (\<lambda>wanted.
       let r = returnResult\<lparr>dr_Document := fmupd key \<lparr>LastState = Some (CopyMsgTwin twin True), CurrentState = None\<rparr> (dr_Document returnResult),
                            dr_SyncResult := fmupd key empty_twin (dr_SyncResult returnResult)\<rparr>
       in if \<not> wanted then Ok (drop_entries key r, twin)
          else if mt_Metadata twin = Some ''deleted'' then Ok (r, twin)
          else
            (case delete_sides twin msgTwin dealType of
               Return a \<Rightarrow>
                 Ok (r\<lparr>dr_SyncResult := fmupd key (da_sync a) (dr_SyncResult r), dr_Document := fmdrop key (dr_Document r)\<rparr>, da_twin a)
             | Next a \<Rightarrow>
                 if da_change a then
                   Ok (r\<lparr>dr_Update := dr_Update r @ [\<lparr>du_DeviceID = deviceID, du_Name = key, du_Cols = da_cols a\<rparr>],
                         dr_Result := (if dealType = RestDealType then fmupd key None (dr_Result r) else dr_Result r),
                         dr_SyncResult := (if dealType = RestDealType then fmupd key (da_sync a) (dr_SyncResult r)
                                           else fmdrop key (dr_SyncResult r))\<rparr>, da_twin a)
                 else Ok (drop_entries key r, da_twin a)))"


section \<open>Comparing a twin with the message\<close>

definition side_of :: "twin_side \<Rightarrow> MsgTwin \<Rightarrow> TwinValue option" where
  "side_of side twin = (case side of DealExpected \<Rightarrow> mt_Expected twin | DealActual \<Rightarrow> mt_Actual twin)"

definition isTwinValueDiff :: "(string \<Rightarrow> bool) \<Rightarrow> MsgTwin \<Rightarrow> MsgTwin \<Rightarrow> twin_side \<Rightarrow> (bool \<times> error option) result" where
  "isTwinValueDiff isFloat twin msgTwin dealType =
     (case mt_Metadata twin of
        None \<Rightarrow> Panic NilDereference
      | Some t \<Rightarrow>
          (let valueType = (if t = ''deleted'' then (case mt_Metadata msgTwin of Some mt \<Rightarrow> mt | None \<Rightarrow> ''string'') else t)
           in case side_of dealType msgTwin of
                None \<Rightarrow> Ok (False, None)
              | Some msgTwinValue \<Rightarrow>
                  if side_of dealType twin \<noteq> None then
                    (case tv_Value msgTwinValue of
                       None \<Rightarrow> Panic NilDereference
                     | Some v \<Rightarrow>
                         (case ValidateValue isFloat valueType v of Some e \<Rightarrow> Ok (False, Some e) | None \<Rightarrow> Ok (True, None)))
                  else Ok (True, None)))"

record compare_acc =
  ca_twin :: MsgTwin
  ca_cols :: cols
  ca_sync :: MsgTwin
  ca_change :: bool
  ca_allow :: bool

definition col_value :: "string option \<Rightarrow> col" where
  "col_value v = (case v of Some s \<Rightarrow> ColText s | None \<Rightarrow> ColNull)"

text \<open>
  The part of the sync result both sides fill in the same way: the optional flag and the type,
  read from the twin.
\<close>

definition sync_common :: "MsgTwin \<Rightarrow> MsgTwin \<Rightarrow> MsgTwin result" where
  "sync_common twin sync =
     (case mt_Optional twin of
        None \<Rightarrow> Panic NilDereference
      | Some optional \<Rightarrow> Ok (sync\<lparr>mt_Optional := Some optional, mt_Metadata := mt_Metadata twin\<rparr>))"

definition compare_expected ::
    "(string \<Rightarrow> bool) \<Rightarrow> int \<Rightarrow> deal_type \<Rightarrow> MsgTwin \<Rightarrow> compare_acc \<Rightarrow> (error option \<times> compare_acc) result" where
  "compare_expected isFloat now dealType msgTwin a =
     bind (isTwinValueDiff isFloat (ca_twin a) msgTwin DealExpected) (\<lambda>(expectedOk, expectedErr).
       case (expectedOk, mt_Expected msgTwin) of
         (True, Some msgValue) \<Rightarrow>
           (let version = (case mt_ExpectedVersion (ca_twin a) of Some v \<Rightarrow> v | None \<Rightarrow> zero_version);
                twin = (ca_twin a)\<lparr>mt_ExpectedVersion := Some version\<rparr>
            in case dealVersion version (if dealType \<noteq> RestDealType then mt_ExpectedVersion msgTwin else None) dealType of
                 Ok v \<Rightarrow>
                   (let value = \<lparr>tv_Value = tv_Value msgValue, tv_Metadata = Some now\<rparr>;
                        twin = twin\<lparr>mt_Expected := Some value, mt_ExpectedVersion := Some v\<rparr>
                    in bind (if dealType = RestDealType
                             then sync_common twin ((ca_sync a)\<lparr>mt_Expected := Some value, mt_ExpectedVersion := Some v\<rparr>)
                             else Ok (ca_sync a)) (\<lambda>sync.
                         Ok (None, a\<lparr>ca_twin := twin, ca_sync := sync, ca_change := True,
                                     ca_cols := fmupd ''expected_version'' (ColVersion v) (fmupd ''expected_meta'' (ColTime now)
                                       (fmupd ''expected'' (col_value (tv_Value msgValue)) (ca_cols a)))\<rparr>)))
               | Err e \<Rightarrow>
                   if dealType \<noteq> RestDealType then
                     (case mt_Expected twin of
                        None \<Rightarrow> Panic NilDereference
                      | Some value \<Rightarrow>
                          bind (sync_common twin ((ca_sync a)\<lparr>mt_Expected := Some value, mt_ExpectedVersion := Some version\<rparr>))
                            (\<lambda>sync. Ok (None, a\<lparr>ca_twin := twin, ca_sync := sync, ca_allow := False\<rparr>)))
                   else Ok (Some e, a\<lparr>ca_twin := twin\<rparr>)
               | Panic p \<Rightarrow> Panic p)
       | _ \<Rightarrow> Ok (if dealType = RestDealType then expectedErr else None, a))"

definition compare_actual ::
    "(string \<Rightarrow> bool) \<Rightarrow> int \<Rightarrow> deal_type \<Rightarrow> MsgTwin \<Rightarrow> compare_acc \<Rightarrow> (error option \<times> compare_acc) result" where
  "compare_actual isFloat now dealType msgTwin a =
     bind (isTwinValueDiff isFloat (ca_twin a) msgTwin DealActual) (\<lambda>(actualOk, actualErr).
       case (actualOk \<and> ca_allow a, mt_Actual msgTwin) of
         (True, Some msgValue) \<Rightarrow>
           (let version = (case mt_ActualVersion (ca_twin a) of Some v \<Rightarrow> v | None \<Rightarrow> zero_version);
                twin = (ca_twin a)\<lparr>mt_ActualVersion := Some version\<rparr>
            in case dealVersion version (if dealType \<noteq> RestDealType then mt_ActualVersion msgTwin else None) dealType of
                 Ok v \<Rightarrow>
                   (let value = \<lparr>tv_Value = tv_Value msgValue, tv_Metadata = Some now\<rparr>;
                        twin = twin\<lparr>mt_Actual := Some value, mt_ActualVersion := Some v\<rparr>
                    in bind (if dealType = RestDealType
                             then sync_common twin ((ca_sync a)\<lparr>mt_Actual := Some value, mt_ActualVersion := Some v\<rparr>)
                             else Ok (ca_sync a)) (\<lambda>sync.
                         Ok (None, a\<lparr>ca_twin := twin, ca_sync := sync, ca_change := True,
                                     ca_cols := fmupd ''actual_version'' (ColVersion v) (fmupd ''actual_meta'' (ColTime now)
                                       (fmupd ''actual'' (col_value (tv_Value msgValue)) (ca_cols a)))\<rparr>)))
               | Err e \<Rightarrow>
                   if dealType \<noteq> RestDealType then
                     (case mt_Actual twin of
                        None \<Rightarrow> Panic NilDereference
                      | Some value \<Rightarrow>
                          bind (sync_common twin ((ca_sync a)\<lparr>mt_Actual := Some value, mt_ActualVersion := Some version\<rparr>))
                            (\<lambda>sync. Ok (None, a\<lparr>ca_twin := twin, ca_sync := sync, ca_allow := False\<rparr>)))
                   else Ok (Some e, a\<lparr>ca_twin := twin\<rparr>)
               | Panic p \<Rightarrow> Panic p)
       | _ \<Rightarrow> Ok (if dealType = RestDealType then actualErr else None, a))"

definition compare_optional :: "MsgTwin \<Rightarrow> compare_acc \<Rightarrow> compare_acc result" where
  "compare_optional msgTwin a =
     (case mt_Optional msgTwin of
        None \<Rightarrow> Ok a
      | Some mo \<Rightarrow>
          (case mt_Optional (ca_twin a) of
             None \<Rightarrow> Panic NilDereference
           | Some to \<Rightarrow>
               if mo \<noteq> to \<and> to then
                 Ok (a\<lparr>ca_cols := fmupd ''optional'' (ColBool mo) (ca_cols a), ca_twin := (ca_twin a)\<lparr>mt_Optional := Some mo\<rparr>,
                       ca_sync := (ca_sync a)\<lparr>mt_Optional := Some mo\<rparr>, ca_change := True\<rparr>)
               else Ok a))"

text \<open>The type of a twin changes only when the twin was deleted.\<close>

definition compare_metadata :: "MsgTwin \<Rightarrow> compare_acc \<Rightarrow> compare_acc" where
  "compare_metadata msgTwin a =
     (case mt_Metadata msgTwin of
        Some mt \<Rightarrow>
          if mt_Metadata (ca_twin a) \<noteq> Some mt then
            (let a = a\<lparr>ca_cols := fmupd ''metadata'' (ColText ''{}'') (ca_cols a), ca_change := True\<rparr>
             in if mt_Metadata (ca_twin a) = Some ''deleted'' then
                  a\<lparr>ca_cols := fmupd ''attr_type'' (ColText mt) (ca_cols a), ca_twin := (ca_twin a)\<lparr>mt_Metadata := Some mt\<rparr>,
                    ca_sync := (ca_sync a)\<lparr>mt_Metadata := Some mt\<rparr>\<rparr>
                else a)
          else a
      | None \<Rightarrow>
          if mt_Metadata (ca_twin a) = Some ''deleted'' then
            a\<lparr>ca_cols := fmupd ''attr_type'' (ColText ''string'') (ca_cols a), ca_twin := (ca_twin a)\<lparr>mt_Metadata := Some ''string''\<rparr>,
              ca_sync := (ca_sync a)\<lparr>mt_Metadata := Some ''string''\<rparr>, ca_change := True\<rparr>
          else a)"

text \<open>The entries a compared twin leaves in the collected result.\<close>

definition compare_finish :: "string \<Rightarrow> string \<Rightarrow> deal_type \<Rightarrow> compare_acc \<Rightarrow> DealTwinResult \<Rightarrow> DealTwinResult" where
  "compare_finish deviceID key dealType a r =
     (let r = (if ca_change a then
                 r\<lparr>dr_Update := dr_Update r @ [\<lparr>du_DeviceID = deviceID, du_Name = key, du_Cols = ca_cols a\<rparr>],
                   dr_Document := fmupd key \<lparr>LastState = Option.bind (fmlookup (dr_Document r) key) LastState,
                                             CurrentState = Some (CopyMsgTwin (ca_twin a) True)\<rparr> (dr_Document r),
                   dr_Result := (if dealType = RestDealType then fmupd key (Some (CopyMsgTwin (ca_sync a) True)) (dr_Result r)
                                 else dr_Result r)\<rparr>
               else r\<lparr>dr_Document := fmdrop key (dr_Document r)\<rparr>)
      in if (if dealType = RestDealType then ca_change a else \<not> ca_allow a)
         then r\<lparr>dr_SyncResult := fmupd key (ca_sync a) (dr_SyncResult r)\<rparr>
         else r\<lparr>dr_SyncResult := fmdrop key (dr_SyncResult r)\<rparr>)"

definition dealTwinCompare ::
    "(string \<Rightarrow> bool) \<Rightarrow> int \<Rightarrow> DealTwinResult \<Rightarrow> string \<Rightarrow> string \<Rightarrow> MsgTwin \<Rightarrow> MsgTwin option \<Rightarrow> deal_type \<Rightarrow>
     (error option \<times> DealTwinResult \<times> MsgTwin) result" where
  "dealTwinCompare isFloat now returnResult deviceID key twin msgTwin dealType =
     (if mt_Metadata twin = None then Panic NilDereference
      else
        (let last = (if mt_Metadata twin = Some ''deleted'' then None else Some (CopyMsgTwin twin True));
             r = returnResult\<lparr>dr_Document := fmupd key \<lparr>LastState = last, CurrentState = None\<rparr> (dr_Document returnResult),
                              dr_SyncResult := fmupd key empty_twin (dr_SyncResult returnResult)\<rparr>;
             failed = (\<lambda>e a. (Some e, r\<lparr>dr_Err := Some e, dr_SyncResult := fmupd key (ca_sync a) (dr_SyncResult r)\<rparr>, ca_twin a))
         in case msgTwin of
              None \<Rightarrow> Ok (None, r, twin)
            | Some m \<Rightarrow>
                bind (compare_expected isFloat now dealType m
                        \<lparr>ca_twin = twin, ca_cols = fmempty, ca_sync = empty_twin, ca_change = False, ca_allow = True\<rparr>) (\<lambda>(e, a).
                  case e of Some e \<Rightarrow> Ok (failed e a)
                  | None \<Rightarrow>
                      bind (compare_actual isFloat now dealType m a) (\<lambda>(e, a).
                        case e of Some e \<Rightarrow> Ok (failed e a)
                        | None \<Rightarrow>
                            bind (if ca_allow a then bind (compare_optional m a) (\<lambda>a. Ok (compare_metadata m a)) else Ok a) (\<lambda>a.
                              Ok (None, compare_finish deviceID key dealType a r, ca_twin a))))))"


section \<open>Adding a twin\<close>

text \<open>
  A side of the new twin: the row with it, or the error that refuses the twin. A refusal by the
  type of the value also drops the entries of the collected result, one by the version leaves them.
\<close>

datatype add_side = Added DeviceTwin | RefusedVersion error | RefusedValue error

definition add_type :: "MsgTwin \<Rightarrow> string" where
  "add_type msgTwin = (case mt_Metadata msgTwin of Some t \<Rightarrow> t | None \<Rightarrow> ''string'')"

definition add_expected :: "(string \<Rightarrow> bool) \<Rightarrow> int \<Rightarrow> deal_type \<Rightarrow> MsgTwin \<Rightarrow> DeviceTwin \<Rightarrow> add_side result" where
  "add_expected isFloat now dealType msgTwin deviceTwin =
     (case mt_Expected msgTwin of
        None \<Rightarrow> Ok (Added deviceTwin)
      | Some value \<Rightarrow>
          (case dealVersion zero_version (if dealType \<noteq> RestDealType then mt_ExpectedVersion msgTwin else None) dealType of
             Err e \<Rightarrow> Ok (RefusedVersion e)
           | Panic p \<Rightarrow> Panic p
           | Ok version \<Rightarrow>
               (case tv_Value value of
                  None \<Rightarrow> Panic NilDereference
                | Some v \<Rightarrow>
                    (case ValidateValue isFloat (add_type msgTwin) v of
                       Some e \<Rightarrow> Ok (RefusedValue e)
                     | None \<Rightarrow> Ok (Added (deviceTwin\<lparr>dt_ExpectedMeta := Some now, dt_ExpectedVersion := Some version, dt_Expected := v\<rparr>))))))"

definition add_actual :: "(string \<Rightarrow> bool) \<Rightarrow> int \<Rightarrow> deal_type \<Rightarrow> MsgTwin \<Rightarrow> DeviceTwin \<Rightarrow> add_side result" where
  "add_actual isFloat now dealType msgTwin deviceTwin =
     (case mt_Actual msgTwin of
        None \<Rightarrow> Ok (Added deviceTwin)
      | Some value \<Rightarrow>
          (case dealVersion zero_version (if dealType \<noteq> RestDealType then mt_ActualVersion msgTwin else None) dealType of
             Err e \<Rightarrow> Ok (RefusedVersion e)
           | Panic p \<Rightarrow> Panic p
           | Ok version \<Rightarrow>
               (case tv_Value value of
                  None \<Rightarrow> Panic NilDereference
                | Some v \<Rightarrow>
                    (case ValidateValue isFloat (add_type msgTwin) v of
                       Some e \<Rightarrow> Ok (RefusedValue e)
                     | None \<Rightarrow> Ok (Added (deviceTwin\<lparr>dt_ActualMeta := Some now, dt_ActualVersion := Some version, dt_Actual := v\<rparr>))))))"

text \<open>The row before its sides: a deleted twin from the cloud brings its versions.\<close>

definition add_start :: "string \<Rightarrow> string \<Rightarrow> MsgTwin \<Rightarrow> deal_type \<Rightarrow> DeviceTwin result" where
  "add_start deviceID key msgTwin dealType =
     (let deviceTwin = (MsgTwinToDeviceTwin key msgTwin)\<lparr>dt_DeviceID := deviceID\<rparr>
      in if dealType = RestDealType then Ok deviceTwin
         else
           (case mt_Metadata msgTwin of
              None \<Rightarrow> Panic NilDereference
            | Some t \<Rightarrow>
                if t = ''deleted''
                then Ok (deviceTwin\<lparr>dt_ExpectedVersion := mt_ExpectedVersion msgTwin, dt_ActualVersion := mt_ActualVersion msgTwin\<rparr>)
                else Ok deviceTwin))"

definition add_attributes :: "MsgTwin \<Rightarrow> DeviceTwin \<Rightarrow> DeviceTwin" where
  "add_attributes msgTwin deviceTwin =
     deviceTwin\<lparr>dt_Optional := (case mt_Optional msgTwin of Some optional \<Rightarrow> optional | None \<Rightarrow> True),
                dt_AttrType := add_type msgTwin,
                dt_Metadata := (if mt_Metadata msgTwin = None then dt_Metadata deviceTwin else ''{}'')\<rparr>"

definition add_finish :: "string \<Rightarrow> deal_type \<Rightarrow> DeviceTwin \<Rightarrow> DealTwinResult \<Rightarrow> DealTwinResult" where
  "add_finish key dealType deviceTwin r =
     (let twin = DeviceTwinToMsgTwin deviceTwin;
          r = r\<lparr>dr_Add := dr_Add r @ [deviceTwin],
                dr_Document := fmupd key \<lparr>LastState = None,
                  CurrentState = (if mt_Metadata twin = Some ''deleted'' then None else Some (CopyMsgTwin twin True))\<rparr> (dr_Document r)\<rparr>
      in if dealType = RestDealType
         then r\<lparr>dr_SyncResult := fmupd key (CopyMsgTwin twin False) (dr_SyncResult r),
                dr_Result := fmupd key (Some (CopyMsgTwin (CopyMsgTwin twin False) True)) (dr_Result r)\<rparr>
         else r\<lparr>dr_SyncResult := fmdrop key (dr_SyncResult r)\<rparr>)"

definition add_refused :: "string \<Rightarrow> deal_type \<Rightarrow> error \<Rightarrow> DealTwinResult \<Rightarrow> error option \<times> DealTwinResult" where
  "add_refused key dealType e r = (if dealType = RestDealType then (Some e, r\<lparr>dr_Err := Some e\<rparr>) else (None, r))"

definition dealTwinAdd ::
    "(string \<Rightarrow> bool) \<Rightarrow> int \<Rightarrow> DealTwinResult \<Rightarrow> string \<Rightarrow> string \<Rightarrow> (string, MsgTwin) fmap \<Rightarrow> MsgTwin option \<Rightarrow> deal_type \<Rightarrow>
     (error option \<times> DealTwinResult \<times> (string, MsgTwin) fmap) result" where
  "dealTwinAdd isFloat now returnResult deviceID key twins msgTwin dealType =
     (let r0 = returnResult\<lparr>dr_Document := fmupd key \<lparr>LastState = None, CurrentState = None\<rparr> (dr_Document returnResult)\<rparr>
      in case msgTwin of
           None \<Rightarrow> Ok (Some (ErrOther ''The request body is wrong''), r0, twins)
         | Some m \<Rightarrow>
             (let r = r0\<lparr>dr_SyncResult := fmupd key empty_twin (dr_SyncResult r0)\<rparr>;
                  refused = (\<lambda>e r. case add_refused key dealType e r of (err, r) \<Rightarrow> Ok (err, r, twins));
                  cont = (\<lambda>side k. case side of
                            Added row \<Rightarrow> k row
                          | RefusedVersion e \<Rightarrow> refused e r
                          | RefusedValue e \<Rightarrow> refused e (drop_entries key r))
              in bind (add_start deviceID key m dealType) (\<lambda>row.
                 bind (add_expected isFloat now dealType m row) (\<lambda>side. cont side (\<lambda>row.
                 bind (add_actual isFloat now dealType m row) (\<lambda>side. cont side (\<lambda>row.
                   let row = add_attributes m row
                   in Ok (None, add_finish key dealType row r, fmupd key (DeviceTwinToMsgTwin row) twins))))))))"


section \<open>A message about several twins\<close>

text \<open>
  One twin of the message. The error stops the loop; it is in the collected result only where the
  code puts it there.
\<close>

definition deal_twin ::
    "(string \<Rightarrow> bool) \<Rightarrow> int \<Rightarrow> string \<Rightarrow> deal_type \<Rightarrow> string \<Rightarrow> MsgTwin option \<Rightarrow> DealTwinResult \<Rightarrow> (string, MsgTwin) fmap \<Rightarrow>
     (error option \<times> DealTwinResult \<times> (string, MsgTwin) fmap) result" where
  "deal_twin isFloat now deviceID dealType key msgTwin r twins =
     (case fmlookup twins key of
        Some twin \<Rightarrow>
          bind (if dealType = RestDealType then Ok (msgTwin = None)
                else (case msgTwin of
                        None \<Rightarrow> Panic NilDereference
                      | Some m \<Rightarrow> (case mt_Metadata m of None \<Rightarrow> Panic NilDereference | Some t \<Rightarrow> Ok (t = ''deleted'')))) (\<lambda>del.
            if del then
              bind (dealTwinDelete r deviceID key twin msgTwin dealType) (\<lambda>(r, twin). Ok (None, r, fmupd key twin twins))
            else
              bind (dealTwinCompare isFloat now r deviceID key twin msgTwin dealType)
                (\<lambda>(err, r, twin). Ok (err, r, fmupd key twin twins)))
      | None \<Rightarrow> dealTwinAdd isFloat now r deviceID key twins msgTwin dealType)"

text \<open>The loop of \<open>DealMsgTwin\<close>; each twin has its own time.\<close>

fun deal_twins ::
    "(string \<Rightarrow> bool) \<Rightarrow> (string \<Rightarrow> int) \<Rightarrow> string \<Rightarrow> deal_type \<Rightarrow> (string, MsgTwin option) fmap \<Rightarrow> string list \<Rightarrow>
     DealTwinResult \<Rightarrow> (string, MsgTwin) fmap \<Rightarrow> (DealTwinResult \<times> (string, MsgTwin) fmap) result" where
  "deal_twins isFloat now deviceID dealType msgTwins [] r twins = Ok (r, twins)"
| "deal_twins isFloat now deviceID dealType msgTwins (key # keys) r twins =
     bind (deal_twin isFloat (now key) deviceID dealType key (Option.bind (fmlookup msgTwins key) id) r twins) (\<lambda>(err, r, twins).
       if err \<noteq> None then Ok (r, twins)
       else deal_twins isFloat now deviceID dealType msgTwins keys r twins)"

end
