(* ===== verification/Device_Twin.thy ===== *)
theory Device_Twin
  imports Twin_Deal
begin

text \<open>
  The state of the device twin module and its handlers (\<open>edge/pkg/devicetwin\<close>: \<open>dtcontext\<close>,
  \<open>dtmanager\<close> and \<open>process.go\<close>): the devices in memory, the tables, the locks and the messages
  handed to the communication module. What a handler takes from outside is its environment: the
  failures of the database, the time, new identifiers, the orders of \<open>range\<close>, the JSON of the
  messages and the syntax of floats. The workers of the module run in goroutines of their own;
  here a handler is one step, and a handler that waits for a lock is said to block. A panic ends
  the worker, and \<open>DTModule.Start\<close> recovers it: the locks stay as they were.
\<close>

section \<open>State\<close>

record MsgAttr =
  ma_Value :: string
  ma_Optional :: "bool option"
  ma_Metadata :: "string option"

record Device =
  dv_ID :: string
  dv_Name :: string
  dv_Description :: string
  dv_State :: string
  dv_LastOnline :: string
  dv_Attributes :: "(string, MsgAttr) fmap"
  dv_Twin :: "(string, MsgTwin) fmap"

text \<open>A device as a message brings it: attributes and twins may be absent or null.\<close>

record DeviceMsg =
  dg_ID :: string
  dg_Name :: string
  dg_Description :: string
  dg_State :: string
  dg_Attributes :: "(string, MsgAttr option) fmap option"
  dg_Twin :: "(string, MsgTwin option) fmap option"

record BaseMessage =
  EventID :: string
  Timestamp :: int

record TwinUpdateMsg =
  tu_Base :: BaseMessage
  tu_Twin :: "(string, MsgTwin option) fmap option"

record DeviceUpdateMsg =
  up_Base :: BaseMessage
  up_State :: string
  up_Attributes :: "(string, MsgAttr option) fmap option"

datatype dt_payload =
    ErrorResult BaseMessage nat error
  | TwinResult BaseMessage "(string, MsgTwin option) fmap"
  | TwinDelta BaseMessage "(string, MsgTwin) fmap" strmap
  | TwinDocument BaseMessage "(string, TwinDoc) fmap"
  | TwinSync BaseMessage "(string, MsgTwin) fmap"
  | AttrUpdate BaseMessage "(string, MsgAttr option) fmap"
  | MembershipUpdated BaseMessage "DeviceMsg list" "DeviceMsg list"
  | MembershipGetResult BaseMessage "Device list"
  | DeviceState BaseMessage string string string

datatype dt_action = SendToEdge | SendToCloud

record dt_send =
  sd_Action :: dt_action
  sd_Resource :: string
  sd_Payload :: dt_payload

text \<open>The locks of the context: one mutex for every device, and one lock for all of them.\<close>

record dt_locks =
  DeviceMutex :: "(string, bool) fmap"
  ctx_Mutex :: rwlock

record dt_state =
  NodeName :: string
  DeviceList :: "(string, Device) fmap"
  dt_db :: twin_db
  dt_locks_of :: dt_locks
  dt_sent :: "dt_send list"

record dt_env =
  de_db :: db_env
  de_isFloat :: "string \<Rightarrow> bool"
  de_ord :: "string order"
  de_now :: int
  de_key_now :: "string \<Rightarrow> int"
  de_uuid :: "string \<Rightarrow> string"
  de_lastOnline :: string
  de_UnmarshalTwinUpdate :: "string \<Rightarrow> TwinUpdateMsg option"
  de_UnmarshalBaseMessage :: "string \<Rightarrow> BaseMessage option"
  de_UnmarshalMembershipDetail :: "string \<Rightarrow> (BaseMessage \<times> DeviceMsg list) option"
  de_UnmarshalMembershipUpdate :: "string \<Rightarrow> (BaseMessage \<times> DeviceMsg list \<times> DeviceMsg list) option"
  de_UnmarshalDeviceUpdate :: "string \<Rightarrow> DeviceUpdateMsg option"

definition DeviceETPrefix :: string where
  "DeviceETPrefix = ''$hw/events/device/''"

definition MemETPrefix :: string where
  "MemETPrefix = ''$hw/events/node/''"

definition BadRequestCode :: nat where
  "BadRequestCode = 400"

definition NotFoundCode :: nat where
  "NotFoundCode = 404"

definition InternalErrorCode :: nat where
  "InternalErrorCode = 500"

definition GetDevice :: "dt_state \<Rightarrow> string \<Rightarrow> Device option" where
  "GetDevice s deviceID = fmlookup (DeviceList s) deviceID"

definition Send :: "dt_action \<Rightarrow> string \<Rightarrow> dt_payload \<Rightarrow> dt_state \<Rightarrow> dt_state" where
  "Send action resource payload s = s\<lparr>dt_sent := dt_sent s @ [\<lparr>sd_Action = action, sd_Resource = resource, sd_Payload = payload\<rparr>]\<rparr>"

text \<open>A message with a time and an identifier of its own; the identifier is named by its use.\<close>

definition BuildBaseMessage :: "dt_env \<Rightarrow> string \<Rightarrow> BaseMessage" where
  "BuildBaseMessage E use = \<lparr>EventID = de_uuid E use, Timestamp = de_now E\<rparr>"


section \<open>Devices from the database\<close>

definition DeviceAttrToMsgAttr :: "DeviceAttr list \<Rightarrow> (string, MsgAttr) fmap" where
  "DeviceAttrToMsgAttr rows =
     fold (\<lambda>row. fmupd (at_Name row) \<lparr>ma_Value = at_Value row, ma_Optional = Some (at_Optional row), ma_Metadata = Some (at_AttrType row)\<rparr>) rows fmempty"

definition twins_of_rows :: "DeviceTwin list \<Rightarrow> (string, MsgTwin) fmap" where
  "twins_of_rows rows = fold (\<lambda>row. fmupd (dt_Name row) (DeviceTwinToMsgTwin row)) rows fmempty"

definition read_device :: "dt_env \<Rightarrow> string \<Rightarrow> dt_state \<Rightarrow> error option \<times> dt_state" where
  "read_device E deviceID s =
     (case QueryDevice (de_db E) deviceID (dt_db s) of
        (Ok [], d) \<Rightarrow> (Some (ErrOther ''Not found device''), s\<lparr>dt_db := d\<rparr>)
      | (Ok (dbDoc # _), d) \<Rightarrow>
          (case QueryDeviceAttr (de_db E) deviceID d of
             (Ok deviceAttr, d) \<Rightarrow>
               (case QueryDeviceTwin (de_db E) deviceID d of
                  (Ok deviceTwin, d) \<Rightarrow>
                    (None, s\<lparr>dt_db := d, DeviceList := fmupd deviceID
                       \<lparr>dv_ID = deviceID, dv_Name = rw_Name dbDoc, dv_Description = rw_Description dbDoc, dv_State = rw_State dbDoc,
                        dv_LastOnline = rw_LastOnline dbDoc, dv_Attributes = DeviceAttrToMsgAttr deviceAttr,
                        dv_Twin = twins_of_rows deviceTwin\<rparr> (DeviceList s)\<rparr>)
                | (_, d) \<Rightarrow> (Some ErrDatabase, s\<lparr>dt_db := d\<rparr>))
           | (_, d) \<Rightarrow> (Some ErrDatabase, s\<lparr>dt_db := d\<rparr>))
      | (_, d) \<Rightarrow> (Some ErrDatabase, s\<lparr>dt_db := d\<rparr>))"

text \<open>A device that is not in memory gets a new mutex first.\<close>

definition new_mutex :: "string \<Rightarrow> dt_state \<Rightarrow> dt_state" where
  "new_mutex deviceID s =
     (if GetDevice s deviceID = None
      then s\<lparr>dt_locks_of := (dt_locks_of s)\<lparr>DeviceMutex := fmupd deviceID False (DeviceMutex (dt_locks_of s))\<rparr>\<rparr>
      else s)"

definition SyncDeviceFromSqlite :: "dt_env \<Rightarrow> string \<Rightarrow> dt_state \<Rightarrow> error option \<times> dt_state" where
  "SyncDeviceFromSqlite E deviceID s = read_device E deviceID (new_mutex deviceID s)"


section \<open>Updating the twins of a device\<close>

definition strip_versions :: "MsgTwin \<Rightarrow> MsgTwin" where
  "strip_versions twin = twin\<lparr>mt_ActualVersion := None, mt_ExpectedVersion := None\<rparr>"

definition BuildDeviceTwinResult :: "(string, MsgTwin option) fmap \<Rightarrow> deal_type \<Rightarrow> (string, MsgTwin option) fmap" where
  "BuildDeviceTwinResult twins dealType =
     (if dealType = RestDealType then
        fmmap (map_option strip_versions)
          (fmfilter (\<lambda>k. case fmlookup twins k of Some (Some v) \<Rightarrow> mt_Metadata v \<noteq> Some ''deleted'' | _ \<Rightarrow> True) twins)
      else twins)"

definition side_text :: "TwinValue option \<Rightarrow> string" where
  "side_text v = (case Option.bind v tv_Value of Some s \<Rightarrow> s | None \<Rightarrow> [])"

text \<open>
  The twins with an expected value, and the expected values that the device has not reached. The
  second component tells whether there are any.
\<close>

definition BuildDeviceTwinDelta :: "(string, MsgTwin) fmap \<Rightarrow> (string, MsgTwin) fmap \<times> strmap" where
  "BuildDeviceTwinDelta twins =
     (let shown = fmfilter (\<lambda>k. case fmlookup twins k of
                              Some v \<Rightarrow> mt_Metadata v \<noteq> Some ''deleted'' \<and> mt_Expected v \<noteq> None | None \<Rightarrow> False) twins;
          open = fmfilter (\<lambda>k. case fmlookup shown k of
                             Some v \<Rightarrow> side_text (mt_Expected v) \<noteq> [] \<and>
                               (case mt_Actual v of Some _ \<Rightarrow> side_text (mt_Expected v) \<noteq> side_text (mt_Actual v) | None \<Rightarrow> True)
                           | None \<Rightarrow> False) shown
      in (fmmap strip_versions shown, fmmap (\<lambda>v. side_text (mt_Expected v)) open))"

definition dealUpdateResult ::
    "dt_env \<Rightarrow> string \<Rightarrow> string \<Rightarrow> nat \<Rightarrow> error option \<Rightarrow> (string, MsgTwin option) fmap \<Rightarrow> dt_state \<Rightarrow> dt_state" where
  "dealUpdateResult E deviceID eventID code err payload s =
     Send SendToEdge (DeviceETPrefix @ deviceID @ ''/twin/update/result'')
       (let base = \<lparr>EventID = eventID, Timestamp = de_now E\<rparr>
        in case err of None \<Rightarrow> TwinResult base payload | Some e \<Rightarrow> ErrorResult base code e) s"

definition dealDelta :: "dt_env \<Rightarrow> string \<Rightarrow> (string, MsgTwin) fmap \<times> strmap \<Rightarrow> dt_state \<Rightarrow> dt_state" where
  "dealDelta E deviceID delta s =
     Send SendToEdge (DeviceETPrefix @ deviceID @ ''/twin/update/delta'') (TwinDelta (BuildBaseMessage E ''delta'') (fst delta) (snd delta)) s"

definition dealSyncResult :: "dt_env \<Rightarrow> string \<Rightarrow> (string, MsgTwin) fmap \<Rightarrow> dt_state \<Rightarrow> dt_state" where
  "dealSyncResult E deviceID twin s =
     Send SendToCloud (''device/'' @ deviceID @ ''/twin/edge_updated'') (TwinSync (BuildBaseMessage E ''sync'') twin) s"

definition dealDocument :: "BaseMessage \<Rightarrow> string \<Rightarrow> (string, TwinDoc) fmap \<Rightarrow> dt_state \<Rightarrow> dt_state" where
  "dealDocument base deviceID document s =
     Send SendToEdge (DeviceETPrefix @ deviceID @ ''/twin/update/document'') (TwinDocument base document) s"

definition DealMsgTwin ::
    "dt_env \<Rightarrow> string \<Rightarrow> (string, MsgTwin option) fmap \<Rightarrow> deal_type \<Rightarrow> dt_state \<Rightarrow> (DealTwinResult \<times> dt_state) result" where
  "DealMsgTwin E deviceID msgTwins dealType s =
     (case GetDevice s deviceID of
        None \<Rightarrow> Ok (no_result\<lparr>dr_Err := Some (ErrOther ''invalid device id'')\<rparr>, s)
      | Some device \<Rightarrow>
          bind (deal_twins (de_isFloat E) (de_key_now E) deviceID dealType msgTwins (de_ord E (fmdom msgTwins)) no_result (dv_Twin device))
            (\<lambda>(r, twins). Ok (r, s\<lparr>DeviceList := fmupd deviceID (device\<lparr>dv_Twin := twins\<rparr>) (DeviceList s)\<rparr>)))"

text \<open>What is sent once the update is through.\<close>

definition report_update ::
    "dt_env \<Rightarrow> string \<Rightarrow> string \<Rightarrow> deal_type \<Rightarrow> DealTwinResult \<Rightarrow> (string, MsgTwin) fmap \<Rightarrow> dt_state \<Rightarrow> dt_state" where
  "report_update E deviceID eventID dealType r twins s =
     (let s = (if dealType = RestDealType
               then dealUpdateResult E deviceID eventID InternalErrorCode None (BuildDeviceTwinResult (dr_Result r) dealType) s else s);
          s = (if dr_Document r \<noteq> fmempty
               then dealDocument \<lparr>EventID = eventID, Timestamp = de_now E\<rparr> deviceID (dr_Document r) s else s);
          delta = BuildDeviceTwinDelta twins;
          s = (if snd delta \<noteq> fmempty then dealDelta E deviceID delta s else s)
      in if dr_SyncResult r \<noteq> fmempty then dealSyncResult E deviceID (dr_SyncResult r) s else s)"

text \<open>
  The write to the database, and the way back to what it holds when the write fails.
\<close>

definition write_update :: "dt_env \<Rightarrow> string \<Rightarrow> DealTwinResult \<Rightarrow> dt_state \<Rightarrow> error option \<times> dt_state" where
  "write_update E deviceID r s =
     (if dr_Add r \<noteq> [] \<or> dr_Delete r \<noteq> [] \<or> dr_Update r \<noteq> [] then
        (case retry RetryTimes (DeviceTwinTrans (de_db E) (dr_Add r) (dr_Delete r) (dr_Update r)) (dt_db s) of
           (None, d) \<Rightarrow> (None, s\<lparr>dt_db := d\<rparr>)
         | (Some e, d) \<Rightarrow> (Some e, snd (SyncDeviceFromSqlite E deviceID (s\<lparr>dt_db := d\<rparr>))))
      else (None, s))"

text \<open>
  The delta is built from the device that was looked up at the start, also when the device was read
  again from the database meanwhile.
\<close>

definition DealDeviceTwin ::
    "dt_env \<Rightarrow> string \<Rightarrow> string \<Rightarrow> (string, MsgTwin option) fmap option \<Rightarrow> deal_type \<Rightarrow> dt_state \<Rightarrow> (error option \<times> dt_state) result" where
  "DealDeviceTwin E deviceID eventID msgTwin dealType s =
     (case GetDevice s deviceID of
        None \<Rightarrow>
          (let e = ErrOther ''Update rejected due to the device is not existed''
           in Ok (Some e, dealUpdateResult E deviceID eventID NotFoundCode (Some e) fmempty s))
      | Some device \<Rightarrow>
          (case msgTwin of
             None \<Rightarrow>
               (let e = ErrOther ''Update twin error, key:twin does not exist''
                in Ok (Some e, dealUpdateResult E deviceID eventID BadRequestCode (Some e) fmempty s))
           | Some content \<Rightarrow>
               bind (DealMsgTwin E deviceID content dealType s) (\<lambda>(r, s1).
                 let twins = (case GetDevice s1 deviceID of Some d \<Rightarrow> dv_Twin d | None \<Rightarrow> fmempty)
                 in case (dealType = RestDealType, dr_Err r) of
                      (True, Some e) \<Rightarrow>
                        Ok (Some e, dealUpdateResult E deviceID eventID BadRequestCode (Some e) fmempty (snd (SyncDeviceFromSqlite E deviceID s1)))
                    | _ \<Rightarrow>
                        (case write_update E deviceID r s1 of
                           (Some e, s2) \<Rightarrow>
                             if dealType = RestDealType
                             then Ok (Some e, dealUpdateResult E deviceID eventID InternalErrorCode (Some e) fmempty s2)
                             else Ok (None, report_update E deviceID eventID dealType r twins s2)
                         | (None, s2) \<Rightarrow> Ok (None, report_update E deviceID eventID dealType r twins s2)))))"


section \<open>Locks and the handlers of the twin worker\<close>

text \<open>
  What becomes of a worker that calls a handler: the handler returns, it waits for ever unless
  someone gives a lock back, or a panic ends the worker and leaves the locks. Giving back a mutex
  that is not taken ends the process.
\<close>

datatype 'a handler = Done 'a | Blocks | Dies panic dt_locks | Fatal

fun run_next :: "'a handler \<Rightarrow> ('a \<Rightarrow> 'b handler) \<Rightarrow> 'b handler" where
  "run_next (Done x) f = f x"
| "run_next Blocks f = Blocks"
| "run_next (Dies p l) f = Dies p l"
| "run_next Fatal f = Fatal"

text \<open>
  A body that may panic, run while the locks are as they are. The bodies give their errors back in
  their values.
\<close>

fun under_locks :: "dt_locks \<Rightarrow> 'a result \<Rightarrow> ('a \<Rightarrow> 'b handler) \<Rightarrow> 'b handler" where
  "under_locks l (Ok x) f = f x"
| "under_locks l (Panic p) f = Dies p l"
| "under_locks l (Err e) f = Dies ExplicitPanic l"

definition dtc_Lock :: "string \<Rightarrow> dt_locks \<Rightarrow> dt_locks handler" where
  "dtc_Lock deviceID l =
     (case fmlookup (DeviceMutex l) deviceID of
        None \<Rightarrow> Done l
      | Some taken \<Rightarrow>
          (case lk_RLock (ctx_Mutex l) of
             None \<Rightarrow> Blocks
           | Some m \<Rightarrow> if taken then Blocks else Done (l\<lparr>ctx_Mutex := m, DeviceMutex := fmupd deviceID True (DeviceMutex l)\<rparr>)))"

definition dtc_Unlock :: "string \<Rightarrow> dt_locks \<Rightarrow> dt_locks handler" where
  "dtc_Unlock deviceID l =
     (case fmlookup (DeviceMutex l) deviceID of
        None \<Rightarrow> Done l
      | Some taken \<Rightarrow>
          if taken then Done (l\<lparr>DeviceMutex := fmupd deviceID False (DeviceMutex l), ctx_Mutex := lk_RUnlock (ctx_Mutex l)\<rparr>)
          else Fatal)"

definition dtc_LockAll :: "dt_locks \<Rightarrow> dt_locks handler" where
  "dtc_LockAll l = (case lk_Lock (ctx_Mutex l) of None \<Rightarrow> Blocks | Some m \<Rightarrow> Done (l\<lparr>ctx_Mutex := m\<rparr>))"

definition dtc_UnlockAll :: "dt_locks \<Rightarrow> dt_locks" where
  "dtc_UnlockAll l = l\<lparr>ctx_Mutex := lk_Unlock (ctx_Mutex l)\<rparr>"

definition set_locks :: "dt_locks \<Rightarrow> dt_state \<Rightarrow> dt_state" where
  "set_locks l s = s\<lparr>dt_locks_of := l\<rparr>"

definition UnmarshalDeviceTwinUpdate :: "dt_env \<Rightarrow> string \<Rightarrow> TwinUpdateMsg result" where
  "UnmarshalDeviceTwinUpdate E payload =
     (case de_UnmarshalTwinUpdate E payload of
        None \<Rightarrow> Err ErrUnmarshal
      | Some m \<Rightarrow>
          (case tu_Twin m of
             None \<Rightarrow> Err (ErrOther ''Update twin error, key:twin does not exist'')
           | Some twins \<Rightarrow> (case check_twins twins (de_ord E (fmdom twins)) of Some e \<Rightarrow> Err e | None \<Rightarrow> Ok m)))"

definition Updated :: "dt_env \<Rightarrow> string \<Rightarrow> string \<Rightarrow> dt_state \<Rightarrow> dt_state result" where
  "Updated E deviceID payload s =
     (case UnmarshalDeviceTwinUpdate E payload of
        Ok m \<Rightarrow> bind (DealDeviceTwin E deviceID (EventID (tu_Base m)) (tu_Twin m) RestDealType s) (\<lambda>(_, s). Ok s)
      | Err e \<Rightarrow> Ok (dealUpdateResult E [] [] BadRequestCode (Some e) fmempty s)
      | Panic p \<Rightarrow> Panic p)"

definition dealTwinUpdate :: "dt_env \<Rightarrow> string \<Rightarrow> Message \<Rightarrow> dt_state \<Rightarrow> (error option \<times> dt_state) handler" where
  "dealTwinUpdate E resource msg s =
     (case m_Content msg of
        BytesContent content \<Rightarrow>
          run_next (dtc_Lock resource (dt_locks_of s)) (\<lambda>l.
            under_locks l (Updated E resource content (set_locks l s)) (\<lambda>s.
              run_next (dtc_Unlock resource (dt_locks_of s)) (\<lambda>l. Done (None, set_locks l s))))
      | _ \<Rightarrow> Done (Some (ErrOther ''invalid message content''), s))"

definition dealTwinSync :: "dt_env \<Rightarrow> string \<Rightarrow> Message \<Rightarrow> dt_state \<Rightarrow> (error option \<times> dt_state) handler" where
  "dealTwinSync E resource msg s =
     (case m_Content msg of
        BytesContent content \<Rightarrow>
          (case UnmarshalDeviceTwinUpdate E content of
             Ok m \<Rightarrow>
               run_next (dtc_Lock resource (dt_locks_of s)) (\<lambda>l.
                 under_locks l (DealDeviceTwin E resource (EventID (tu_Base m)) (tu_Twin m) SyncDealType (set_locks l s)) (\<lambda>(_, s).
                   run_next (dtc_Unlock resource (dt_locks_of s)) (\<lambda>l. Done (None, set_locks l s))))
           | Err e \<Rightarrow>
               Done (Some e, dealUpdateResult E [] [] BadRequestCode
                 (Some (ErrOther ''Unmarshal update request body failed, Please check the request'')) fmempty s)
           | Panic p \<Rightarrow> Dies p (dt_locks_of s))
      | _ \<Rightarrow> Done (Some (ErrOther ''invalid message content''), s))"

definition DealGetTwin :: "dt_env \<Rightarrow> string \<Rightarrow> string \<Rightarrow> dt_state \<Rightarrow> dt_state" where
  "DealGetTwin E deviceID payload s =
     Send SendToEdge (DeviceETPrefix @ deviceID @ ''/twin/get/result'')
       (case de_UnmarshalBaseMessage E payload of
          None \<Rightarrow> ErrorResult \<lparr>EventID = [], Timestamp = de_now E\<rparr> BadRequestCode (ErrOther ''Unmarshal twin info failed'')
        | Some edgeGet \<Rightarrow>
            (let base = \<lparr>EventID = EventID edgeGet, Timestamp = de_now E\<rparr>
             in case GetDevice s deviceID of
                  None \<Rightarrow> ErrorResult base NotFoundCode (ErrOther ''Device not found while getting twin'')
                | Some doc \<Rightarrow> TwinResult base (BuildDeviceTwinResult (fmmap Some (dv_Twin doc)) RestDealType))) s"

definition dealTwinGet :: "dt_env \<Rightarrow> string \<Rightarrow> Message \<Rightarrow> dt_state \<Rightarrow> (error option \<times> dt_state) handler" where
  "dealTwinGet E resource msg s =
     (case m_Content msg of
        BytesContent content \<Rightarrow> Done (None, DealGetTwin E resource content s)
      | _ \<Rightarrow> Done (Some (ErrOther ''invalid message content''), s))"


section \<open>Attributes\<close>

record DealAttrResult =
  ar_Add :: "DeviceAttr list"
  ar_Delete :: "DeviceDelete list"
  ar_Update :: "DeviceAttrUpdate list"
  ar_Result :: "(string, MsgAttr option) fmap"

text \<open>
  An attribute that is there and one the message brings. The flag tells whether something changed.
\<close>

definition change_attr :: "MsgAttr \<Rightarrow> MsgAttr \<Rightarrow> (MsgAttr \<times> cols \<times> MsgAttr \<times> bool) result" where
  "change_attr attr msgAttr =
     (let new_value = (ma_Value attr \<noteq> ma_Value msgAttr);
          new_type = (ma_Metadata msgAttr \<noteq> None \<and> ma_Metadata msgAttr \<noteq> ma_Metadata attr);
          a = (if new_value then attr\<lparr>ma_Value := ma_Value msgAttr\<rparr> else attr);
          a = (if new_type then a\<lparr>ma_Metadata := ma_Metadata msgAttr\<rparr> else a);
          c = (if new_value then fmupd ''value'' (ColText (ma_Value msgAttr)) fmempty else fmempty);
          c = (case (new_type, ma_Metadata msgAttr) of
                 (True, Some t) \<Rightarrow> fmupd ''metadata'' (ColText ''{}'') (fmupd ''attr_type'' (ColText t) c) | _ \<Rightarrow> c);
          r = \<lparr>ma_Value = (if new_value then ma_Value msgAttr else []), ma_Optional = None,
               ma_Metadata = (if new_type then ma_Metadata msgAttr else None)\<rparr>
      in case ma_Optional msgAttr of
           None \<Rightarrow> Ok (a, c, r, new_value \<or> new_type)
         | Some mo \<Rightarrow>
             (case ma_Optional attr of
                None \<Rightarrow> Panic NilDereference
              | Some ao \<Rightarrow>
                  if mo \<noteq> ao \<and> ao
                  then Ok (a\<lparr>ma_Optional := Some mo\<rparr>, fmupd ''optional'' (ColBool mo) c, r\<lparr>ma_Optional := Some mo\<rparr>, True)
                  else Ok (a, c, r, new_value \<or> new_type)))"

definition new_attr_row :: "string \<Rightarrow> string \<Rightarrow> MsgAttr \<Rightarrow> DeviceAttr" where
  "new_attr_row deviceID key msgAttr =
     \<lparr>at_DeviceID = deviceID, at_Name = key, at_Value = ma_Value msgAttr,
      at_Optional = (case ma_Optional msgAttr of Some b \<Rightarrow> b | None \<Rightarrow> True),
      at_AttrType = (case ma_Metadata msgAttr of Some t \<Rightarrow> t | None \<Rightarrow> ''string''),
      at_Metadata = (if ma_Metadata msgAttr = None then [] else ''{}'')\<rparr>"

definition deal_attr ::
    "string \<Rightarrow> deal_type \<Rightarrow> string \<Rightarrow> MsgAttr option \<Rightarrow> DealAttrResult \<Rightarrow> (string, MsgAttr) fmap \<Rightarrow>
     (DealAttrResult \<times> (string, MsgAttr) fmap) result" where
  "deal_attr deviceID dealType key msgAttr r attrs =
     (case (fmlookup attrs key, msgAttr) of
        (Some attr, None) \<Rightarrow>
          if dealType = RestDealType then
            (case ma_Optional attr of
               None \<Rightarrow> Panic NilDereference
             | Some optional \<Rightarrow>
                 if optional then
                   Ok (r\<lparr>ar_Delete := ar_Delete r @ [\<lparr>dd_DeviceID = deviceID, dd_Name = key\<rparr>],
                         ar_Result := fmupd key None (ar_Result r)\<rparr>, fmdrop key attrs)
                 else Ok (r, attrs))
          else Panic NilDereference
      | (Some attr, Some m) \<Rightarrow>
          bind (change_attr attr m) (\<lambda>(attr, c, res, changed).
            Ok (if changed
                then r\<lparr>ar_Update := ar_Update r @ [\<lparr>au_DeviceID = deviceID, au_Name = key, au_Cols = c\<rparr>],
                       ar_Result := fmupd key (Some res) (ar_Result r)\<rparr>
                else r\<lparr>ar_Result := fmdrop key (ar_Result r)\<rparr>, fmupd key attr attrs))
      | (None, None) \<Rightarrow> Panic NilDereference
      | (None, Some m) \<Rightarrow>
          Ok (r\<lparr>ar_Add := ar_Add r @ [new_attr_row deviceID key m], ar_Result := fmupd key (Some m) (ar_Result r)\<rparr>,
              fmupd key m attrs))"

fun deal_attrs ::
    "string \<Rightarrow> deal_type \<Rightarrow> (string, MsgAttr option) fmap \<Rightarrow> string list \<Rightarrow> DealAttrResult \<Rightarrow> (string, MsgAttr) fmap \<Rightarrow>
     (DealAttrResult \<times> (string, MsgAttr) fmap) result" where
  "deal_attrs deviceID dealType msgAttrs [] r attrs = Ok (r, attrs)"
| "deal_attrs deviceID dealType msgAttrs (key # keys) r attrs =
     bind (deal_attr deviceID dealType key (Option.bind (fmlookup msgAttrs key) id) r attrs)
       (\<lambda>(r, attrs). deal_attrs deviceID dealType msgAttrs keys r attrs)"

text \<open>A message of the cloud is complete: the attributes it does not name are deleted.\<close>

definition drop_unnamed ::
    "string order \<Rightarrow> string \<Rightarrow> (string, MsgAttr option) fmap \<Rightarrow> DealAttrResult \<times> (string, MsgAttr) fmap \<Rightarrow>
     DealAttrResult \<times> (string, MsgAttr) fmap" where
  "drop_unnamed ord deviceID msgAttrs ra =
     (case ra of (r, attrs) \<Rightarrow>
        (let gone = filter (\<lambda>key. key |\<notin>| fmdom msgAttrs) (ord (fmdom attrs))
         in (r\<lparr>ar_Delete := ar_Delete r @ map (\<lambda>key. \<lparr>dd_DeviceID = deviceID, dd_Name = key\<rparr>) gone,
               ar_Result := fold (\<lambda>key. fmupd key None) gone (ar_Result r)\<rparr>, fold fmdrop gone attrs)))"

definition DealMsgAttr ::
    "dt_env \<Rightarrow> string \<Rightarrow> (string, MsgAttr option) fmap \<Rightarrow> deal_type \<Rightarrow> dt_state \<Rightarrow> (DealAttrResult \<times> dt_state) result" where
  "DealMsgAttr E deviceID msgAttrs dealType s =
     (case GetDevice s deviceID of
        None \<Rightarrow> Panic NilDereference
      | Some device \<Rightarrow>
          bind (deal_attrs deviceID dealType msgAttrs (de_ord E (fmdom msgAttrs))
                  \<lparr>ar_Add = [], ar_Delete = [], ar_Update = [], ar_Result = fmempty\<rparr> (dv_Attributes device)) (\<lambda>ra.
            case (if dealType \<noteq> RestDealType then drop_unnamed (de_ord E) deviceID msgAttrs ra else ra) of
              (r, attrs) \<Rightarrow> Ok (r, s\<lparr>DeviceList := fmupd deviceID (device\<lparr>dv_Attributes := attrs\<rparr>) (DeviceList s)\<rparr>)))"

definition UpdateDeviceAttr ::
    "dt_env \<Rightarrow> string \<Rightarrow> (string, MsgAttr option) fmap option \<Rightarrow> BaseMessage \<Rightarrow> deal_type \<Rightarrow> dt_state \<Rightarrow> dt_state result" where
  "UpdateDeviceAttr E deviceID attributes base dealType s =
     (case GetDevice s deviceID of
        None \<Rightarrow> Ok s
      | Some device \<Rightarrow>
          bind (DealMsgAttr E (dv_ID device) (case attributes of Some m \<Rightarrow> m | None \<Rightarrow> fmempty) dealType s) (\<lambda>(r, s).
            if ar_Add r \<noteq> [] \<or> ar_Delete r \<noteq> [] \<or> ar_Update r \<noteq> [] then
              (case retry RetryTimes (DeviceAttrTrans (de_db E) (ar_Add r) (ar_Delete r) (ar_Update r)) (dt_db s) of
                 (Some e, d) \<Rightarrow> Ok (snd (SyncDeviceFromSqlite E deviceID (s\<lparr>dt_db := d\<rparr>)))
               | (None, d) \<Rightarrow>
                   Ok (Send SendToEdge (DeviceETPrefix @ deviceID @ ''/updated'') (AttrUpdate (base\<lparr>Timestamp := de_now E\<rparr>) (ar_Result r))
                         (s\<lparr>dt_db := d\<rparr>)))
            else Ok s))"


section \<open>Membership\<close>

text \<open>
  The device as it is announced: deleted twins become null, versions are taken away. A twin that
  is null already is dereferenced.
\<close>

definition marshal_device :: "DeviceMsg \<Rightarrow> DeviceMsg result" where
  "marshal_device device =
     (case dg_Twin device of
        None \<Rightarrow> Ok device
      | Some twins \<Rightarrow>
          if None |\<in>| fmran twins then Panic NilDereference
          else Ok (device\<lparr>dg_Twin := Some (fmmap (\<lambda>v. case v of
                     Some twin \<Rightarrow> if mt_Metadata twin = Some ''deleted'' then None else Some (strip_versions twin)
                   | None \<Rightarrow> None) twins)\<rparr>))"

definition MarshalMembershipUpdate :: "BaseMessage \<Rightarrow> DeviceMsg list \<Rightarrow> DeviceMsg list \<Rightarrow> dt_payload result" where
  "MarshalMembershipUpdate base adds removes =
     bind (collect_result marshal_device adds) (\<lambda>adds. bind (collect_result marshal_device removes) (\<lambda>removes.
       Ok (MembershipUpdated base adds removes)))"

definition membership_topic :: "dt_state \<Rightarrow> string" where
  "membership_topic s = MemETPrefix @ NodeName s @ ''/membership/updated''"

definition add_known ::
    "dt_env \<Rightarrow> BaseMessage \<Rightarrow> deal_type \<Rightarrow> DeviceMsg \<Rightarrow> dt_state \<Rightarrow> dt_state handler" where
  "add_known E base dealType device s =
     under_locks (dt_locks_of s) (UpdateDeviceAttr E (dg_ID device) (dg_Attributes device) base dealType s) (\<lambda>s.
       under_locks (dt_locks_of s) (DealDeviceTwin E (dg_ID device) (EventID base) (dg_Twin device) dealType s) (\<lambda>(_, s). Done s))"

text \<open>The twins, the attributes and the announcement of a device that is in the database now.\<close>

definition add_new_rest ::
    "dt_env \<Rightarrow> BaseMessage \<Rightarrow> deal_type \<Rightarrow> DeviceMsg \<Rightarrow> dt_state \<Rightarrow> dt_state handler" where
  "add_new_rest E base dealType device s =
     under_locks (dt_locks_of s)
       (if dg_Twin device \<noteq> None then DealDeviceTwin E (dg_ID device) (EventID base) (dg_Twin device) dealType s else Ok (None, s)) (\<lambda>(_, s).
     under_locks (dt_locks_of s)
       (if dg_Attributes device \<noteq> None then UpdateDeviceAttr E (dg_ID device) (dg_Attributes device) base dealType s else Ok s) (\<lambda>s.
     under_locks (dt_locks_of s) (MarshalMembershipUpdate (BuildBaseMessage E (''add/'' @ dg_ID device)) [device] []) (\<lambda>payload.
       Done (Send SendToEdge (membership_topic s) payload s))))"

text \<open>
  One device of \<open>addDevice\<close>. When the database refuses the new device its mutex is given back,
  also where it was not taken.
\<close>

definition add_device :: "dt_env \<Rightarrow> BaseMessage \<Rightarrow> bool \<Rightarrow> DeviceMsg \<Rightarrow> dt_state \<Rightarrow> dt_state handler" where
  "add_device E base delta device s =
     (let dealType = (if delta then RestDealType else SyncDealType); i = dg_ID device
      in case GetDevice s i of
           Some _ \<Rightarrow> if delta then Done s else add_known E base dealType device s
         | None \<Rightarrow>
             (let l = dt_locks_of s; l = l\<lparr>DeviceMutex := fmupd i False (DeviceMutex l)\<rparr>
              in run_next (if delta then dtc_Lock i l else Done l) (\<lambda>l.
                   let s = s\<lparr>dt_locks_of := l, DeviceList := fmupd i
                              \<lparr>dv_ID = i, dv_Name = dg_Name device, dv_Description = dg_Description device, dv_State = dg_State device,
                               dv_LastOnline = [], dv_Attributes = fmempty, dv_Twin = fmempty\<rparr> (DeviceList s)\<rparr>;
                       row = \<lparr>rw_ID = i, rw_Name = dg_Name device, rw_Description = dg_Description device, rw_State = dg_State device,
                              rw_LastOnline = []\<rparr>
                   in case retry RetryTimes (AddDeviceTrans (de_db E) [row] [] []) (dt_db s) of
                        (Some e, d) \<Rightarrow>
                          run_next (dtc_Unlock i (dt_locks_of s)) (\<lambda>l.
                            Done (s\<lparr>dt_db := d, dt_locks_of := l, DeviceList := fmdrop i (DeviceList s)\<rparr>))
                      | (None, d) \<Rightarrow>
                          run_next (add_new_rest E base dealType device (s\<lparr>dt_db := d\<rparr>)) (\<lambda>s.
                            if delta then run_next (dtc_Unlock i (dt_locks_of s)) (\<lambda>l. Done (set_locks l s)) else Done s))))"

fun add_devices :: "dt_env \<Rightarrow> BaseMessage \<Rightarrow> bool \<Rightarrow> DeviceMsg list \<Rightarrow> dt_state \<Rightarrow> dt_state handler" where
  "add_devices E base delta [] s = Done s"
| "add_devices E base delta (device # devices) s =
     run_next (add_device E base delta device s) (add_devices E base delta devices)"

definition addDevice :: "dt_env \<Rightarrow> DeviceMsg list \<Rightarrow> BaseMessage \<Rightarrow> bool \<Rightarrow> dt_state \<Rightarrow> dt_state handler" where
  "addDevice E toAdd base delta s = add_devices E (if delta then base else base\<lparr>EventID := []\<rparr>) delta toAdd s"

text \<open>The device leaves the memory whether the database let go of it or not.\<close>

definition remove_device :: "dt_env \<Rightarrow> bool \<Rightarrow> DeviceMsg \<Rightarrow> dt_state \<Rightarrow> dt_state handler" where
  "remove_device E delta device s =
     (let i = dg_ID device
      in if GetDevice s i = None then Done s
         else
           run_next (if delta then dtc_Lock i (dt_locks_of s) else Done (dt_locks_of s)) (\<lambda>l.
             let d = snd (retry RetryTimes (DeleteDeviceTrans (de_db E) [i]) (dt_db s));
                 s = s\<lparr>dt_db := d, DeviceList := fmdrop i (DeviceList s), dt_locks_of := l\<lparr>DeviceMutex := fmdrop i (DeviceMutex l)\<rparr>\<rparr>
             in run_next (if delta then dtc_Unlock i (dt_locks_of s) else Done (dt_locks_of s)) (\<lambda>l.
                  under_locks l (MarshalMembershipUpdate (BuildBaseMessage E (''remove/'' @ i)) [] [device]) (\<lambda>payload.
                    Done (Send SendToEdge (membership_topic s) payload (set_locks l s))))))"

fun removeDevice :: "dt_env \<Rightarrow> DeviceMsg list \<Rightarrow> bool \<Rightarrow> dt_state \<Rightarrow> dt_state handler" where
  "removeDevice E [] delta s = Done s"
| "removeDevice E (device # devices) delta s = run_next (remove_device E delta device s) (removeDevice E devices delta)"

definition getRemoveList :: "string order \<Rightarrow> dt_state \<Rightarrow> DeviceMsg list \<Rightarrow> DeviceMsg list" where
  "getRemoveList ord s devices =
     map (\<lambda>key. \<lparr>dg_ID = key, dg_Name = [], dg_Description = [], dg_State = [], dg_Attributes = None, dg_Twin = None\<rparr>)
       (filter (\<lambda>key. key \<notin> set (map dg_ID devices)) (ord (fmdom (DeviceList s))))"

text \<open>The lock of all devices is given back by a deferred call, also after a panic.\<close>

fun deferred_UnlockAll :: "dt_state handler \<Rightarrow> (error option \<times> dt_state) handler" where
  "deferred_UnlockAll (Done s) = Done (None, set_locks (dtc_UnlockAll (dt_locks_of s)) s)"
| "deferred_UnlockAll (Dies p l) = Dies p (dtc_UnlockAll l)"
| "deferred_UnlockAll Blocks = Blocks"
| "deferred_UnlockAll Fatal = Fatal"

definition dealMembershipDetail :: "dt_env \<Rightarrow> Message \<Rightarrow> dt_state \<Rightarrow> (error option \<times> dt_state) handler" where
  "dealMembershipDetail E msg s =
     (case m_Content msg of
        BytesContent contentData \<Rightarrow>
          (case de_UnmarshalMembershipDetail E contentData of
             None \<Rightarrow> Done (Some ErrUnmarshal, s)
           | Some (base, devices) \<Rightarrow>
               run_next (dtc_LockAll (dt_locks_of s)) (\<lambda>l.
                 deferred_UnlockAll
                   (run_next (addDevice E devices \<lparr>EventID = EventID base, Timestamp = 0\<rparr> False (set_locks l s)) (\<lambda>s.
                      removeDevice E (getRemoveList (de_ord E) s devices) False s))))
      | _ \<Rightarrow> Done (Some (ErrOther ''assertion failed''), s))"

definition dealMembershipUpdate :: "dt_env \<Rightarrow> Message \<Rightarrow> dt_state \<Rightarrow> (error option \<times> dt_state) handler" where
  "dealMembershipUpdate E msg s =
     (case m_Content msg of
        BytesContent contentData \<Rightarrow>
          (case de_UnmarshalMembershipUpdate E contentData of
             None \<Rightarrow> Done (Some ErrUnmarshal, s)
           | Some (base, adds, removes) \<Rightarrow>
               run_next (addDevice E adds \<lparr>EventID = EventID base, Timestamp = 0\<rparr> False s) (\<lambda>s.
                 run_next (removeDevice E removes False s) (\<lambda>s. Done (None, s))))
      | _ \<Rightarrow> Done (Some (ErrOther ''assertion failed''), s))"

definition dealMembershipGetInner :: "dt_env \<Rightarrow> string \<Rightarrow> dt_state \<Rightarrow> dt_state" where
  "dealMembershipGetInner E payload s =
     Send SendToEdge (MemETPrefix @ NodeName s @ ''/membership/get/result'')
       (case de_UnmarshalBaseMessage E payload of
          None \<Rightarrow> ErrorResult \<lparr>EventID = [], Timestamp = de_now E\<rparr> BadRequestCode (ErrOther ''Unmarshal get membership info failed'')
        | Some edgeGet \<Rightarrow>
            MembershipGetResult \<lparr>EventID = EventID edgeGet, Timestamp = de_now E\<rparr>
              (map (\<lambda>device. device\<lparr>dv_Twin := fmempty\<rparr>) (List.map_filter (fmlookup (DeviceList s)) (de_ord E (fmdom (DeviceList s)))))) s"

definition dealMembershipGet :: "dt_env \<Rightarrow> Message \<Rightarrow> dt_state \<Rightarrow> (error option \<times> dt_state) handler" where
  "dealMembershipGet E msg s =
     (case m_Content msg of
        BytesContent contentData \<Rightarrow> Done (None, dealMembershipGetInner E contentData s)
      | _ \<Rightarrow> Done (Some (ErrOther ''assertion failed''), s))"


section \<open>State and attributes of a device\<close>

text \<open>The two writes of the retry loop: only the error of the second one counts.\<close>

definition write_state :: "dt_env \<Rightarrow> string \<Rightarrow> string \<Rightarrow> twin_db \<Rightarrow> error option \<times> twin_db" where
  "write_state E i state d =
     exec (de_db E) (UpdateDeviceField i (\<lambda>row. row\<lparr>rw_LastOnline := de_lastOnline E\<rparr>))
       (snd (exec (de_db E) (UpdateDeviceField i (\<lambda>row. row\<lparr>rw_State := state\<rparr>)) d))"

definition update_state :: "dt_env \<Rightarrow> string \<Rightarrow> string \<Rightarrow> dt_state \<Rightarrow> dt_state" where
  "update_state E deviceID state s =
     (case GetDevice s deviceID of
        None \<Rightarrow> s
      | Some device \<Rightarrow>
          if state \<noteq> ''online'' \<and> state \<noteq> ''offline'' \<and> state \<noteq> ''unknown'' then s
          else
            (let d = snd (retry RetryTimes (write_state E (dv_ID device) state) (dt_db s));
                 device = device\<lparr>dv_State := state, dv_LastOnline := de_lastOnline E\<rparr>;
                 payload = DeviceState (BuildBaseMessage E ''state'') (dv_Name device) (dv_State device) (dv_LastOnline device)
             in Send SendToCloud (''device/'' @ dv_ID device @ ''/state'') payload
                  (Send SendToEdge (DeviceETPrefix @ dv_ID device @ ''/state/update/result'') payload
                     (s\<lparr>dt_db := d, DeviceList := fmupd deviceID device (DeviceList s)\<rparr>))))"

text \<open>The content of the message is taken for bytes without a test.\<close>

definition dealDeviceStateUpdate :: "dt_env \<Rightarrow> string \<Rightarrow> Message \<Rightarrow> dt_state \<Rightarrow> (error option \<times> dt_state) handler" where
  "dealDeviceStateUpdate E resource msg s =
     (case m_Content msg of
        BytesContent content \<Rightarrow>
          (case de_UnmarshalDeviceUpdate E content of
             None \<Rightarrow> Done (Some ErrUnmarshal, s)
           | Some u \<Rightarrow>
               run_next (dtc_Lock resource (dt_locks_of s)) (\<lambda>l.
                 let s = update_state E resource (up_State u) (set_locks l s)
                 in run_next (dtc_Unlock resource (dt_locks_of s)) (\<lambda>l. Done (None, set_locks l s))))
      | _ \<Rightarrow> Dies FailedAssertion (dt_locks_of s))"

definition dealDeviceAttrUpdate :: "dt_env \<Rightarrow> string \<Rightarrow> Message \<Rightarrow> dt_state \<Rightarrow> (error option \<times> dt_state) handler" where
  "dealDeviceAttrUpdate E resource msg s =
     (case m_Content msg of
        BytesContent content \<Rightarrow>
          (case de_UnmarshalDeviceUpdate E content of
             None \<Rightarrow> Done (Some ErrUnmarshal, s)
           | Some u \<Rightarrow>
               run_next (dtc_Lock resource (dt_locks_of s)) (\<lambda>l.
                 under_locks l (UpdateDeviceAttr E resource (up_Attributes u) \<lparr>EventID = EventID (up_Base u), Timestamp = 0\<rparr> RestDealType
                   (set_locks l s)) (\<lambda>s.
                   run_next (dtc_Unlock resource (dt_locks_of s)) (\<lambda>l. Done (None, set_locks l s)))))
      | _ \<Rightarrow> Dies FailedAssertion (dt_locks_of s))"


section \<open>Start\<close>

text \<open>
  At the start every device of the database is read under its lock. A device that cannot be read
  is left out.
\<close>

definition sync_device :: "dt_env \<Rightarrow> string \<Rightarrow> dt_state \<Rightarrow> dt_state handler" where
  "sync_device E deviceID s =
     (let s = new_mutex deviceID s
      in run_next (dtc_Lock deviceID (dt_locks_of s)) (\<lambda>l.
           let s = snd (read_device E deviceID (set_locks l s))
           in run_next (dtc_Unlock deviceID (dt_locks_of s)) (\<lambda>l. Done (set_locks l s))))"

fun sync_devices :: "dt_env \<Rightarrow> string list \<Rightarrow> dt_state \<Rightarrow> dt_state handler" where
  "sync_devices E [] s = Done s"
| "sync_devices E (deviceID # ids) s = run_next (sync_device E deviceID s) (sync_devices E ids)"

definition SyncSqlite :: "dt_env \<Rightarrow> dt_state \<Rightarrow> (error option \<times> dt_state) handler" where
  "SyncSqlite E s =
     (case QueryDeviceAll (de_db E) (dt_db s) of
        (Ok rows, d) \<Rightarrow> run_next (sync_devices E (map rw_ID rows) (s\<lparr>dt_db := d\<rparr>)) (\<lambda>s. Done (None, s))
      | (_, d) \<Rightarrow> Done (Some ErrDatabase, s\<lparr>dt_db := d\<rparr>))"

end
