(* ===== verification/Twin_Comm.thy ===== *)
theory Twin_Comm
  imports Device_Twin Go_Codec
begin

text \<open>
  The messages of the device twin module: how a message from the bus is classified and given to
  one of the workers (\<open>edge/pkg/devicetwin/process.go\<close>), and the worker that talks to the cloud and
  to the MQTT broker and repeats what the cloud has not confirmed
  (\<open>edge/pkg/devicetwin/dtmanager/communicate.go\<close>).
\<close>

section \<open>Classification\<close>

record DTMessage =
  dtm_Msg :: Message
  dtm_Identity :: string
  dtm_Action :: string

text \<open>\<open>base64.URLEncoding\<close>: the standard encoding with two other characters.\<close>

definition b64url_DecodeString :: "string \<Rightarrow> string option" where
  "b64url_DecodeString s =
     (if CHR ''+'' \<in> set s \<or> CHR ''/'' \<in> set s then None
      else b64_DecodeString (map (\<lambda>c. if c = CHR ''-'' then CHR ''+'' else if c = CHR ''_'' then CHR ''/'' else c) s))"

text \<open>\<open>strings.Index\<close> for a substring that is there.\<close>

fun strings_Index :: "string \<Rightarrow> string \<Rightarrow> nat" where
  "strings_Index [] sub = 0"
| "strings_Index (c # cs) sub = (if strings_HasPrefix (c # cs) sub then 0 else Suc (strings_Index cs sub))"

definition EventActionMap :: "string \<Rightarrow> string \<Rightarrow> string option" where
  "EventActionMap prefix suffix =
     (if prefix = MemETPrefix then
        map_of [(''/membership/detail/result'', ''MemDetailResult''), (''/membership/updated'', ''MemUpdated''),
                (''/membership/get'', ''MemGet'')] suffix
      else if prefix = DeviceETPrefix then
        map_of [(''/state/get'', ''DeviceStateGet''), (''/updated'', ''DeviceUpdated''), (''/state/update'', ''DeviceStateUpdate''),
                (''/twin/update'', ''TwinUpdate''), (''/twin/cloud_updated'', ''TwinCloudSync''), (''/twin/get'', ''TwinGet'')] suffix
      else None)"

definition ActionModuleMap :: "string \<Rightarrow> string option" where
  "ActionModuleMap =
     map_of [(''MemDetailResult'', ''MemModule''), (''MemGet'', ''MemModule''), (''MemUpdated'', ''MemModule''),
             (''TwinGet'', ''TwinModule''), (''TwinUpdate'', ''TwinModule''), (''TwinCloudSync'', ''TwinModule''),
             (''DeviceUpdated'', ''DeviceModule''), (''DeviceStateGet'', ''DeviceModule''), (''DeviceStateUpdate'', ''DeviceModule''),
             (''connected'', ''CommModule''), (''disconnected'', ''CommModule''), (''LifeCycle'', ''CommModule''),
             (''Confirm'', ''CommModule'')]"

text \<open>Identity and action of a topic: the fourth part, and what is around its first occurrence.\<close>

definition classify_topic :: "string \<Rightarrow> (string \<times> string) option result" where
  "classify_topic topic =
     (let splitString = strings_Split (CHR ''/'') topic
      in if length splitString = 4 then
           (if strings_HasPrefix topic ''$hw/events/connected/'' \<or> strings_HasPrefix topic ''$hw/events/disconnected/''
            then Ok (Some ([], ''LifeCycle'')) else Ok None)
         else if length splitString < 4 then Panic IndexOutOfRange
         else
           (let identity = splitString ! 3; loc = strings_Index topic identity
            in case EventActionMap (take loc topic) (drop (loc + length identity) topic) of
                 Some v \<Rightarrow> Ok (Some (identity, v))
               | None \<Rightarrow> Ok None))"

definition classify_bus :: "Message \<Rightarrow> DTMessage option result" where
  "classify_bus msg =
     (case b64url_DecodeString (GetResource msg) of
        None \<Rightarrow> Ok None
      | Some topic \<Rightarrow>
          bind (classify_topic topic) (\<lambda>c.
            case c of
              None \<Rightarrow> Ok None
            | Some (identity, action) \<Rightarrow>
                (case m_Content msg of
                   StringContent text \<Rightarrow>
                     Ok (Some \<lparr>dtm_Msg = msg\<lparr>m_Content := BytesContent text\<rparr>, dtm_Identity = identity, dtm_Action = action\<rparr>)
                 | _ \<Rightarrow> Panic FailedAssertion)))"

definition classify_cloud :: "Message \<Rightarrow> DTMessage option result" where
  "classify_cloud msg0 =
     (let msg = (case m_Content msg0 of
                   BytesContent _ \<Rightarrow> msg0 | c \<Rightarrow> msg0\<lparr>m_Content := BytesContent (json_Marshal_content c)\<rparr>);
          resource = mr_Resource (m_Router msg);
          dt = (\<lambda>identity action. \<lparr>dtm_Msg = msg, dtm_Identity = identity, dtm_Action = action\<rparr>);
          resources = strings_Split (CHR ''/'') resource
      in if strings_Contains resource ''membership/detail'' then Ok (Some (dt [] ''MemDetailResult''))
         else if strings_Contains resource ''membership'' then Ok (Some (dt [] ''MemUpdated''))
         else if strings_Contains resource ''twin/cloud_updated'' then
           (if length resources < 2 then Panic IndexOutOfRange else Ok (Some (dt (resources ! 1) ''TwinCloudSync'')))
         else if strings_Contains (mr_Operation (m_Router msg)) ''updated'' then
           (if length resources = 2 \<and> resources ! 0 = ''device'' then Ok (Some (dt (resources ! 1) ''DeviceUpdated''))
            else Ok (Some (dt [] [])))
         else Ok None)"

definition classifyMsg :: "Message \<Rightarrow> DTMessage option result" where
  "classifyMsg msg =
     (if GetSource msg = ''bus'' then classify_bus msg
      else if GetSource msg = ''edgemgr'' \<or> GetSource msg = ''devicecontroller'' then classify_cloud msg
      else if GetSource msg = ''edgehub'' then
        (if mr_Resource (m_Router msg) = ''node/connection''
         then Ok (Some \<lparr>dtm_Msg = msg, dtm_Identity = [], dtm_Action = ''LifeCycle''\<rparr>) else Ok None)
      else Ok None)"

text \<open>
  A message from the bus of the process: the messages it puts into the channels of the workers,
  with the names of the workers. The confirmation carries a new message that only has a parent.
\<close>

definition distributeMsg :: "string \<Rightarrow> int \<Rightarrow> Message \<Rightarrow> (error option \<times> (string \<times> DTMessage) list) result" where
  "distributeMsg uuid now msg =
     (let confirm = (if GetParentID msg \<noteq> []
                     then [(''CommModule'', \<lparr>dtm_Msg = NewMessage uuid now (GetParentID msg), dtm_Identity = [], dtm_Action = ''Confirm''\<rparr>)]
                     else [])
      in bind (classifyMsg msg) (\<lambda>c.
           case c of
             None \<Rightarrow> Ok (Some (ErrOther ''Not found action''), confirm)
           | Some m \<Rightarrow>
               (case ActionModuleMap (dtm_Action m) of
                  Some moduleName \<Rightarrow> Ok (None, confirm @ [(moduleName, m)])
                | None \<Rightarrow> Ok (Some (ErrOther ''Not found deal module for msg''), confirm))))"


section \<open>The communication worker\<close>

record comm_state =
  cs_Connected :: bool
  cs_ConfirmMap :: "(string, Message) fmap"
  cs_hub :: "Message list"
  cs_eventbus :: "Message list"

definition dealSendToEdge :: "Message \<Rightarrow> comm_state \<Rightarrow> comm_state" where
  "dealSendToEdge msg c = c\<lparr>cs_eventbus := cs_eventbus c @ [msg]\<rparr>"

definition dealSendToCloud :: "Message \<Rightarrow> comm_state \<Rightarrow> comm_state" where
  "dealSendToCloud msg c =
     (if \<not> cs_Connected c then c
      else c\<lparr>cs_hub := cs_hub c @ [msg], cs_ConfirmMap := fmupd (GetID msg) msg (cs_ConfirmMap c)\<rparr>)"

definition dealConfirm :: "Message \<Rightarrow> comm_state \<Rightarrow> comm_state" where
  "dealConfirm msg c = c\<lparr>cs_ConfirmMap := fmdrop (GetParentID msg) (cs_ConfirmMap c)\<rparr>"

text \<open>The request for the devices of the node, with its JSON text as an argument.\<close>

definition detailRequest :: "string \<Rightarrow> int \<Rightarrow> string \<Rightarrow> comm_state \<Rightarrow> comm_state" where
  "detailRequest uuid now getDetail c =
     (let message = FillBody (StringContent getDetail) (BuildRouter ''twin'' ''resource'' ''membership/detail'' ''get'' (NewMessage uuid now []))
      in c\<lparr>cs_ConfirmMap := fmupd (GetID message) message (cs_ConfirmMap c), cs_hub := cs_hub c @ [message]\<rparr>)"

definition dealLifeCycle :: "string \<Rightarrow> int \<Rightarrow> string \<Rightarrow> Message \<Rightarrow> comm_state \<Rightarrow> comm_state" where
  "dealLifeCycle uuid now getDetail msg c =
     (case m_Content msg of
        StringContent connectedInfo \<Rightarrow>
          if connectedInfo = ''cloud_connected'' then
            (if cs_Connected c then c else (detailRequest uuid now getDetail c)\<lparr>cs_Connected := True\<rparr>)
          else if connectedInfo = ''cloud_disconnected'' then c\<lparr>cs_Connected := False\<rparr>
          else c
      | _ \<Rightarrow> c)"

text \<open>
  Every message that waits for its confirmation goes through \<open>dealSendToCloud\<close> again, in the order
  of the \<open>range\<close>.
\<close>

definition checkConfirm :: "string order \<Rightarrow> comm_state \<Rightarrow> comm_state" where
  "checkConfirm ord c =
     fold (\<lambda>key c. case fmlookup (cs_ConfirmMap c) key of Some msg \<Rightarrow> dealSendToCloud msg c | None \<Rightarrow> c)
       (ord (fmdom (cs_ConfirmMap c))) c"

end
