(* ===== verification/Twin_Mirror.thy ===== *)
theory Twin_Mirror
  imports Device_Twin
begin

text \<open>
  The relation between what the device twin module has in memory and the tables of its database: for
  every name there is exactly one row, and it shows what the entry in memory shows. The locale
  has the laws a kind of rows must have, and what the statements of a transaction then do to the
  relation; twins and attributes are its interpretations.
\<close>

section \<open>Keyed rows\<close>

definition rows_at :: "('r \<Rightarrow> string) \<Rightarrow> ('r \<Rightarrow> string) \<Rightarrow> string \<Rightarrow> string \<Rightarrow> 'r list \<Rightarrow> 'r list" where
  "rows_at dev name i key rows = filter (\<lambda>r. dev r = i \<and> name r = key) rows"

definition shows_as ::
    "('r \<Rightarrow> string) \<Rightarrow> ('r \<Rightarrow> string) \<Rightarrow> ('r \<Rightarrow> 'v) \<Rightarrow> ('m \<Rightarrow> 'v) \<Rightarrow> string \<Rightarrow> (string, 'm) fmap \<Rightarrow> 'r list \<Rightarrow> bool" where
  "shows_as dev name rview mview i m rows \<longleftrightarrow>
     (\<forall>key. map rview (rows_at dev name i key rows) = (case fmlookup m key of None \<Rightarrow> [] | Some x \<Rightarrow> [mview x]))"

definition write_rows :: "('r \<Rightarrow> string) \<Rightarrow> ('r \<Rightarrow> string) \<Rightarrow> ('c \<Rightarrow> 'r \<Rightarrow> 'r) \<Rightarrow> string \<times> string \<times> 'c \<Rightarrow> 'r list \<Rightarrow> 'r list" where
  "write_rows dev name put u rows =
     (case u of (i, key, c) \<Rightarrow> map (\<lambda>r. if dev r = i \<and> name r = key then put c r else r) rows)"

locale keyed_rows =
  fixes dev :: "'r \<Rightarrow> string" and name :: "'r \<Rightarrow> string" and rview :: "'r \<Rightarrow> 'v" and mview :: "'m \<Rightarrow> 'v"
    and put :: "'c \<Rightarrow> 'r \<Rightarrow> 'r" and load :: "'r \<Rightarrow> 'm"
  assumes put_dev: "dev (put c r) = dev r" and put_name: "name (put c r) = name r"
    and load_view: "mview (load r) = rview r"
begin

abbreviation mirrors :: "string \<Rightarrow> (string, 'm) fmap \<Rightarrow> 'r list \<Rightarrow> bool" where
  "mirrors \<equiv> shows_as dev name rview mview"

lemma mirrorsD: "mirrors i m rows \<Longrightarrow> map rview (rows_at dev name i key rows) = (case fmlookup m key of None \<Rightarrow> [] | Some x \<Rightarrow> [mview x])"
  by (simp add: shows_as_def)

lemma rows_at_write:
  "rows_at dev name i key (write_rows dev name put (j, k, c) rows) =
     (if i = j \<and> key = k then map (put c) (rows_at dev name i key rows) else rows_at dev name i key rows)"
  by (induction rows) (auto simp: rows_at_def write_rows_def put_dev put_name)

lemma mirrors_other_write:
  assumes "mirrors i m rows" and "i \<noteq> j"
  shows "mirrors i m (write_rows dev name put (j, k, c) rows)"
  using assms by (simp add: shows_as_def rows_at_write)

lemma mirrors_write:
  assumes "mirrors i m rows" and "fmlookup m key = Some x"
    and "\<And>r. rview r = mview x \<Longrightarrow> rview (put c r) = mview y"
  shows "mirrors i (fmupd key y m) (write_rows dev name put (i, key, c) rows)"
proof -
  obtain r where r: "rows_at dev name i key rows = [r]" "rview r = mview x"
    using mirrorsD [OF assms(1), of key] assms(2) by auto
  have "rview (put c r) = mview y" by (rule assms(3)) (rule r(2))
  with assms(1) r show ?thesis unfolding shows_as_def rows_at_write by auto
qed

lemma mirrors_same:
  assumes "mirrors i m rows" and "fmlookup m key = Some x" and "mview y = mview x"
  shows "mirrors i (fmupd key y m) rows"
  using assms by (auto simp: shows_as_def)

lemma mirrors_insert:
  assumes "mirrors i m rows" and "fmlookup m key = None" and "dev r = i" and "name r = key" and "mview y = rview r"
  shows "mirrors i (fmupd key y m) (rows @ [r])"
  using assms by (auto simp: shows_as_def rows_at_def)

lemma mirrors_other_insert: "mirrors i m rows \<Longrightarrow> dev r \<noteq> i \<Longrightarrow> mirrors i m (rows @ [r])"
  by (simp add: shows_as_def rows_at_def)

lemma rows_at_filter:
  "rows_at dev name i key (filter P rows) = filter P (rows_at dev name i key rows)"
  by (simp add: rows_at_def conj_commute)

lemma mirrors_filter:
  assumes "mirrors i m rows" and "\<And>r. dev r = i \<Longrightarrow> P r \<longleftrightarrow> name r \<notin> K"
  shows "mirrors i (fmfilter (\<lambda>key. key \<notin> K) m) (filter P rows)"
proof -
  have "filter P (rows_at dev name i key rows) = (if key \<in> K then [] else rows_at dev name i key rows)" for key
    by (induction rows) (auto simp: rows_at_def assms(2))
  with assms(1) show ?thesis by (simp add: shows_as_def rows_at_filter)
qed

lemma mirrors_other_filter:
  assumes "mirrors i m rows" and "\<And>r. dev r = i \<Longrightarrow> P r"
  shows "mirrors i m (filter P rows)"
proof -
  have "filter P (rows_at dev name i key rows) = rows_at dev name i key rows" for key
    by (induction rows) (auto simp: rows_at_def assms(2))
  with assms(1) show ?thesis by (simp add: shows_as_def rows_at_filter)
qed

text \<open>Reading the rows of a device gives a map they mirror, if no two of them have the same name.\<close>

lemma mirrors_unique: "mirrors i m rows \<Longrightarrow> length (rows_at dev name i key rows) \<le> 1"
  using mirrorsD [of i m rows key] by (cases "fmlookup m key") auto

lemma mirrors_absent: "\<forall>r\<in>set rows. dev r \<noteq> i \<Longrightarrow> mirrors i fmempty rows"
  by (auto simp: shows_as_def rows_at_def filter_empty_conv)

lemma mirrors_cong: "(\<And>key. rows_at dev name i key rows' = rows_at dev name i key rows) \<Longrightarrow> mirrors i m rows' = mirrors i m rows"
  by (simp add: shows_as_def)

lemma fold_load: "fmlookup (fold (\<lambda>r. fmupd (name r) (load r)) rows m) key =
    (case rev (filter (\<lambda>r. name r = key) rows) of [] \<Rightarrow> fmlookup m key | r # _ \<Rightarrow> Some (load r))"
proof (induction rows arbitrary: m)
  case (Cons a rows)
  show ?case unfolding fold_simps comp_apply Cons.IH
    by (cases "rev (filter (\<lambda>r. name r = key) rows)") auto
qed simp

lemma mirrors_load:
  assumes "\<And>key. length (rows_at dev name i key rows) \<le> 1"
  shows "mirrors i (fold (\<lambda>r. fmupd (name r) (load r)) (filter (\<lambda>r. dev r = i) rows) fmempty) rows"
  unfolding shows_as_def
proof
  fix key
  have eq: "filter (\<lambda>r. name r = key) (filter (\<lambda>r. dev r = i) rows) = rows_at dev name i key rows"
    by (simp add: rows_at_def conj_commute)
  from assms [of key] show "map rview (rows_at dev name i key rows) =
      (case fmlookup (fold (\<lambda>r. fmupd (name r) (load r)) (filter (\<lambda>r. dev r = i) rows) fmempty) key of
         None \<Rightarrow> [] | Some x \<Rightarrow> [mview x])"
    unfolding fold_load eq by (cases "rows_at dev name i key rows") (auto simp: load_view)
qed

end


section \<open>Twins and attributes\<close>

definition version_of :: "TwinVersion option \<Rightarrow> TwinVersion" where
  "version_of v = (case v of Some x \<Rightarrow> x | None \<Rightarrow> zero_version)"

definition twin_view :: "MsgTwin \<Rightarrow> string \<times> string \<times> TwinVersion \<times> TwinVersion \<times> bool option \<times> string option" where
  "twin_view t = (side_text (mt_Expected t), side_text (mt_Actual t), version_of (mt_ExpectedVersion t),
     version_of (mt_ActualVersion t), mt_Optional t, mt_Metadata t)"

definition row_view :: "DeviceTwin \<Rightarrow> string \<times> string \<times> TwinVersion \<times> TwinVersion \<times> bool option \<times> string option" where
  "row_view r = (dt_Expected r, dt_Actual r, version_of (dt_ExpectedVersion r), version_of (dt_ActualVersion r),
     Some (dt_Optional r), Some (dt_AttrType r))"

definition attr_view :: "MsgAttr \<Rightarrow> string \<times> bool \<times> string" where
  "attr_view a = (ma_Value a, (case ma_Optional a of Some b \<Rightarrow> b | None \<Rightarrow> True), (case ma_Metadata a of Some t \<Rightarrow> t | None \<Rightarrow> ''string''))"

definition attr_row_view :: "DeviceAttr \<Rightarrow> string \<times> bool \<times> string" where
  "attr_row_view r = (at_Value r, at_Optional r, at_AttrType r)"

interpretation twins: keyed_rows dt_DeviceID dt_Name row_view twin_view write_cols DeviceTwinToMsgTwin
  by unfold_locales (auto simp: write_cols_def row_view_def twin_view_def DeviceTwinToMsgTwin_def side_text_def version_of_def)

interpretation attrs: keyed_rows at_DeviceID at_Name attr_row_view attr_view write_attr_cols
    "\<lambda>row. \<lparr>ma_Value = at_Value row, ma_Optional = Some (at_Optional row), ma_Metadata = Some (at_AttrType row)\<rparr>"
  by unfold_locales (auto simp: write_attr_cols_def attr_row_view_def attr_view_def)

end
