(* ===== verification/Twin_Effect.thy ===== *)
theory Twin_Effect
  imports Twin_Mirror
begin

text \<open>
  What an update of twins or attributes does: the entries in memory and the rows of the database, once
  the collected writes are through, show the same. Deletions from the cloud that are refused half
  way are the exception.
\<close>

section \<open>What one twin of an update does to the database\<close>

text \<open>
  The rows and the entry in memory move together: a write the collected result has makes a row that
  showed the old twin show the new one, and without a write the twin shows what it did.
\<close>

definition twin_effect :: "string \<Rightarrow> string \<Rightarrow> MsgTwin \<Rightarrow> MsgTwin \<Rightarrow> DealTwinResult \<Rightarrow> DealTwinResult \<Rightarrow> bool" where
  "twin_effect i key t t' r r' \<longleftrightarrow>
     dr_Add r' = dr_Add r \<and> dr_Delete r' = dr_Delete r \<and>
     (dr_Update r' = dr_Update r \<and> twin_view t' = twin_view t \<or>
      (\<exists>c. dr_Update r' = dr_Update r @ [\<lparr>du_DeviceID = i, du_Name = key, du_Cols = c\<rparr>] \<and>
         (\<forall>row. row_view row = twin_view t \<longrightarrow> row_view (write_cols c row) = twin_view t')))"

definition compare_ok :: "MsgTwin \<Rightarrow> compare_acc \<Rightarrow> bool" where
  "compare_ok t a \<longleftrightarrow>
     (\<forall>row. row_view row = twin_view t \<longrightarrow> row_view (write_cols (ca_cols a) row) = twin_view (ca_twin a)) \<and>
     (\<not> ca_change a \<longrightarrow> twin_view (ca_twin a) = twin_view t)"

lemma version_of_fold: "(case v of Some x \<Rightarrow> x | None \<Rightarrow> zero_version) = version_of v"
  by (simp add: version_of_def)

lemma version_of_Some [simp]: "version_of (Some v) = v"
  by (simp add: version_of_def)

lemma twin_view_version [simp]:
  "twin_view (t\<lparr>mt_ExpectedVersion := Some (version_of (mt_ExpectedVersion t))\<rparr>) = twin_view t"
  "twin_view (t\<lparr>mt_ActualVersion := Some (version_of (mt_ActualVersion t))\<rparr>) = twin_view t"
  by (simp_all add: twin_view_def)

lemma compare_expected_cases:
  assumes "compare_expected f now d m a = Ok (e, a')"
  obtains (kept) "ca_cols a' = ca_cols a" "ca_change a' = ca_change a" "twin_view (ca_twin a') = twin_view (ca_twin a)"
      "e \<noteq> None \<longrightarrow> d = RestDealType"
  | (written) mv v where "mt_Expected m = Some mv" "e = None" "ca_change a'"
      "dealVersion (version_of (mt_ExpectedVersion (ca_twin a))) (if d \<noteq> RestDealType then mt_ExpectedVersion m else None) d = Ok v"
      "ca_twin a' = (ca_twin a)\<lparr>mt_ExpectedVersion := Some v, mt_Expected := Some \<lparr>tv_Value = tv_Value mv, tv_Metadata = Some now\<rparr>\<rparr>"
      "ca_cols a' = fmupd ''expected_version'' (ColVersion v) (fmupd ''expected_meta'' (ColTime now)
         (fmupd ''expected'' (col_value (tv_Value mv)) (ca_cols a)))"
proof -
  obtain ok er where diff: "isTwinValueDiff f (ca_twin a) m DealExpected = Ok (ok, er)"
    using assms by (auto simp: compare_expected_def bind_iffs)
  show ?thesis
  proof (cases "\<exists>mv. ok \<and> mt_Expected m = Some mv")
    case False
    with assms diff have "a' = a" "e \<noteq> None \<longrightarrow> d = RestDealType"
      by (auto simp: compare_expected_def split: option.splits bool.splits if_splits)
    then show ?thesis by (intro kept) auto
  next
    case True
    then obtain mv where mv: "ok" "mt_Expected m = Some mv" by blast
    let ?ver = "version_of (mt_ExpectedVersion (ca_twin a))"
    show ?thesis
    proof (cases "dealVersion ?ver (if d \<noteq> RestDealType then mt_ExpectedVersion m else None) d")
      case (Ok v)
      show ?thesis
        by (rule written [of mv v]) (use assms diff mv Ok in \<open>auto simp: compare_expected_def version_of_fold Let_def bind_iffs\<close>)
    next
      case (Err er)
      show ?thesis
        by (rule kept) (use assms diff mv Err in \<open>auto simp: compare_expected_def version_of_fold Let_def bind_iffs
            split: if_splits option.splits\<close>)
    next
      case (Panic p)
      with assms diff mv show ?thesis by (auto simp: compare_expected_def version_of_fold Let_def bind_iffs)
    qed
  qed
qed

lemma compare_actual_cases:
  assumes "compare_actual f now d m a = Ok (e, a')"
  obtains (kept) "ca_cols a' = ca_cols a" "ca_change a' = ca_change a" "twin_view (ca_twin a') = twin_view (ca_twin a)"
      "e \<noteq> None \<longrightarrow> d = RestDealType"
  | (written) mv v where "mt_Actual m = Some mv" "e = None" "ca_change a'"
      "dealVersion (version_of (mt_ActualVersion (ca_twin a))) (if d \<noteq> RestDealType then mt_ActualVersion m else None) d = Ok v"
      "ca_twin a' = (ca_twin a)\<lparr>mt_ActualVersion := Some v, mt_Actual := Some \<lparr>tv_Value = tv_Value mv, tv_Metadata = Some now\<rparr>\<rparr>"
      "ca_cols a' = fmupd ''actual_version'' (ColVersion v) (fmupd ''actual_meta'' (ColTime now)
         (fmupd ''actual'' (col_value (tv_Value mv)) (ca_cols a)))"
proof -
  obtain ok er where diff: "isTwinValueDiff f (ca_twin a) m DealActual = Ok (ok, er)"
    using assms by (auto simp: compare_actual_def bind_iffs)
  show ?thesis
  proof (cases "\<exists>mv. (ok \<and> ca_allow a) \<and> mt_Actual m = Some mv")
    case False
    with assms diff have "a' = a" "e \<noteq> None \<longrightarrow> d = RestDealType"
      by (auto simp: compare_actual_def split: option.splits bool.splits if_splits)
    then show ?thesis by (intro kept) auto
  next
    case True
    then obtain mv where mv: "ok" "ca_allow a" "mt_Actual m = Some mv" by blast
    let ?ver = "version_of (mt_ActualVersion (ca_twin a))"
    show ?thesis
    proof (cases "dealVersion ?ver (if d \<noteq> RestDealType then mt_ActualVersion m else None) d")
      case (Ok v)
      show ?thesis
        by (rule written [of mv v]) (use assms diff mv Ok in \<open>auto simp: compare_actual_def version_of_fold Let_def bind_iffs\<close>)
    next
      case (Err er)
      show ?thesis
        by (rule kept) (use assms diff mv Err in \<open>auto simp: compare_actual_def version_of_fold Let_def bind_iffs
            split: if_splits option.splits\<close>)
    next
      case (Panic p)
      with assms diff mv show ?thesis by (auto simp: compare_actual_def version_of_fold Let_def bind_iffs)
    qed
  qed
qed

lemma col_text_value [simp]: "col_text (Some (col_value v)) old = (case v of Some s \<Rightarrow> s | None \<Rightarrow> [])"
  by (cases v) (simp_all add: col_value_def)

lemma side_text_Some [simp]: "side_text (Some \<lparr>tv_Value = v, tv_Metadata = n\<rparr>) = (case v of Some s \<Rightarrow> s | None \<Rightarrow> [])"
  by (simp add: side_text_def)

lemma compare_sides_ok:
  assumes "compare_ok t a"
  shows "compare_expected f now d m a = Ok (e, a') \<Longrightarrow> compare_ok t a'"
    and "compare_actual f now d m a = Ok (e, a') \<Longrightarrow> compare_ok t a'"
proof -
  assume "compare_expected f now d m a = Ok (e, a')"
  then show "compare_ok t a'"
    by (cases rule: compare_expected_cases)
      (use assms in \<open>auto simp: compare_ok_def row_view_def write_cols_def twin_view_def\<close>)
next
  assume "compare_actual f now d m a = Ok (e, a')"
  then show "compare_ok t a'"
    by (cases rule: compare_actual_cases)
      (use assms in \<open>auto simp: compare_ok_def row_view_def write_cols_def twin_view_def\<close>)
qed

lemma compare_optional_ok:
  assumes "compare_optional m a = Ok a'" and "compare_ok t a"
  shows "compare_ok t a'"
  using assms by (auto simp: compare_optional_def compare_ok_def row_view_def write_cols_def twin_view_def
      split: option.splits if_splits)

lemma compare_metadata_ok: "compare_ok t a \<Longrightarrow> compare_ok t (compare_metadata m a)"
  by (auto simp: compare_metadata_def Let_def compare_ok_def row_view_def write_cols_def twin_view_def split: option.splits)

lemma compare_finish_fields [simp]:
  "dr_Add (compare_finish i key d a r) = dr_Add r"
  "dr_Delete (compare_finish i key d a r) = dr_Delete r"
  "dr_Err (compare_finish i key d a r) = dr_Err r"
  "dr_Update (compare_finish i key d a r) =
     dr_Update r @ (if ca_change a then [\<lparr>du_DeviceID = i, du_Name = key, du_Cols = ca_cols a\<rparr>] else [])"
  by (simp_all add: compare_finish_def Let_def)

lemma write_cols_empty: "row_view (write_cols fmempty row) = row_view row"
  by (simp add: row_view_def write_cols_def)

text \<open>
  The way of the comparison: out with an error only for a local update, and then the error is in the
  collected result.
\<close>

lemma dealTwinCompare_effect:
  assumes "dealTwinCompare f now r i key t (Some m) d = Ok (e, r', t')"
  shows "if e = None then twin_effect i key t t' r r' \<and> dr_Err r' = dr_Err r else dr_Err r' \<noteq> None \<and> d = RestDealType"
proof -
  let ?a0 = "\<lparr>ca_twin = t, ca_cols = fmempty, ca_sync = empty_twin, ca_change = False, ca_allow = True\<rparr>"
  have a0: "compare_ok t ?a0" by (simp add: compare_ok_def write_cols_empty)
  obtain e1 a1 where e1: "compare_expected f now d m ?a0 = Ok (e1, a1)"
    using assms by (auto simp: dealTwinCompare_def Let_def bind_iffs split: if_splits)
  show ?thesis
  proof (cases e1)
    case (Some x)
    from e1 have "d = RestDealType" by (cases rule: compare_expected_cases) (auto simp: Some)
    with assms e1 Some show ?thesis by (auto simp: dealTwinCompare_def Let_def bind_iffs split: if_splits)
  next
    case None
    then obtain e2 a2 where e2: "compare_actual f now d m a1 = Ok (e2, a2)"
      using assms e1 by (auto simp: dealTwinCompare_def Let_def bind_iffs split: if_splits)
    show ?thesis
    proof (cases e2)
      case (Some x)
      from e2 have "d = RestDealType" by (cases rule: compare_actual_cases) (auto simp: Some)
      with assms e1 e2 None Some show ?thesis by (auto simp: dealTwinCompare_def Let_def bind_iffs split: if_splits)
    next
      case e2_None: None
      then obtain a3 D S where a3: "(if ca_allow a2 then bind (compare_optional m a2) (\<lambda>a. Ok (compare_metadata m a)) else Ok a2) = Ok a3"
        and res: "e = None" "t' = ca_twin a3" "r' = compare_finish i key d a3 (r\<lparr>dr_Document := D, dr_SyncResult := S\<rparr>)"
        using assms e1 e2 None by (auto simp: dealTwinCompare_def Let_def bind_iffs split: if_splits)
      have "compare_ok t a3" using a3 compare_sides_ok(2) [OF compare_sides_ok(1) [OF a0 e1] e2]
        by (auto simp: bind_iffs intro: compare_metadata_ok compare_optional_ok split: if_splits)
      with res show ?thesis by (auto simp: twin_effect_def compare_ok_def)
    qed
  qed
qed

definition delete_ok :: "MsgTwin \<Rightarrow> delete_acc \<Rightarrow> bool" where
  "delete_ok t a \<longleftrightarrow>
     (\<forall>row. row_view row = twin_view t \<longrightarrow> row_view (write_cols (da_cols a) row) = twin_view (da_twin a)) \<and>
     (\<not> da_change a \<longrightarrow> twin_view (da_twin a) = twin_view t)"

lemma delete_expected_ok:
  assumes "delete_expected d v a = Next a' \<or> delete_expected d v a = Return a'" and "delete_ok t a"
  shows "delete_ok t a'"
proof -
  let ?a = "\<lambda>w. a\<lparr>da_cols := fmupd ''expected'' ColNull (fmupd ''expected_meta'' ColNull
      (fmupd ''attr_type'' (ColText ''deleted'') (fmupd ''expected_version'' (ColVersion w) (da_cols a)))),
    da_twin := (da_twin a)\<lparr>mt_Expected := Some \<lparr>tv_Value = None, tv_Metadata = None\<rparr>, mt_ExpectedVersion := Some w,
      mt_Metadata := Some ''deleted''\<rparr>, da_change := True\<rparr>"
  have written: "delete_ok t (?a w)" for w
    using assms(2) by (auto simp: delete_ok_def row_view_def write_cols_def twin_view_def)
  have "da_cols a' = da_cols a \<and> da_change a' = da_change a \<and> twin_view (da_twin a') = twin_view (da_twin a) \<or>
      (\<exists>w. da_cols a' = da_cols (?a w) \<and> da_change a' = da_change (?a w) \<and> da_twin a' = da_twin (?a w))"
  proof (cases "mt_ExpectedVersion (da_twin a)")
    case None
    then have "twin_view ((da_twin a)\<lparr>mt_ExpectedVersion := Some zero_version\<rparr>) = twin_view (da_twin a)"
      by (simp add: twin_view_def version_of_def)
    with None assms(1) show ?thesis by (auto simp: delete_expected_def)
  next
    case (Some w)
    with assms(1) show ?thesis by (cases "dealVersion w v d") (auto simp: delete_expected_def Let_def split: if_splits)
  qed
  then show ?thesis
  proof (elim disjE exE conjE)
    fix w assume "da_cols a' = da_cols (?a w)" "da_change a' = da_change (?a w)" "da_twin a' = da_twin (?a w)"
    with written [of w] show ?thesis by (simp add: delete_ok_def)
  qed (use assms(2) in \<open>simp add: delete_ok_def\<close>)
qed

lemma delete_actual_ok:
  assumes "delete_actual d v a = Next a' \<or> delete_actual d v a = Return a'" and "delete_ok t a"
  shows "delete_ok t a'"
proof -
  let ?a = "\<lambda>w. a\<lparr>da_cols := fmupd ''actual'' ColNull (fmupd ''actual_meta'' ColNull
      (fmupd ''attr_type'' (ColText ''deleted'') (fmupd ''actual_version'' (ColVersion w) (da_cols a)))),
    da_twin := (da_twin a)\<lparr>mt_Actual := Some \<lparr>tv_Value = None, tv_Metadata = None\<rparr>, mt_ActualVersion := Some w,
      mt_Metadata := Some ''deleted''\<rparr>, da_change := True\<rparr>"
  have written: "delete_ok t (?a w)" for w
    using assms(2) by (auto simp: delete_ok_def row_view_def write_cols_def twin_view_def)
  have "da_cols a' = da_cols a \<and> da_change a' = da_change a \<and> twin_view (da_twin a') = twin_view (da_twin a) \<or>
      (\<exists>w. da_cols a' = da_cols (?a w) \<and> da_change a' = da_change (?a w) \<and> da_twin a' = da_twin (?a w))"
  proof (cases "mt_ActualVersion (da_twin a)")
    case None
    then have "twin_view ((da_twin a)\<lparr>mt_ActualVersion := Some zero_version\<rparr>) = twin_view (da_twin a)"
      by (simp add: twin_view_def version_of_def)
    with None assms(1) show ?thesis by (auto simp: delete_actual_def)
  next
    case (Some w)
    with assms(1) show ?thesis by (cases "dealVersion w v d") (auto simp: delete_actual_def Let_def split: if_splits)
  qed
  then show ?thesis
  proof (elim disjE exE conjE)
    fix w assume "da_cols a' = da_cols (?a w)" "da_change a' = da_change (?a w)" "da_twin a' = da_twin (?a w)"
    with written [of w] show ?thesis by (simp add: delete_ok_def)
  qed (use assms(2) in \<open>simp add: delete_ok_def\<close>)
qed

lemma delete_sides_ok:
  assumes "delete_sides t m d = Next a \<or> delete_sides t m d = Return a"
  shows "delete_ok t a"
proof -
  have "delete_ok t \<lparr>da_twin = t, da_cols = fmempty, da_sync = empty_twin, da_change = False\<rparr>"
    by (simp add: delete_ok_def write_cols_empty)
  with assms show ?thesis unfolding delete_sides_def Let_def
    by (auto split: flow.splits intro: delete_expected_ok delete_actual_ok)
qed

text \<open>
  A deletion from the cloud is split when one side is deleted in memory and then the other one is
  refused: the function returns without a write.
\<close>

definition split_delete :: "MsgTwin \<Rightarrow> MsgTwin option \<Rightarrow> deal_type \<Rightarrow> bool" where
  "split_delete t m d \<longleftrightarrow> (case delete_sides t m d of Return a \<Rightarrow> da_change a | Next _ \<Rightarrow> False)"

lemma dealTwinDelete_effect:
  assumes "dealTwinDelete r i key t m d = Ok (r', t')" and "\<not> split_delete t m d"
  shows "twin_effect i key t t' r r' \<and> dr_Err r' = dr_Err r"
proof -
  obtain wanted where w: "delete_wanted t m d = Ok wanted" using assms(1) by (auto simp: dealTwinDelete_def bind_iffs)
  show ?thesis
  proof (cases "wanted \<and> mt_Metadata t \<noteq> Some ''deleted''")
    case False
    with assms(1) w show ?thesis by (auto simp: dealTwinDelete_def bind_iffs Let_def twin_effect_def split: if_splits)
  next
    case True
    show ?thesis
    proof (cases "delete_sides t m d")
      case (Return a)
      with assms(2) delete_sides_ok [of t m d a] have "twin_view (da_twin a) = twin_view t"
        by (simp add: split_delete_def delete_ok_def)
      with assms(1) w True Return show ?thesis by (auto simp: dealTwinDelete_def bind_iffs Let_def twin_effect_def)
    next
      case (Next a)
      with delete_sides_ok [of t m d a] have "delete_ok t a" by simp
      with assms(1) w True Next show ?thesis
        by (auto simp: dealTwinDelete_def bind_iffs Let_def twin_effect_def delete_ok_def split: if_splits)
    qed
  qed
qed

text \<open>A local deletion is never split, nor is one from the cloud without a version of the actual value.\<close>

lemma not_split:
  assumes "d = RestDealType \<or> Option.bind m mt_ActualVersion = None"
  shows "\<not> split_delete t m d"
  using assms
  by (auto simp: split_delete_def delete_sides_def delete_expected_def delete_actual_def dealVersion_def Let_def
      split: option.splits flow.splits result.splits if_splits)

lemma dealTwinAdd_effect:
  assumes "dealTwinAdd f now r i key twins m d = Ok (e, r', twins')"
  shows "dr_Delete r' = dr_Delete r \<and> dr_Update r' = dr_Update r \<and>
    (dr_Add r' = dr_Add r \<and> twins' = twins \<or>
     (\<exists>row. dr_Add r' = dr_Add r @ [row] \<and> dt_DeviceID row = i \<and> dt_Name row = key \<and> twins' = fmupd key (DeviceTwinToMsgTwin row) twins)) \<and>
    (e = None \<longrightarrow> dr_Err r' = dr_Err r)"
proof (cases m)
  case None
  with assms show ?thesis by (auto simp: dealTwinAdd_def Let_def)
next
  case (Some x)
  obtain row where row: "add_start i key x d = Ok row" using assms Some by (auto simp: dealTwinAdd_def Let_def bind_iffs)
  then have k: "dt_DeviceID row = i" "dt_Name row = key"
    by (auto simp: add_start_def Let_def MsgTwinToDeviceTwin_def split: if_splits option.splits)
  obtain s1 where s1: "add_expected f now d x row = Ok s1" using assms Some row by (auto simp: dealTwinAdd_def Let_def bind_iffs)
  show ?thesis
  proof (cases s1)
    case (Added row1)
    with s1 k have k1: "dt_DeviceID row1 = i" "dt_Name row1 = key"
      by (auto simp: add_expected_def split: option.splits result.splits)
    obtain s2 where s2: "add_actual f now d x row1 = Ok s2"
      using assms Some row s1 Added by (auto simp: dealTwinAdd_def Let_def bind_iffs)
    show ?thesis
    proof (cases s2)
      case a2: (Added row2)
      with s2 k1 have "dt_DeviceID row2 = i" "dt_Name row2 = key"
        by (auto simp: add_actual_def split: option.splits result.splits)
      with assms Some row s1 Added s2 a2 show ?thesis
        by (auto simp: dealTwinAdd_def Let_def bind_iffs add_finish_def add_attributes_def)
    qed (use assms Some row s1 Added s2 in \<open>auto simp: dealTwinAdd_def Let_def bind_iffs add_refused_def split: if_splits\<close>)
  qed (use assms Some row s1 in \<open>auto simp: dealTwinAdd_def Let_def bind_iffs add_refused_def split: if_splits\<close>)
qed


section \<open>What an update does to the table of twins\<close>

definition put_update :: "DeviceTwinUpdate \<Rightarrow> DeviceTwin list \<Rightarrow> DeviceTwin list" where
  "put_update u = write_rows dt_DeviceID dt_Name write_cols (du_DeviceID u, du_Name u, du_Cols u)"

text \<open>The rows after the writes of a collected result.\<close>

definition apply_result :: "DealTwinResult \<Rightarrow> DeviceTwin list \<Rightarrow> DeviceTwin list" where
  "apply_result r rows = fold put_update (dr_Update r) (rows @ dr_Add r)"

lemma put_update_append: "put_update u (xs @ ys) = put_update u xs @ put_update u ys"
  by (simp add: put_update_def write_rows_def)

lemma fold_put_append: "fold put_update us (xs @ ys) = fold put_update us xs @ fold put_update us ys"
  by (induction us arbitrary: xs ys) (simp_all add: put_update_append)

lemma put_update_other: "dt_Name row \<noteq> du_Name u \<Longrightarrow> put_update u [row] = [row]"
  by (simp add: put_update_def write_rows_def)

lemma fold_put_other: "(\<forall>u\<in>set us. dt_Name row \<noteq> du_Name u) \<Longrightarrow> fold put_update us [row] = [row]"
  by (induction us) (simp_all add: put_update_other)

definition collected :: "string \<Rightarrow> string set \<Rightarrow> DealTwinResult \<Rightarrow> (string, MsgTwin) fmap \<Rightarrow> DeviceTwin list \<Rightarrow> bool" where
  "collected i V r m rows \<longleftrightarrow>
     (\<forall>u\<in>set (dr_Update r). du_DeviceID u = i \<and> du_Name u \<in> V) \<and> (\<forall>a\<in>set (dr_Add r). dt_DeviceID a = i \<and> dt_Name a \<in> V) \<and>
     dr_Delete r = [] \<and> twins.mirrors i m (apply_result r rows)"

lemma collected_effect:
  assumes "collected i V r m rows" and "fmlookup m key = Some t" and "twin_effect i key t t' r r'"
  shows "collected i (insert key V) r' (fmupd key t' m) rows"
proof -
  note c = assms(1) [unfolded collected_def]
  from assms(3) consider (same) "dr_Add r' = dr_Add r" "dr_Delete r' = dr_Delete r" "dr_Update r' = dr_Update r" "twin_view t' = twin_view t"
    | (put) c where "dr_Add r' = dr_Add r" "dr_Delete r' = dr_Delete r"
      "dr_Update r' = dr_Update r @ [\<lparr>du_DeviceID = i, du_Name = key, du_Cols = c\<rparr>]"
      "\<forall>row. row_view row = twin_view t \<longrightarrow> row_view (write_cols c row) = twin_view t'"
    unfolding twin_effect_def by blast
  then show ?thesis
  proof cases
    case same
    with c twins.mirrors_same [OF _ assms(2) same(4)] show ?thesis unfolding collected_def apply_result_def by auto
  next
    case (put cs)
    have "twins.mirrors i (fmupd key t' m) (put_update \<lparr>du_DeviceID = i, du_Name = key, du_Cols = cs\<rparr> (apply_result r rows))"
      unfolding put_update_def using twins.mirrors_write [OF _ assms(2), of i "apply_result r rows" cs t'] c put(4) by auto
    with c put show ?thesis unfolding collected_def apply_result_def by auto
  qed
qed

lemma collected_add:
  assumes "collected i V r m rows" and "fmlookup m key = None" and "key \<notin> V"
    and "dr_Delete r' = dr_Delete r" and "dr_Update r' = dr_Update r" and "dr_Add r' = dr_Add r @ [row]"
    and "dt_DeviceID row = i" and "dt_Name row = key"
  shows "collected i (insert key V) r' (fmupd key (DeviceTwinToMsgTwin row) m) rows"
proof -
  note c = assms(1) [unfolded collected_def]
  from c assms(3,8) have "fold put_update (dr_Update r) [row] = [row]" by (intro fold_put_other) auto
  then have "apply_result r' rows = apply_result r rows @ [row]"
    by (simp add: apply_result_def assms(5,6) fold_put_append)
  with twins.mirrors_insert [OF _ assms(2,7,8), of "apply_result r rows" "DeviceTwinToMsgTwin row"] c assms(4-8)
  show ?thesis by (auto simp: collected_def twins.load_view)
qed

lemma collected_mono: "collected i V r m rows \<Longrightarrow> collected i (insert key V) r m rows"
  by (auto simp: collected_def)

text \<open>
  The messages from the cloud that cannot split a deletion; messages of the edge never do.
\<close>

definition safe_msg :: "deal_type \<Rightarrow> (string, MsgTwin option) fmap \<Rightarrow> bool" where
  "safe_msg d msgs \<longleftrightarrow> d = RestDealType \<or>
     (\<forall>key \<in> fset (fmdom msgs). \<forall>m. fmlookup msgs key = Some (Some m) \<longrightarrow> mt_Metadata m = Some ''deleted'' \<longrightarrow> mt_ActualVersion m = None)"

lemma deal_twin_collected:
  assumes "deal_twin f now i d key m r twins = Ok (e, r', twins')" and "collected i V r twins rows" and "key \<notin> V"
    and "d \<noteq> RestDealType \<longrightarrow> (\<forall>x. m = Some x \<longrightarrow> mt_Metadata x = Some ''deleted'' \<longrightarrow> mt_ActualVersion x = None)"
  shows "collected i (insert key V) r' twins' rows \<or> d = RestDealType \<and> dr_Err r' \<noteq> None \<and> e \<noteq> None"
proof (cases "fmlookup twins key")
  case None
  with assms(1) have add: "dealTwinAdd f now r i key twins m d = Ok (e, r', twins')" by (simp add: deal_twin_def)
  from dealTwinAdd_effect [OF this] collected_add [OF assms(2) None assms(3)] show ?thesis
    using assms(2) by (auto simp: collected_def apply_result_def)
next
  case (Some t)
  then obtain del where del: "(if d = RestDealType then Ok (m = None) else (case m of None \<Rightarrow> Panic NilDereference
      | Some m \<Rightarrow> (case mt_Metadata m of None \<Rightarrow> Panic NilDereference | Some t \<Rightarrow> Ok (t = ''deleted'')))) = Ok del"
    using assms(1) by (auto simp: deal_twin_def bind_iffs)
  show ?thesis
  proof (cases del)
    case True
    with assms(1) Some del obtain t' where t': "dealTwinDelete r i key t m d = Ok (r', t')" "twins' = fmupd key t' twins" "e = None"
      by (auto simp: deal_twin_def bind_iffs)
    have "\<not> split_delete t m d"
    proof (cases "d = RestDealType")
      case False
      with del True obtain x where "m = Some x" "mt_Metadata x = Some ''deleted''" by (auto split: option.splits)
      with assms(4) False show ?thesis by (intro not_split) auto
    qed (simp add: not_split)
    from dealTwinDelete_effect [OF t'(1) this] collected_effect [OF assms(2) Some] t' show ?thesis by auto
  next
    case False
    with assms(1) Some del obtain t' where t': "dealTwinCompare f now r i key t m d = Ok (e, r', t')" "twins' = fmupd key t' twins"
      by (auto simp: deal_twin_def bind_iffs)
    from del False obtain x where "m = Some x" by (auto split: if_splits option.splits)
    with t' dealTwinCompare_effect [of f now r i key t x d e r' t'] collected_effect [OF assms(2) Some, of t' r'] show ?thesis
      by (auto split: if_splits)
  qed
qed

lemma deal_twins_collected:
  assumes "deal_twins f now i d msgs keys r twins = Ok (r', twins')" and "collected i V r twins rows"
    and "distinct keys" and "set keys \<inter> V = {}" and "safe_msg d msgs"
  shows "(\<exists>V'. collected i V' r' twins' rows) \<or> d = RestDealType \<and> dr_Err r' \<noteq> None"
  using assms
proof (induction keys arbitrary: V r twins)
  case (Cons key keys)
  let ?m = "Option.bind (fmlookup msgs key) id"
  from Cons.prems(1) obtain e r1 twins1 where step: "deal_twin f (now key) i d key ?m r twins = Ok (e, r1, twins1)"
    and rest: "if e \<noteq> None then r' = r1 \<and> twins' = twins1 else deal_twins f now i d msgs keys r1 twins1 = Ok (r', twins')"
    by (auto simp: bind_iffs split: if_splits)
  have safe: "d \<noteq> RestDealType \<longrightarrow> (\<forall>x. ?m = Some x \<longrightarrow> mt_Metadata x = Some ''deleted'' \<longrightarrow> mt_ActualVersion x = None)"
    using Cons.prems(5) by (auto simp: safe_msg_def bind_eq_Some_conv fmdomI)
  from deal_twin_collected [OF step Cons.prems(2) _ safe] Cons.prems(4) consider
    (on) "collected i (insert key V) r1 twins1 rows" | (out) "d = RestDealType" "dr_Err r1 \<noteq> None" "e \<noteq> None" by auto
  then show ?case
  proof cases
    case on
    with Cons.IH [of r1 twins1 "insert key V"] Cons.prems rest show ?thesis by (cases e) auto
  next
    case out
    with rest show ?thesis by auto
  qed
qed auto


section \<open>Attributes\<close>

lemma change_attr_view:
  assumes "change_attr a m = Ok (a', c, res, changed)"
  shows "(\<not> changed \<longrightarrow> a' = a) \<and> (\<forall>row. attr_row_view row = attr_view a \<longrightarrow> attr_row_view (write_attr_cols c row) = attr_view a')"
proof (cases "ma_Optional m")
  case None
  with assms show ?thesis
    by (cases "ma_Metadata m") (auto simp: change_attr_def Let_def attr_row_view_def attr_view_def write_attr_cols_def split: if_splits)
next
  case (Some b)
  then obtain ao where "ma_Optional a = Some ao" using assms by (auto simp: change_attr_def Let_def split: option.splits)
  with assms Some show ?thesis
    by (cases "ma_Metadata m") (auto simp: change_attr_def Let_def attr_row_view_def attr_view_def write_attr_cols_def split: if_splits)
qed

definition put_attr :: "DeviceAttrUpdate \<Rightarrow> DeviceAttr list \<Rightarrow> DeviceAttr list" where
  "put_attr u = write_rows at_DeviceID at_Name write_attr_cols (au_DeviceID u, au_Name u, au_Cols u)"

definition del_attr :: "DeviceDelete \<Rightarrow> DeviceAttr list \<Rightarrow> DeviceAttr list" where
  "del_attr d = filter (\<lambda>row. \<not> (at_DeviceID row = dd_DeviceID d \<and> at_Name row = dd_Name d))"

definition apply_attrs :: "DealAttrResult \<Rightarrow> DeviceAttr list \<Rightarrow> DeviceAttr list" where
  "apply_attrs r rows = fold put_attr (ar_Update r) (fold del_attr (ar_Delete r) (rows @ ar_Add r))"

lemma del_put_attr: "del_attr d (put_attr u rows) = put_attr u (del_attr d rows)"
  by (induction rows) (auto simp: del_attr_def put_attr_def write_rows_def write_attr_cols_def)

lemma del_fold_put: "del_attr d (fold put_attr us rows) = fold put_attr us (del_attr d rows)"
  by (induction us arbitrary: rows) (simp_all add: del_put_attr)

lemma fold_del_append: "fold del_attr ds (xs @ ys) = fold del_attr ds xs @ fold del_attr ds ys"
  by (induction ds arbitrary: xs ys) (simp_all add: del_attr_def)

lemma fold_put_attr_append: "fold put_attr us (xs @ ys) = fold put_attr us xs @ fold put_attr us ys"
  by (induction us arbitrary: xs ys) (simp_all add: put_attr_def write_rows_def)

lemma fold_attr_other:
  assumes "at_Name row = key"
  shows "(\<forall>u\<in>set us. au_Name u \<noteq> key) \<Longrightarrow> fold put_attr us [row] = [row]"
    and "(\<forall>d\<in>set ds. dd_Name d \<noteq> key) \<Longrightarrow> fold del_attr ds [row] = [row]"
proof -
  show "(\<forall>u\<in>set us. au_Name u \<noteq> key) \<Longrightarrow> fold put_attr us [row] = [row]"
    by (induction us) (use assms in \<open>auto simp: put_attr_def write_rows_def\<close>)
  show "(\<forall>d\<in>set ds. dd_Name d \<noteq> key) \<Longrightarrow> fold del_attr ds [row] = [row]"
    by (induction ds) (use assms in \<open>auto simp: del_attr_def\<close>)
qed

definition collected_attrs :: "string \<Rightarrow> string set \<Rightarrow> DealAttrResult \<Rightarrow> (string, MsgAttr) fmap \<Rightarrow> DeviceAttr list \<Rightarrow> bool" where
  "collected_attrs i V r m rows \<longleftrightarrow>
     (\<forall>u\<in>set (ar_Update r). au_DeviceID u = i \<and> au_Name u \<in> V) \<and> (\<forall>a\<in>set (ar_Add r). at_DeviceID a = i \<and> at_Name a \<in> V) \<and>
     (\<forall>d\<in>set (ar_Delete r). dd_DeviceID d = i \<and> dd_Name d \<in> V) \<and> attrs.mirrors i m (apply_attrs r rows)"

lemma collected_attrs_delete:
  assumes "collected_attrs i V r m rows"
    and "ar_Add r' = ar_Add r" and "ar_Update r' = ar_Update r" and "ar_Delete r' = ar_Delete r @ [\<lparr>dd_DeviceID = i, dd_Name = key\<rparr>]"
  shows "collected_attrs i (insert key V) r' (fmdrop key m) rows"
proof -
  have "apply_attrs r' rows = del_attr \<lparr>dd_DeviceID = i, dd_Name = key\<rparr> (apply_attrs r rows)"
    by (simp add: apply_attrs_def assms(2-4) del_fold_put)
  moreover have "fmfilter (\<lambda>k. k \<notin> {key}) m = fmdrop key m" by (rule fmap_ext) auto
  ultimately have "attrs.mirrors i (fmdrop key m) (apply_attrs r' rows)"
    using attrs.mirrors_filter [of i m "apply_attrs r rows" "\<lambda>row. \<not> (at_DeviceID row = i \<and> at_Name row = key)" "{key}"] assms(1)
    by (simp add: collected_attrs_def del_attr_def)
  with assms show ?thesis by (auto simp: collected_attrs_def)
qed

lemma deal_attr_collected:
  assumes "deal_attr i d key m r as = Ok (r', as')" and "collected_attrs i V r as rows" and "key \<notin> V"
  shows "collected_attrs i (insert key V) r' as' rows"
proof (cases "fmlookup as key")
  case None
  then obtain x where x: "m = Some x" using assms(1) by (cases m) (auto simp: deal_attr_def)
  with None assms(1) have r': "r' = r\<lparr>ar_Add := ar_Add r @ [new_attr_row i key x], ar_Result := fmupd key (Some x) (ar_Result r)\<rparr>"
    "as' = fmupd key x as" by (auto simp: deal_attr_def)
  let ?row = "new_attr_row i key x"
  have row: "at_DeviceID ?row = i" "at_Name ?row = key" "attr_view x = attr_row_view ?row"
    by (auto simp: new_attr_row_def attr_view_def attr_row_view_def split: option.splits)
  have "fold del_attr (ar_Delete r) [?row] = [?row]" "fold put_attr (ar_Update r) [?row] = [?row]"
    using assms(2,3) by (auto simp: collected_attrs_def intro!: fold_attr_other [OF row(2)])
  then have "apply_attrs r' rows = apply_attrs r rows @ [?row]"
    unfolding apply_attrs_def r'(1) by (simp add: fold_del_append fold_put_attr_append)
  with attrs.mirrors_insert [OF _ None row(1,2), of "apply_attrs r rows" x] row(3) assms(2) r' row(1,2)
  show ?thesis by (auto simp: collected_attrs_def)
next
  case (Some a)
  show ?thesis
  proof (cases m)
    case None
    show ?thesis
    proof (cases "r' = r \<and> as' = as")
      case True
      with assms(2) show ?thesis by (auto simp: collected_attrs_def)
    next
      case False
      with assms(1) Some None show ?thesis
        by (auto simp: deal_attr_def intro!: collected_attrs_delete [OF assms(2)] split: if_splits option.splits)
    qed
  next
    case m: (Some x)
    obtain a' c res ch where ch: "change_attr a x = Ok (a', c, res, ch)"
      using assms(1) Some m by (auto simp: deal_attr_def bind_iffs)
    note view = change_attr_view [OF ch]
    show ?thesis
    proof (cases ch)
      case False
      with view have "a' = a" by simp
      with attrs.mirrors_same [OF _ Some, of i "apply_attrs r rows" a] assms(1,2) Some m ch False show ?thesis
        by (auto simp: deal_attr_def collected_attrs_def apply_attrs_def)
    next
      case True
      let ?u = "\<lparr>au_DeviceID = i, au_Name = key, au_Cols = c\<rparr>"
      from assms(1) Some m ch True have r': "ar_Add r' = ar_Add r" "ar_Delete r' = ar_Delete r" "ar_Update r' = ar_Update r @ [?u]"
        "as' = fmupd key a' as" by (auto simp: deal_attr_def)
      have "attrs.mirrors i (fmupd key a' as) (put_attr ?u (apply_attrs r rows))"
        unfolding put_attr_def using attrs.mirrors_write [OF _ Some, of i "apply_attrs r rows" c a'] assms(2) view
        by (auto simp: collected_attrs_def)
      with assms(2) r' show ?thesis by (auto simp: collected_attrs_def apply_attrs_def)
    qed
  qed
qed

lemma deal_attrs_collected:
  assumes "deal_attrs i d msgs keys r as = Ok (r', as')" and "collected_attrs i V r as rows" and "distinct keys" and "set keys \<inter> V = {}"
  shows "collected_attrs i (V \<union> set keys) r' as' rows"
  using assms
proof (induction keys arbitrary: V r as)
  case (Cons key keys)
  from Cons.prems(1) obtain r1 as1 where step: "deal_attr i d key (Option.bind (fmlookup msgs key) id) r as = Ok (r1, as1)"
    and rest: "deal_attrs i d msgs keys r1 as1 = Ok (r', as')" by (auto simp: bind_iffs)
  have "collected_attrs i (insert key V) r1 as1 rows" using deal_attr_collected [OF step Cons.prems(2)] Cons.prems(4) by simp
  from Cons.IH [OF rest this] Cons.prems(3,4) show ?case by simp
qed simp

lemma drop_unnamed_collected:
  assumes "collected_attrs i V r as rows" and "drop_unnamed ord i msgs (r, as) = (r', as')"
  shows "\<exists>V'. collected_attrs i V' r' as' rows"
proof -
  define step where "step = (\<lambda>key (r, as). (r\<lparr>ar_Delete := ar_Delete r @ [\<lparr>dd_DeviceID = i, dd_Name = key\<rparr>],
    ar_Result := fmupd key None (ar_Result r)\<rparr>, fmdrop key as) :: DealAttrResult \<times> (string, MsgAttr) fmap)"
  have eq: "fold step ks (r, as) = (r\<lparr>ar_Delete := ar_Delete r @ map (\<lambda>key. \<lparr>dd_DeviceID = i, dd_Name = key\<rparr>) ks,
      ar_Result := fold (\<lambda>key. fmupd key None) ks (ar_Result r)\<rparr>, fold fmdrop ks as)" for ks r as
    by (induction ks arbitrary: r as) (simp_all add: step_def)
  have "collected_attrs i V r as rows \<Longrightarrow> \<exists>V'. collected_attrs i V' (fst (fold step ks (r, as))) (snd (fold step ks (r, as))) rows" for ks V r as
  proof (induction ks arbitrary: V r as)
    case (Cons k ks)
    have "collected_attrs i (insert k V) (fst (step k (r, as))) (snd (step k (r, as))) rows"
      unfolding step_def by (simp, rule collected_attrs_delete [OF Cons.prems]) simp_all
    from Cons.IH [OF this] show ?case by simp
  qed auto
  from this [OF assms(1), of "filter (\<lambda>key. key |\<notin>| fmdom msgs) (ord (fmdom as))"] assms(2) show ?thesis
    unfolding eq drop_unnamed_def Let_def by auto
qed

end
