(* ===== verification/Twin_Inv.thy ===== *)
theory Twin_Inv
  imports Twin_Effect
begin

text \<open>
  The invariant of the device twin module: every device in memory is in the database, and its twins
  and attributes show what their rows show. Every handler keeps it while queries and commits work;
  writes may fail, and then the device is read again.
\<close>

section \<open>The invariant\<close>

definition device_ids :: "tables \<Rightarrow> string set" where
  "device_ids t = rw_ID ` set (tb_Devices t)"

definition tables_ok :: "tables \<Rightarrow> bool" where
  "tables_ok t \<longleftrightarrow>
     (\<forall>i key. length (rows_at dt_DeviceID dt_Name i key (tb_Twins t)) \<le> 1) \<and>
     (\<forall>i key. length (rows_at at_DeviceID at_Name i key (tb_Attrs t)) \<le> 1) \<and>
     (\<forall>row\<in>set (tb_Twins t). dt_DeviceID row \<in> device_ids t) \<and> (\<forall>row\<in>set (tb_Attrs t). at_DeviceID row \<in> device_ids t)"

definition device_ok :: "tables \<Rightarrow> string \<Rightarrow> Device \<Rightarrow> bool" where
  "device_ok t i d \<longleftrightarrow> dv_ID d = i \<and> i \<in> device_ids t \<and> twins.mirrors i (dv_Twin d) (tb_Twins t) \<and> attrs.mirrors i (dv_Attributes d) (tb_Attrs t)"

abbreviation tables_of :: "dt_state \<Rightarrow> tables" where
  "tables_of s \<equiv> db_tables (dt_db s)"

definition dt_inv :: "dt_state \<Rightarrow> bool" where
  "dt_inv s \<longleftrightarrow> tables_ok (tables_of s) \<and> (\<forall>i d. GetDevice s i = Some d \<longrightarrow> device_ok (tables_of s) i d)"

definition db_works :: "dt_env \<Rightarrow> bool" where
  "db_works E \<longleftrightarrow> (\<forall>n. \<not> dbe_unread (de_db E) n) \<and> (\<forall>n. \<not> dbe_lost (de_db E) n) \<and> range_order (de_ord E)"

text \<open>States that agree in the devices and the tables.\<close>

definition same_data :: "dt_state \<Rightarrow> dt_state \<Rightarrow> bool" where
  "same_data s s' \<longleftrightarrow> DeviceList s' = DeviceList s \<and> tables_of s' = tables_of s"

lemma dt_inv_same: "same_data s s' \<Longrightarrow> dt_inv s' = dt_inv s"
  by (simp add: same_data_def dt_inv_def GetDevice_def)

lemma Send_data [simp]: "same_data s (Send a r p s)" "DeviceList (Send a r p s) = DeviceList s" "dt_db (Send a r p s) = dt_db s"
    "dt_locks_of (Send a r p s) = dt_locks_of s"
  by (simp_all add: Send_def same_data_def)

lemma set_locks_data [simp]: "DeviceList (set_locks l s) = DeviceList s" "dt_db (set_locks l s) = dt_db s"
    "dt_locks_of (set_locks l s) = l"
  by (simp_all add: set_locks_def)

lemma dt_inv_set_locks [simp]: "dt_inv (set_locks l s) = dt_inv s"
  by (rule dt_inv_same) (simp add: same_data_def)

lemma dealUpdateResult_data [simp]:
  "DeviceList (dealUpdateResult E i ev c e p s) = DeviceList s" "dt_db (dealUpdateResult E i ev c e p s) = dt_db s"
  by (simp_all add: dealUpdateResult_def)

lemma report_update_data [simp]:
  "DeviceList (report_update E i ev d r tw s) = DeviceList s" "dt_db (report_update E i ev d r tw s) = dt_db s"
  by (simp_all add: report_update_def Let_def dealDocument_def dealDelta_def dealSyncResult_def)

text \<open>A device whose entry was changed, when the tables moved with it or it was read again.\<close>

lemma dt_inv_device:
  assumes "dt_inv s" and "DeviceList s' = fmupd i d (DeviceList s)" and "device_ok (tables_of s') i d" and "tables_ok (tables_of s')"
    and "\<And>j x. j \<noteq> i \<Longrightarrow> device_ok (tables_of s) j x \<Longrightarrow> device_ok (tables_of s') j x"
  shows "dt_inv s'"
  using assms by (auto simp: dt_inv_def GetDevice_def)


section \<open>Reading a device again\<close>

lemma new_mutex_data [simp]: "DeviceList (new_mutex i s) = DeviceList s" "dt_db (new_mutex i s) = dt_db s"
  by (simp_all add: new_mutex_def)

lemma read_device_ok:
  assumes "db_works E" and "tables_ok (tables_of s)" and "i \<in> device_ids (tables_of s)"
  shows "\<exists>d. DeviceList (snd (read_device E i s)) = fmupd i d (DeviceList s) \<and> device_ok (tables_of s) i d \<and>
    tables_of (snd (read_device E i s)) = tables_of s"
proof -
  obtain row rows where rows: "filter (\<lambda>row. rw_ID row = i) (tb_Devices (tables_of s)) = row # rows"
    using assms(3) by (cases "filter (\<lambda>row. rw_ID row = i) (tb_Devices (tables_of s))")
      (auto simp: device_ids_def filter_empty_conv)
  let ?d = "\<lparr>dv_ID = i, dv_Name = rw_Name row, dv_Description = rw_Description row, dv_State = rw_State row,
    dv_LastOnline = rw_LastOnline row,
    dv_Attributes = DeviceAttrToMsgAttr (filter (\<lambda>row. at_DeviceID row = i) (tb_Attrs (tables_of s))),
    dv_Twin = twins_of_rows (filter (\<lambda>row. dt_DeviceID row = i) (tb_Twins (tables_of s)))\<rparr>"
  have "device_ok (tables_of s) i ?d"
    using assms(2,3) twins.mirrors_load attrs.mirrors_load
    by (simp add: device_ok_def DeviceAttrToMsgAttr_def twins_of_rows_def tables_ok_def)
  moreover have "DeviceList (snd (read_device E i s)) = fmupd i ?d (DeviceList s) \<and> tables_of (snd (read_device E i s)) = tables_of s"
    using assms(1) rows by (simp add: read_device_def QueryDevice_def QueryDeviceAttr_def QueryDeviceTwin_def query_def db_works_def)
  ultimately show ?thesis by blast
qed

text \<open>The device may be in any state before it is read.\<close>

lemma SyncDeviceFromSqlite_inv:
  assumes "db_works E" and "dt_inv s0" and "i \<in> device_ids (tables_of s0)" and "tables_of s = tables_of s0"
    and "\<forall>j. j \<noteq> i \<longrightarrow> fmlookup (DeviceList s) j = fmlookup (DeviceList s0) j"
  shows "dt_inv (snd (SyncDeviceFromSqlite E i s))" and "dt_inv (snd (read_device E i s))"
proof -
  have "dt_inv (snd (read_device E i s))" if t: "tables_of s = tables_of s0"
    and l: "\<forall>j. j \<noteq> i \<longrightarrow> fmlookup (DeviceList s) j = fmlookup (DeviceList s0) j" for s
  proof -
    obtain d where d: "DeviceList (snd (read_device E i s)) = fmupd i d (DeviceList s)" "device_ok (tables_of s) i d"
      "tables_of (snd (read_device E i s)) = tables_of s"
      using read_device_ok [OF assms(1), of s i] assms(2,3) unfolding t dt_inv_def by blast
    with assms(2) t l show ?thesis by (auto simp: dt_inv_def GetDevice_def)
  qed
  from this [of s] this [of "new_mutex i s"] assms(4,5)
  show "dt_inv (snd (SyncDeviceFromSqlite E i s))" and "dt_inv (snd (read_device E i s))"
    by (simp_all add: SyncDeviceFromSqlite_def)
qed


section \<open>Updates of twins\<close>

lemma apply_all_updates:
  "apply_all (map UpdateDeviceTwinFields us) t = Some (t\<lparr>tb_Twins := fold put_update us (tb_Twins t)\<rparr>)"
  by (induction us arbitrary: t) (simp_all add: UpdateDeviceTwinFields_def put_update_def write_rows_def)

lemma apply_all_append: "apply_all (fs @ gs) t = Option.bind (apply_all fs t) (apply_all gs)"
proof (induction fs arbitrary: t)
  case (Cons f fs)
  then show ?case by (cases "f t") simp_all
qed simp

lemma apply_all_saves: "apply_all (map SaveDeviceTwin as) t = Some (t\<lparr>tb_Twins := tb_Twins t @ as\<rparr>)"
  by (induction as arbitrary: t) (simp_all add: SaveDeviceTwin_def)

lemma twin_statements:
  assumes "dr_Delete r = []"
  shows "apply_all (map SaveDeviceTwin (dr_Add r) @ map DeleteDeviceTwin (dr_Delete r) @ map UpdateDeviceTwinFields (dr_Update r)) t =
    Some (t\<lparr>tb_Twins := apply_result r (tb_Twins t)\<rparr>)"
  by (simp add: assms apply_all_append apply_all_saves apply_all_updates apply_result_def)

lemma apply_result_other:
  assumes "collected i V r m rows" and "j \<noteq> i"
  shows "rows_at dt_DeviceID dt_Name j key (apply_result r rows) = rows_at dt_DeviceID dt_Name j key rows"
proof -
  have "rows_at dt_DeviceID dt_Name j key (fold put_update us xs) = rows_at dt_DeviceID dt_Name j key xs"
    if "\<forall>u\<in>set us. du_DeviceID u = i" for us xs
    using that assms(2) by (induction us arbitrary: xs) (auto simp: put_update_def twins.rows_at_write)
  with assms show ?thesis by (auto simp: apply_result_def collected_def rows_at_def filter_empty_conv)
qed

lemma apply_result_ids:
  assumes "collected i V r m rows" and "row \<in> set (apply_result r rows)"
  shows "dt_DeviceID row = i \<or> (\<exists>x\<in>set rows. dt_DeviceID x = dt_DeviceID row)"
proof -
  have "\<exists>x\<in>set xs. dt_DeviceID x = dt_DeviceID row" if "row \<in> set (fold put_update us xs)" for us xs
    using that
  proof (induction us arbitrary: xs)
    case (Cons u us)
    then obtain x where "x \<in> set (put_update u xs)" "dt_DeviceID x = dt_DeviceID row" by auto
    then show ?case by (auto simp: put_update_def write_rows_def write_cols_def split: if_splits)
  qed auto
  from this [of "dr_Update r" "rows @ dr_Add r"] assms show ?thesis by (auto simp: apply_result_def collected_def)
qed

lemma write_update_inv:
  assumes "db_works E" and "dt_inv s" and "GetDevice s i = Some d0" and "collected i V r (dv_Twin d1) (tb_Twins (tables_of s))"
    and "DeviceList s1 = fmupd i d1 (DeviceList s)" and "dt_db s1 = dt_db s"
    and "dv_ID d1 = i" and "dv_Attributes d1 = dv_Attributes d0"
  shows "dt_inv (snd (write_update E i r s1))"
proof -
  let ?t = "tables_of s" and ?fs = "map SaveDeviceTwin (dr_Add r) @ map DeleteDeviceTwin (dr_Delete r) @ map UpdateDeviceTwinFields (dr_Update r)"
  let ?t' = "?t\<lparr>tb_Twins := apply_result r (tb_Twins ?t)\<rparr>"
  have d0: "device_ok ?t i d0" using assms(2,3) by (simp add: dt_inv_def)
  have ok: "device_ok ?t' i d1" using d0 assms(4,7,8) by (simp add: device_ok_def device_ids_def collected_def)
  have t: "tables_ok ?t" and i: "i \<in> device_ids ?t" using assms(2) d0 by (simp_all add: dt_inv_def device_ok_def)
  have "dt_DeviceID row \<in> device_ids ?t" if "row \<in> set (apply_result r (tb_Twins ?t))" for row
    using apply_result_ids [OF assms(4) that] t i by (auto simp: tables_ok_def)
  moreover have "length (rows_at dt_DeviceID dt_Name j key (apply_result r (tb_Twins ?t))) \<le> 1" for j key
    using t twins.mirrors_unique [of i "dv_Twin d1"] assms(4) apply_result_other [OF assms(4), of j key]
    by (cases "j = i") (auto simp: tables_ok_def collected_def)
  ultimately have tok: "tables_ok ?t'" using t by (simp add: tables_ok_def device_ids_def)
  have other: "device_ok ?t' j x" if "j \<noteq> i" "device_ok ?t j x" for j x
    using that twins.mirrors_cong [OF apply_result_other [OF assms(4)]] by (simp add: device_ok_def device_ids_def)
  show ?thesis
  proof (cases "dr_Add r \<noteq> [] \<or> dr_Delete r \<noteq> [] \<or> dr_Update r \<noteq> []")
    case False
    then have "?t' = ?t" by (simp add: apply_result_def)
    with False ok tok other assms(5,6) show ?thesis
      by (intro dt_inv_device [OF assms(2), of _ i d1]) (simp_all add: write_update_def)
  next
    case True
    obtain e db where e: "retry RetryTimes (transaction (de_db E) ?fs) (dt_db s1) = (e, db)" by force
    have stm: "apply_all ?fs ?t = Some ?t'" by (rule twin_statements) (use assms(4) in \<open>simp add: collected_def\<close>)
    note w = retry_transaction [OF e] assms(1)
    show ?thesis
    proof (cases e)
      case None
      with w stm assms(6) have "db_tables db = ?t'" by (simp add: RetryTimes_def db_works_def)
      with True e None ok tok other assms(5,6) show ?thesis
        by (intro dt_inv_device [OF assms(2), of _ i d1]) (simp_all add: write_update_def DeviceTwinTrans_def)
    next
      case (Some x)
      with w assms(6) have "db_tables db = ?t" by (simp add: RetryTimes_def db_works_def)
      then have "dt_inv (snd (SyncDeviceFromSqlite E i (s1\<lparr>dt_db := db\<rparr>)))"
        by (intro SyncDeviceFromSqlite_inv(1) [OF assms(1,2) i]) (use assms(5) in simp_all)
      with True e Some show ?thesis by (simp add: write_update_def DeviceTwinTrans_def)
    qed
  qed
qed

lemma collected_start: "twins.mirrors i m rows \<Longrightarrow> collected i {} no_result m rows"
  by (simp add: collected_def no_result_def apply_result_def)

lemma DealMsgTwin_collected:
  assumes "DealMsgTwin E i msgs d s = Ok (r, s1)" and "dt_inv s" and "GetDevice s i = Some d0" and "db_works E" and "safe_msg d msgs"
  obtains tw where "DeviceList s1 = fmupd i (d0\<lparr>dv_Twin := tw\<rparr>) (DeviceList s)" and "dt_db s1 = dt_db s"
    and "(\<exists>V. collected i V r tw (tb_Twins (tables_of s))) \<or> d = RestDealType \<and> dr_Err r \<noteq> None"
proof -
  obtain tw where tw: "deal_twins (de_isFloat E) (de_key_now E) i d msgs (de_ord E (fmdom msgs)) no_result (dv_Twin d0) = Ok (r, tw)"
    and s1: "s1 = s\<lparr>DeviceList := fmupd i (d0\<lparr>dv_Twin := tw\<rparr>) (DeviceList s)\<rparr>"
    using assms(1,3) by (auto simp: DealMsgTwin_def bind_iffs)
  have "collected i {} no_result (dv_Twin d0) (tb_Twins (tables_of s))"
    using assms(2,3) by (intro collected_start) (simp add: dt_inv_def device_ok_def)
  from deal_twins_collected [OF tw this _ _ assms(5)] range_orderD [of "de_ord E"] assms(4) s1 that [of tw]
  show ?thesis by (simp add: db_works_def)
qed

lemma DealDeviceTwin_inv:
  assumes "DealDeviceTwin E i ev msg d s = Ok (e, s')" and "dt_inv s" and "db_works E" and "\<forall>m. msg = Some m \<longrightarrow> safe_msg d m"
  shows "dt_inv s'"
proof (cases "GetDevice s i")
  case None
  with assms(1,2) show ?thesis
    by (auto simp: DealDeviceTwin_def Let_def dealUpdateResult_def intro!: dt_inv_same [OF Send_data(1), THEN iffD2])
next
  case (Some d0)
  show ?thesis
  proof (cases msg)
    case None
    with Some assms(1,2) show ?thesis
      by (auto simp: DealDeviceTwin_def Let_def dealUpdateResult_def intro!: dt_inv_same [OF Send_data(1), THEN iffD2])
  next
    case m: (Some m)
    obtain r s1 where r: "DealMsgTwin E i m d s = Ok (r, s1)" using assms(1) Some m by (auto simp: DealDeviceTwin_def bind_iffs)
    obtain tw where tw: "DeviceList s1 = fmupd i (d0\<lparr>dv_Twin := tw\<rparr>) (DeviceList s)" "dt_db s1 = dt_db s"
      "(\<exists>V. collected i V r tw (tb_Twins (tables_of s))) \<or> d = RestDealType \<and> dr_Err r \<noteq> None"
      by (rule DealMsgTwin_collected [OF r assms(2) Some assms(3)]) (use assms(4) m in auto)
    have d0: "device_ok (tables_of s) i d0" using assms(2) Some by (simp add: dt_inv_def)
    have reload: "dt_inv (snd (SyncDeviceFromSqlite E i s1))"
      by (rule SyncDeviceFromSqlite_inv(1) [OF assms(3,2)]) (use d0 tw in \<open>auto simp: device_ok_def\<close>)
    have written: "dt_inv (snd (write_update E i r s1))" if "\<exists>V. collected i V r tw (tb_Twins (tables_of s))"
    proof -
      from that obtain V where V: "collected i V r (dv_Twin (d0\<lparr>dv_Twin := tw\<rparr>)) (tb_Twins (tables_of s))" by auto
      from write_update_inv [OF assms(3,2) Some V tw(1,2)] d0 show ?thesis by (simp add: device_ok_def)
    qed
    have "\<exists>s2. dt_inv s2 \<and> DeviceList s' = DeviceList s2 \<and> dt_db s' = dt_db s2"
    proof (cases "d = RestDealType \<and> dr_Err r \<noteq> None")
      case True
      with assms(1) Some m r have "DeviceList s' = DeviceList (snd (SyncDeviceFromSqlite E i s1))"
        "dt_db s' = dt_db (snd (SyncDeviceFromSqlite E i s1))" by (auto simp: DealDeviceTwin_def bind_iffs Let_def)
      with reload show ?thesis by blast
    next
      case False
      with assms(1) Some m r have "DeviceList s' = DeviceList (snd (write_update E i r s1))" "dt_db s' = dt_db (snd (write_update E i r s1))"
        by (auto simp: DealDeviceTwin_def bind_iffs Let_def split: option.splits prod.splits bool.splits if_splits)
      with written tw(3) False show ?thesis by blast
    qed
    then obtain s2 where "dt_inv s2" "same_data s2 s'" by (auto simp: same_data_def)
    with dt_inv_same show ?thesis by blast
  qed
qed


section \<open>Updates of attributes\<close>

lemma attr_statements:
  "apply_all (map SaveDeviceAttr (ar_Add r) @ map DeleteDeviceAttr (ar_Delete r) @ map UpdateDeviceAttrFields (ar_Update r)) t =
    Some (t\<lparr>tb_Attrs := apply_attrs r (tb_Attrs t)\<rparr>)"
proof -
  have "apply_all (map SaveDeviceAttr as) t = Some (t\<lparr>tb_Attrs := tb_Attrs t @ as\<rparr>)" for as t
    by (induction as arbitrary: t) (simp_all add: SaveDeviceAttr_def)
  moreover have "apply_all (map DeleteDeviceAttr ds) t = Some (t\<lparr>tb_Attrs := fold del_attr ds (tb_Attrs t)\<rparr>)" for ds t
    by (induction ds arbitrary: t) (simp_all add: DeleteDeviceAttr_def del_attr_def)
  moreover have "apply_all (map UpdateDeviceAttrFields us) t = Some (t\<lparr>tb_Attrs := fold put_attr us (tb_Attrs t)\<rparr>)" for us t
    by (induction us arbitrary: t) (simp_all add: UpdateDeviceAttrFields_def put_attr_def write_rows_def)
  ultimately show ?thesis by (simp add: apply_all_append apply_attrs_def)
qed

lemma apply_attrs_other:
  assumes "collected_attrs i V r m rows" and "j \<noteq> i"
  shows "rows_at at_DeviceID at_Name j key (apply_attrs r rows) = rows_at at_DeviceID at_Name j key rows"
proof -
  have "rows_at at_DeviceID at_Name j key (fold put_attr us xs) = rows_at at_DeviceID at_Name j key xs"
    if "\<forall>u\<in>set us. au_DeviceID u = i" for us xs
    using that assms(2) by (induction us arbitrary: xs) (auto simp: put_attr_def attrs.rows_at_write)
  moreover have "rows_at at_DeviceID at_Name j key (fold del_attr ds xs) = rows_at at_DeviceID at_Name j key xs"
    if "\<forall>d\<in>set ds. dd_DeviceID d = i" for ds xs
    using that
  proof (induction ds arbitrary: xs)
    case (Cons d ds)
    have "rows_at at_DeviceID at_Name j key (del_attr d xs) = rows_at at_DeviceID at_Name j key xs"
      using Cons.prems assms(2) by (induction xs) (auto simp: del_attr_def rows_at_def)
    with Cons show ?case by simp
  qed simp
  ultimately show ?thesis using assms by (auto simp: apply_attrs_def collected_attrs_def rows_at_def filter_empty_conv)
qed

lemma apply_attrs_ids:
  assumes "collected_attrs i V r m rows" and "row \<in> set (apply_attrs r rows)"
  shows "at_DeviceID row = i \<or> (\<exists>x\<in>set rows. at_DeviceID x = at_DeviceID row)"
proof -
  have put: "\<exists>x\<in>set xs. at_DeviceID x = at_DeviceID row" if "row \<in> set (fold put_attr us xs)" for us xs
    using that
  proof (induction us arbitrary: xs)
    case (Cons u us)
    then obtain x where "x \<in> set (put_attr u xs)" "at_DeviceID x = at_DeviceID row" by auto
    then show ?case by (auto simp: put_attr_def write_rows_def write_attr_cols_def split: if_splits)
  qed auto
  have "set (fold del_attr ds xs) \<subseteq> set xs" for ds xs
    by (induction ds arbitrary: xs) (fastforce simp: del_attr_def)+
  with put [of "ar_Update r" "fold del_attr (ar_Delete r) (rows @ ar_Add r)"] assms show ?thesis
    unfolding apply_attrs_def collected_attrs_def by fastforce
qed

lemma write_attrs_inv:
  assumes "dt_inv s" and "GetDevice s i = Some d0" and "collected_attrs i V r (dv_Attributes d1) (tb_Attrs (tables_of s))"
    and "DeviceList s' = fmupd i d1 (DeviceList s)" and "tables_of s' = (tables_of s)\<lparr>tb_Attrs := apply_attrs r (tb_Attrs (tables_of s))\<rparr>"
    and "dv_ID d1 = i" and "dv_Twin d1 = dv_Twin d0"
  shows "dt_inv s'"
proof (rule dt_inv_device [OF assms(1,4)])
  let ?t = "tables_of s"
  have d0: "device_ok ?t i d0" using assms(1,2) by (simp add: dt_inv_def)
  then show "device_ok (tables_of s') i d1" using assms(3,5-7) by (simp add: device_ok_def device_ids_def collected_attrs_def)
  show "device_ok (tables_of s') j x" if "j \<noteq> i" "device_ok ?t j x" for j x
    using that attrs.mirrors_cong [OF apply_attrs_other [OF assms(3)]] by (simp add: assms(5) device_ok_def device_ids_def)
  have t: "tables_ok ?t" and i: "i \<in> device_ids ?t" using assms(1) d0 by (simp_all add: dt_inv_def device_ok_def)
  have "at_DeviceID row \<in> device_ids ?t" if "row \<in> set (apply_attrs r (tb_Attrs ?t))" for row
    using apply_attrs_ids [OF assms(3) that] t i by (auto simp: tables_ok_def)
  moreover have "length (rows_at at_DeviceID at_Name j key (apply_attrs r (tb_Attrs ?t))) \<le> 1" for j key
    using t attrs.mirrors_unique [of i "dv_Attributes d1"] assms(3) apply_attrs_other [OF assms(3), of j key]
    by (cases "j = i") (auto simp: tables_ok_def collected_attrs_def)
  ultimately show "tables_ok (tables_of s')" using t by (simp add: assms(5) tables_ok_def device_ids_def)
qed

lemma DealMsgAttr_collected:
  assumes "DealMsgAttr E i msgs d s = Ok (r, s1)" and "dt_inv s" and "GetDevice s i = Some d0" and "db_works E"
  obtains as V where "s1 = s\<lparr>DeviceList := fmupd i (d0\<lparr>dv_Attributes := as\<rparr>) (DeviceList s)\<rparr>"
    and "collected_attrs i V r as (tb_Attrs (tables_of s))"
proof -
  let ?r0 = "\<lparr>ar_Add = [], ar_Delete = [], ar_Update = [], ar_Result = fmempty\<rparr>"
  obtain r1 as1 where r1: "deal_attrs i d msgs (de_ord E (fmdom msgs)) ?r0 (dv_Attributes d0) = Ok (r1, as1)"
    using assms(1,3) by (auto simp: DealMsgAttr_def bind_iffs)
  have "collected_attrs i {} ?r0 (dv_Attributes d0) (tb_Attrs (tables_of s))"
    using assms(2,3) by (simp add: collected_attrs_def apply_attrs_def dt_inv_def device_ok_def)
  from deal_attrs_collected [OF r1 this] range_orderD [of "de_ord E"] assms(4)
  have c: "collected_attrs i (fset (fmdom msgs)) r1 as1 (tb_Attrs (tables_of s))" by (simp add: db_works_def)
  obtain r2 as2 where r2: "(if d \<noteq> RestDealType then drop_unnamed (de_ord E) i msgs (r1, as1) else (r1, as1)) = (r2, as2)" by force
  with c drop_unnamed_collected [OF c, of "de_ord E" msgs r2 as2] obtain V where "collected_attrs i V r2 as2 (tb_Attrs (tables_of s))"
    by (auto split: if_splits)
  with assms(1,3) r1 r2 that [of as2 V] show ?thesis by (auto simp: DealMsgAttr_def)
qed

lemma UpdateDeviceAttr_inv:
  assumes "UpdateDeviceAttr E i msgs base d s = Ok s'" and "dt_inv s" and "db_works E"
  shows "dt_inv s'"
proof (cases "GetDevice s i")
  case None
  with assms show ?thesis by (simp add: UpdateDeviceAttr_def)
next
  case (Some d0)
  then have d0: "device_ok (tables_of s) i d0" "dv_ID d0 = i" using assms(2) by (auto simp: dt_inv_def device_ok_def)
  obtain r s1 where r: "DealMsgAttr E i (case msgs of Some m \<Rightarrow> m | None \<Rightarrow> fmempty) d s = Ok (r, s1)"
    using assms(1) Some d0(2) by (auto simp: UpdateDeviceAttr_def bind_iffs)
  obtain as V where as: "s1 = s\<lparr>DeviceList := fmupd i (d0\<lparr>dv_Attributes := as\<rparr>) (DeviceList s)\<rparr>"
    "collected_attrs i V r as (tb_Attrs (tables_of s))" by (rule DealMsgAttr_collected [OF r assms(2) Some assms(3)])
  note inv = write_attrs_inv [OF assms(2) Some, of V r "d0\<lparr>dv_Attributes := as\<rparr>"]
  show ?thesis
  proof (cases "ar_Add r \<noteq> [] \<or> ar_Delete r \<noteq> [] \<or> ar_Update r \<noteq> []")
    case False
    with assms(1) Some d0(2) r have "s' = s1" by (auto simp: UpdateDeviceAttr_def)
    with False as d0(2) show ?thesis by (intro inv) (simp_all add: apply_attrs_def)
  next
    case True
    let ?fs = "map SaveDeviceAttr (ar_Add r) @ map DeleteDeviceAttr (ar_Delete r) @ map UpdateDeviceAttrFields (ar_Update r)"
    obtain e db where e: "retry RetryTimes (transaction (de_db E) ?fs) (dt_db s1) = (e, db)" by force
    note w = retry_transaction [OF e] assms(3) attr_statements [of r "tables_of s"]
    show ?thesis
    proof (cases e)
      case None
      with w as have "db_tables db = (tables_of s)\<lparr>tb_Attrs := apply_attrs r (tb_Attrs (tables_of s))\<rparr>"
        by (simp add: RetryTimes_def db_works_def)
      moreover have "DeviceList s' = DeviceList s1" "dt_db s' = db"
        using assms(1) Some d0(2) r True e None by (auto simp: UpdateDeviceAttr_def DeviceAttrTrans_def)
      ultimately show ?thesis using as d0(2) by (intro inv) simp_all
    next
      case (Some x)
      with w as have "db_tables db = tables_of s" by (simp add: RetryTimes_def db_works_def)
      moreover have "s' = snd (SyncDeviceFromSqlite E i (s1\<lparr>dt_db := db\<rparr>))"
        using assms(1) \<open>GetDevice s i = Some d0\<close> d0(2) r True e Some by (auto simp: UpdateDeviceAttr_def DeviceAttrTrans_def)
      ultimately show ?thesis using d0(1) as
        by (auto simp: device_ok_def intro!: SyncDeviceFromSqlite_inv(1) [OF assms(3,2)])
    qed
  qed
qed


section \<open>Membership\<close>

definition keeps_inv :: "dt_state handler \<Rightarrow> bool" where
  "keeps_inv h \<longleftrightarrow> (\<forall>s. h = Done s \<longrightarrow> dt_inv s)"

lemma keeps_inv_next: "keeps_inv h \<Longrightarrow> (\<And>s. dt_inv s \<Longrightarrow> keeps_inv (f s)) \<Longrightarrow> keeps_inv (run_next h f)"
  by (cases h) (simp_all add: keeps_inv_def)

lemma keeps_inv_nextI: "(\<And>x. h = Done x \<Longrightarrow> keeps_inv (f x)) \<Longrightarrow> keeps_inv (run_next h f)"
  by (cases h) (simp_all add: keeps_inv_def)

lemma keeps_inv_body: "(\<And>x. b = Ok x \<Longrightarrow> keeps_inv (f x)) \<Longrightarrow> keeps_inv (under_locks l b f)"
  by (cases b) (simp_all add: keeps_inv_def)

lemma keeps_inv_body_pair: "(\<And>x s. b = Ok (x, s) \<Longrightarrow> keeps_inv (f x s)) \<Longrightarrow> keeps_inv (under_locks l b (\<lambda>(x, s). f x s))"
  by (cases b) (auto simp: keeps_inv_def)

lemma keeps_inv_Done: "dt_inv s \<Longrightarrow> keeps_inv (Done s)"
  by (simp add: keeps_inv_def)

lemma dt_inv_Send [simp]: "dt_inv (Send a r p s) = dt_inv s"
  by (rule dt_inv_same) simp

definition safe_device :: "DeviceMsg \<Rightarrow> bool" where
  "safe_device device \<longleftrightarrow> (case dg_Twin device of None \<Rightarrow> True | Some m \<Rightarrow> safe_msg SyncDealType m)"

lemma safe_device_msg: "safe_device device \<Longrightarrow> dg_Twin device = Some m \<Longrightarrow> safe_msg (if delta then RestDealType else SyncDealType) m"
  by (simp add: safe_device_def safe_msg_def)

lemma add_known_inv:
  assumes "dt_inv s" and "db_works E" and "\<forall>m. dg_Twin device = Some m \<longrightarrow> safe_msg d m"
  shows "keeps_inv (add_known E base d device s)"
  unfolding add_known_def using assms
  by (auto intro!: keeps_inv_body keeps_inv_Done intro: UpdateDeviceAttr_inv DealDeviceTwin_inv)

lemma add_new_rest_inv:
  assumes "dt_inv s" and "db_works E" and "\<forall>m. dg_Twin device = Some m \<longrightarrow> safe_msg d m"
  shows "keeps_inv (add_new_rest E base d device s)"
  unfolding add_new_rest_def
proof (intro keeps_inv_body_pair keeps_inv_body keeps_inv_Done)
  fix x s1 s2 payload
  assume tw: "(if dg_Twin device \<noteq> None then DealDeviceTwin E (dg_ID device) (EventID base) (dg_Twin device) d s else Ok (None, s)) = Ok (x, s1)"
    and as: "(if dg_Attributes device \<noteq> None then UpdateDeviceAttr E (dg_ID device) (dg_Attributes device) base d s1 else Ok s1) = Ok s2"
  have "dt_inv s1" using tw assms by (auto intro: DealDeviceTwin_inv split: if_splits)
  with as assms(2) have "dt_inv s2" by (auto intro: UpdateDeviceAttr_inv split: if_splits)
  then show "dt_inv (Send SendToEdge (membership_topic s2) payload s2)" by simp
qed

lemma new_device_inv:
  assumes "dt_inv s" and "SaveDevice row (tables_of s) = Some t" and "rw_ID row = i" and "tables_of s' = t"
    and "DeviceList s' = fmupd i d (DeviceList s)" and "dv_ID d = i" and "dv_Twin d = fmempty" and "dv_Attributes d = fmempty"
  shows "dt_inv s'"
proof (rule dt_inv_device [OF assms(1,5)])
  let ?t = "tables_of s"
  have new: "i \<notin> device_ids ?t" and t: "t = ?t\<lparr>tb_Devices := tb_Devices ?t @ [row]\<rparr>"
    using assms(2,3) by (auto simp: SaveDevice_def device_ids_def split: if_splits)
  have ok: "tables_ok ?t" using assms(1) by (simp add: dt_inv_def)
  have ids: "device_ids t = insert i (device_ids ?t)" by (simp add: t device_ids_def assms(3))
  show "tables_ok (tables_of s')" using ok unfolding assms(4) tables_ok_def ids by (simp add: t)
  have "\<forall>row\<in>set (tb_Twins ?t). dt_DeviceID row \<noteq> i" "\<forall>row\<in>set (tb_Attrs ?t). at_DeviceID row \<noteq> i"
    using ok new by (auto simp: tables_ok_def)
  then show "device_ok (tables_of s') i d" unfolding assms(4) device_ok_def ids
    using twins.mirrors_absent attrs.mirrors_absent assms(6-8) by (simp add: t)
  show "device_ok (tables_of s') j x" if "device_ok ?t j x" for j x
    using that unfolding assms(4) device_ok_def ids by (simp add: t)
qed

lemma add_device_inv:
  assumes "dt_inv s" and "db_works E" and "safe_device device"
  shows "keeps_inv (add_device E base delta device s)"
proof (cases "GetDevice s (dg_ID device)")
  case (Some d)
  then show ?thesis using assms safe_device_msg [OF assms(3), where delta = delta]
    by (auto simp: add_device_def Let_def intro!: add_known_inv keeps_inv_Done)
next
  case None
  let ?i = "dg_ID device"
  let ?row = "\<lparr>rw_ID = ?i, rw_Name = dg_Name device, rw_Description = dg_Description device, rw_State = dg_State device, rw_LastOnline = []\<rparr>"
  let ?d = "\<lparr>dv_ID = ?i, dv_Name = dg_Name device, dv_Description = dg_Description device, dv_State = dg_State device,
    dv_LastOnline = [], dv_Attributes = fmempty, dv_Twin = fmempty\<rparr>"
  obtain e db where e: "retry RetryTimes (transaction (de_db E) [SaveDevice ?row]) (dt_db s) = (e, db)" by force
  note w = retry_transaction [OF e] assms(2)
  show ?thesis
  proof (cases e)
    case (Some x)
    with w have "db_tables db = tables_of s" by (simp add: RetryTimes_def db_works_def)
    then have gone: "dt_inv s'" if "DeviceList s' = fmdrop ?i (fmupd ?i ?d (DeviceList s))" "dt_db s' = db" for s'
      using assms(1) that by (auto simp: dt_inv_def GetDevice_def)
    from None e Some show ?thesis
      by (auto simp: add_device_def Let_def AddDeviceTrans_def intro!: keeps_inv_nextI keeps_inv_Done gone)
  next
    case e_None: None
    with w have t: "SaveDevice ?row (tables_of s) = Some (db_tables db)"
      by (auto simp: RetryTimes_def db_works_def bind_eq_Some_conv)
    have added: "dt_inv s'" if "DeviceList s' = fmupd ?i ?d (DeviceList s)" "dt_db s' = db" for s'
      by (rule new_device_inv [OF assms(1) t, where d = ?d and i = ?i]) (use that in simp_all)
    from None e e_None assms(2) safe_device_msg [OF assms(3), where delta = delta] show ?thesis
      by (auto simp: add_device_def Let_def AddDeviceTrans_def intro!: keeps_inv_nextI [where h = "dtc_Lock _ _"]
          keeps_inv_next [OF add_new_rest_inv [OF added]] keeps_inv_nextI [where h = "dtc_Unlock _ _"] keeps_inv_Done)
  qed
qed

lemma add_devices_inv:
  assumes "dt_inv s" and "db_works E" and "\<forall>device\<in>set devices. safe_device device"
  shows "keeps_inv (add_devices E base delta devices s)"
  using assms(1,3)
proof (induction devices arbitrary: s)
  case (Cons device devices)
  then show ?case by (auto intro!: keeps_inv_next add_device_inv [OF _ assms(2)])
qed (simp add: keeps_inv_Done)

lemma removed_inv:
  assumes "dt_inv s" and "apply_all [DeleteDeviceByID i, DeleteDeviceAttrByDeviceID i, DeleteDeviceTwinByDeviceID i] (tables_of s) = Some t"
    and "tables_of s' = t" and "DeviceList s' = fmdrop i (DeviceList s)"
  shows "dt_inv s'"
proof -
  let ?t = "tables_of s"
  have t: "t = ?t\<lparr>tb_Devices := filter (\<lambda>row. rw_ID row \<noteq> i) (tb_Devices ?t), tb_Attrs := filter (\<lambda>row. at_DeviceID row \<noteq> i) (tb_Attrs ?t),
      tb_Twins := filter (\<lambda>row. dt_DeviceID row \<noteq> i) (tb_Twins ?t)\<rparr>"
    using assms(2) by (auto simp: DeleteDeviceByID_def DeleteDeviceAttrByDeviceID_def DeleteDeviceTwinByDeviceID_def)
  have ids: "device_ids t = device_ids ?t - {i}" by (auto simp: t device_ids_def)
  have ok: "tables_ok ?t" using assms(1) by (simp add: dt_inv_def)
  have "length (filter P xs) \<le> 1" if "length xs \<le> 1" for P :: "'a \<Rightarrow> bool" and xs
    using that length_filter_le [of P xs] by linarith
  note short = this [of "rows_at dt_DeviceID dt_Name _ _ (tb_Twins ?t)"] this [of "rows_at at_DeviceID at_Name _ _ (tb_Attrs ?t)"]
  have "tables_ok t" using ok short unfolding tables_ok_def ids
    by (simp add: t twins.rows_at_filter attrs.rows_at_filter)
  moreover have "device_ok t j x" if "device_ok ?t j x" "j \<noteq> i" for j x
    using that unfolding device_ok_def ids
    by (auto simp: t intro!: twins.mirrors_other_filter attrs.mirrors_other_filter)
  ultimately show ?thesis using assms(1,3,4) by (auto simp: dt_inv_def GetDevice_def split: if_splits)
qed

lemma remove_device_inv:
  assumes "dt_inv s" and "db_works E"
  shows "keeps_inv (remove_device E delta device s)"
proof -
  let ?i = "dg_ID device"
  let ?fs = "[DeleteDeviceByID ?i, DeleteDeviceAttrByDeviceID ?i, DeleteDeviceTwinByDeviceID ?i]"
  obtain e db where e: "retry RetryTimes (transaction (de_db E) ?fs) (dt_db s) = (e, db)" by force
  have "apply_all ?fs (tables_of s) = Some (db_tables db) \<or> db_tables db = tables_of s"
    using retry_transaction [OF e] assms(2) by (cases e) (auto simp: RetryTimes_def db_works_def)
  then have gone: "dt_inv s'" if s': "DeviceList s' = fmdrop ?i (DeviceList s)" "dt_db s' = db" for s'
  proof
    assume "apply_all ?fs (tables_of s) = Some (db_tables db)"
    with s' show ?thesis by (intro removed_inv [OF assms(1)]) simp_all
  next
    assume "db_tables db = tables_of s"
    with s' assms(1) show ?thesis by (auto simp: dt_inv_def GetDevice_def split: if_splits)
  qed
  show ?thesis
    using e assms(1)
    by (auto simp: remove_device_def Let_def DeleteDeviceTrans_def intro!: keeps_inv_nextI keeps_inv_body keeps_inv_Done gone)
qed

lemma removeDevice_inv:
  assumes "dt_inv s" and "db_works E"
  shows "keeps_inv (removeDevice E devices delta s)"
  using assms(1)
proof (induction devices arbitrary: s)
  case (Cons device devices)
  then show ?case by (auto intro!: keeps_inv_next remove_device_inv [OF _ assms(2)])
qed (simp add: keeps_inv_Done)

lemma membership_inv:
  assumes "dt_inv s" and "db_works E" and "\<forall>device\<in>set adds. safe_device device"
  shows "keeps_inv (run_next (addDevice E adds base delta s) (\<lambda>s. removeDevice E (removes s) delta' s))"
  unfolding addDevice_def by (intro keeps_inv_next add_devices_inv removeDevice_inv) (use assms in auto)


section \<open>The handlers\<close>

lemma update_state_inv:
  assumes "dt_inv s"
  shows "dt_inv (update_state E i state s)"
proof (cases "GetDevice s i")
  case None
  with assms show ?thesis by (simp add: update_state_def)
next
  case (Some d)
  let ?d = "snd (retry RetryTimes (write_state E (dv_ID d) state) (dt_db s))"
  have put: "tb_Twins (db_tables (snd (exec F (UpdateDeviceField i f) db))) = tb_Twins (db_tables db) \<and>
      tb_Attrs (db_tables (snd (exec F (UpdateDeviceField i f) db))) = tb_Attrs (db_tables db) \<and>
      device_ids (db_tables (snd (exec F (UpdateDeviceField i f) db))) = device_ids (db_tables db)"
    if "\<And>row. rw_ID (f row) = rw_ID row" for F f i db
  proof -
    have "rw_ID (if rw_ID row = i then f row else row) = rw_ID row" for row using that by simp
    then have eq: "map rw_ID (map (\<lambda>row. if rw_ID row = i then f row else row) rows) = map rw_ID rows" for rows by simp
    have "device_ids (t\<lparr>tb_Devices := map (\<lambda>row. if rw_ID row = i then f row else row) (tb_Devices t)\<rparr>) =
        set (map rw_ID (map (\<lambda>row. if rw_ID row = i then f row else row) (tb_Devices t)))" for t :: tables
      unfolding device_ids_def by (cases t) (simp only: tables.simps set_map)
    then have "device_ids (t\<lparr>tb_Devices := map (\<lambda>row. if rw_ID row = i then f row else row) (tb_Devices t)\<rparr>) = device_ids t" for t :: tables
      unfolding eq by (simp add: device_ids_def)
    then show ?thesis by (simp add: exec_def Let_def UpdateDeviceField_def)
  qed
  have "tb_Twins (db_tables (snd (retry n (write_state E j state) db))) = tb_Twins (db_tables db) \<and>
      tb_Attrs (db_tables (snd (retry n (write_state E j state) db))) = tb_Attrs (db_tables db) \<and>
      device_ids (db_tables (snd (retry n (write_state E j state) db))) = device_ids (db_tables db)" for n j db
  proof (induction n arbitrary: db)
    case (Suc n)
    obtain e db' where w: "write_state E j state db = (e, db')" by force
    have "tb_Twins (db_tables db') = tb_Twins (db_tables db) \<and> tb_Attrs (db_tables db') = tb_Attrs (db_tables db) \<and>
        device_ids (db_tables db') = device_ids (db_tables db)"
      using w put [of "\<lambda>row. row\<lparr>rw_State := state\<rparr>"] put [of "\<lambda>row. row\<lparr>rw_LastOnline := de_lastOnline E\<rparr>"]
      unfolding write_state_def by (metis (no_types, lifting) DeviceRow.select_convs(1) DeviceRow.surjective DeviceRow.update_convs(4,5) snd_conv)
    with Suc.IH [of db'] w show ?case by (cases e) auto
  qed simp
  note same = this [of RetryTimes "dv_ID d" "dt_db s"]
  have "device_ok (db_tables ?d) j x = device_ok (tables_of s) j x" for j x using same by (simp add: device_ok_def)
  moreover have "tables_ok (db_tables ?d) = tables_ok (tables_of s)" using same by (simp add: tables_ok_def)
  moreover have "device_ok (tables_of s) i d" using assms Some by (simp add: dt_inv_def)
  ultimately show ?thesis using assms Some
    by (auto simp: update_state_def Let_def dt_inv_def GetDevice_def device_ok_def)
qed

end
