(* ===== verification/Twin_Props.thy ===== *)
theory Twin_Props
  imports Twin_Inv Twin_Comm
begin

text \<open>
  The device twin module as a state machine, and that its memory mirrors its database in every
  reachable state.
\<close>

section \<open>The module as a state machine\<close>

definition dt_start :: "string \<Rightarrow> dt_state" where
  "dt_start node =
     \<lparr>NodeName = node, DeviceList = fmempty,
      dt_db = \<lparr>db_tables = \<lparr>tb_Devices = [], tb_Attrs = [], tb_Twins = []\<rparr>, db_statements = 0\<rparr>,
      dt_locks_of = \<lparr>DeviceMutex = fmempty, ctx_Mutex = lk_free\<rparr>, dt_sent = []\<rparr>"

text \<open>The twins a message of the cloud brings cannot split a deletion.\<close>

definition safe_sync :: "dt_env \<Rightarrow> Message \<Rightarrow> bool" where
  "safe_sync E msg \<longleftrightarrow>
     (case m_Content msg of
        BytesContent c \<Rightarrow>
          (case de_UnmarshalTwinUpdate E c of
             Some m \<Rightarrow> (case tu_Twin m of Some tw \<Rightarrow> safe_msg SyncDealType tw | None \<Rightarrow> True) | None \<Rightarrow> True)
      | _ \<Rightarrow> True)"

definition safe_detail :: "dt_env \<Rightarrow> Message \<Rightarrow> bool" where
  "safe_detail E msg \<longleftrightarrow>
     (case m_Content msg of
        BytesContent c \<Rightarrow> (case de_UnmarshalMembershipDetail E c of Some (_, ds) \<Rightarrow> list_all safe_device ds | None \<Rightarrow> True)
      | _ \<Rightarrow> True)"

definition safe_membership :: "dt_env \<Rightarrow> Message \<Rightarrow> bool" where
  "safe_membership E msg \<longleftrightarrow>
     (case m_Content msg of
        BytesContent c \<Rightarrow> (case de_UnmarshalMembershipUpdate E c of Some (_, adds, _) \<Rightarrow> list_all safe_device adds | None \<Rightarrow> True)
      | _ \<Rightarrow> True)"

text \<open>The handlers of the workers, each in an environment of its own.\<close>

inductive worker_step :: "dt_state \<Rightarrow> dt_state \<Rightarrow> bool" where
  twin_update: "dealTwinUpdate E i msg s = Done (e, s') \<Longrightarrow> db_works E \<Longrightarrow> worker_step s s'"
| twin_sync: "dealTwinSync E i msg s = Done (e, s') \<Longrightarrow> db_works E \<Longrightarrow> safe_sync E msg \<Longrightarrow> worker_step s s'"
| twin_get: "dealTwinGet E i msg s = Done (e, s') \<Longrightarrow> worker_step s s'"
| membership_detail: "dealMembershipDetail E msg s = Done (e, s') \<Longrightarrow> db_works E \<Longrightarrow> safe_detail E msg \<Longrightarrow> worker_step s s'"
| membership_update: "dealMembershipUpdate E msg s = Done (e, s') \<Longrightarrow> db_works E \<Longrightarrow> safe_membership E msg \<Longrightarrow> worker_step s s'"
| membership_get: "dealMembershipGet E msg s = Done (e, s') \<Longrightarrow> worker_step s s'"
| device_state: "dealDeviceStateUpdate E i msg s = Done (e, s') \<Longrightarrow> worker_step s s'"
| device_attr: "dealDeviceAttrUpdate E i msg s = Done (e, s') \<Longrightarrow> db_works E \<Longrightarrow> worker_step s s'"

text \<open>A process that starts again has the tables and reads its devices from them.\<close>

definition forget :: "dt_state \<Rightarrow> dt_state" where
  "forget s = s\<lparr>DeviceList := fmempty, dt_locks_of := \<lparr>DeviceMutex = fmempty, ctx_Mutex = lk_free\<rparr>, dt_sent := []\<rparr>"

inductive dt_step :: "dt_state \<Rightarrow> dt_state \<Rightarrow> bool" where
  work: "worker_step s s' \<Longrightarrow> dt_step s s'"
| restart: "SyncSqlite E (forget s) = Done (e, s') \<Longrightarrow> db_works E \<Longrightarrow> dt_step s s'"

inductive_cases worker_stepE: "worker_step s s'"


section \<open>The memory mirrors the database\<close>

lemma run_next_Done: "run_next h f = Done y \<longleftrightarrow> (\<exists>x. h = Done x \<and> f x = Done y)"
  by (cases h) auto

lemma under_locks_Done: "under_locks l b f = Done y \<longleftrightarrow> (\<exists>x. b = Ok x \<and> f x = Done y)"
  by (cases b) auto

lemmas handler_iffs = run_next_Done under_locks_Done

lemma Updated_inv:
  assumes "Updated E i c s = Ok s'" and "dt_inv s" and "db_works E"
  shows "dt_inv s'"
  using assms
  by (auto simp: Updated_def dealUpdateResult_def bind_iffs safe_msg_def split: result.splits intro: DealDeviceTwin_inv)

lemma dealTwinUpdate_inv:
  assumes "dealTwinUpdate E i msg s = Done (e, s')" and "dt_inv s" and "db_works E"
  shows "dt_inv s'"
  using assms by (auto simp: dealTwinUpdate_def handler_iffs split: content.splits dest!: Updated_inv)

lemma dealTwinSync_inv:
  assumes "dealTwinSync E i msg s = Done (e, s')" and "dt_inv s" and "db_works E" and "safe_sync E msg"
  shows "dt_inv s'"
proof (cases "\<exists>c m. m_Content msg = BytesContent c \<and> UnmarshalDeviceTwinUpdate E c = Ok m")
  case True
  then obtain c m where m: "m_Content msg = BytesContent c" "UnmarshalDeviceTwinUpdate E c = Ok m" by blast
  then have "\<forall>tw. tu_Twin m = Some tw \<longrightarrow> safe_msg SyncDealType tw"
    using assms(4) by (auto simp: safe_sync_def UnmarshalDeviceTwinUpdate_def split: option.splits)
  with assms m show ?thesis by (auto simp: dealTwinSync_def handler_iffs dest!: DealDeviceTwin_inv)
next
  case False
  with assms(1,2) show ?thesis
    by (auto simp: dealTwinSync_def dealUpdateResult_def handler_iffs split: content.splits result.splits)
qed

lemma deferred_Done: "deferred_UnlockAll h = Done (e, s') \<Longrightarrow> \<exists>s l. h = Done s \<and> s' = set_locks l s"
  by (cases h) auto

lemma dealMembershipDetail_inv:
  assumes "dealMembershipDetail E msg s = Done (e, s')" and "dt_inv s" and "db_works E" and "safe_detail E msg"
  shows "dt_inv s'"
proof (cases "\<exists>c b ds. m_Content msg = BytesContent c \<and> de_UnmarshalMembershipDetail E c = Some (b, ds)")
  case True
  then obtain c b ds where c: "m_Content msg = BytesContent c" "de_UnmarshalMembershipDetail E c = Some (b, ds)" by blast
  with assms(4) have ds: "\<forall>d\<in>set ds. safe_device d" by (simp add: safe_detail_def list_all_iff)
  from assms(1) c obtain l l' s1 where s1: "run_next (addDevice E ds \<lparr>EventID = EventID b, Timestamp = 0\<rparr> False (set_locks l s))
      (\<lambda>s. removeDevice E (getRemoveList (de_ord E) s ds) False s) = Done s1" "s' = set_locks l' s1"
    by (auto simp: dealMembershipDetail_def run_next_Done dest!: deferred_Done)
  have "keeps_inv (Done s1)" unfolding s1(1) [symmetric] by (rule membership_inv) (use assms(2,3) ds in auto)
  with s1(2) show ?thesis by (simp add: keeps_inv_def)
qed (use assms(1,2) in \<open>auto simp: dealMembershipDetail_def split: content.splits option.splits\<close>)

lemma dealMembershipUpdate_inv:
  assumes "dealMembershipUpdate E msg s = Done (e, s')" and "dt_inv s" and "db_works E" and "safe_membership E msg"
  shows "dt_inv s'"
proof (cases "\<exists>c b adds removes. m_Content msg = BytesContent c \<and> de_UnmarshalMembershipUpdate E c = Some (b, adds, removes)")
  case True
  then obtain c b adds removes where c: "m_Content msg = BytesContent c"
    "de_UnmarshalMembershipUpdate E c = Some (b, adds, removes)" by blast
  with assms(4) have adds: "\<forall>d\<in>set adds. safe_device d" by (simp add: safe_membership_def list_all_iff)
  from assms(1) c have s': "run_next (addDevice E adds \<lparr>EventID = EventID b, Timestamp = 0\<rparr> False s) (\<lambda>s. removeDevice E removes False s) = Done s'"
    by (auto simp: dealMembershipUpdate_def run_next_Done)
  have "keeps_inv (Done s')" unfolding s' [symmetric] by (rule membership_inv) (use assms(2,3) adds in auto)
  then show ?thesis by (simp add: keeps_inv_def)
qed (use assms(1,2) in \<open>auto simp: dealMembershipUpdate_def split: content.splits option.splits\<close>)

lemma worker_step_inv:
  assumes "worker_step s s'" and "dt_inv s"
  shows "dt_inv s'"
  using assms
proof (induction rule: worker_step.induct)
  case (device_state E i msg s e s')
  then show ?case
    by (auto simp: dealDeviceStateUpdate_def run_next_Done Let_def split: content.splits option.splits intro!: update_state_inv)
next
  case (device_attr E i msg s e s')
  then show ?case
    by (auto simp: dealDeviceAttrUpdate_def handler_iffs split: content.splits option.splits dest!: UpdateDeviceAttr_inv)
qed (auto simp: dealTwinGet_def DealGetTwin_def dealMembershipGet_def dealMembershipGetInner_def split: content.splits
    intro: dealTwinUpdate_inv dealTwinSync_inv dealMembershipDetail_inv dealMembershipUpdate_inv)

lemma sync_device_inv:
  assumes "sync_device E i s = Done s'" and "dt_inv s" and "db_works E" and "i \<in> device_ids (tables_of s)"
  shows "dt_inv s' \<and> tables_of s' = tables_of s"
proof -
  obtain l l' where s': "s' = set_locks l' (snd (read_device E i (set_locks l (new_mutex i s))))"
    using assms(1) by (auto simp: sync_device_def Let_def run_next_Done)
  have "dt_inv (snd (read_device E i (set_locks l (new_mutex i s))))"
    by (rule SyncDeviceFromSqlite_inv(2) [OF assms(3,2,4)]) simp_all
  moreover have "tables_of (snd (read_device E i (set_locks l (new_mutex i s)))) = tables_of s"
    using read_device_ok [OF assms(3), of "set_locks l (new_mutex i s)" i] assms(2,4) by (auto simp: dt_inv_def)
  ultimately show ?thesis by (simp add: s')
qed

lemma sync_devices_inv:
  assumes "sync_devices E ids s = Done s'" and "dt_inv s" and "db_works E" and "set ids \<subseteq> device_ids (tables_of s)"
  shows "dt_inv s'"
  using assms
proof (induction ids arbitrary: s)
  case (Cons i ids)
  then obtain s1 where s1: "sync_device E i s = Done s1" "sync_devices E ids s1 = Done s'" by (auto simp: run_next_Done)
  with sync_device_inv [OF s1(1) Cons.prems(2,3)] Cons show ?case by auto
qed simp

lemma dt_step_inv:
  assumes "dt_step s s'" and "dt_inv s"
  shows "dt_inv s'"
  using assms
proof (induction rule: dt_step.induct)
  case (restart E s e s')
  have f: "dt_inv (forget s)" "dt_db (forget s) = dt_db s" using restart(3) by (auto simp: dt_inv_def forget_def GetDevice_def)
  define d where "d = (dt_db s)\<lparr>db_statements := Suc (db_statements (dt_db s))\<rparr>"
  have d: "db_tables d = tables_of s" "sync_devices E (map rw_ID (tb_Devices (tables_of s))) ((forget s)\<lparr>dt_db := d\<rparr>) = Done s'"
    using restart(1,2) f by (auto simp: SyncSqlite_def QueryDeviceAll_def query_def run_next_Done db_works_def d_def)
  have "dt_inv ((forget s)\<lparr>dt_db := d\<rparr>)" using f d(1) by (simp add: dt_inv_def GetDevice_def)
  from sync_devices_inv [OF d(2) this restart(2)] d(1) show ?case by (simp add: device_ids_def)
qed (rule worker_step_inv)

lemma dt_reachable_inv:
  assumes "dt_step\<^sup>*\<^sup>* (dt_start node) s"
  shows "dt_inv s"
  using assms
proof (induction rule: rtranclp_induct)
  case base
  show ?case by (simp add: dt_inv_def dt_start_def GetDevice_def tables_ok_def rows_at_def)
qed (rule dt_step_inv)



text \<open>A run for the examples: a device with one twin joins the node.\<close>

definition ex_msg :: "content \<Rightarrow> Message" where
  "ex_msg c = FillBody c NewRawMessage"

definition ex_twin :: MsgTwin where
  "ex_twin = empty_twin\<lparr>mt_Expected := Some \<lparr>tv_Value = Some ''v'', tv_Metadata = None\<rparr>, mt_Metadata := Some ''string'',
     mt_ExpectedVersion := Some zero_version\<rparr>"

definition ex_device :: DeviceMsg where
  "ex_device = \<lparr>dg_ID = ''d'', dg_Name = ''n'', dg_Description = [], dg_State = [], dg_Attributes = None,
     dg_Twin = Some (fmupd ''k'' (Some ex_twin) fmempty)\<rparr>"

definition ex_base :: BaseMessage where
  "ex_base = \<lparr>EventID = ''e'', Timestamp = 0\<rparr>"

text \<open>Updates bring an expected value that is not there, memberships the device above.\<close>

definition ex_twins :: dt_env where
  "ex_twins =
     \<lparr>de_db = \<lparr>dbe_fails = \<lambda>_. False, dbe_unread = \<lambda>_. False, dbe_lost = \<lambda>_. False\<rparr>, de_isFloat = \<lambda>_. False,
      de_ord = sorted_list_of_fset, de_now = 7, de_key_now = \<lambda>_. 7, de_uuid = id, de_lastOnline = [],
      de_UnmarshalTwinUpdate = \<lambda>_. Some \<lparr>tu_Base = ex_base, tu_Twin =
        Some (fmupd ''k'' (Some (empty_twin\<lparr>mt_Expected := Some \<lparr>tv_Value = None, tv_Metadata = None\<rparr>\<rparr>)) fmempty)\<rparr>,
      de_UnmarshalBaseMessage = \<lambda>_. Some ex_base, de_UnmarshalMembershipDetail = \<lambda>_. Some (ex_base, [ex_device]),
      de_UnmarshalMembershipUpdate = \<lambda>c. Some (if c = ''remove'' then (ex_base, [], [ex_device]) else (ex_base, [ex_device], [])),
      de_UnmarshalDeviceUpdate = \<lambda>_. None\<rparr>"

lemma ex_twins_works: "db_works ex_twins"
  by (simp add: db_works_def ex_twins_def range_order_sorted)

lemma sorted_singleton [simp]: "sorted_list_of_fset {|k :: string|} = [k]"
  by (simp add: sorted_list_of_fset.rep_eq)

lemma ran_singleton [simp]: "None |\<notin>| fmran (fmupd k (Some x) fmempty)"
  by (auto simp: fmlookup_ran_iff split: if_splits)

lemmas ex_defs = ex_msg_def ex_twin_def ex_device_def ex_base_def ex_twins_def dt_start_def

lemma ex_join:
  "\<exists>s. dealMembershipUpdate ex_twins (ex_msg (BytesContent ''add'')) (dt_start ''n'') = Done (None, s) \<and>
     (\<exists>d t. GetDevice s ''d'' = Some d \<and> fmlookup (dv_Twin d) ''k'' = Some t \<and> mt_Expected t \<noteq> None \<and>
        mt_Metadata t = Some ''string'' \<and> version_of (mt_ExpectedVersion t) = zero_version \<and> version_of (mt_ActualVersion t) = zero_version \<and>
        mt_Optional t = Some True) \<and>
     dt_locks_of s = \<lparr>DeviceMutex = fmupd ''d'' False fmempty, ctx_Mutex = lk_free\<rparr>"
  by (simp add: dealMembershipUpdate_def ex_defs FillBody_def NewRawMessage_def addDevice_def add_device_def GetDevice_def Let_def
      AddDeviceTrans_def transaction_def exec_def SaveDevice_def RetryTimes_def eval_nat_numeral add_new_rest_def DealDeviceTwin_def
      DealMsgTwin_def no_result_def deal_twin_def dealTwinAdd_def add_start_def add_expected_def
      add_actual_def dealVersion_def zero_version_def ValidateValue_def add_type_def MsgTwinToDeviceTwin_def empty_twin_def
      add_finish_def write_update_def DeviceTwinTrans_def SaveDeviceTwin_def report_update_def dealDocument_def
      BuildDeviceTwinDelta_def dealDelta_def dealSyncResult_def MarshalMembershipUpdate_def marshal_device_def Send_def
      DeviceTwinToMsgTwin_def add_attributes_def version_of_def)

lemma ex_step:
  "dealMembershipUpdate ex_twins (ex_msg (BytesContent ''add'')) (dt_start ''n'') = Done (None, s) \<Longrightarrow> dt_step\<^sup>*\<^sup>* (dt_start ''n'') s"
  by (rule r_into_rtranclp, rule dt_step.work, rule worker_step.membership_update, assumption, rule ex_twins_works)
    (simp add: safe_membership_def ex_defs FillBody_def NewRawMessage_def safe_device_def safe_msg_def empty_twin_def)


end
