(* ===== verification/Twin_Versions.thy ===== *)
theory Twin_Versions
  imports Twin_Props
begin

text \<open>
  Versions of twins never go back: not by an update of the edge, which counts, not by one of the
  cloud, whose versions are compared, and not when an update is rejected or a write fails.
\<close>

definition version_le :: "TwinVersion \<Rightarrow> TwinVersion \<Rightarrow> bool" where
  "version_le v w \<longleftrightarrow> sint (CloudVersion v) \<le> sint (CloudVersion w) \<and> sint (EdgeVersion v) \<le> sint (EdgeVersion w)"

text \<open>An edge version that can still be counted up.\<close>

definition room :: "TwinVersion \<Rightarrow> bool" where
  "room v \<longleftrightarrow> sint (EdgeVersion v) < 2 ^ 63 - 1"

definition twin_le :: "MsgTwin \<Rightarrow> MsgTwin \<Rightarrow> bool" where
  "twin_le t t' \<longleftrightarrow>
     version_le (version_of (mt_ExpectedVersion t)) (version_of (mt_ExpectedVersion t')) \<and>
     version_le (version_of (mt_ActualVersion t)) (version_of (mt_ActualVersion t'))"

definition twin_room :: "MsgTwin \<Rightarrow> bool" where
  "twin_room t \<longleftrightarrow> room (version_of (mt_ExpectedVersion t)) \<and> room (version_of (mt_ActualVersion t))"

lemma sint_succ:
  assumes "sint (x :: int64) < 2 ^ 63 - 1"
  shows "sint (x + 1) = sint x + 1"
proof -
  have "- (2 ^ 63) \<le> sint x" using sint_greater_eq [of x] by simp
  with assms show ?thesis by (simp add: sint_word_ariths signed_take_bit_int_eq_self_iff)
qed

lemma dealVersion_le:
  assumes "dealVersion v req d = Ok w" and "room v"
  shows "version_le v w"
  using assms by (auto simp: dealVersion_def version_le_def room_def sint_succ split: if_splits option.splits)

lemma version_le_refl [simp]: "version_le v v"
  by (simp add: version_le_def)

lemma twin_le_view: "twin_view t' = twin_view t \<Longrightarrow> twin_le t t'"
  by (simp add: twin_le_def twin_view_def)

lemma compare_expected_le:
  assumes "compare_expected f now d m a = Ok (e, a')" and "twin_room (ca_twin a)"
  shows "twin_le (ca_twin a) (ca_twin a') \<and> version_of (mt_ActualVersion (ca_twin a')) = version_of (mt_ActualVersion (ca_twin a))"
  using assms(1)
proof (cases rule: compare_expected_cases)
  case kept
  then show ?thesis by (simp add: twin_le_view) (simp add: twin_view_def)
next
  case (written mv v)
  then show ?thesis using assms(2) dealVersion_le by (simp add: twin_le_def twin_room_def)
qed

lemma compare_actual_le:
  assumes "compare_actual f now d m a = Ok (e, a')" and "room (version_of (mt_ActualVersion (ca_twin a)))"
  shows "twin_le (ca_twin a) (ca_twin a')"
  using assms(1)
proof (cases rule: compare_actual_cases)
  case (written mv v)
  then show ?thesis using assms(2) dealVersion_le by (simp add: twin_le_def)
qed (simp add: twin_le_view)

lemma twin_le_trans: "twin_le t t' \<Longrightarrow> twin_le t' t'' \<Longrightarrow> twin_le t t''"
  by (auto simp: twin_le_def version_le_def)

lemma compare_rest_versions:
  "compare_optional m a = Ok a' \<Longrightarrow> mt_ExpectedVersion (ca_twin a') = mt_ExpectedVersion (ca_twin a) \<and>
     mt_ActualVersion (ca_twin a') = mt_ActualVersion (ca_twin a)"
  "mt_ExpectedVersion (ca_twin (compare_metadata m a)) = mt_ExpectedVersion (ca_twin a)"
  "mt_ActualVersion (ca_twin (compare_metadata m a)) = mt_ActualVersion (ca_twin a)"
  by (auto simp: compare_optional_def compare_metadata_def Let_def split: option.splits if_splits)

lemma dealTwinCompare_le:
  assumes "dealTwinCompare f now r i key t m d = Ok (e, r', t')" and "twin_room t"
  shows "twin_le t t'"
proof (cases m)
  case None
  with assms(1) show ?thesis by (auto simp: dealTwinCompare_def Let_def twin_le_def split: if_splits)
next
  case (Some x)
  let ?a0 = "\<lparr>ca_twin = t, ca_cols = fmempty, ca_sync = empty_twin, ca_change = False, ca_allow = True\<rparr>"
  obtain e1 a1 where e1: "compare_expected f now d x ?a0 = Ok (e1, a1)"
    using assms(1) Some by (auto simp: dealTwinCompare_def Let_def bind_iffs split: if_splits)
  from compare_expected_le [OF e1] assms(2) have le1: "twin_le t (ca_twin a1)" "room (version_of (mt_ActualVersion (ca_twin a1)))"
    by (auto simp: twin_room_def)
  show ?thesis
  proof (cases e1)
    case e1_Some: (Some y)
    with assms(1) Some e1 le1(1) show ?thesis by (auto simp: dealTwinCompare_def Let_def bind_iffs split: if_splits)
  next
    case None
    then obtain e2 a2 where e2: "compare_actual f now d x a1 = Ok (e2, a2)"
      using assms(1) Some e1 by (auto simp: dealTwinCompare_def Let_def bind_iffs split: if_splits)
    with le1 have le2: "twin_le t (ca_twin a2)" by (blast intro: twin_le_trans compare_actual_le)
    have "mt_ExpectedVersion t' = mt_ExpectedVersion (ca_twin a2) \<and> mt_ActualVersion t' = mt_ActualVersion (ca_twin a2)"
      using assms(1) Some e1 e2 None
      by (auto simp: dealTwinCompare_def Let_def bind_iffs compare_rest_versions split: if_splits option.splits
          dest!: compare_rest_versions(1))
    with le2 show ?thesis by (simp add: twin_le_def)
  qed
qed

lemma delete_expected_le:
  assumes "delete_expected d v a = Next a' \<or> delete_expected d v a = Return a'" and "twin_room (da_twin a)"
  shows "twin_le (da_twin a) (da_twin a') \<and> mt_ActualVersion (da_twin a') = mt_ActualVersion (da_twin a)"
proof (cases "mt_ExpectedVersion (da_twin a)")
  case None
  with assms(1) show ?thesis by (auto simp: delete_expected_def twin_le_def version_of_def)
next
  case (Some w)
  with assms show ?thesis
    by (cases "dealVersion w v d") (auto simp: delete_expected_def Let_def twin_le_def twin_room_def dealVersion_le split: if_splits)
qed

lemma delete_actual_le:
  assumes "delete_actual d v a = Next a' \<or> delete_actual d v a = Return a'" and "room (version_of (mt_ActualVersion (da_twin a)))"
  shows "twin_le (da_twin a) (da_twin a')"
proof (cases "mt_ActualVersion (da_twin a)")
  case None
  with assms(1) show ?thesis by (auto simp: delete_actual_def twin_le_def version_of_def)
next
  case (Some w)
  with assms show ?thesis
    by (cases "dealVersion w v d") (auto simp: delete_actual_def Let_def twin_le_def dealVersion_le split: if_splits)
qed

lemma delete_sides_le:
  assumes "delete_sides t m d = Next a \<or> delete_sides t m d = Return a" and "twin_room t"
  shows "twin_le t (da_twin a)"
proof -
  let ?d = "if d \<noteq> RestDealType then SyncTwinDeleteDealType else d"
  let ?req = "\<lambda>version. if ?d \<noteq> RestDealType then Option.bind m version else None"
  let ?a0 = "\<lparr>da_twin = t, da_cols = fmempty, da_sync = empty_twin, da_change = False\<rparr>"
  obtain a1 where a1: "delete_expected ?d (?req mt_ExpectedVersion) ?a0 = Next a1 \<or> delete_expected ?d (?req mt_ExpectedVersion) ?a0 = Return a1"
    by (cases "delete_expected ?d (?req mt_ExpectedVersion) ?a0") auto
  note le1 = delete_expected_le [OF a1]
  show ?thesis
  proof (cases "delete_expected ?d (?req mt_ExpectedVersion) ?a0")
    case (Return x)
    with assms a1 le1 show ?thesis by (auto simp: delete_sides_def Let_def)
  next
    case (Next x)
    with assms(1) have "delete_actual ?d (?req mt_ActualVersion) x = Next a \<or> delete_actual ?d (?req mt_ActualVersion) x = Return a"
      by (auto simp: delete_sides_def Let_def)
    from delete_actual_le [OF this] Next a1 le1 assms(2) show ?thesis by (auto simp: twin_room_def intro: twin_le_trans)
  qed
qed

lemma dealTwinDelete_le:
  assumes "dealTwinDelete r i key t m d = Ok (r', t')" and "twin_room t"
  shows "twin_le t t'"
proof -
  have "t' = t \<or> (\<exists>a. (delete_sides t m d = Next a \<or> delete_sides t m d = Return a) \<and> t' = da_twin a)"
    using assms(1) by (auto simp: dealTwinDelete_def bind_iffs Let_def split: if_splits flow.splits)
  with assms(2) delete_sides_le show ?thesis by (auto simp: twin_le_def)
qed


section \<open>Whole messages\<close>

lemma deal_twin_le:
  assumes "deal_twin f now i d key m r twins = Ok (e, r', twins')" and "fmlookup twins key = Some t" and "twin_room t"
  shows "\<exists>t'. twins' = fmupd key t' twins \<and> twin_le t t'"
  using assms by (auto simp: deal_twin_def bind_iffs split: if_splits dest: dealTwinDelete_le dealTwinCompare_le)

lemma deal_twin_other:
  assumes "deal_twin f now i d key m r twins = Ok (e, r', twins')" and "key' \<noteq> key"
  shows "fmlookup twins' key' = fmlookup twins key'"
proof (cases "fmlookup twins key")
  case None
  with assms(1) have "dealTwinAdd f now r i key twins m d = Ok (e, r', twins')" by (simp add: deal_twin_def)
  from dealTwinAdd_effect [OF this] assms(2) show ?thesis by auto
next
  case (Some t)
  with assms show ?thesis by (auto simp: deal_twin_def bind_iffs split: if_splits)
qed

lemma deal_twins_other:
  assumes "deal_twins f now i d msgs keys r twins = Ok (r', twins')" and "key \<notin> set keys"
  shows "fmlookup twins' key = fmlookup twins key"
  using assms
proof (induction keys arbitrary: r twins)
  case (Cons k keys)
  then obtain e r1 twins1 where
    "deal_twin f (now k) i d k (Option.bind (fmlookup msgs k) id) r twins = Ok (e, r1, twins1)"
    "e \<noteq> None \<and> twins' = twins1 \<or> deal_twins f now i d msgs keys r1 twins1 = Ok (r', twins')"
    by (auto simp: bind_iffs split: if_splits)
  with Cons deal_twin_other show ?case by fastforce
qed simp

lemma deal_twins_le:
  assumes "deal_twins f now i d msgs keys r twins = Ok (r', twins')" and "distinct keys"
    and "fmlookup twins key = Some t" and "twin_room t"
  shows "\<exists>t'. fmlookup twins' key = Some t' \<and> twin_le t t'"
  using assms
proof (induction keys arbitrary: r twins)
  case Nil
  then show ?case by (auto simp: twin_le_def)
next
  case (Cons k keys)
  then obtain e r1 twins1 where
    one: "deal_twin f (now k) i d k (Option.bind (fmlookup msgs k) id) r twins = Ok (e, r1, twins1)" and
    rest: "e \<noteq> None \<and> twins' = twins1 \<or> deal_twins f now i d msgs keys r1 twins1 = Ok (r', twins')"
    by (auto simp: bind_iffs split: if_splits)
  show ?case
  proof (cases "k = key")
    case True
    with deal_twin_le [OF one] Cons.prems(3,4) obtain t' where "fmlookup twins1 key = Some t'" "twin_le t t'" by auto
    with rest deal_twins_other [of f now i d msgs keys r1 twins1 r' twins' key] Cons.prems(2) True show ?thesis by auto
  next
    case False
    with deal_twin_other [OF one, of key] Cons.prems(3) have l: "fmlookup twins1 key = Some t" by simp
    from rest show ?thesis
    proof
      assume "e \<noteq> None \<and> twins' = twins1"
      with l show ?thesis by (auto simp: twin_le_def)
    next
      assume "deal_twins f now i d msgs keys r1 twins1 = Ok (r', twins')"
      from Cons.IH [OF this _ l] Cons.prems(2,4) show ?thesis by simp
    qed
  qed
qed

text \<open>Two devices that mirror the same rows have the same versions.\<close>

lemma mirrors_same_le:
  assumes "twins.mirrors i m rows" and "twins.mirrors i m' rows" and "fmlookup m key = Some t"
  shows "\<exists>t'. fmlookup m' key = Some t' \<and> twin_le t t'"
  using twins.mirrorsD [OF assms(1), of key] twins.mirrorsD [OF assms(2), of key] assms(3)
  by (cases "fmlookup m' key") (auto simp: twin_le_view)

lemma reload_le:
  assumes "db_works E" and "dt_inv s" and "GetDevice s i = Some d0" and "fmlookup (dv_Twin d0) key = Some t"
    and "tables_of s1 = tables_of s"
  shows "\<exists>d t'. GetDevice (snd (SyncDeviceFromSqlite E i s1)) i = Some d \<and> fmlookup (dv_Twin d) key = Some t' \<and> twin_le t t'"
proof -
  have ok: "device_ok (tables_of s) i d0" "tables_ok (tables_of s)" using assms(2,3) by (simp_all add: dt_inv_def)
  let ?s2 = "new_mutex i s1"
  have s2: "tables_of ?s2 = tables_of s" using assms(5) by simp
  obtain d where d: "DeviceList (snd (read_device E i ?s2)) = fmupd i d (DeviceList ?s2)" "device_ok (tables_of s) i d"
    using read_device_ok [OF assms(1), of ?s2 i] ok unfolding s2 device_ok_def by blast
  with mirrors_same_le [of i "dv_Twin d0" _ "dv_Twin d" key t] ok(1) assms(4) show ?thesis
    by (auto simp: SyncDeviceFromSqlite_def GetDevice_def device_ok_def)
qed


definition device_twin_le :: "string \<Rightarrow> string \<Rightarrow> MsgTwin \<Rightarrow> dt_state \<Rightarrow> bool" where
  "device_twin_le i key t s \<longleftrightarrow> (case GetDevice s i of None \<Rightarrow> False
     | Some d \<Rightarrow> (case fmlookup (dv_Twin d) key of None \<Rightarrow> False | Some t' \<Rightarrow> twin_le t t'))"

lemma device_twin_le_iff:
  "device_twin_le i key t s \<longleftrightarrow> (\<exists>d t'. GetDevice s i = Some d \<and> fmlookup (dv_Twin d) key = Some t' \<and> twin_le t t')"
  by (auto simp: device_twin_le_def split: option.splits)

lemma device_twin_le_report [simp]:
  "device_twin_le i key t (dealUpdateResult E j ev c e p s) = device_twin_le i key t s"
  "device_twin_le i key t (report_update E j ev d r tw s) = device_twin_le i key t s"
  by (simp_all add: device_twin_le_def GetDevice_def)

lemma write_update_le:
  assumes "db_works E" and "dt_inv s" and "GetDevice s i = Some d0" and "fmlookup (dv_Twin d0) key = Some t"
    and "dt_db s1 = dt_db s" and "device_twin_le i key t s1"
  shows "device_twin_le i key t (snd (write_update E i r s1))"
proof -
  let ?fs = "map SaveDeviceTwin (dr_Add r) @ map DeleteDeviceTwin (dr_Delete r) @ map UpdateDeviceTwinFields (dr_Update r)"
  obtain e db where e: "retry RetryTimes (transaction (de_db E) ?fs) (dt_db s1) = (e, db)" by force
  show ?thesis
  proof (cases e)
    case None
    with e assms(6) show ?thesis
      by (auto simp: write_update_def DeviceTwinTrans_def device_twin_le_def GetDevice_def)
  next
    case (Some x)
    with retry_transaction [OF e] assms(1,5) have "tables_of (s1\<lparr>dt_db := db\<rparr>) = tables_of s"
      by (simp add: RetryTimes_def db_works_def)
    from reload_le [OF assms(1-4) this] e Some assms(6) show ?thesis
      by (auto simp: write_update_def DeviceTwinTrans_def device_twin_le_iff)
  qed
qed

lemma DealDeviceTwin_le:
  assumes "DealDeviceTwin E i ev msg d s = Ok (e, s')" and "dt_inv s" and "db_works E"
    and "GetDevice s i = Some d0" and "fmlookup (dv_Twin d0) key = Some t" and "twin_room t"
  shows "device_twin_le i key t s'"
proof (cases msg)
  case None
  with assms(1,4,5) show ?thesis by (auto simp: DealDeviceTwin_def Let_def device_twin_le_iff twin_le_def GetDevice_def)
next
  case (Some m)
  obtain r s1 where r: "DealMsgTwin E i m d s = Ok (r, s1)" using assms(1,4) Some by (auto simp: DealDeviceTwin_def bind_iffs)
  then obtain tw where tw: "deal_twins (de_isFloat E) (de_key_now E) i d m (de_ord E (fmdom m)) no_result (dv_Twin d0) = Ok (r, tw)"
    and s1: "s1 = s\<lparr>DeviceList := fmupd i (d0\<lparr>dv_Twin := tw\<rparr>) (DeviceList s)\<rparr>"
    using assms(4) by (auto simp: DealMsgTwin_def bind_iffs)
  have "distinct (de_ord E (fmdom m))" using assms(3) range_orderD [of "de_ord E"] by (simp add: db_works_def)
  from deal_twins_le [OF tw this assms(5,6)] have le: "device_twin_le i key t s1"
    by (auto simp: s1 device_twin_le_iff GetDevice_def)
  have w: "device_twin_le i key t (snd (write_update E i r s1))"
    by (rule write_update_le [OF assms(3,2,4,5) _ le]) (simp add: s1)
  have l: "device_twin_le i key t (snd (SyncDeviceFromSqlite E i s1))"
    unfolding device_twin_le_iff by (rule reload_le [OF assms(3,2,4,5)]) (simp add: s1)
  show ?thesis
    using assms(1,4) Some r w l
    by (auto simp: DealDeviceTwin_def bind_iffs Let_def split: option.splits prod.splits bool.splits if_splits)
qed


lemma DealDeviceTwin_returns:
  assumes "DealMsgTwin E i m d s = Ok (r, s1)" and "GetDevice s i \<noteq> None"
  shows "\<exists>e s'. DealDeviceTwin E i ev (Some m) d s = Ok (e, s')"
  using assms by (auto simp: DealDeviceTwin_def Let_def split: prod.splits option.splits bool.splits)

lemma ex_rest_delete:
  assumes "GetDevice s ''d'' = Some d" and "fmlookup (dv_Twin d) ''k'' = Some t" and "mt_Metadata t = Some ''string''" and "mt_Optional t = Some True"
  shows "\<exists>e s'. DealDeviceTwin ex_twins ''d'' [] (Some (fmupd ''k'' None fmempty)) RestDealType s = Ok (e, s')"
proof -
  have "\<exists>x. dealTwinDelete no_result ''d'' ''k'' t None RestDealType = Ok x"
    using assms(3,4) by (cases "delete_sides t None RestDealType") (auto simp: dealTwinDelete_def delete_wanted_def Let_def)
  then obtain r t' where "dealTwinDelete no_result ''d'' ''k'' t None RestDealType = Ok (r, t')" by auto
  with assms have "\<exists>s1. DealMsgTwin ex_twins ''d'' (fmupd ''k'' None fmempty) RestDealType s = Ok (r, s1)"
    by (simp add: DealMsgTwin_def ex_twins_def deal_twin_def)
  with DealDeviceTwin_returns assms(1) show ?thesis by fastforce
qed


end
