(* ===== verification/Twin_Faults.thy ===== *)
theory Twin_Faults
  imports Twin_Props
begin

text \<open>
  How the device twin module fails: a handler that panics leaves the lock of its device and its share
  of the common lock taken, and a device whose removal the database refused cannot come back.
\<close>

section \<open>Locks of the handlers\<close>

lemma read_device_locks [simp]: "dt_locks_of (snd (read_device E i s)) = dt_locks_of s"
  by (auto simp: read_device_def split: prod.splits result.splits list.splits)

lemma SyncDeviceFromSqlite_locks: "GetDevice s i \<noteq> None \<Longrightarrow> dt_locks_of (snd (SyncDeviceFromSqlite E i s)) = dt_locks_of s"
  by (auto simp: SyncDeviceFromSqlite_def new_mutex_def)

lemma report_locks [simp]:
  "dt_locks_of (dealUpdateResult E i ev c e p s) = dt_locks_of s"
  "dt_locks_of (report_update E i ev d r tw s) = dt_locks_of s"
  by (simp_all add: dealUpdateResult_def report_update_def Let_def dealDocument_def dealDelta_def dealSyncResult_def)

lemma GetDevice_db [simp]: "GetDevice (s\<lparr>dt_db := d\<rparr>) i = GetDevice s i"
  by (simp add: GetDevice_def)

lemma write_update_locks: "GetDevice s i \<noteq> None \<Longrightarrow> dt_locks_of (snd (write_update E i r s)) = dt_locks_of s"
  by (simp add: write_update_def SyncDeviceFromSqlite_locks split: prod.splits option.splits)

lemma DealDeviceTwin_locks:
  assumes "DealDeviceTwin E i ev m d s = Ok (e, s')"
  shows "dt_locks_of s' = dt_locks_of s"
proof (cases "GetDevice s i")
  case None
  with assms show ?thesis by (auto simp: DealDeviceTwin_def Let_def)
next
  case (Some d0)
  show ?thesis
  proof (cases m)
    case None
    with Some assms show ?thesis by (auto simp: DealDeviceTwin_def Let_def)
  next
    case m: (Some x)
    obtain r s1 where r: "DealMsgTwin E i x d s = Ok (r, s1)" using assms Some m by (auto simp: DealDeviceTwin_def bind_iffs)
    then have s1: "GetDevice s1 i \<noteq> None" "dt_locks_of s1 = dt_locks_of s"
      using Some by (auto simp: DealMsgTwin_def bind_iffs GetDevice_def)
    have "dt_locks_of s' = dt_locks_of (snd (SyncDeviceFromSqlite E i s1)) \<or> dt_locks_of s' = dt_locks_of (snd (write_update E i r s1))"
      using assms Some m r
      by (auto simp: DealDeviceTwin_def bind_iffs Let_def split: option.splits prod.splits bool.splits if_splits)
    with s1 SyncDeviceFromSqlite_locks [OF s1(1)] write_update_locks [OF s1(1)] show ?thesis by auto
  qed
qed

lemma DealMsgAttr_state:
  assumes "DealMsgAttr E j m d s = Ok (r, s1)"
  shows "\<exists>x. s1 = s\<lparr>DeviceList := fmupd j x (DeviceList s)\<rparr>"
proof -
  obtain device ra where ra: "GetDevice s j = Some device"
    "deal_attrs j d m (de_ord E (fmdom m)) \<lparr>ar_Add = [], ar_Delete = [], ar_Update = [], ar_Result = fmempty\<rparr> (dv_Attributes device) = Ok ra"
    using assms by (auto simp: DealMsgAttr_def bind_iffs split: option.splits)
  then show ?thesis using assms
    by (cases "if d \<noteq> RestDealType then drop_unnamed (de_ord E) j m ra else ra") (auto simp: DealMsgAttr_def)
qed

lemma UpdateDeviceAttr_locks:
  assumes "UpdateDeviceAttr E i m b d s = Ok s'"
  shows "dt_locks_of s' = dt_locks_of s"
proof (cases "GetDevice s i")
  case (Some d0)
  obtain r s1 where r: "DealMsgAttr E (dv_ID d0) (case m of Some m \<Rightarrow> m | None \<Rightarrow> fmempty) d s = Ok (r, s1)"
    using assms Some by (auto simp: UpdateDeviceAttr_def bind_iffs)
  then have s1: "GetDevice s1 i \<noteq> None" "dt_locks_of s1 = dt_locks_of s"
    using Some DealMsgAttr_state [OF r] by (auto simp: GetDevice_def)
  then show ?thesis
    using assms Some r SyncDeviceFromSqlite_locks [of "s1\<lparr>dt_db := _\<rparr>" i E]
    by (auto simp: UpdateDeviceAttr_def split: option.splits prod.splits if_splits)
qed (use assms in \<open>simp add: UpdateDeviceAttr_def\<close>)

lemma Updated_locks: "Updated E i c s = Ok s' \<Longrightarrow> dt_locks_of s' = dt_locks_of s"
  by (auto simp: Updated_def bind_iffs split: result.splits dest: DealDeviceTwin_locks)

lemma update_state_locks [simp]: "dt_locks_of (update_state E i st s) = dt_locks_of s"
  by (simp add: update_state_def Let_def split: option.splits)

text \<open>The common lock of a state, and a handler that keeps its number of readers.\<close>

abbreviation readers :: "dt_locks \<Rightarrow> nat" where
  "readers l \<equiv> lk_readers (ctx_Mutex l)"

lemma lock_unlock_readers:
  assumes "dtc_Lock i l = Done l1" and "dtc_Unlock i l1 = Done l2"
  shows "readers l2 = readers l"
  using assms by (auto simp: dtc_Lock_def dtc_Unlock_def lk_RLock_def lk_RUnlock_def split: option.splits if_splits)

lemma add_known_lock: "add_known E b d device s = Done s' \<Longrightarrow> dt_locks_of s' = dt_locks_of s"
  by (auto simp: add_known_def under_locks_Done dest!: UpdateDeviceAttr_locks DealDeviceTwin_locks)

lemma add_new_rest_lock: "add_new_rest E b d device s = Done s' \<Longrightarrow> dt_locks_of s' = dt_locks_of s"
  by (auto simp: add_new_rest_def under_locks_Done split: if_splits dest!: UpdateDeviceAttr_locks DealDeviceTwin_locks)

lemma add_device_lock:
  assumes "add_device E b False device s = Done s'"
  shows "ctx_Mutex (dt_locks_of s') = ctx_Mutex (dt_locks_of s)"
  using assms
  by (auto simp: add_device_def Let_def run_next_Done dtc_Unlock_def split: option.splits prod.splits
      dest!: add_known_lock add_new_rest_lock)

lemma add_devices_lock:
  "add_devices E b False ds s = Done s' \<Longrightarrow> ctx_Mutex (dt_locks_of s') = ctx_Mutex (dt_locks_of s)"
  by (induction ds arbitrary: s) (auto simp: run_next_Done dest!: add_device_lock)

lemma removeDevice_lock:
  "removeDevice E ds False s = Done s' \<Longrightarrow> ctx_Mutex (dt_locks_of s') = ctx_Mutex (dt_locks_of s)"
  by (induction ds arbitrary: s) (auto simp: run_next_Done remove_device_def Let_def under_locks_Done split: if_splits)

lemma worker_step_readers:
  assumes "worker_step s s'"
  shows "readers (dt_locks_of s') = readers (dt_locks_of s)"
  using assms
proof (induction rule: worker_step.induct)
  case (membership_detail E msg s e s')
  then show ?case
    by (auto simp: dealMembershipDetail_def run_next_Done dtc_LockAll_def lk_Lock_def dtc_UnlockAll_def lk_Unlock_def addDevice_def
        split: content.splits option.splits if_splits elim!: deferred_UnlockAll.elims
        dest!: add_devices_lock removeDevice_lock)
next
  case (membership_update E msg s e s')
  then show ?case
    by (auto simp: dealMembershipUpdate_def run_next_Done addDevice_def split: content.splits option.splits
        dest!: add_devices_lock removeDevice_lock)
next
  case (twin_update E i msg s e s')
  then show ?case
    by (auto simp: dealTwinUpdate_def handler_iffs split: content.splits dest!: Updated_locks intro: lock_unlock_readers)
next
  case (twin_sync E i msg s e s')
  then show ?case
    by (auto simp: dealTwinSync_def handler_iffs split: content.splits result.splits dest!: DealDeviceTwin_locks intro: lock_unlock_readers)
next
  case (device_state E i msg s e s')
  then show ?case
    by (auto simp: dealDeviceStateUpdate_def run_next_Done Let_def split: content.splits option.splits intro: lock_unlock_readers)
next
  case (device_attr E i msg s e s')
  then show ?case
    by (auto simp: dealDeviceAttrUpdate_def handler_iffs split: content.splits option.splits dest!: UpdateDeviceAttr_locks
        intro: lock_unlock_readers)
qed (auto simp: dealTwinGet_def DealGetTwin_def dealMembershipGet_def dealMembershipGetInner_def split: content.splits)


section \<open>A malformed update\<close>

lemma dies_locks:
  assumes "dealTwinUpdate E i msg s = Dies p l" and "fmlookup (DeviceMutex (dt_locks_of s)) i \<noteq> None"
  shows "fmlookup (DeviceMutex l) i = Some True \<and> readers l = Suc (readers (dt_locks_of s))"
proof -
  obtain c where c: "m_Content msg = BytesContent c" using assms(1) by (auto simp: dealTwinUpdate_def split: content.splits)
  have "dtc_Lock i (dt_locks_of s) = Done l"
    using assms(1) c
    by (cases "dtc_Lock i (dt_locks_of s)"; cases "Updated E i c (set_locks l s)")
      (auto simp: dealTwinUpdate_def dtc_Lock_def dtc_Unlock_def Updated_def bind_iffs
        split: option.splits if_splits result.splits elim!: under_locks.elims run_next.elims)
  with assms(2) show ?thesis by (auto simp: dtc_Lock_def lk_RLock_def split: option.splits if_splits)
qed

lemma taken_blocks:
  assumes "fmlookup (DeviceMutex (dt_locks_of s)) i = Some True" and "m_Content msg = BytesContent c"
  shows "dealTwinUpdate E i msg s = Blocks"
  using assms by (simp add: dealTwinUpdate_def dtc_Lock_def split: option.splits)

lemma readers_block:
  assumes "readers (dt_locks_of s) \<noteq> 0" and "m_Content msg = BytesContent c" and "de_UnmarshalMembershipDetail E c \<noteq> None"
  shows "dealMembershipDetail E msg s = Blocks"
  using assms by (auto simp: dealMembershipDetail_def dtc_LockAll_def lk_Lock_def)


text \<open>The update with an expected value that is missing panics on the twin of the example.\<close>

lemma ex_panic:
  assumes "dealMembershipUpdate ex_twins (ex_msg (BytesContent ''add'')) (dt_start ''n'') = Done (None, s)"
  shows "\<exists>l. dealTwinUpdate ex_twins ''d'' (ex_msg (BytesContent ''x'')) s = Dies NilDereference l \<and>
    fmlookup (DeviceMutex (dt_locks_of s)) ''d'' \<noteq> None"
proof -
  obtain d t where d: "GetDevice s ''d'' = Some d" "fmlookup (dv_Twin d) ''k'' = Some t" "mt_Expected t \<noteq> None"
    "mt_Metadata t = Some ''string''" "dt_locks_of s = \<lparr>DeviceMutex = fmupd ''d'' False fmempty, ctx_Mutex = lk_free\<rparr>"
    using ex_join assms by auto
  obtain v where v: "mt_Expected t = Some v" using d(3) by auto
  have "ValidateTwinKey ''k''" by (simp add: ValidateTwinKey_def twin_char_def)
  with d v show ?thesis
    by (simp add: dealTwinUpdate_def ex_defs FillBody_def NewRawMessage_def dtc_Lock_def lk_RLock_def lk_free_def Updated_def
        UnmarshalDeviceTwinUpdate_def valid_side_def empty_twin_def DealDeviceTwin_def GetDevice_def DealMsgTwin_def deal_twin_def
        dealTwinCompare_def compare_expected_def isTwinValueDiff_def side_of_def Let_def)
qed



section \<open>A removal the database refuses\<close>

lemma transaction_refused:
  assumes "\<And>d. db_tables d = t \<Longrightarrow> \<exists>e d'. exec F f d = (Some e, d')" and "db_tables d = t"
  shows "\<exists>e d'. transaction F (f # fs) d = (Some e, d') \<and> db_tables d' = t"
proof -
  obtain e d' where "exec F f d = (Some e, d')" using assms by blast
  with assms(2) show ?thesis by (auto simp: transaction_def)
qed

lemma retry_refused:
  assumes "\<And>d. db_tables d = t \<Longrightarrow> \<exists>e d'. f d = (Some e, d') \<and> db_tables d' = t" and "db_tables d = t" and "0 < n"
  shows "\<exists>e d'. retry n f d = (Some e, d') \<and> db_tables d' = t"
  using assms(2,3)
proof (induction n arbitrary: d)
  case (Suc n)
  obtain e d' where d': "f d = (Some e, d')" "db_tables d' = t" using assms(1) Suc.prems(1) by blast
  then show ?case using Suc.IH [OF d'(2)] by (cases n) auto
qed simp

lemma known_row_refused:
  assumes "rw_ID row \<in> device_ids t" and "db_tables d = t"
  shows "\<exists>e d'. retry RetryTimes (AddDeviceTrans F [row] as ts) d = (Some e, d') \<and> db_tables d' = t"
  unfolding AddDeviceTrans_def
proof (rule retry_refused [OF _ assms(2)])
  fix d :: twin_db assume "db_tables d = t"
  then show "\<exists>e d'. transaction F (map SaveDevice [row] @ map SaveDeviceAttr as @ map SaveDeviceTwin ts) d = (Some e, d') \<and> db_tables d' = t"
    using assms(1) by (simp, intro transaction_refused) (auto simp: exec_def Let_def SaveDevice_def device_ids_def)
qed (simp add: RetryTimes_def)

lemma failing_delete:
  assumes "\<forall>n. dbe_fails F n"
  shows "db_tables (snd (retry RetryTimes (DeleteDeviceTrans F [i]) d)) = db_tables d"
proof -
  have "\<exists>e d'. retry RetryTimes (DeleteDeviceTrans F [i]) d = (Some e, d') \<and> db_tables d' = db_tables d"
    unfolding DeleteDeviceTrans_def
    by (rule retry_refused [OF _ refl], simp, rule transaction_refused) (use assms in \<open>auto simp: exec_def Let_def RetryTimes_def\<close>)
  then show ?thesis by auto
qed

lemma add_known_row_fatal:
  assumes "GetDevice s (dg_ID device) = None" and "dg_ID device \<in> device_ids (tables_of s)"
  shows "add_device E b False device s = Fatal"
proof -
  let ?row = "\<lparr>rw_ID = dg_ID device, rw_Name = dg_Name device, rw_Description = dg_Description device, rw_State = dg_State device, rw_LastOnline = []\<rparr>"
  obtain e d' where "retry RetryTimes (AddDeviceTrans (de_db E) [?row] [] []) (dt_db s) = (Some e, d')"
    using known_row_refused [of ?row "tables_of s" "dt_db s" "de_db E" "[]" "[]"] assms(2) by auto
  with assms(1) show ?thesis by (simp add: add_device_def Let_def dtc_Unlock_def)
qed

text \<open>
  C29: When the database refuses the removal of a device, its return ends the process. The removal
  drops the device from memory all the same; when the cloud adds a device with this identifier
  again, the insert meets the old row, and the handler gives back a mutex it has not taken,
  which Go does not recover from.
\<close>

theorem refused_removal_ends_the_process:
  assumes "dt_step\<^sup>*\<^sup>* (dt_start node) s" and "GetDevice s i = Some d" and "\<forall>n. dbe_fails (de_db E1) n"
    and "m_Content m1 = BytesContent c1" and "de_UnmarshalMembershipUpdate E1 c1 = Some (b1, [], [gone])" and "dg_ID gone = i"
    and "marshal_device gone = Ok gone'"
    and "m_Content m2 = BytesContent c2" and "de_UnmarshalMembershipUpdate E2 c2 = Some (b2, back # adds, removes)" and "dg_ID back = i"
  shows "\<exists>s1. dealMembershipUpdate E1 m1 s = Done (None, s1) \<and> dealMembershipUpdate E2 m2 s1 = Fatal"
proof -
  have "i \<in> device_ids (tables_of s)" using dt_reachable_inv [OF assms(1)] assms(2) by (auto simp: dt_inv_def device_ok_def)
  then obtain s1 where s1: "removeDevice E1 [gone] False s = Done s1" "GetDevice s1 i = None" "i \<in> device_ids (tables_of s1)"
    using assms(2,6,7) failing_delete [OF assms(3), of i "dt_db s"]
    by (auto simp: remove_device_def Let_def MarshalMembershipUpdate_def GetDevice_def)
  have "add_device E2 (\<lparr>EventID = EventID b2, Timestamp = 0\<rparr>\<lparr>EventID := []\<rparr>) False back s1 = Fatal"
    by (rule add_known_row_fatal) (use s1(2,3) assms(10) in auto)
  then have "dealMembershipUpdate E2 m2 s1 = Fatal" using assms(8,9) by (simp add: dealMembershipUpdate_def addDevice_def)
  moreover have "dealMembershipUpdate E1 m1 s = Done (None, s1)"
    using assms(4,5) s1(1) by (simp add: dealMembershipUpdate_def addDevice_def)
  ultimately show ?thesis by blast
qed

theorem refused_removal_ends_the_process_witness:
  "\<exists>s s1. dt_step\<^sup>*\<^sup>* (dt_start ''n'') s \<and>
     dealMembershipUpdate (ex_twins\<lparr>de_db := (de_db ex_twins)\<lparr>dbe_fails := \<lambda>_. True\<rparr>\<rparr>) (ex_msg (BytesContent ''remove'')) s = Done (None, s1) \<and>
     dealMembershipUpdate ex_twins (ex_msg (BytesContent ''add'')) s1 = Fatal"
proof -
  obtain s d where s: "dealMembershipUpdate ex_twins (ex_msg (BytesContent ''add'')) (dt_start ''n'') = Done (None, s)"
    "GetDevice s ''d'' = Some d" using ex_join by blast
  obtain gone' where "marshal_device ex_device = Ok gone'" by (simp add: marshal_device_def ex_device_def)
  then have "\<exists>s1. dealMembershipUpdate (ex_twins\<lparr>de_db := (de_db ex_twins)\<lparr>dbe_fails := \<lambda>_. True\<rparr>\<rparr>) (ex_msg (BytesContent ''remove'')) s = Done (None, s1) \<and>
     dealMembershipUpdate ex_twins (ex_msg (BytesContent ''add'')) s1 = Fatal"
    by (intro refused_removal_ends_the_process [OF ex_step [OF s(1)] s(2), of _ _ "''remove''" ex_base ex_device gone' _ "''add''" _ ex_base ex_device "[]" "[]"])
      (simp_all add: ex_msg_def FillBody_def ex_twins_def ex_device_def)
  with ex_step [OF s(1)] show ?thesis by blast
qed

end
