(* ===== verification/Twin_Messages.thy ===== *)
theory Twin_Messages
  imports Twin_Comm
begin

text \<open>
  Properties of the messages of the device twin module: which topics of the bus find the handler of
  their device, and that what goes to the cloud is repeated until the cloud confirms it.
\<close>

section \<open>Topics\<close>

text \<open>The index is where the first occurrence begins.\<close>

lemma strings_Index_le: "strings_Index (a @ sub @ b) sub \<le> length a"
proof (induction a)
  case Nil
  then show ?case by (cases "sub @ b") (auto simp: strings_HasPrefix_iff dest: sym)
qed simp

lemma strings_Index_at: "strings_Contains s sub \<Longrightarrow> \<exists>b. s = take (strings_Index s sub) s @ sub @ b"
  by (induction s) (auto simp: strings_HasPrefix_iff)

lemma index_after_separator:
  assumes "sep \<notin> set sub" and "\<not> strings_Contains p sub" and "p = q @ [sep]"
  shows "strings_Index (p @ sub @ b) sub = length p"
proof (rule antisym [OF strings_Index_le], rule ccontr)
  let ?s = "p @ sub @ b" let ?i = "strings_Index ?s sub"
  assume "\<not> length p \<le> ?i"
  then have i: "?i < length p" by simp
  have "strings_Contains ?s sub" by (auto simp: strings_Contains_iff)
  then obtain r where r: "?s = take ?i ?s @ sub @ r" using strings_Index_at by blast
  show False
  proof (cases "?i + length sub \<le> length p")
    case True
    have "p = take (length p) (take ?i ?s @ sub @ r)" using r by (metis append_eq_conv_conj)
    also have "\<dots> = take ?i ?s @ sub @ take (length p - ?i - length sub) r" using i True by (simp add: min_def)
    finally show False using assms(2) unfolding strings_Contains_iff by blast
  next
    case False
    with i assms(3) have k: "length q - ?i < length sub" "?i \<le> length q" by simp_all
    have "sub ! (length q - ?i) = (take ?i ?s @ sub @ r) ! length q" using k i by (simp add: nth_append)
    also have "\<dots> = sep" unfolding r [symmetric] using assms(3) by (simp add: nth_append)
    finally show False using assms(1) k(1) by (metis nth_mem)
  qed
qed

lemma EventActionMap_prefix: "EventActionMap p q = Some v \<Longrightarrow> p = MemETPrefix \<or> p = DeviceETPrefix"
  by (auto simp: EventActionMap_def split: if_splits)

text \<open>A piece of a known prefix is not a prefix of its own.\<close>

lemma EventActionMap_short:
  assumes "p = MemETPrefix \<or> p = DeviceETPrefix" and "n < length p"
  shows "EventActionMap (take n p) q = None"
proof -
  have l: "length MemETPrefix = 16" "length DeviceETPrefix = 18" by (simp_all add: MemETPrefix_def DeviceETPrefix_def)
  have m: "take 16 DeviceETPrefix \<noteq> MemETPrefix" by (simp add: MemETPrefix_def DeviceETPrefix_def)
  have n: "length (take n p) = n" using assms(2) by simp
  have "take n p \<noteq> MemETPrefix"
  proof
    assume t: "take n p = MemETPrefix"
    with n l have "n = 16" by simp
    with t m assms l show False by auto
  qed
  moreover have "take n p \<noteq> DeviceETPrefix"
  proof
    assume "take n p = DeviceETPrefix"
    with n l have "n = 18" by simp
    with assms l show False by auto
  qed
  ultimately have "take n p \<noteq> MemETPrefix \<and> take n p \<noteq> DeviceETPrefix" ..
  then show ?thesis by (simp add: EventActionMap_def)
qed

lemma EventActionMap_suffix: "EventActionMap p q = Some v \<Longrightarrow> \<exists>q'. q = CHR ''/'' # q'"
  by (auto simp: EventActionMap_def split: if_splits)

lemma known_prefix_split:
  assumes "p = MemETPrefix \<or> p = DeviceETPrefix" and "CHR ''/'' \<notin> set i"
  shows "\<exists>a b c. strings_Split (CHR ''/'') (p @ i @ CHR ''/'' # q) = [a, b, c, i] @ strings_Split (CHR ''/'') q"
  using assms by (auto simp: MemETPrefix_def DeviceETPrefix_def strings_Split_append_sep)

lemma classify_topic_known:
  assumes "EventActionMap p q = Some v" and "CHR ''/'' \<notin> set i"
  shows "classify_topic (p @ i @ q) = Ok (if strings_Contains p i then None else Some (i, v))"
proof -
  let ?t = "p @ i @ q" and ?n = "strings_Index (p @ i @ q) i"
  note known = EventActionMap_prefix [OF assms(1)]
  obtain q' where q': "q = CHR ''/'' # q'" using EventActionMap_suffix [OF assms(1)] by blast
  obtain a b c where "strings_Split (CHR ''/'') ?t = [a, b, c, i] @ strings_Split (CHR ''/'') q'"
    using known_prefix_split [OF known assms(2)] q' by blast
  then have c: "classify_topic ?t = (case EventActionMap (take ?n ?t) (drop (?n + length i) ?t) of Some v \<Rightarrow> Ok (Some (i, v)) | None \<Rightarrow> Ok None)"
    by (cases "strings_Split (CHR ''/'') q'") (simp_all add: classify_topic_def Let_def)
  show ?thesis
  proof (cases "strings_Contains p i")
    case True
    then obtain x y where p: "p = x @ i @ y" by (auto simp: strings_Contains_iff)
    have "?n < length p"
    proof (cases "i = []")
      case True
      with known show ?thesis by (cases p) (auto simp: MemETPrefix_def DeviceETPrefix_def)
    next
      case False
      then have "length x < length p" by (simp add: p)
      moreover have "?n \<le> length x" using strings_Index_le [of x i "y @ i @ q"] by (simp add: p)
      ultimately show ?thesis by (rule le_less_trans [rotated])
    qed
    with EventActionMap_short [OF known this] True c show ?thesis by simp
  next
    case False
    have "p = butlast p @ [CHR ''/'']" using known by (auto simp: MemETPrefix_def DeviceETPrefix_def)
    with index_after_separator [OF assms(2) False this, of q] c assms(1) False show ?thesis by simp
  qed
qed

text \<open>
  C27: A message of the MQTT broker whose topic is one of the topics of a device or of a node finds
  the handler of the topic, with the identifier of the device, exactly when the identifier does
  not occur in the prefix of the topic. A device whose identifier does, such as \<open>dev\<close> or \<open>event\<close>,
  gets none of its messages.
\<close>

theorem topic_finds_its_device_iff:
  assumes "GetSource msg = ''bus''" and "b64url_DecodeString (GetResource msg) = Some (prefix @ deviceID @ suffix)"
    and "m_Content msg = StringContent text" and "EventActionMap prefix suffix = Some action" and "CHR ''/'' \<notin> set deviceID"
  shows "classifyMsg msg =
    Ok (if strings_Contains prefix deviceID then None
        else Some \<lparr>dtm_Msg = msg\<lparr>m_Content := BytesContent text\<rparr>, dtm_Identity = deviceID, dtm_Action = action\<rparr>)"
  using assms classify_topic_known [OF assms(4,5)] by (simp add: classifyMsg_def classify_bus_def)

text \<open>\<open>JGh3L2V2ZW50cy9kZXZpY2Uvc2Vuc29yL3R3aW4vdXBkYXRl\<close> is \<open>$hw/events/device/sensor/twin/update\<close>.\<close>

definition ex_topic :: Message where
  "ex_topic = FillBody (StringContent ''{}'') (BuildRouter ''bus'' ''twin'' ''JGh3L2V2ZW50cy9kZXZpY2Uvc2Vuc29yL3R3aW4vdXBkYXRl'' ''response'' NewRawMessage)"

lemma ex_topic_decodes: "b64url_DecodeString (GetResource ex_topic) = Some (DeviceETPrefix @ ''sensor'' @ ''/twin/update'')"
  by code_simp

theorem topic_finds_its_device_iff_witness:
  "classifyMsg ex_topic = Ok (Some \<lparr>dtm_Msg = ex_topic\<lparr>m_Content := BytesContent ''{}''\<rparr>, dtm_Identity = ''sensor'', dtm_Action = ''TwinUpdate''\<rparr>)"
proof -
  have "GetSource ex_topic = ''bus''" "m_Content ex_topic = StringContent ''{}''" "EventActionMap DeviceETPrefix ''/twin/update'' = Some ''TwinUpdate''"
    by code_simp+
  from topic_finds_its_device_iff [OF this(1) ex_topic_decodes this(2,3)] show ?thesis by (simp add: DeviceETPrefix_def)
qed


section \<open>Messages to the cloud\<close>

text \<open>What the communication worker is given, one after the other.\<close>

datatype comm_event =
  ToEdge Message
| ToCloud Message
| Confirmed Message
| LifeCycleEvent string int string Message
| Tick "string order"

fun comm_handle :: "comm_event \<Rightarrow> comm_state \<Rightarrow> comm_state" where
  "comm_handle (ToEdge m) c = dealSendToEdge m c"
| "comm_handle (ToCloud m) c = dealSendToCloud m c"
| "comm_handle (Confirmed m) c = dealConfirm m c"
| "comm_handle (LifeCycleEvent uuid now detail m) c = dealLifeCycle uuid now detail m c"
| "comm_handle (Tick ord) c = checkConfirm ord c"

definition comm_start :: comm_state where
  "comm_start = \<lparr>cs_Connected = False, cs_ConfirmMap = fmempty, cs_hub = [], cs_eventbus = []\<rparr>"

text \<open>Messages wait under their own identifiers.\<close>

definition own_ids :: "comm_state \<Rightarrow> bool" where
  "own_ids c \<longleftrightarrow> (\<forall>k m. fmlookup (cs_ConfirmMap c) k = Some m \<longrightarrow> GetID m = k)"

abbreviation send_again :: "string \<Rightarrow> comm_state \<Rightarrow> comm_state" where
  "send_again key c \<equiv> (case fmlookup (cs_ConfirmMap c) key of Some msg \<Rightarrow> dealSendToCloud msg c | None \<Rightarrow> c)"

lemma send_again_waiting:
  assumes "own_ids c"
  shows "cs_ConfirmMap (send_again k c) = cs_ConfirmMap c" "cs_Connected (send_again k c) = cs_Connected c"
    "cs_eventbus (send_again k c) = cs_eventbus c"
    "cs_hub (send_again k c) = cs_hub c @ (case fmlookup (cs_ConfirmMap c) k of Some m \<Rightarrow> if cs_Connected c then [m] else [] | None \<Rightarrow> [])"
proof -
  have "fmupd k m (cs_ConfirmMap c) = cs_ConfirmMap c" if "fmlookup (cs_ConfirmMap c) k = Some m" for m
    using that by (intro fmap_ext) auto
  with assms show "cs_ConfirmMap (send_again k c) = cs_ConfirmMap c" "cs_Connected (send_again k c) = cs_Connected c"
    "cs_eventbus (send_again k c) = cs_eventbus c"
    "cs_hub (send_again k c) = cs_hub c @ (case fmlookup (cs_ConfirmMap c) k of Some m \<Rightarrow> if cs_Connected c then [m] else [] | None \<Rightarrow> [])"
    by (auto simp: own_ids_def dealSendToCloud_def split: option.splits)
qed

lemma send_all_again:
  assumes "own_ids c" and "set keys \<subseteq> fset (fmdom (cs_ConfirmMap c))"
  shows "fold send_again keys c = c\<lparr>cs_hub := cs_hub c @ (if cs_Connected c then map (\<lambda>k. the (fmlookup (cs_ConfirmMap c) k)) keys else [])\<rparr>"
  using assms
proof (induction keys arbitrary: c)
  case (Cons k keys)
  note w = send_again_waiting [OF Cons.prems(1), of k]
  have o: "own_ids (send_again k c)" using Cons.prems(1) by (simp only: own_ids_def w)
  obtain m where m: "fmlookup (cs_ConfirmMap c) k = Some m" using Cons.prems(2) by (auto simp: fmlookup_dom_iff)
  have eq: "send_again k c = c\<lparr>cs_hub := cs_hub c @ (if cs_Connected c then [m] else [])\<rparr>"
    using w m by (intro comm_state.equality) simp_all
  from Cons.IH [OF o] Cons.prems(2) show ?case by (simp only: fold.simps o_apply eq) (simp add: m)
qed simp

lemma checkConfirm_eq:
  assumes "own_ids c" and "range_order ord"
  shows "checkConfirm ord c = c\<lparr>cs_hub := cs_hub c @
    (if cs_Connected c then map (\<lambda>k. the (fmlookup (cs_ConfirmMap c) k)) (ord (fmdom (cs_ConfirmMap c))) else [])\<rparr>"
  unfolding checkConfirm_def using range_orderD [OF assms(2)] by (intro send_all_again [OF assms(1)]) simp

fun ranges :: "comm_event \<Rightarrow> bool" where
  "ranges (Tick ord) = range_order ord"
| "ranges _ = True"

text \<open>Events that neither confirm a message nor bring another one with its identifier.\<close>

fun leaves_waiting :: "Message \<Rightarrow> comm_event \<Rightarrow> bool" where
  "leaves_waiting m (ToCloud m') = (GetID m' = GetID m \<longrightarrow> m' = m)"
| "leaves_waiting m (Confirmed x) = (GetParentID x \<noteq> GetID m)"
| "leaves_waiting m (LifeCycleEvent uuid now detail x) = (uuid \<noteq> GetID m)"
| "leaves_waiting m _ = True"

lemma detail_id [simp]: "GetID (FillBody b (BuildRouter src grp res opr (NewMessage uuid now parent))) = uuid"
  by (simp add: GetID_def FillBody_def BuildRouter_def SetResourceOperation_def SetRoute_def NewMessage_def BuildHeader_def)

lemma comm_handle_map:
  assumes "own_ids c" and "ranges e"
  obtains "cs_ConfirmMap (comm_handle e c) = cs_ConfirmMap c"
  | m' where "e = ToCloud m'" "cs_ConfirmMap (comm_handle e c) = fmupd (GetID m') m' (cs_ConfirmMap c)"
  | x where "e = Confirmed x" "cs_ConfirmMap (comm_handle e c) = fmdrop (GetParentID x) (cs_ConfirmMap c)"
  | uuid now detail x m' where "e = LifeCycleEvent uuid now detail x" "GetID m' = uuid"
      "cs_ConfirmMap (comm_handle e c) = fmupd uuid m' (cs_ConfirmMap c)"
proof (cases e)
  case (LifeCycleEvent uuid now detail x)
  then have "cs_ConfirmMap (comm_handle e c) = cs_ConfirmMap c \<or>
      (\<exists>m'. GetID m' = uuid \<and> cs_ConfirmMap (comm_handle e c) = fmupd uuid m' (cs_ConfirmMap c))"
    by (auto simp: dealLifeCycle_def detailRequest_def Let_def split: content.splits intro: detail_id)
  with LifeCycleEvent that(1,4) show ?thesis by blast
next
  case (ToCloud m')
  then have "cs_ConfirmMap (comm_handle e c) = cs_ConfirmMap c \<or> cs_ConfirmMap (comm_handle e c) = fmupd (GetID m') m' (cs_ConfirmMap c)"
    by (simp add: dealSendToCloud_def)
  with ToCloud that(1,2) show ?thesis by blast
next
  case (Tick ord)
  with checkConfirm_eq [OF assms(1), of ord] assms(2) that(1) show ?thesis by simp
qed (use that in \<open>auto simp: dealSendToEdge_def dealConfirm_def\<close>)

lemma comm_handle_own_ids:
  assumes "own_ids c" and "ranges e"
  shows "own_ids (comm_handle e c)"
  using assms by (rule comm_handle_map) (use assms(1) in \<open>auto simp: own_ids_def split: if_splits\<close>)

lemma comm_handle_waiting:
  assumes "own_ids c" and "ranges e" and "leaves_waiting m e" and "fmlookup (cs_ConfirmMap c) (GetID m) = Some m"
  shows "fmlookup (cs_ConfirmMap (comm_handle e c)) (GetID m) = Some m"
  using assms(1,2) by (rule comm_handle_map) (use assms(3,4) in auto)

lemma comm_run_own_ids: "own_ids c \<Longrightarrow> list_all ranges es \<Longrightarrow> own_ids (fold comm_handle es c)"
  by (induction es arbitrary: c) (auto intro: comm_handle_own_ids)

lemma comm_run_waiting:
  "own_ids c \<Longrightarrow> list_all ranges es \<Longrightarrow> list_all (leaves_waiting m) es \<Longrightarrow> fmlookup (cs_ConfirmMap c) (GetID m) = Some m \<Longrightarrow>
     fmlookup (cs_ConfirmMap (fold comm_handle es c)) (GetID m) = Some m"
  by (induction es arbitrary: c) (auto intro: comm_handle_own_ids comm_handle_waiting)

lemma count_list_distinct: "distinct xs \<Longrightarrow> count_list xs x = (if x \<in> set xs then 1 else 0)"
  by (induction xs) auto

text \<open>What a check sends, of one message.\<close>

lemma check_sends:
  assumes "own_ids c" and "range_order ord" and "cs_Connected c"
  shows "cs_hub (checkConfirm ord c) = cs_hub c @ drop (length (cs_hub c)) (cs_hub (checkConfirm ord c)) \<and>
    count_list (drop (length (cs_hub c)) (cs_hub (checkConfirm ord c))) m =
      (if fmlookup (cs_ConfirmMap c) (GetID m) = Some m then 1 else 0)"
proof -
  let ?ks = "ord (fmdom (cs_ConfirmMap c))" and ?at = "\<lambda>k. the (fmlookup (cs_ConfirmMap c) k)"
  have ks: "distinct ?ks" "set ?ks = fset (fmdom (cs_ConfirmMap c))" using range_orderD [OF assms(2)] by simp_all
  have id: "GetID (?at k) = k" if "k \<in> set ?ks" for k
    using that assms(1) unfolding ks own_ids_def by (auto simp: fmlookup_dom_iff)
  then have "inj_on ?at (set ?ks)" by (rule inj_on_inverseI)
  with ks(1) have "distinct (map ?at ?ks)" by (simp add: distinct_map)
  moreover have "m \<in> set (map ?at ?ks) \<longleftrightarrow> fmlookup (cs_ConfirmMap c) (GetID m) = Some m"
  proof
    assume "m \<in> set (map ?at ?ks)"
    then obtain k where "k \<in> set ?ks" "m = ?at k" by auto
    with id [of k] ks(2) show "fmlookup (cs_ConfirmMap c) (GetID m) = Some m" by (auto simp: fmlookup_dom_iff)
  next
    assume l: "fmlookup (cs_ConfirmMap c) (GetID m) = Some m"
    then have "GetID m \<in> set ?ks" unfolding ks(2) by (rule fmdomI)
    with l show "m \<in> set (map ?at ?ks)" by force
  qed
  ultimately show ?thesis using assms(3) by (simp add: checkConfirm_eq [OF assms(1,2)] count_list_distinct)
qed

lemma dealConfirm_waiting [simp]: "fmlookup (cs_ConfirmMap (dealConfirm x c)) (GetParentID x) = None"
    "cs_Connected (dealConfirm x c) = cs_Connected c" "cs_hub (dealConfirm x c) = cs_hub c"
  by (simp_all add: dealConfirm_def)

text \<open>
  C22: A report the device twin module sends to the cloud while it is connected is handed to the hub,
  and every later check while it is connected hands it over exactly once more, also after the
  connection was lost and came back, as long as no confirmation of it arrived. After its
  confirmation the checks no longer send it. No other message is assumed to have its identifier.
\<close>

theorem report_is_repeated_until_confirmed:
  assumes "c = fold comm_handle before comm_start" and "list_all ranges before" and "cs_Connected c"
    and "c' = fold comm_handle after (dealSendToCloud m c)" and "list_all ranges after" and "list_all (leaves_waiting m) after"
    and "cs_Connected c'" and "range_order ord" and "GetParentID x = GetID m"
  shows "cs_hub (dealSendToCloud m c) = cs_hub c @ [m] \<and>
    count_list (drop (length (cs_hub c')) (cs_hub (checkConfirm ord c'))) m = 1 \<and>
    count_list (drop (length (cs_hub c')) (cs_hub (checkConfirm ord (dealConfirm x c')))) m = 0"
proof -
  have "own_ids c" unfolding assms(1) by (rule comm_run_own_ids) (simp_all add: own_ids_def comm_start_def assms(2))
  then have o: "own_ids (dealSendToCloud m c)" using comm_handle_own_ids [of c "ToCloud m"] by simp
  have "fmlookup (cs_ConfirmMap (dealSendToCloud m c)) (GetID m) = Some m" using assms(3) by (simp add: dealSendToCloud_def)
  from comm_run_waiting [OF o assms(5,6) this] have w: "fmlookup (cs_ConfirmMap c') (GetID m) = Some m" by (simp add: assms(4))
  have o': "own_ids c'" unfolding assms(4) using o assms(5) by (rule comm_run_own_ids)
  have "own_ids (dealConfirm x c')" using comm_handle_own_ids [OF o', of "Confirmed x"] by simp
  from check_sends [OF o' assms(8,7), of m] check_sends [OF this assms(8), of m] dealConfirm_waiting(1) [of x c'] w assms(3,7,9)
  show ?thesis by (simp add: dealSendToCloud_def)
qed

definition ex_life :: "string \<Rightarrow> string \<Rightarrow> comm_event" where
  "ex_life uuid state = LifeCycleEvent uuid 0 [] (FillBody (StringContent state) NewRawMessage)"

theorem report_is_repeated_until_confirmed_witness:
  "let m = NewMessage ''r'' 0 []; c = fold comm_handle [ex_life ''u'' ''cloud_connected''] comm_start;
       c' = fold comm_handle [ex_life ''v'' ''cloud_disconnected'', ex_life ''w'' ''cloud_connected''] (dealSendToCloud m c)
   in cs_Connected c' \<and> count_list (drop (length (cs_hub c')) (cs_hub (checkConfirm sorted_list_of_fset c'))) m = 1"
proof -
  let ?m = "NewMessage ''r'' 0 []" let ?c = "fold comm_handle [ex_life ''u'' ''cloud_connected''] comm_start"
  let ?c' = "fold comm_handle [ex_life ''v'' ''cloud_disconnected'', ex_life ''w'' ''cloud_connected''] (dealSendToCloud ?m ?c)"
  have id: "GetID ?m = ''r''" "GetParentID (NewMessage ''x'' 0 ''r'') = ''r''"
    by (simp_all add: GetID_def GetParentID_def NewMessage_def BuildHeader_def)
  have connected: "cs_Connected ?c" "cs_Connected ?c'"
    by (simp_all add: ex_life_def comm_start_def dealLifeCycle_def dealSendToCloud_def FillBody_def)
  have after: "list_all (leaves_waiting ?m) [ex_life ''v'' ''cloud_disconnected'', ex_life ''w'' ''cloud_connected'']"
    by (simp add: ex_life_def id)
  from report_is_repeated_until_confirmed [OF refl _ connected(1) refl _ after connected(2) range_order_sorted, of "NewMessage ''x'' 0 ''r''"]
    connected(2) id show ?thesis by (simp add: Let_def ex_life_def)
qed

end
