(* ===== verification/Meta_Manager.thy ===== *)
theory Meta_Manager
  imports Beehive_Message
begin

text \<open>
  The meta manager of the edge (\<open>edge/pkg/metamanager/process.go\<close>, \<open>edge/pkg/metamanager/dao/meta.go\<close>):
  it keeps the metadata the cloud sends in a table, hands them on to edged or the mesh, answers
  queries from the table or from the cloud, and reports the status of pods. The ORM and its
  failures, the JSON of Kubernetes objects, answers of other modules and the store of the meta
  server are arguments.
\<close>

section \<open>The table\<close>

record Meta =
  md_Key :: string
  md_Type :: string
  md_Value :: string

text \<open>
  A namespace, a name and the JSON text of an object of a list, or no text where it cannot be
  encoded.
\<close>

type_synonym listed = "string \<times> string \<times> string option"

text \<open>
  The arguments: the error text of a statement that fails, by the number of the statement;
  identifiers and times of new messages; whether the mesh is a module of the process; the group that
  leads to the cloud; the answer of a synchronous call, or the text of its error; a panic of the
  store of the meta server; and the order of \<open>range\<close>.
\<close>

record meta_env =
  me_fails :: "nat \<Rightarrow> string option"
  me_uuid :: "nat \<Rightarrow> string"
  me_now :: "nat \<Rightarrow> int"
  me_mesh :: bool
  me_ContextSendGroup :: string
  me_UnmarshalServices :: "string \<Rightarrow> (string, listed list) sum"
  me_UnmarshalEndpoints :: "string \<Rightarrow> (string, listed list) sum"
  me_UnmarshalStatus :: "string \<Rightarrow> string option"
  me_SendSync :: "string \<Rightarrow> Message \<Rightarrow> (string, Message) sum"
  me_Inject :: "Message list \<Rightarrow> Message \<Rightarrow> panic option"
  me_ord :: "string order"

datatype destination = ToModule string | ToGroup string | Response

text \<open>A message, or one whose content is a slice of strings or of JSON values.\<close>

datatype out = Plain Message | Strings Message "string list" | Values Message "string list"

record meta_state =
  mm_Connected :: bool
  mm_rows :: "Meta list"
  mm_statements :: nat
  mm_injected :: "Message list"
  mm_sent :: "(destination \<times> out) list"
  mm_queries :: "Message list"

text \<open>A statement on the table. It fails by itself or because the database does.\<close>

definition run_statement ::
    "meta_env \<Rightarrow> (Meta list \<Rightarrow> (string, Meta list) sum) \<Rightarrow> meta_state \<Rightarrow> string option \<times> meta_state" where
  "run_statement E f s =
     (let s' = s\<lparr>mm_statements := Suc (mm_statements s)\<rparr>
      in case me_fails E (mm_statements s) of
           Some e \<Rightarrow> (Some e, s')
         | None \<Rightarrow> (case f (mm_rows s) of Inl e \<Rightarrow> (Some e, s') | Inr rows \<Rightarrow> (None, s'\<lparr>mm_rows := rows\<rparr>)))"

definition run_query :: "meta_env \<Rightarrow> (Meta \<Rightarrow> bool) \<Rightarrow> meta_state \<Rightarrow> (string, Meta list) sum \<times> meta_state" where
  "run_query E P s =
     (case me_fails E (mm_statements s) of Some e \<Rightarrow> Inl e | None \<Rightarrow> Inr (filter P (mm_rows s)),
      s\<lparr>mm_statements := Suc (mm_statements s)\<rparr>)"

definition strings_HasSuffix :: "string \<Rightarrow> string \<Rightarrow> bool" where
  "strings_HasSuffix s suffix = strings_HasPrefix (rev s) (rev suffix)"

definition IsNonUniqueNameError :: "string \<Rightarrow> bool" where
  "IsNonUniqueNameError str \<longleftrightarrow>
     strings_HasSuffix str ''are not unique'' \<or> strings_Contains str ''UNIQUE constraint failed'' \<or> strings_HasSuffix str ''constraint failed''"

text \<open>The key is the primary key of the table.\<close>

definition insert_row :: "Meta \<Rightarrow> Meta list \<Rightarrow> (string, Meta list) sum" where
  "insert_row meta rows =
     (if md_Key meta \<in> set (map md_Key rows) then Inl ''UNIQUE constraint failed: meta.key'' else Inr (rows @ [meta]))"

definition SaveMeta :: "meta_env \<Rightarrow> Meta \<Rightarrow> meta_state \<Rightarrow> string option \<times> meta_state" where
  "SaveMeta E meta s =
     (case run_statement E (insert_row meta) s of
        (None, s') \<Rightarrow> (None, s')
      | (Some e, s') \<Rightarrow> if IsNonUniqueNameError e then (None, s') else (Some e, s'))"

definition DeleteMetaByKey :: "meta_env \<Rightarrow> string \<Rightarrow> meta_state \<Rightarrow> string option \<times> meta_state" where
  "DeleteMetaByKey E key = run_statement E (\<lambda>rows. Inr (filter (\<lambda>row. md_Key row \<noteq> key) rows))"

text \<open>The row that is replaced goes, and the new one comes.\<close>

definition InsertOrUpdate :: "meta_env \<Rightarrow> Meta \<Rightarrow> meta_state \<Rightarrow> string option \<times> meta_state" where
  "InsertOrUpdate E meta = run_statement E (\<lambda>rows. Inr (filter (\<lambda>row. md_Key row \<noteq> md_Key meta) rows @ [meta]))"

definition QueryAllMeta :: "meta_env \<Rightarrow> (Meta \<Rightarrow> string) \<Rightarrow> string \<Rightarrow> meta_state \<Rightarrow> (string, Meta list) sum \<times> meta_state" where
  "QueryAllMeta E col condition = run_query E (\<lambda>row. col row = condition)"

definition QueryMeta :: "meta_env \<Rightarrow> (Meta \<Rightarrow> string) \<Rightarrow> string \<Rightarrow> meta_state \<Rightarrow> (string, string list) sum \<times> meta_state" where
  "QueryMeta E col condition s =
     (case run_query E (\<lambda>row. col row = condition) s of
        (Inl e, s') \<Rightarrow> (Inl e, s')
      | (Inr metas, s') \<Rightarrow> (Inr (map md_Value metas), s'))"


section \<open>Sending\<close>

definition mm_send :: "destination \<Rightarrow> out \<Rightarrow> meta_state \<Rightarrow> meta_state" where
  "mm_send d m s = s\<lparr>mm_sent := mm_sent s @ [(d, m)]\<rparr>"

definition IsSync :: "Message \<Rightarrow> bool" where
  "IsSync msg = mh_Sync (m_Header msg)"

definition sendToEdged :: "out \<Rightarrow> bool \<Rightarrow> meta_state \<Rightarrow> meta_state" where
  "sendToEdged message sync = mm_send (if sync then Response else ToModule ''edged'') message"

definition sendToEdgeMesh :: "meta_env \<Rightarrow> out \<Rightarrow> bool \<Rightarrow> meta_state \<Rightarrow> meta_state" where
  "sendToEdgeMesh E message sync s =
     (if \<not> me_mesh E then s else mm_send (if sync then Response else ToModule ''edgemesh'') message s)"

definition sendToCloud :: "meta_env \<Rightarrow> out \<Rightarrow> meta_state \<Rightarrow> meta_state" where
  "sendToCloud E = mm_send (ToGroup (me_ContextSendGroup E))"

text \<open>New messages are numbered by the messages sent before them.\<close>

definition mm_resp :: "meta_env \<Rightarrow> meta_state \<Rightarrow> Message \<Rightarrow> content \<Rightarrow> Message" where
  "mm_resp E s = NewRespByMessage (me_uuid E (length (mm_sent s))) (me_now E (length (mm_sent s)))"

definition mm_ok :: "meta_env \<Rightarrow> Message \<Rightarrow> meta_state \<Rightarrow> out" where
  "mm_ok E message s = Plain (mm_resp E s message (StringContent ''OK''))"

definition feedbackError :: "meta_env \<Rightarrow> string \<Rightarrow> string \<Rightarrow> Message \<Rightarrow> meta_state \<Rightarrow> meta_state" where
  "feedbackError E err info request s =
     (let n = length (mm_sent s);
          errResponse = Plain (SetRoute ''metaManager'' (GetGroup request) (NewErrorMessage (me_uuid E n) (me_now E n) request (info @ '': '' @ err)))
      in if GetSource request = ''edged'' then sendToEdged errResponse (IsSync request) s
         else sendToCloud E errResponse s)"

text \<open>The key, the type and the identifier of a resource \<open><namespace>/<type>[/<id>]\<close>.\<close>

definition mm_parseResource :: "string \<Rightarrow> string \<times> string \<times> string" where
  "mm_parseResource resource =
     (case strings_Split (CHR ''/'') resource of
        [_, resType] \<Rightarrow> (resource, resType, [])
      | [_, resType, resID] \<Rightarrow> (resource, resType, resID)
      | _ \<Rightarrow> (resource, [], []))"

definition requireRemoteQuery :: "string \<Rightarrow> bool" where
  "requireRemoteQuery resType \<longleftrightarrow>
     resType \<in> {''configmap'', ''secret'', ''endpoints'', ''persistentvolume'', ''persistentvolumeclaim'', ''volumeattachment'', ''node''}"

definition isEdgeMeshResource :: "string \<Rightarrow> bool" where
  "isEdgeMeshResource resType \<longleftrightarrow> resType \<in> {''service'', ''servicelist'', ''endpoints'', ''podlist''}"

definition resourceUnchanged :: "meta_env \<Rightarrow> string \<Rightarrow> string \<Rightarrow> string \<Rightarrow> meta_state \<Rightarrow> bool \<times> meta_state" where
  "resourceUnchanged E resType resKey content s =
     (if resType = ''podstatus'' then
        (case QueryMeta E md_Key resKey s of
           (Inr (v # _), s') \<Rightarrow> (content = v, s')
         | (_, s') \<Rightarrow> (False, s'))
      else (False, s))"

definition Inject :: "meta_env \<Rightarrow> Message \<Rightarrow> meta_state \<Rightarrow> meta_state result" where
  "Inject E message s =
     (case me_Inject E (mm_injected s) message of
        Some p \<Rightarrow> Panic p
      | None \<Rightarrow> Ok (s\<lparr>mm_injected := mm_injected s @ [message]\<rparr>))"


section \<open>Handlers\<close>

definition mm_content :: "Message \<Rightarrow> string" where
  "mm_content message = (case m_Content message of BytesContent b \<Rightarrow> b | c \<Rightarrow> json_Marshal_content c)"

definition object_meta :: "string \<Rightarrow> string \<Rightarrow> string \<Rightarrow> string \<Rightarrow> Meta" where
  "object_meta resType namespace nm data =
     \<lparr>md_Key = namespace @ ''/'' @ resType @ ''/'' @ nm, md_Type = resType, md_Value = data\<rparr>"

text \<open>The services of a list; the first that cannot be saved ends the handler.\<close>

fun insert_services :: "meta_env \<Rightarrow> Message \<Rightarrow> listed list \<Rightarrow> meta_state \<Rightarrow> bool \<times> meta_state" where
  "insert_services E message [] s = (True, s)"
| "insert_services E message ((namespace, nm, None) # svcs) s = insert_services E message svcs s"
| "insert_services E message ((namespace, nm, Some data) # svcs) s =
     (case SaveMeta E (object_meta ''service'' namespace nm data) s of
        (None, s') \<Rightarrow> insert_services E message svcs s'
      | (Some e, s') \<Rightarrow> (False, feedbackError E e ''Error to save meta to DB'' message s'))"

text \<open>Objects of a list that are written one by one; those that cannot be are skipped.\<close>

fun update_listed :: "meta_env \<Rightarrow> string \<Rightarrow> listed list \<Rightarrow> meta_state \<Rightarrow> meta_state" where
  "update_listed E resType [] s = s"
| "update_listed E resType ((namespace, nm, None) # xs) s = update_listed E resType xs s"
| "update_listed E resType ((namespace, nm, Some data) # xs) s =
     update_listed E resType xs (snd (InsertOrUpdate E (object_meta resType namespace nm data) s))"

text \<open>What is saved of an insert, and whether the handler goes on.\<close>

definition save_insert :: "meta_env \<Rightarrow> Message \<Rightarrow> string \<Rightarrow> string \<Rightarrow> string \<Rightarrow> meta_state \<Rightarrow> bool \<times> meta_state" where
  "save_insert E message resKey resType content s =
     (if resType = ''servicelist'' then
        (case me_UnmarshalServices E content of
           Inl e \<Rightarrow> (False, feedbackError E e ''Error to unmarshal'' message s)
         | Inr svcList \<Rightarrow> insert_services E message svcList s)
      else
        (case SaveMeta E \<lparr>md_Key = resKey, md_Type = resType, md_Value = content\<rparr> s of
           (None, s') \<Rightarrow> (True, s')
         | (Some e, s') \<Rightarrow> (False, feedbackError E e ''Error to save meta to DB'' message s')))"

definition notify_insert :: "meta_env \<Rightarrow> Message \<Rightarrow> string \<Rightarrow> meta_state \<Rightarrow> meta_state" where
  "notify_insert E message resType s =
     (if resType = ''listener'' then sendToEdgeMesh E (Plain (mm_resp E s message NilContent)) True s
      else
        (let s' = (if isEdgeMeshResource resType then sendToEdgeMesh E (Plain message) False s else sendToEdged (Plain message) False s)
         in sendToCloud E (mm_ok E message s') s'))"

definition mm_processInsert :: "meta_env \<Rightarrow> Message \<Rightarrow> meta_state \<Rightarrow> meta_state result" where
  "mm_processInsert E message s0 =
     bind (Inject E message s0) (\<lambda>s.
       let (resKey, resType, _) = mm_parseResource (GetResource message)
       in case save_insert E message resKey resType (mm_content message) s of
            (False, s') \<Rightarrow> Ok s'
          | (True, s') \<Rightarrow> Ok (notify_insert E message resType s'))"

text \<open>The mesh and the cloud after the update of a list.\<close>

definition notify_list :: "meta_env \<Rightarrow> Message \<Rightarrow> meta_state \<Rightarrow> meta_state" where
  "notify_list E message s =
     (let s' = sendToEdgeMesh E (Plain message) False s in sendToCloud E (mm_ok E message s') s')"

definition update_list :: "meta_env \<Rightarrow> Message \<Rightarrow> string \<Rightarrow> string \<Rightarrow> string \<Rightarrow> meta_state \<Rightarrow> meta_state" where
  "update_list E message resKey resType content s =
     (if resType = ''endpointslist'' then
        (case me_UnmarshalEndpoints E content of
           Inl e \<Rightarrow> feedbackError E e ''Error to unmarshal'' message s
         | Inr epsList \<Rightarrow> notify_list E message (update_listed E ''endpoints'' epsList s))
      else if resType = ''servicelist'' then
        (case me_UnmarshalServices E content of
           Inl e \<Rightarrow> feedbackError E e ''Error to unmarshal'' message s
         | Inr svcList \<Rightarrow> notify_list E message (update_listed E ''service'' svcList s))
      else
        (case InsertOrUpdate E \<lparr>md_Key = resKey, md_Type = resType, md_Value = content\<rparr> s of
           (Some e, s') \<Rightarrow> feedbackError E e ''Error to update meta to DB'' message s'
         | (None, s') \<Rightarrow> notify_list E message s'))"

text \<open>Who hears of an update depends on who sent it.\<close>

definition notify_update :: "meta_env \<Rightarrow> Message \<Rightarrow> string \<Rightarrow> meta_state \<Rightarrow> meta_state" where
  "notify_update E message resType s =
     (let msgSource = GetSource message
      in if msgSource = ''edged'' then
           (let s' = sendToCloud E (Plain message) s in sendToEdged (mm_ok E message s') (IsSync message) s')
         else if msgSource = ''edgecontroller'' \<or> msgSource = ''dynamiccontroller'' then
           (let s' = (if isEdgeMeshResource resType then sendToEdgeMesh E (Plain message) (IsSync message) s
                      else sendToEdged (Plain message) (IsSync message) s)
            in sendToCloud E (mm_ok E message s') s')
         else if msgSource = ''funcmgr'' then mm_send (ToModule ''edgefunction'') (Plain message) s
         else if msgSource = ''edgefunction'' then sendToCloud E (Plain message) s
         else s)"

definition update_one :: "meta_env \<Rightarrow> Message \<Rightarrow> string \<Rightarrow> string \<Rightarrow> string \<Rightarrow> meta_state \<Rightarrow> meta_state" where
  "update_one E message resKey resType content s =
     (case resourceUnchanged E resType resKey content s of
        (True, s') \<Rightarrow> sendToEdged (mm_ok E message s') (IsSync message) s'
      | (False, s') \<Rightarrow>
          (case InsertOrUpdate E \<lparr>md_Key = resKey, md_Type = resType, md_Value = content\<rparr> s' of
             (Some e, s'') \<Rightarrow> feedbackError E e ''Error to update meta to DB'' message s''
           | (None, s'') \<Rightarrow> notify_update E message resType s''))"

definition mm_processUpdate :: "meta_env \<Rightarrow> Message \<Rightarrow> meta_state \<Rightarrow> meta_state result" where
  "mm_processUpdate E message s0 =
     bind (Inject E message s0) (\<lambda>s.
       let (resKey, resType, _) = mm_parseResource (GetResource message)
       in if resType \<in> {''servicelist'', ''endpointslist'', ''podlist''}
          then Ok (update_list E message resKey resType (mm_content message) s)
          else Ok (update_one E message resKey resType (mm_content message) s))"

definition mm_processResponse :: "meta_env \<Rightarrow> Message \<Rightarrow> meta_state \<Rightarrow> meta_state" where
  "mm_processResponse E message s =
     (let (resKey, resType, _) = mm_parseResource (GetResource message)
      in case InsertOrUpdate E \<lparr>md_Key = resKey, md_Type = resType, md_Value = mm_content message\<rparr> s of
           (Some e, s') \<Rightarrow> feedbackError E e ''Error to update meta to DB'' message s'
         | (None, s') \<Rightarrow>
             if GetSource message = ''edgecontroller'' then
               (if resType = ''service'' \<or> resType = ''endpoints'' then sendToEdgeMesh E (Plain message) (IsSync message) s'
                else sendToEdged (Plain message) (IsSync message) s')
             else sendToCloud E (Plain message) s')"

text \<open>Who hears of a deletion.\<close>

definition notify_delete :: "meta_env \<Rightarrow> Message \<Rightarrow> string \<Rightarrow> meta_state \<Rightarrow> meta_state" where
  "notify_delete E message resType s =
     (if resType = ''service'' \<or> resType = ''endpoints'' then notify_list E message s
      else if resType = ''listener'' then sendToEdgeMesh E (mm_ok E message s) True s
      else if resType = ''pod'' \<and> GetSource message = ''edged'' then sendToCloud E (Plain message) s
      else (let s' = sendToEdged (Plain message) False s in sendToCloud E (mm_ok E message s') s'))"

definition mm_processDelete :: "meta_env \<Rightarrow> Message \<Rightarrow> meta_state \<Rightarrow> meta_state result" where
  "mm_processDelete E message s0 =
     bind (Inject E message s0) (\<lambda>s.
       case DeleteMetaByKey E (GetResource message) s of
         (Some e, s') \<Rightarrow> Ok (feedbackError E e ''Error to delete meta to DB'' message s')
       | (None, s') \<Rightarrow> Ok (notify_delete E message (fst (snd (mm_parseResource (GetResource message)))) s'))"

text \<open>A remote query is answered by a goroutine of its own, which waits among the queries.\<close>

definition processRemoteQuery :: "Message \<Rightarrow> meta_state \<Rightarrow> meta_state" where
  "processRemoteQuery message s = s\<lparr>mm_queries := mm_queries s @ [message]\<rparr>"

definition answer_query :: "meta_env \<Rightarrow> Message \<Rightarrow> bool \<Rightarrow> string list \<Rightarrow> meta_state \<Rightarrow> meta_state" where
  "answer_query E message mesh metas s =
     (let resp = mm_resp E s message NilContent; resp = Strings (SetRoute ''metaManager'' (GetGroup resp) resp) metas
      in if mesh then sendToEdgeMesh E resp (IsSync message) s else sendToEdged resp (IsSync message) s)"

definition mm_processQuery :: "meta_env \<Rightarrow> Message \<Rightarrow> meta_state \<Rightarrow> meta_state" where
  "mm_processQuery E message s =
     (let (resKey, resType, resID) = mm_parseResource (GetResource message)
      in if requireRemoteQuery resType \<and> mm_Connected s then
           (case QueryMeta E md_Key resKey s of
              (Inr (v # vs), s') \<Rightarrow>
                if resType = ''node'' \<or> resType = ''volumeattachment'' then processRemoteQuery message s'
                else answer_query E message False (v # vs) s'
            | (_, s') \<Rightarrow> processRemoteQuery message s')
         else
           (case (if resID = [] then QueryMeta E md_Type resType s else QueryMeta E md_Key resKey s) of
              (Inl e, s') \<Rightarrow> feedbackError E e ''Error to query meta in DB'' message s'
            | (Inr metas, s') \<Rightarrow> answer_query E message (resType \<in> {''service'', ''endpoints'', ''listener''}) metas s'))"

text \<open>The body of the goroutine, once the call of the cloud has returned; the module it calls is the hub.\<close>

definition remoteQuery :: "meta_env \<Rightarrow> string \<Rightarrow> string \<Rightarrow> Message \<Rightarrow> meta_state \<Rightarrow> meta_state" where
  "remoteQuery E hub uuid message0 s =
     (let message = UpdateID uuid message0
      in case me_SendSync E hub message of
           Inl e \<Rightarrow> feedbackError E e ''Error to query meta in DB'' message s
         | Inr resp0 \<Rightarrow>
             (let (resKey, resType, _) = mm_parseResource (GetResource message);
                  s1 = snd (InsertOrUpdate E \<lparr>md_Key = resKey, md_Type = resType, md_Value = mm_content resp0\<rparr> s);
                  resp = BuildHeader (GetID resp0) (GetID message0) (mh_Timestamp (m_Header resp0)) resp0;
                  s2 = (if resType = ''service'' \<or> resType = ''endpoints'' then sendToEdgeMesh E (Plain resp) (IsSync message) s1
                        else sendToEdged (Plain resp) (IsSync message) s1)
              in sendToCloud E (mm_ok E resp s2) s2))"

definition processNodeConnection :: "Message \<Rightarrow> meta_state \<Rightarrow> meta_state" where
  "processNodeConnection message s =
     (case m_Content message of
        StringContent content \<Rightarrow>
          if content = ''cloud_connected'' then s\<lparr>mm_Connected := True\<rparr>
          else if content = ''cloud_disconnected'' then s\<lparr>mm_Connected := False\<rparr> else s
      | _ \<Rightarrow> s)"

text \<open>\<open>strings.Replace\<close> of the first occurrence.\<close>

fun replace_first :: "string \<Rightarrow> string \<Rightarrow> string \<Rightarrow> string" where
  "replace_first old new [] = []"
| "replace_first old new (c # cs) =
     (if strings_HasPrefix (c # cs) old then new @ drop (length old) (c # cs) else c # replace_first old new cs)"

text \<open>The namespace \<open>ParseResourceEdge\<close> gives for a query.\<close>

definition query_namespace :: "string \<Rightarrow> string result" where
  "query_namespace resource =
     (case strings_Split (CHR ''/'') resource of
        namespace # _ # _ \<Rightarrow> Ok namespace
      | _ \<Rightarrow> Panic IndexOutOfRange)"

definition pod_key :: "string \<Rightarrow> string" where
  "pod_key = replace_first ''/podstatus/'' ''/pod/''"

text \<open>The loop over the records: the statuses to send, or nothing where a query fails.\<close>

fun collect_status ::
    "meta_env \<Rightarrow> Meta list \<Rightarrow> (string, string list) fmap \<Rightarrow> meta_state \<Rightarrow> ((string, string list) fmap option \<times> meta_state) result" where
  "collect_status E [] contents s = Ok (Some contents, s)"
| "collect_status E (v # vs) contents s =
     bind (query_namespace (md_Key v)) (\<lambda>namespace.
       case QueryMeta E md_Key (pod_key (md_Key v)) s of
         (Inl e, s') \<Rightarrow> Ok (None, s')
       | (Inr [], s') \<Rightarrow> collect_status E vs contents (snd (DeleteMetaByKey E (md_Key v) s'))
       | (Inr (_ # _), s') \<Rightarrow>
           (case me_UnmarshalStatus E (md_Value v) of
              None \<Rightarrow> collect_status E vs contents s'
            | Some podStatus \<Rightarrow>
                collect_status E vs
                  (fmupd namespace ((case fmlookup contents namespace of None \<Rightarrow> [] | Some xs \<Rightarrow> xs) @ [podStatus]) contents) s'))"

definition send_status :: "meta_env \<Rightarrow> string \<Rightarrow> string list \<Rightarrow> meta_state \<Rightarrow> meta_state" where
  "send_status E namespace content s =
     (let n = length (mm_sent s)
      in sendToCloud E (Values (BuildRouter ''metaManager'' ''resource'' (namespace @ ''/podstatus'') UpdateOperation
           (NewMessage (me_uuid E n) (me_now E n) [])) content) s)"

definition syncPodStatus :: "meta_env \<Rightarrow> meta_state \<Rightarrow> meta_state result" where
  "syncPodStatus E s =
     (case QueryAllMeta E md_Type ''podstatus'' s of
        (Inl e, s') \<Rightarrow> Ok s'
      | (Inr [], s') \<Rightarrow> Ok s'
      | (Inr (r # rs), s') \<Rightarrow>
          bind (collect_status E (r # rs) fmempty s') (\<lambda>(contents, s'').
            case contents of
              None \<Rightarrow> Ok s''
            | Some contents \<Rightarrow>
                Ok (fold (\<lambda>namespace. send_status E namespace (the (fmlookup contents namespace))) (me_ord E (fmdom contents)) s'')))"

text \<open>Actions of functions and their results are saved and handed on.\<close>

definition save_function :: "meta_env \<Rightarrow> Message \<Rightarrow> (meta_state \<Rightarrow> meta_state) \<Rightarrow> meta_state \<Rightarrow> meta_state" where
  "save_function E message notify s =
     (let (resKey, resType, _) = mm_parseResource (GetResource message)
      in case SaveMeta E \<lparr>md_Key = resKey, md_Type = resType, md_Value = mm_content message\<rparr> s of
           (Some e, s') \<Rightarrow> feedbackError E e ''Error to save meta to DB'' message s'
         | (None, s') \<Rightarrow> notify s')"

definition processFunctionAction :: "meta_env \<Rightarrow> Message \<Rightarrow> meta_state \<Rightarrow> meta_state" where
  "processFunctionAction E message = save_function E message (mm_send (ToModule ''edgefunction'') (Plain message))"

definition processFunctionActionResult :: "meta_env \<Rightarrow> Message \<Rightarrow> meta_state \<Rightarrow> meta_state" where
  "processFunctionActionResult E message = save_function E message (sendToCloud E (Plain message))"

text \<open>An error of the call leaves the empty message as its answer.\<close>

definition processVolume :: "meta_env \<Rightarrow> Message \<Rightarrow> meta_state \<Rightarrow> meta_state" where
  "processVolume E message s =
     (let back = (case me_SendSync E ''edged'' message of Inl _ \<Rightarrow> NewRawMessage | Inr back \<Rightarrow> back)
      in sendToCloud E (Plain (mm_resp E s message (m_Content back))) s)"

definition mm_process :: "meta_env \<Rightarrow> Message \<Rightarrow> meta_state \<Rightarrow> meta_state result" where
  "mm_process E message s =
     (let operation = GetOperation message
      in if operation = InsertOperation then mm_processInsert E message s
         else if operation = UpdateOperation then mm_processUpdate E message s
         else if operation = DeleteOperation then mm_processDelete E message s
         else if operation = QueryOperation then Ok (mm_processQuery E message s)
         else if operation = ResponseOperation then Ok (mm_processResponse E message s)
         else if operation = ''connect'' then Ok (processNodeConnection message s)
         else if operation = ''meta-internal-sync'' then syncPodStatus E s
         else if operation = ''action'' then Ok (processFunctionAction E message s)
         else if operation = ''action_result'' then Ok (processFunctionActionResult E message s)
         else if operation \<in> {''createvolume'', ''deletevolume'', ''controllerpublishvolume'', ''controllerunpublishvolume''}
           then Ok (processVolume E message s)
         else Ok s)"

end
