(* ===== verification/Meta_Props.thy ===== *)
theory Meta_Props
  imports Meta_Manager
begin

text \<open>
  Properties of the meta manager: its table is a map from keys to types and values that every message
  changes as it says, the main loop never panics, and messages of the cloud are answered.
\<close>

section \<open>The table as a map\<close>

definition stored :: "Meta list \<Rightarrow> string \<Rightarrow> (string \<times> string) option" where
  "stored rows = map_of (map (\<lambda>r. (md_Key r, md_Type r, md_Value r)) rows)"

definition good_rows :: "Meta list \<Rightarrow> bool" where
  "good_rows rows \<longleftrightarrow> distinct (map md_Key rows) \<and>
     (\<forall>r\<in>set rows. md_Type r = ''podstatus'' \<longrightarrow> fst (snd (mm_parseResource (md_Key r))) = ''podstatus'')"

definition row_ok :: "Meta \<Rightarrow> bool" where
  "row_ok r \<longleftrightarrow> (md_Type r = ''podstatus'' \<longrightarrow> fst (snd (mm_parseResource (md_Key r))) = ''podstatus'')"

lemma mm_parseResource_key [simp]: "fst (mm_parseResource r) = r"
  by (auto simp: mm_parseResource_def split: list.splits)

lemma row_ok_parsed [simp]:
  "mm_parseResource r = (resKey, resType, resID) \<Longrightarrow> row_ok \<lparr>md_Key = resKey, md_Type = resType, md_Value = v\<rparr>"
  using mm_parseResource_key [of r] by (simp add: row_ok_def)

lemma row_ok_object [simp]: "resType \<noteq> ''podstatus'' \<Longrightarrow> row_ok (object_meta resType ns nm v)"
  by (simp add: row_ok_def object_meta_def)

text \<open>Sending leaves the table alone.\<close>

lemma sends_rows [simp]:
  "mm_rows (mm_send d m s) = mm_rows s" "mm_rows (sendToEdged m b s) = mm_rows s" "mm_rows (sendToEdgeMesh E m b s) = mm_rows s"
  "mm_rows (sendToCloud E m s) = mm_rows s" "mm_rows (feedbackError E e i msg s) = mm_rows s" "mm_rows (notify_list E msg s) = mm_rows s"
  "mm_rows (notify_insert E msg t s) = mm_rows s" "mm_rows (notify_update E msg t s) = mm_rows s" "mm_rows (notify_delete E msg t s) = mm_rows s"
  "mm_rows (processRemoteQuery msg s) = mm_rows s" "mm_rows (answer_query E msg b metas s) = mm_rows s" "mm_rows (send_status E ns c s) = mm_rows s"
  by (simp_all add: mm_send_def sendToEdged_def sendToEdgeMesh_def sendToCloud_def feedbackError_def notify_list_def notify_insert_def
      notify_update_def notify_delete_def processRemoteQuery_def answer_query_def send_status_def Let_def)

lemma queries_rows [simp]:
  "mm_rows (snd (run_query E P s)) = mm_rows s" "mm_rows (snd (QueryMeta E col c s)) = mm_rows s" "mm_rows (snd (QueryAllMeta E col c s)) = mm_rows s"
  "mm_rows (snd (resourceUnchanged E t k c s)) = mm_rows s"
  by (auto simp: run_query_def QueryMeta_def QueryAllMeta_def resourceUnchanged_def split: sum.splits prod.splits list.splits option.splits)

lemma Inject_rows: "Inject E msg s = Ok s' \<Longrightarrow> mm_rows s' = mm_rows s"
  by (auto simp: Inject_def split: option.splits)

text \<open>The three statements.\<close>

lemma good_rows_filter: "good_rows rows \<Longrightarrow> good_rows (filter P rows)"
  by (auto simp: good_rows_def distinct_map_filter)

lemma DeleteMetaByKey_good: "good_rows (mm_rows s) \<Longrightarrow> good_rows (mm_rows (snd (DeleteMetaByKey E k s)))"
  by (auto simp: DeleteMetaByKey_def run_statement_def Let_def good_rows_filter split: option.splits)

lemma InsertOrUpdate_good:
  assumes "good_rows (mm_rows s)" and "row_ok m"
  shows "good_rows (mm_rows (snd (InsertOrUpdate E m s)))"
proof -
  have "good_rows (filter (\<lambda>r. md_Key r \<noteq> md_Key m) (mm_rows s) @ [m])"
    using good_rows_filter [OF assms(1)] assms(2) by (auto simp: good_rows_def row_ok_def)
  with assms(1) show ?thesis by (auto simp: InsertOrUpdate_def run_statement_def Let_def split: option.splits)
qed

lemma SaveMeta_good: "good_rows (mm_rows s) \<Longrightarrow> row_ok m \<Longrightarrow> good_rows (mm_rows (snd (SaveMeta E m s)))"
  by (auto simp: SaveMeta_def run_statement_def insert_row_def Let_def good_rows_def row_ok_def split: option.splits)

lemma stored_filter_key: "stored (filter (\<lambda>r. md_Key r \<noteq> k) rows) = (stored rows)(k := None)"
  by (induction rows) (auto simp: stored_def)

lemma stored_append: "stored (xs @ ys) = stored ys ++ stored xs"
  by (simp add: stored_def)

lemma stored_one: "stored [m] = [md_Key m \<mapsto> (md_Type m, md_Value m)]"
  by (simp add: stored_def)

lemma stored_dom: "stored rows k = None \<longleftrightarrow> k \<notin> set (map md_Key rows)"
  by (auto simp: stored_def map_of_eq_None_iff image_image)

lemma stored_Some: "distinct (map md_Key rows) \<Longrightarrow> stored rows k = Some (t, v) \<longleftrightarrow> (\<exists>r\<in>set rows. md_Key r = k \<and> md_Type r = t \<and> md_Value r = v)"
  by (auto simp: stored_def comp_def map_of_eq_Some_iff)

definition db_up :: "meta_env \<Rightarrow> bool" where
  "db_up E \<longleftrightarrow> (\<forall>n. me_fails E n = None)"

lemma InsertOrUpdate_stored:
  assumes "db_up E"
  shows "fst (InsertOrUpdate E m s) = None"
    and "stored (mm_rows (snd (InsertOrUpdate E m s))) = (stored (mm_rows s))(md_Key m \<mapsto> (md_Type m, md_Value m))"
  using assms
  by (auto simp: InsertOrUpdate_def run_statement_def db_up_def stored_append stored_filter_key stored_one map_add_def fun_eq_iff
      split: option.splits)

lemma DeleteMetaByKey_stored:
  assumes "db_up E"
  shows "fst (DeleteMetaByKey E k s) = None" and "stored (mm_rows (snd (DeleteMetaByKey E k s))) = (stored (mm_rows s))(k := None)"
  using assms by (simp_all add: DeleteMetaByKey_def run_statement_def db_up_def stored_filter_key)

lemma unique_error: "IsNonUniqueNameError ''UNIQUE constraint failed: meta.key''"
  by (simp add: IsNonUniqueNameError_def)

text \<open>What is there already stays.\<close>

definition add_new :: "Meta \<Rightarrow> (string \<Rightarrow> (string \<times> string) option) \<Rightarrow> string \<Rightarrow> (string \<times> string) option" where
  "add_new r m = (if m (md_Key r) = None then m(md_Key r \<mapsto> (md_Type r, md_Value r)) else m)"

lemma SaveMeta_stored:
  assumes "db_up E"
  shows "fst (SaveMeta E m s) = None" and "stored (mm_rows (snd (SaveMeta E m s))) = add_new m (stored (mm_rows s))"
proof -
  have "fst (SaveMeta E m s) = None \<and> stored (mm_rows (snd (SaveMeta E m s))) = add_new m (stored (mm_rows s))"
  proof (cases "md_Key m \<in> set (map md_Key (mm_rows s))")
    case True
    then have "stored (mm_rows s) (md_Key m) \<noteq> None" by (simp only: stored_dom) simp
    with True assms unique_error show ?thesis by (auto simp: SaveMeta_def run_statement_def insert_row_def db_up_def add_new_def)
  next
    case False
    then have n: "stored (mm_rows s) (md_Key m) = None" by (simp only: stored_dom) simp
    then have "stored (mm_rows s @ [m]) = (stored (mm_rows s))(md_Key m \<mapsto> (md_Type m, md_Value m))"
      unfolding stored_append stored_one by (auto simp: map_add_def fun_eq_iff split: option.splits)
    with n False assms show ?thesis by (auto simp: SaveMeta_def run_statement_def insert_row_def db_up_def add_new_def)
  qed
  then show "fst (SaveMeta E m s) = None" and "stored (mm_rows (snd (SaveMeta E m s))) = add_new m (stored (mm_rows s))" by simp_all
qed

text \<open>The objects of a list that can be encoded.\<close>

definition encoded :: "string \<Rightarrow> listed list \<Rightarrow> Meta list" where
  "encoded resType xs = concat (map (\<lambda>(ns, nm, d). case d of None \<Rightarrow> [] | Some v \<Rightarrow> [object_meta resType ns nm v]) xs)"

definition put :: "Meta \<Rightarrow> (string \<Rightarrow> (string \<times> string) option) \<Rightarrow> string \<Rightarrow> (string \<times> string) option" where
  "put r m = m(md_Key r \<mapsto> (md_Type r, md_Value r))"

lemma insert_services_stored:
  assumes "db_up E"
  shows "fst (insert_services E msg xs s) \<and>
    stored (mm_rows (snd (insert_services E msg xs s))) = fold add_new (encoded ''service'' xs) (stored (mm_rows s))"
  using assms
proof (induction E msg xs s rule: insert_services.induct)
  case (3 E message namespace nm data svcs s)
  let ?r = "SaveMeta E (object_meta ''service'' namespace nm data) s"
  have "?r = (None, snd ?r)" using SaveMeta_stored(1) [OF 3(2)] by (metis prod.collapse)
  then have "insert_services E message ((namespace, nm, Some data) # svcs) s = insert_services E message svcs (snd ?r)"
    by (subst insert_services.simps(3)) (metis (no_types, lifting) case_prod_conv option.simps(4))
  with 3(1) [OF _ _ 3(2)] SaveMeta_stored [OF 3(2)] show ?case by (simp add: encoded_def prod_eq_iff)
qed (simp_all add: encoded_def)

lemma update_listed_stored:
  assumes "db_up E"
  shows "stored (mm_rows (update_listed E t xs s)) = fold put (encoded t xs) (stored (mm_rows s))"
  using assms by (induction E t xs s rule: update_listed.induct) (simp_all add: encoded_def put_def InsertOrUpdate_stored)

lemma insert_services_good:
  "good_rows (mm_rows s) \<Longrightarrow> good_rows (mm_rows (snd (insert_services E msg xs s)))"
proof (induction E msg xs s rule: insert_services.induct)
  case (3 E message namespace nm data svcs s)
  from SaveMeta_good [OF 3(2), of "object_meta ''service'' namespace nm data" E] 3(1) show ?case
    by (auto split: prod.splits option.splits)
qed simp_all

lemma update_listed_good:
  "t \<noteq> ''podstatus'' \<Longrightarrow> good_rows (mm_rows s) \<Longrightarrow> good_rows (mm_rows (update_listed E t xs s))"
  by (induction E t xs s rule: update_listed.induct) (simp_all add: InsertOrUpdate_good)


section \<open>The status of pods\<close>

lemma parsed_type:
  assumes "fst (snd (mm_parseResource k)) = t" and "t \<noteq> []"
  shows "\<exists>a. CHR ''/'' \<notin> set a \<and> (k = a @ ''/'' @ t \<and> CHR ''/'' \<notin> set t \<or> (\<exists>b. k = a @ ''/'' @ t @ ''/'' @ b \<and> CHR ''/'' \<notin> set t \<and> CHR ''/'' \<notin> set b))"
proof -
  let ?ps = "strings_Split (CHR ''/'') k"
  have k: "k = strings_Join ''/'' ?ps" by (simp add: strings_Join_Split)
  have "(\<exists>a. ?ps = [a, t]) \<or> (\<exists>a b. ?ps = [a, t, b])"
    using assms by (auto simp: mm_parseResource_def split: list.splits)
  then show ?thesis
  proof (elim disjE exE)
    fix a assume ps: "?ps = [a, t]"
    with strings_Split_parts [of _ "CHR ''/''" k] k show ?thesis by (intro exI [of _ a]) (auto simp: ps)
  next
    fix a b assume ps: "?ps = [a, t, b]"
    with strings_Split_parts [of _ "CHR ''/''" k] k show ?thesis by (intro exI [of _ a]) (auto simp: ps)
  qed
qed

lemma replace_first_skip: "CHR ''/'' \<notin> set a \<Longrightarrow> replace_first (CHR ''/'' # old) new (a @ t) = a @ replace_first (CHR ''/'' # old) new t"
  by (induction a) auto

lemma pod_key_cases:
  assumes "fst (snd (mm_parseResource k)) = ''podstatus''"
  shows "pod_key k = k \<or> fst (snd (mm_parseResource (pod_key k))) = ''pod''"
proof -
  from parsed_type [OF assms] obtain a where a: "CHR ''/'' \<notin> set a"
    "k = a @ ''/'' @ ''podstatus'' \<or> (\<exists>b. k = a @ ''/'' @ ''podstatus'' @ ''/'' @ b \<and> CHR ''/'' \<notin> set b)" by auto
  from a(2) show ?thesis
  proof (elim disjE exE conjE)
    assume "k = a @ ''/'' @ ''podstatus''"
    with replace_first_skip [OF a(1), of "''podstatus/''" "''/pod/''" "''/podstatus''"] show ?thesis by (simp add: pod_key_def)
  next
    fix b assume b: "k = a @ ''/'' @ ''podstatus'' @ ''/'' @ b" "CHR ''/'' \<notin> set b"
    with replace_first_skip [OF a(1), of "''podstatus/''" "''/pod/''" "''/podstatus/'' @ b"] have "pod_key k = a @ ''/pod/'' @ b"
      by (simp add: pod_key_def)
    moreover have "strings_Split (CHR ''/'') (a @ ''/pod/'' @ b) = [a, ''pod'', b]"
      using a(1) b(2) by (simp add: strings_Split_append_sep strings_Split_no_sep)
    ultimately show ?thesis by (simp add: mm_parseResource_def)
  qed
qed

lemma query_namespace_ok: "fst (snd (mm_parseResource k)) = ''podstatus'' \<Longrightarrow> \<exists>ns. query_namespace k = Ok ns"
  by (auto simp: mm_parseResource_def query_namespace_def split: list.splits)

lemma collect_status_ok:
  assumes "\<forall>v\<in>set vs. \<exists>ns. query_namespace (md_Key v) = Ok ns" and "good_rows (mm_rows s)"
  shows "\<exists>x s'. collect_status E vs c s = Ok (x, s') \<and> good_rows (mm_rows s')"
  using assms
proof (induction vs arbitrary: c s)
  case (Cons v vs)
  obtain ns where ns: "query_namespace (md_Key v) = Ok ns" using Cons.prems(1) by auto
  obtain q s1 where q: "QueryMeta E md_Key (pod_key (md_Key v)) s = (q, s1)" by force
  have s1: "good_rows (mm_rows s1)" using queries_rows(2) [of E md_Key "pod_key (md_Key v)" s] q Cons.prems(2) by simp
  note IH = Cons.IH [OF _ s1] Cons.IH [OF _ DeleteMetaByKey_good [OF s1]]
  show ?case
  proof (cases q)
    case (Inl e)
    with ns q s1 show ?thesis by simp
  next
    case (Inr ms)
    with ns q IH Cons.prems(1) show ?thesis by (cases ms) (auto split: option.splits)
  qed
qed simp

lemma podstatus_rows:
  assumes "good_rows rows" and "v \<in> set (filter (\<lambda>r. md_Type r = ''podstatus'') rows)"
  shows "fst (snd (mm_parseResource (md_Key v))) = ''podstatus''"
  using assms by (auto simp: good_rows_def)

lemma fold_send_rows: "mm_rows (fold (\<lambda>ns. send_status E ns (f ns)) xs s) = mm_rows s"
  by (induction xs arbitrary: s) simp_all

lemma syncPodStatus_ok:
  assumes "good_rows (mm_rows s)"
  shows "\<exists>s'. syncPodStatus E s = Ok s' \<and> good_rows (mm_rows s')"
proof -
  obtain q s1 where q: "QueryAllMeta E md_Type ''podstatus'' s = (q, s1)" by force
  have s1: "mm_rows s1 = mm_rows s" using queries_rows(3) [of E md_Type "''podstatus''" s] q by simp
  show ?thesis
  proof (cases "\<exists>r rs. q = Inr (r # rs)")
    case True
    then obtain r rs where rs: "q = Inr (r # rs)" by blast
    with q have "r # rs = filter (\<lambda>r. md_Type r = ''podstatus'') (mm_rows s)"
      by (auto simp: QueryAllMeta_def run_query_def split: option.splits)
    then have "\<forall>v\<in>set (r # rs). \<exists>ns. query_namespace (md_Key v) = Ok ns"
      using podstatus_rows [OF assms] query_namespace_ok by metis
    from collect_status_ok [OF this, of s1 E fmempty] assms s1 obtain x s2 where
      "collect_status E (r # rs) fmempty s1 = Ok (x, s2)" "good_rows (mm_rows s2)" by auto
    with q rs show ?thesis by (cases x) (simp_all add: syncPodStatus_def fold_send_rows)
  next
    case False
    with q s1 assms show ?thesis by (auto simp: syncPodStatus_def split: sum.splits list.splits)
  qed
qed

text \<open>The rows the loop deletes: those whose pod is not in the table.\<close>

definition sweep :: "string \<Rightarrow> (string \<Rightarrow> (string \<times> string) option) \<Rightarrow> string \<Rightarrow> (string \<times> string) option" where
  "sweep k m = (if m (pod_key k) = None then m(k := None) else m)"

definition swept :: "(string \<Rightarrow> (string \<times> string) option) \<Rightarrow> string \<Rightarrow> (string \<times> string) option" where
  "swept m k = (case m k of Some (t, v) \<Rightarrow> if t = ''podstatus'' \<and> m (pod_key k) = None then None else m k | None \<Rightarrow> None)"

lemma QueryMeta_up:
  assumes "db_up E"
  obtains s' where "QueryMeta E md_Key k s = (Inr (map md_Value (filter (\<lambda>r. md_Key r = k) (mm_rows s))), s')" "mm_rows s' = mm_rows s"
  using assms by (auto simp: QueryMeta_def run_query_def db_up_def)

lemma collect_status_stored:
  assumes "collect_status E vs c s = Ok (x, s')" and "db_up E"
  shows "stored (mm_rows s') = fold sweep (map md_Key vs) (stored (mm_rows s)) \<and> x \<noteq> None"
  using assms(1)
proof (induction vs arbitrary: c s)
  case (Cons v vs)
  let ?ms = "filter (\<lambda>r. md_Key r = pod_key (md_Key v)) (mm_rows s)"
  obtain s1 where s1: "QueryMeta E md_Key (pod_key (md_Key v)) s = (Inr (map md_Value ?ms), s1)" "mm_rows s1 = mm_rows s"
    using QueryMeta_up [OF assms(2)] .
  have absent: "stored (mm_rows s) (pod_key (md_Key v)) = None \<longleftrightarrow> ?ms = []"
    by (force simp: stored_dom filter_empty_conv)
  show ?case
  proof (cases ?ms)
    case Nil
    with Cons.prems s1 have "collect_status E vs c (snd (DeleteMetaByKey E (md_Key v) s1)) = Ok (x, s')"
      by (auto simp: bind_iffs)
    moreover have "sweep (md_Key v) (stored (mm_rows s)) = stored (mm_rows (snd (DeleteMetaByKey E (md_Key v) s1)))"
      using absent Nil by (simp only: sweep_def DeleteMetaByKey_stored [OF assms(2)] s1(2)) simp
    ultimately show ?thesis using Cons.IH by simp
  next
    case (Cons r rs)
    with Cons.prems s1 obtain c' where "collect_status E vs c' s1 = Ok (x, s')" by (auto simp: bind_iffs split: option.splits)
    moreover have "sweep (md_Key v) (stored (mm_rows s)) = stored (mm_rows s1)" using absent Cons by (auto simp: sweep_def s1(2))
    ultimately show ?thesis using Cons.IH by simp
  qed
qed auto

text \<open>A row that is deleted is no pod of another row.\<close>

lemma sweep_fold:
  assumes "good_rows rows" and "m = stored rows" and "\<forall>k\<in>set ks. \<exists>v. m k = Some (''podstatus'', v)"
  shows "fold sweep ks m = (\<lambda>k. if k \<in> set ks \<and> m (pod_key k) = None then None else m k)"
  using assms(3)
proof (induction ks rule: rev_induct)
  case (snoc k ks)
  let ?m = "\<lambda>k. if k \<in> set ks \<and> m (pod_key k) = None then None else m k"
  have typed: "fst (snd (mm_parseResource j)) = ''podstatus''" if "m j = Some (''podstatus'', v)" for j v
  proof -
    have "distinct (map md_Key rows)" using assms(1) by (simp add: good_rows_def)
    from stored_Some [OF this, THEN iffD1, OF that [unfolded assms(2)]] assms(1) show ?thesis by (auto simp: good_rows_def)
  qed
  obtain v where v: "m k = Some (''podstatus'', v)" using snoc.prems by auto
  have "\<not> (pod_key k \<in> set ks \<and> m (pod_key (pod_key k)) = None)"
  proof
    assume a: "pod_key k \<in> set ks \<and> m (pod_key (pod_key k)) = None"
    with snoc.prems obtain w where "m (pod_key k) = Some (''podstatus'', w)" by auto
    with pod_key_cases [OF typed [OF v]] typed have "pod_key k = k" by fastforce
    with a v show False by simp
  qed
  then have "?m (pod_key k) = m (pod_key k)" by (simp only: if_False)
  moreover have "fold sweep ks m = ?m" using snoc by simp
  ultimately have "fold sweep (ks @ [k]) m = (if m (pod_key k) = None then ?m(k := None) else ?m)"
    by (simp only: fold_append fold.simps o_apply id_apply sweep_def)
  also have "\<dots> = (\<lambda>j. if j \<in> set (ks @ [k]) \<and> m (pod_key j) = None then None else m j)"
    by (auto simp: fun_eq_iff)
  finally show ?case .
qed simp

lemma sweep_status:
  assumes "good_rows rows"
  shows "fold sweep (map md_Key (filter (\<lambda>r. md_Type r = ''podstatus'') rows)) (stored rows) = swept (stored rows)"
proof -
  let ?ks = "map md_Key (filter (\<lambda>r. md_Type r = ''podstatus'') rows)"
  have d: "distinct (map md_Key rows)" using assms by (simp add: good_rows_def)
  have ks: "k \<in> set ?ks \<longleftrightarrow> (\<exists>v. stored rows k = Some (''podstatus'', v))" for k
    unfolding stored_Some [OF d] by auto
  then have "\<forall>k\<in>set ?ks. \<exists>v. stored rows k = Some (''podstatus'', v)" by blast
  from sweep_fold [OF assms refl this] show ?thesis
    by (auto simp: fun_eq_iff swept_def ks simp del: set_map split: option.splits prod.splits)
qed

lemma syncPodStatus_stored:
  assumes "syncPodStatus E s = Ok s'" and "db_up E" and "good_rows (mm_rows s)"
  shows "stored (mm_rows s') = swept (stored (mm_rows s))"
proof -
  let ?vs = "filter (\<lambda>r. md_Type r = ''podstatus'') (mm_rows s)"
  obtain s1 where s1: "QueryAllMeta E md_Type ''podstatus'' s = (Inr ?vs, s1)" "mm_rows s1 = mm_rows s"
    using assms(2) by (auto simp: QueryAllMeta_def run_query_def db_up_def)
  show ?thesis
  proof (cases ?vs)
    case Nil
    with s1 assms(1) have "mm_rows s' = mm_rows s" by (auto simp: syncPodStatus_def)
    with sweep_status [OF assms(3)] Nil show ?thesis by simp
  next
    case (Cons r rs)
    with s1 assms(1) obtain x s2 where c: "collect_status E ?vs fmempty s1 = Ok (x, s2)" "mm_rows s' = mm_rows s2"
      by (auto simp: syncPodStatus_def bind_iffs fold_send_rows split: option.splits)
    from collect_status_stored [OF c(1) assms(2)] c(2) s1(2) sweep_status [OF assms(3)] show ?thesis by simp
  qed
qed


section \<open>Every message changes the table as it says\<close>

definition intends :: "meta_env \<Rightarrow> Message \<Rightarrow> (string \<Rightarrow> (string \<times> string) option) \<Rightarrow> string \<Rightarrow> (string \<times> string) option" where
  "intends E msg m =
     (let opr = GetOperation msg; (k, t, _) = mm_parseResource (GetResource msg); v = mm_content msg;
          row = \<lparr>md_Key = k, md_Type = t, md_Value = v\<rparr>;
          objects = (\<lambda>f t r. case r of Inl e \<Rightarrow> m | Inr xs \<Rightarrow> fold f (encoded t xs) m)
      in if opr = InsertOperation then
           (if t = ''servicelist'' then objects add_new ''service'' (me_UnmarshalServices E v) else add_new row m)
         else if opr = UpdateOperation then
           (if t = ''endpointslist'' then objects put ''endpoints'' (me_UnmarshalEndpoints E v)
            else if t = ''servicelist'' then objects put ''service'' (me_UnmarshalServices E v)
            else if t = ''podstatus'' \<and> map_option snd (m k) = Some v then m
            else put row m)
         else if opr = DeleteOperation then m(GetResource msg := None)
         else if opr = ResponseOperation then put row m
         else if opr = ''meta-internal-sync'' then swept m
         else if opr = ''action'' \<or> opr = ''action_result'' then add_new row m
         else m)"

lemmas operation_defs = InsertOperation_def UpdateOperation_def DeleteOperation_def QueryOperation_def ResponseOperation_def

lemma save_insert_stored:
  assumes "db_up E"
  shows "stored (mm_rows (snd (save_insert E msg k t v s))) =
    (if t = ''servicelist'' then (case me_UnmarshalServices E v of Inl e \<Rightarrow> stored (mm_rows s)
       | Inr xs \<Rightarrow> fold add_new (encoded ''service'' xs) (stored (mm_rows s)))
     else add_new \<lparr>md_Key = k, md_Type = t, md_Value = v\<rparr> (stored (mm_rows s)))"
  using insert_services_stored [OF assms] SaveMeta_stored [OF assms, of "\<lparr>md_Key = k, md_Type = t, md_Value = v\<rparr>" s]
  by (auto simp: save_insert_def split: sum.splits prod.splits option.splits)

lemma update_list_stored:
  assumes "db_up E"
  shows "stored (mm_rows (update_list E msg k t v s)) =
    (if t = ''endpointslist'' then (case me_UnmarshalEndpoints E v of Inl e \<Rightarrow> stored (mm_rows s)
       | Inr xs \<Rightarrow> fold put (encoded ''endpoints'' xs) (stored (mm_rows s)))
     else if t = ''servicelist'' then (case me_UnmarshalServices E v of Inl e \<Rightarrow> stored (mm_rows s)
       | Inr xs \<Rightarrow> fold put (encoded ''service'' xs) (stored (mm_rows s)))
     else put \<lparr>md_Key = k, md_Type = t, md_Value = v\<rparr> (stored (mm_rows s)))"
  using InsertOrUpdate_stored [OF assms, of "\<lparr>md_Key = k, md_Type = t, md_Value = v\<rparr>" s] update_listed_stored [OF assms]
  by (auto simp: update_list_def put_def split: sum.splits prod.splits option.splits)

lemma stored_first:
  assumes "distinct (map md_Key rows)"
  shows "map_option snd (stored rows k) = (case filter (\<lambda>r. md_Key r = k) rows of [] \<Rightarrow> None | r # _ \<Rightarrow> Some (md_Value r))"
  by (induction rows) (auto simp: stored_def)

lemma update_one_stored:
  assumes "db_up E" and "good_rows (mm_rows s)"
  shows "stored (mm_rows (update_one E msg k t v s)) =
    (if t = ''podstatus'' \<and> map_option snd (stored (mm_rows s) k) = Some v then stored (mm_rows s)
     else put \<lparr>md_Key = k, md_Type = t, md_Value = v\<rparr> (stored (mm_rows s)))"
proof -
  obtain s1 where s1: "QueryMeta E md_Key k s = (Inr (map md_Value (filter (\<lambda>r. md_Key r = k) (mm_rows s))), s1)" "mm_rows s1 = mm_rows s"
    using QueryMeta_up [OF assms(1)] .
  define b where "b = (t = ''podstatus'' \<and> map_option snd (stored (mm_rows s) k) = Some v)"
  have d: "distinct (map md_Key (mm_rows s))" using assms(2) by (simp add: good_rows_def)
  have "\<exists>s2. resourceUnchanged E t k v s = (b, s2) \<and> mm_rows s2 = mm_rows s"
    using s1 stored_first [OF d, of k]
    by (cases "filter (\<lambda>r. md_Key r = k) (mm_rows s)") (auto simp: resourceUnchanged_def b_def)
  then obtain s2 where s2: "resourceUnchanged E t k v s = (b, s2)" "mm_rows s2 = mm_rows s" by blast
  let ?r = "InsertOrUpdate E \<lparr>md_Key = k, md_Type = t, md_Value = v\<rparr> s2"
  have "?r = (None, snd ?r)" using InsertOrUpdate_stored(1) [OF assms(1)] by (metis prod.collapse)
  with s2 have "stored (mm_rows (update_one E msg k t v s)) = (if b then stored (mm_rows s) else stored (mm_rows (snd ?r)))"
    by (cases b) (auto simp: update_one_def split: prod.splits)
  also have "stored (mm_rows (snd ?r)) = put \<lparr>md_Key = k, md_Type = t, md_Value = v\<rparr> (stored (mm_rows s))"
    by (simp add: InsertOrUpdate_stored(2) [OF assms(1)] s2(2) put_def)
  finally show ?thesis unfolding b_def .
qed

lemma save_function_stored:
  assumes "db_up E" and "mm_parseResource (GetResource msg) = (k, t, i)" and "\<And>s. mm_rows (notify s) = mm_rows s"
  shows "stored (mm_rows (save_function E msg notify s)) = add_new \<lparr>md_Key = k, md_Type = t, md_Value = mm_content msg\<rparr> (stored (mm_rows s))"
  using SaveMeta_stored [OF assms(1), of "\<lparr>md_Key = k, md_Type = t, md_Value = mm_content msg\<rparr>" s] assms(2,3)
  by (auto simp: save_function_def split: prod.splits option.splits)

lemma mm_processQuery_rows [simp]: "mm_rows (mm_processQuery E msg s) = mm_rows s"
proof -
  obtain k t i where p: "mm_parseResource (GetResource msg) = (k, t, i)" by (metis prod_cases3)
  obtain q1 s1 where q1: "QueryMeta E md_Key k s = (q1, s1)" by force
  obtain q2 s2 where q2: "QueryMeta E md_Type t s = (q2, s2)" by force
  have "mm_rows s1 = mm_rows s" "mm_rows s2 = mm_rows s"
    using queries_rows(2) [of E md_Key k s] queries_rows(2) [of E md_Type t s] q1 q2 by simp_all
  then show ?thesis by (simp add: mm_processQuery_def p q1 q2 split: sum.splits list.splits)
qed

lemma mm_processResponse_stored:
  assumes "db_up E" and "mm_parseResource (GetResource msg) = (k, t, i)"
  shows "stored (mm_rows (mm_processResponse E msg s)) = put \<lparr>md_Key = k, md_Type = t, md_Value = mm_content msg\<rparr> (stored (mm_rows s))"
  using InsertOrUpdate_stored [OF assms(1), of "\<lparr>md_Key = k, md_Type = t, md_Value = mm_content msg\<rparr>" s] assms(2)
  by (auto simp: mm_processResponse_def put_def split: prod.splits option.splits)

lemma connection_rows [simp]: "mm_rows (processNodeConnection msg s) = mm_rows s" "mm_rows (processVolume E msg s) = mm_rows s"
  by (auto simp: processNodeConnection_def processVolume_def Let_def split: content.splits)

lemma mm_processDelete_stored:
  assumes "mm_processDelete E msg s = Ok s'" and "db_up E"
  shows "stored (mm_rows s') = (stored (mm_rows s))(GetResource msg := None)"
proof -
  obtain s1 where s1: "Inject E msg s = Ok s1" "mm_rows s1 = mm_rows s" using assms(1) Inject_rows by (auto simp: mm_processDelete_def bind_iffs)
  from assms(1) s1(1) DeleteMetaByKey_stored [OF assms(2), of "GetResource msg" s1] s1(2) show ?thesis
    by (auto simp: mm_processDelete_def split: prod.splits option.splits)
qed

lemma mm_processInsert_stored:
  assumes "mm_processInsert E msg s = Ok s'" and "db_up E" and "mm_parseResource (GetResource msg) = (k, t, i)"
  shows "stored (mm_rows s') = stored (mm_rows (snd (save_insert E msg k t (mm_content msg) s)))"
proof -
  obtain s1 where s1: "Inject E msg s = Ok s1" "mm_rows s1 = mm_rows s" using assms(1) Inject_rows by (auto simp: mm_processInsert_def bind_iffs)
  have "stored (mm_rows s') = stored (mm_rows (snd (save_insert E msg k t (mm_content msg) s1)))"
    using assms(1,3) s1(1) by (auto simp: mm_processInsert_def split: prod.splits bool.splits)
  then show ?thesis unfolding save_insert_stored [OF assms(2)] s1(2) .
qed

lemma mm_processUpdate_stored:
  assumes "mm_processUpdate E msg s = Ok s'" and "db_up E" and "good_rows (mm_rows s)" and "mm_parseResource (GetResource msg) = (k, t, i)"
  shows "stored (mm_rows s') = (if t \<in> {''servicelist'', ''endpointslist'', ''podlist''}
    then stored (mm_rows (update_list E msg k t (mm_content msg) s)) else stored (mm_rows (update_one E msg k t (mm_content msg) s)))"
proof -
  obtain s1 where s1: "Inject E msg s = Ok s1" "mm_rows s1 = mm_rows s" using assms(1) Inject_rows by (auto simp: mm_processUpdate_def bind_iffs)
  have "stored (mm_rows s') = (if t \<in> {''servicelist'', ''endpointslist'', ''podlist''}
    then stored (mm_rows (update_list E msg k t (mm_content msg) s1)) else stored (mm_rows (update_one E msg k t (mm_content msg) s1)))"
    using assms(1,4) s1(1) by (auto simp: mm_processUpdate_def split: if_splits)
  then show ?thesis
    unfolding update_list_stored [OF assms(2)] update_one_stored [OF assms(2,3)] update_one_stored [OF assms(2), of s1, unfolded s1(2), OF assms(3)] s1(2) .
qed

lemma mm_process_stored:
  assumes "mm_process E msg s = Ok s'" and "db_up E" and "good_rows (mm_rows s)"
  shows "stored (mm_rows s') = intends E msg (stored (mm_rows s))"
proof -
  obtain k t i where p: "mm_parseResource (GetResource msg) = (k, t, i)" by (metis prod_cases3)
  note parts = mm_processInsert_stored [OF _ assms(2) p, of s s'] mm_processUpdate_stored [OF _ assms(2,3) p, of s'] mm_processDelete_stored [OF _ assms(2), of msg s s']
    mm_processResponse_stored [OF assms(2) p, of s] syncPodStatus_stored [OF _ assms(2,3), of s'] save_insert_stored [OF assms(2)]
    update_list_stored [OF assms(2)] update_one_stored [OF assms(2,3)]
  consider "GetOperation msg = InsertOperation" | "GetOperation msg = UpdateOperation" | "GetOperation msg = DeleteOperation"
    | "GetOperation msg = ResponseOperation" | "GetOperation msg = ''meta-internal-sync''" | "GetOperation msg = ''action''"
    | "GetOperation msg = ''action_result''"
    | "GetOperation msg \<notin> {InsertOperation, UpdateOperation, DeleteOperation, ResponseOperation, ''meta-internal-sync'', ''action'', ''action_result''}" by blast
  then show ?thesis
  proof cases
    case 2
    with assms(1) parts p show ?thesis by (auto simp: mm_process_def intends_def operation_defs)
  next
    case 6
    with assms(1) p show ?thesis
      by (auto simp: mm_process_def intends_def operation_defs processFunctionAction_def save_function_stored [OF assms(2) p])
  next
    case 7
    with assms(1) p show ?thesis
      by (auto simp: mm_process_def intends_def operation_defs processFunctionActionResult_def save_function_stored [OF assms(2) p])
  next
    case 8
    with assms(1) have "mm_rows s' = mm_rows s" by (auto simp: mm_process_def Let_def split: if_splits)
    with 8 p show ?thesis by (auto simp: intends_def)
  qed (use assms(1) parts p in \<open>simp_all add: mm_process_def intends_def operation_defs\<close>)
qed


section \<open>Reachable states\<close>

text \<open>The main loop handles messages, and the goroutines of remote queries come back at any time.\<close>

inductive meta_step :: "meta_state \<Rightarrow> meta_state \<Rightarrow> bool" where
  handle: "mm_process E msg s = Ok s' \<Longrightarrow> meta_step s s'"
| answer: "mm_queries s = xs @ q # ys \<Longrightarrow> meta_step s (remoteQuery E hub uuid q (s\<lparr>mm_queries := xs @ ys\<rparr>))"

definition meta_start :: meta_state where
  "meta_start = \<lparr>mm_Connected = False, mm_rows = [], mm_statements = 0, mm_injected = [], mm_sent = [], mm_queries = []\<rparr>"

lemma save_insert_good:
  assumes "good_rows (mm_rows s)" and "row_ok \<lparr>md_Key = k, md_Type = t, md_Value = v\<rparr>"
  shows "good_rows (mm_rows (snd (save_insert E msg k t v s)))"
  using insert_services_good [OF assms(1)] SaveMeta_good [OF assms, of E] assms(1)
  by (auto simp: save_insert_def split: sum.splits prod.splits option.splits)

lemma update_good:
  assumes "good_rows (mm_rows s)" and "row_ok \<lparr>md_Key = k, md_Type = t, md_Value = v\<rparr>"
  shows "good_rows (mm_rows (update_list E msg k t v s))" and "good_rows (mm_rows (update_one E msg k t v s))"
proof -
  show "good_rows (mm_rows (update_list E msg k t v s))"
    using InsertOrUpdate_good [OF assms, of E] update_listed_good [OF _ assms(1)] assms(1)
    by (auto simp: update_list_def split: sum.splits prod.splits option.splits)
  obtain b s1 where s1: "resourceUnchanged E t k v s = (b, s1)" by force
  have "good_rows (mm_rows s1)" using queries_rows(4) [of E t k v s] s1 assms(1) by simp
  with InsertOrUpdate_good [OF this assms(2), of E] s1 show "good_rows (mm_rows (update_one E msg k t v s))"
    by (cases b) (auto simp: update_one_def split: prod.splits option.splits)
qed

lemma save_function_good:
  assumes "good_rows (mm_rows s)" and "\<And>s. mm_rows (notify s) = mm_rows s"
  shows "good_rows (mm_rows (save_function E msg notify s))"
proof -
  obtain k t i where p: "mm_parseResource (GetResource msg) = (k, t, i)" by (metis prod_cases3)
  from SaveMeta_good [OF assms(1) row_ok_parsed [OF p], of E "mm_content msg"] assms(2) p show ?thesis
    by (auto simp: save_function_def split: prod.splits option.splits)
qed

lemma process_parts_good:
  assumes "good_rows (mm_rows s)"
  shows "mm_processInsert E msg s = Ok s' \<Longrightarrow> good_rows (mm_rows s')"
    and "mm_processUpdate E msg s = Ok s' \<Longrightarrow> good_rows (mm_rows s')"
    and "mm_processDelete E msg s = Ok s' \<Longrightarrow> good_rows (mm_rows s')"
    and "good_rows (mm_rows (mm_processResponse E msg s))"
proof -
  obtain k t i where p: "mm_parseResource (GetResource msg) = (k, t, i)" by (metis prod_cases3)
  note ok = row_ok_parsed [OF p, of "mm_content msg"]
  have inj: "good_rows (mm_rows s1)" if "Inject E msg s = Ok s1" for s1 using Inject_rows [OF that] assms by simp
  show "good_rows (mm_rows s')" if i: "mm_processInsert E msg s = Ok s'"
  proof -
    obtain s1 where s1: "Inject E msg s = Ok s1" using i by (auto simp: mm_processInsert_def bind_iffs)
    from save_insert_good [OF inj [OF s1] ok, of E msg] i s1 p show ?thesis
      by (auto simp: mm_processInsert_def split: prod.splits bool.splits)
  qed
  show "good_rows (mm_rows s')" if u: "mm_processUpdate E msg s = Ok s'"
  proof -
    obtain s1 where s1: "Inject E msg s = Ok s1" using u by (auto simp: mm_processUpdate_def bind_iffs)
    from update_good [OF inj [OF s1] ok, of E msg] u s1 p show ?thesis by (auto simp: mm_processUpdate_def split: if_splits)
  qed
  show "good_rows (mm_rows s')" if d: "mm_processDelete E msg s = Ok s'"
  proof -
    obtain s1 where s1: "Inject E msg s = Ok s1" using d by (auto simp: mm_processDelete_def bind_iffs)
    from DeleteMetaByKey_good [OF inj [OF s1], of E "GetResource msg"] d s1 show ?thesis
      by (auto simp: mm_processDelete_def split: prod.splits option.splits)
  qed
  show "good_rows (mm_rows (mm_processResponse E msg s))"
    using p InsertOrUpdate_good [OF assms ok, of E] by (auto simp: mm_processResponse_def split: prod.splits option.splits)
qed

lemma mm_process_good:
  assumes "mm_process E msg s = Ok s'" and "good_rows (mm_rows s)"
  shows "good_rows (mm_rows s')"
  using assms(1) process_parts_good [OF assms(2)] syncPodStatus_ok [OF assms(2), of E] save_function_good [OF assms(2)] assms(2)
  by (auto simp: mm_process_def Let_def processFunctionAction_def processFunctionActionResult_def split: if_splits)

lemma remoteQuery_good:
  assumes "good_rows (mm_rows s)"
  shows "good_rows (mm_rows (remoteQuery E hub uuid q s))"
proof -
  obtain k t i where p: "mm_parseResource (GetResource (UpdateID uuid q)) = (k, t, i)" by (metis prod_cases3)
  from InsertOrUpdate_good [OF assms row_ok_parsed [OF p], of E] assms p show ?thesis
    by (auto simp: remoteQuery_def Let_def split: sum.splits)
qed

lemma meta_reachable_good: "meta_step\<^sup>*\<^sup>* meta_start s \<Longrightarrow> good_rows (mm_rows s)"
proof (induction rule: rtranclp_induct)
  case base
  show ?case by (simp add: meta_start_def good_rows_def)
next
  case (step s s')
  from step(2,3) show ?case by (cases rule: meta_step.cases) (auto intro: mm_process_good remoteQuery_good)
qed

text \<open>Only the store of the meta server can end the main loop.\<close>

lemma mm_process_total:
  assumes "good_rows (mm_rows s)" and "\<forall>ms m. me_Inject E ms m = None"
  shows "\<exists>s'. mm_process E msg s = Ok s'"
proof -
  have "\<exists>s'. Inject E msg s = Ok s'" using assms(2) by (simp add: Inject_def)
  then obtain s1 where s1: "Inject E msg s = Ok s1" ..
  have "\<exists>s'. mm_processInsert E msg s = Ok s'" "\<exists>s'. mm_processUpdate E msg s = Ok s'" "\<exists>s'. mm_processDelete E msg s = Ok s'"
    by (auto simp: mm_processInsert_def mm_processUpdate_def mm_processDelete_def s1 split: prod.splits bool.splits option.splits)
  with syncPodStatus_ok [OF assms(1), of E] show ?thesis by (auto simp: mm_process_def Let_def)
qed

end
