(* ===== verification/Meta_Answers.thy ===== *)
theory Meta_Answers
  imports Meta_Props
begin

text \<open>
  What the meta manager sends: messages of the cloud get one answer each, and queries are answered
  with what was stored last.
\<close>

section \<open>Answers to the cloud\<close>

text \<open>What was sent to the cloud between two states.\<close>

definition to_cloud :: "meta_env \<Rightarrow> meta_state \<Rightarrow> meta_state \<Rightarrow> out list" where
  "to_cloud E s s' = map snd (filter (\<lambda>(d, m). d = ToGroup (me_ContextSendGroup E)) (drop (length (mm_sent s)) (mm_sent s')))"

text \<open>The answer to a message: that it is done, or an error message with the parent of the message.\<close>

definition is_answer :: "Message \<Rightarrow> Message \<Rightarrow> bool" where
  "is_answer msg x \<longleftrightarrow>
     GetOperation x = ResponseOperation \<and> m_Content x = StringContent ''OK'' \<and> GetParentID x = GetID msg \<or>
     GetOperation x = ResponseErrorOperation \<and> GetParentID x = GetParentID msg"

definition answered :: "meta_env \<Rightarrow> Message \<Rightarrow> (destination \<times> out) list \<Rightarrow> meta_state \<Rightarrow> bool" where
  "answered E msg sent s' \<longleftrightarrow>
     (\<exists>ds x. mm_sent s' = sent @ ds \<and> filter (\<lambda>(d, m). d = ToGroup (me_ContextSendGroup E)) ds = [(ToGroup (me_ContextSendGroup E), Plain x)] \<and>
        is_answer msg x)"

lemma answered_once: "answered E msg (mm_sent s) s' \<Longrightarrow> \<exists>x. to_cloud E s s' = [Plain x] \<and> is_answer msg x"
  by (auto simp: answered_def to_cloud_def)

lemma is_answer_ok [simp]: "is_answer msg (mm_resp E s msg (StringContent ''OK''))"
  by (simp add: is_answer_def mm_resp_def message_defs)

lemma is_answer_error [simp]: "is_answer msg (SetRoute src grp (NewErrorMessage uuid now msg t))"
  by (simp add: is_answer_def message_defs)

lemma feedback_answers: "GetSource msg \<noteq> ''edged'' \<Longrightarrow> answered E msg (mm_sent s) (feedbackError E e i msg s)"
  by (simp add: answered_def feedbackError_def sendToCloud_def mm_send_def Let_def)

lemmas notify_defs = sendToEdged_def sendToEdgeMesh_def sendToCloud_def mm_send_def mm_ok_def Let_def

lemma notify_list_answers: "answered E msg (mm_sent s) (notify_list E msg s)"
  by (simp add: answered_def notify_list_def notify_defs)

lemma notify_insert_answers: "t \<noteq> ''listener'' \<Longrightarrow> answered E msg (mm_sent s) (notify_insert E msg t s)"
  by (simp add: answered_def notify_insert_def notify_defs)

lemma notify_update_answers: "GetSource msg = ''edgecontroller'' \<Longrightarrow> answered E msg (mm_sent s) (notify_update E msg t s)"
  by (simp add: answered_def notify_update_def notify_defs)

lemma notify_delete_answers:
  "t \<noteq> ''listener'' \<Longrightarrow> GetSource msg \<noteq> ''edged'' \<Longrightarrow> answered E msg (mm_sent s) (notify_delete E msg t s)"
  using notify_list_answers [of E msg s] by (simp add: notify_delete_def) (simp add: answered_def notify_defs)

text \<open>Statements send nothing.\<close>

lemma statements_sent [simp]:
  "mm_sent (snd (run_statement E f s)) = mm_sent s" "mm_sent (snd (SaveMeta E m s)) = mm_sent s"
  "mm_sent (snd (InsertOrUpdate E m s)) = mm_sent s" "mm_sent (snd (DeleteMetaByKey E k s)) = mm_sent s"
  "mm_sent (update_listed E t xs s) = mm_sent s"
proof -
  show r: "mm_sent (snd (run_statement E f s)) = mm_sent s" for f s
    by (auto simp: run_statement_def Let_def split: option.splits sum.splits)
  show "mm_sent (snd (SaveMeta E m s)) = mm_sent s"
    using r [of "insert_row m" s] by (auto simp: SaveMeta_def split: prod.splits option.splits)
  show i: "mm_sent (snd (InsertOrUpdate E m s)) = mm_sent s" for m s by (simp add: InsertOrUpdate_def r)
  show "mm_sent (snd (DeleteMetaByKey E k s)) = mm_sent s" by (simp add: DeleteMetaByKey_def r)
  show "mm_sent (update_listed E t xs s) = mm_sent s" by (induction E t xs s rule: update_listed.induct) (simp_all add: InsertOrUpdate_def run_statement_def Let_def split: option.splits)
qed

lemma Inject_sent: "Inject E msg s = Ok s' \<Longrightarrow> mm_sent s' = mm_sent s"
  by (auto simp: Inject_def split: option.splits)

lemma insert_services_sent:
  assumes "GetSource msg \<noteq> ''edged''" and "insert_services E msg xs s = (b, s')"
  shows "if b then mm_sent s' = mm_sent s else answered E msg (mm_sent s) s'"
  using assms
proof (induction E msg xs s rule: insert_services.induct)
  case (3 E message namespace nm data svcs s)
  obtain e s1 where s1: "SaveMeta E (object_meta ''service'' namespace nm data) s = (e, s1)" by force
  have "mm_sent s1 = mm_sent s" using statements_sent(2) [of E "object_meta ''service'' namespace nm data" s] s1 by simp
  with 3 s1 feedback_answers [OF 3(2), of E s1] show ?case by (cases e) (auto split: if_splits)
qed auto

lemma save_insert_sent:
  assumes "GetSource msg \<noteq> ''edged''" and "save_insert E msg k t v s = (b, s')"
  shows "if b then mm_sent s' = mm_sent s else answered E msg (mm_sent s) s'"
proof -
  obtain e s1 where s1: "SaveMeta E \<lparr>md_Key = k, md_Type = t, md_Value = v\<rparr> s = (e, s1)" by force
  have "mm_sent s1 = mm_sent s" using statements_sent(2) [of E "\<lparr>md_Key = k, md_Type = t, md_Value = v\<rparr>" s] s1 by simp
  with feedback_answers [OF assms(1), of E s1] have "answered E msg (mm_sent s) (feedbackError E a i msg s1)" for a i by simp
  with \<open>mm_sent s1 = mm_sent s\<close> assms s1 feedback_answers [OF assms(1), of E] insert_services_sent [OF assms(1), of E] show ?thesis
    by (cases e) (auto simp: save_insert_def split: if_splits sum.splits)
qed

lemma update_list_answers:
  assumes "GetSource msg \<noteq> ''edged''"
  shows "answered E msg (mm_sent s) (update_list E msg k t v s)"
proof -
  obtain e s1 where s1: "InsertOrUpdate E \<lparr>md_Key = k, md_Type = t, md_Value = v\<rparr> s = (e, s1)" by force
  have "mm_sent s1 = mm_sent s" using statements_sent(3) [of E "\<lparr>md_Key = k, md_Type = t, md_Value = v\<rparr>" s] s1 by simp
  with feedback_answers [OF assms, of E s1] notify_list_answers [of E msg s1] have
    "answered E msg (mm_sent s) (feedbackError E a i msg s1)" "answered E msg (mm_sent s) (notify_list E msg s1)" for a i by simp_all
  moreover have "answered E msg (mm_sent s) (notify_list E msg (update_listed E r xs s))" for r xs
    using notify_list_answers [of E msg "update_listed E r xs s"] by simp
  ultimately show ?thesis using s1 feedback_answers [OF assms, of E s] by (cases e) (auto simp: update_list_def split: sum.splits)
qed

lemma update_one_answers:
  assumes "GetSource msg = ''edgecontroller''" and "t \<noteq> ''podstatus''"
  shows "answered E msg (mm_sent s) (update_one E msg k t v s)"
proof -
  obtain e s1 where s1: "InsertOrUpdate E \<lparr>md_Key = k, md_Type = t, md_Value = v\<rparr> s = (e, s1)" by force
  have "mm_sent s1 = mm_sent s" using statements_sent(3) [of E "\<lparr>md_Key = k, md_Type = t, md_Value = v\<rparr>" s] s1 by simp
  with s1 feedback_answers [of msg E s1] notify_update_answers [OF assms(1), of E s1 t] assms show ?thesis
    by (cases e) (auto simp: update_one_def resourceUnchanged_def)
qed

lemma processed_answers:
  assumes "GetSource msg = ''edgecontroller''" and "mm_parseResource (GetResource msg) = (k, t, i)" and "t \<noteq> ''listener''"
  shows "mm_processInsert E msg s = Ok s' \<Longrightarrow> answered E msg (mm_sent s) s'"
    and "t \<noteq> ''podstatus'' \<Longrightarrow> mm_processUpdate E msg s = Ok s' \<Longrightarrow> answered E msg (mm_sent s) s'"
    and "mm_processDelete E msg s = Ok s' \<Longrightarrow> answered E msg (mm_sent s) s'"
proof -
  have n: "GetSource msg \<noteq> ''edged''" using assms(1) by simp
  show "answered E msg (mm_sent s) s'" if i: "mm_processInsert E msg s = Ok s'"
  proof -
    obtain s1 where s1: "Inject E msg s = Ok s1" "mm_sent s1 = mm_sent s" using i Inject_sent by (auto simp: mm_processInsert_def bind_iffs)
    obtain b s2 where s2: "save_insert E msg k t (mm_content msg) s1 = (b, s2)" by force
    from save_insert_sent [OF n s2] notify_insert_answers [OF assms(3), of E msg s2] i s1 s2 assms(2) show ?thesis
      by (cases b) (auto simp: mm_processInsert_def)
  qed
  show "answered E msg (mm_sent s) s'" if "t \<noteq> ''podstatus''" and u: "mm_processUpdate E msg s = Ok s'"
  proof -
    obtain s1 where s1: "Inject E msg s = Ok s1" "mm_sent s1 = mm_sent s" using u Inject_sent by (auto simp: mm_processUpdate_def bind_iffs)
    from update_list_answers [OF n, of E s1 k t "mm_content msg"] update_one_answers [OF assms(1) that(1), of E s1 k "mm_content msg"] u s1 assms(2)
    show ?thesis by (auto simp: mm_processUpdate_def split: if_splits)
  qed
  show "answered E msg (mm_sent s) s'" if d: "mm_processDelete E msg s = Ok s'"
  proof -
    obtain s1 where s1: "Inject E msg s = Ok s1" "mm_sent s1 = mm_sent s" using d Inject_sent by (auto simp: mm_processDelete_def bind_iffs)
    obtain e s2 where s2: "DeleteMetaByKey E (GetResource msg) s1 = (e, s2)" by force
    have "mm_sent s2 = mm_sent s" using statements_sent(4) [of E "GetResource msg" s1] s2 s1(2) by simp
    with feedback_answers [OF n, of E s2] notify_delete_answers [OF assms(3) n, of E s2] d s1 s2 assms(2) show ?thesis
      by (cases e) (auto simp: mm_processDelete_def)
  qed
qed

text \<open>
  C21: Every insert, update and delete of the cloud is answered with exactly one message to the cloud:
  that it is done, as a response to the message, or an error. The error is a response to the parent
  of the message and not to the message itself, so its sender cannot tell what failed. Listeners
  and the status of pods are left out: their answers go to the mesh and to edged.
\<close>

theorem cloud_message_is_answered_once:
  assumes "mm_process E msg s = Ok s'" and "GetSource msg = ''edgecontroller''"
    and "GetOperation msg = InsertOperation \<or> GetOperation msg = UpdateOperation \<or> GetOperation msg = DeleteOperation"
    and "mm_parseResource (GetResource msg) = (resKey, resType, resID)" and "resType \<noteq> ''listener''" and "resType \<noteq> ''podstatus''"
  shows "\<exists>x. to_cloud E s s' = [Plain x] \<and>
    (GetOperation x = ResponseOperation \<and> m_Content x = StringContent ''OK'' \<and> GetParentID x = GetID msg \<or>
     GetOperation x = ResponseErrorOperation \<and> GetParentID x = GetParentID msg)"
proof -
  have "answered E msg (mm_sent s) s'"
    using assms(1,3) processed_answers [OF assms(2,4,5)] assms(6) by (auto simp: mm_process_def operation_defs)
  from answered_once [OF this] show ?thesis by (simp add: is_answer_def)
qed


section \<open>Queries\<close>

lemma values_stored:
  assumes "distinct (map md_Key rows)"
  shows "map md_Value (filter (\<lambda>r. md_Key r = k) rows) = (case stored rows k of None \<Rightarrow> [] | Some (t, v) \<Rightarrow> [v])"
  using assms
proof (induction rows)
  case (Cons r rows)
  have "stored rows k = None" if "md_Key r = k" using that Cons.prems by (simp add: stored_dom)
  with Cons show ?case by (auto simp: stored_def)
qed (simp add: stored_def)

lemma update_stores:
  assumes "mm_process E msg s = Ok s'" and "db_up E" and "good_rows (mm_rows s)" and "GetOperation msg = UpdateOperation"
    and "mm_parseResource (GetResource msg) = (k, t, i)" and "t \<noteq> ''servicelist''" and "t \<noteq> ''endpointslist''"
  shows "\<exists>u. stored (mm_rows s') k = Some (u, mm_content msg)"
  using mm_process_stored [OF assms(1-3)] assms(4-7)
  by (auto simp: intends_def operation_defs put_def Let_def)



section \<open>Examples\<close>

definition ex_meta_env :: meta_env where
  "ex_meta_env =
     \<lparr>me_fails = \<lambda>_. None, me_uuid = \<lambda>_. ''u'', me_now = \<lambda>_. 0, me_mesh = False, me_ContextSendGroup = ''hub'',
      me_UnmarshalServices = \<lambda>_. Inr [], me_UnmarshalEndpoints = \<lambda>_. Inr [], me_UnmarshalStatus = Some,
      me_SendSync = \<lambda>_ _. Inl ''timeout'', me_Inject = \<lambda>_ _. None, me_ord = sorted_list_of_fset\<rparr>"

definition ex_meta_request :: "string \<Rightarrow> content \<Rightarrow> Message" where
  "ex_meta_request opr c = FillBody c (BuildRouter ''edgecontroller'' ''resource'' ''ns/configmap/c'' opr (NewMessage ''id'' 0 []))"

lemma ex_meta_request_simps [simp]:
  "GetOperation (ex_meta_request opr c) = opr" "GetResource (ex_meta_request opr c) = ''ns/configmap/c''" "GetSource (ex_meta_request opr c) = ''edgecontroller''"
  "mm_content (ex_meta_request opr (BytesContent b)) = b" "mm_parseResource ''ns/configmap/c'' = (''ns/configmap/c'', ''configmap'', ''c'')"
  "GetID (ex_meta_request opr c) = ''id''" "IsSync (ex_meta_request opr c) = False"
  by (simp_all add: ex_meta_request_def message_defs mm_content_def mm_parseResource_def IsSync_def)

lemma ex_meta_update:
  "\<exists>s1. mm_process ex_meta_env (ex_meta_request UpdateOperation (BytesContent ''x'')) meta_start = Ok s1 \<and> \<not> mm_Connected s1"
  by (simp add: mm_process_def mm_processUpdate_def Inject_def ex_meta_env_def operation_defs update_one_def resourceUnchanged_def
      InsertOrUpdate_def run_statement_def notify_update_def notify_defs isEdgeMeshResource_def meta_start_def)



theorem cloud_message_is_answered_once_witness:
  "\<exists>s' x. mm_process ex_meta_env (ex_meta_request UpdateOperation (BytesContent ''x'')) meta_start = Ok s' \<and> to_cloud ex_meta_env meta_start s' = [Plain x]"
proof -
  obtain s1 where s1: "mm_process ex_meta_env (ex_meta_request UpdateOperation (BytesContent ''x'')) meta_start = Ok s1" using ex_meta_update by blast
  from cloud_message_is_answered_once [OF s1] s1 show ?thesis by auto
qed



section \<open>Inserts and errors\<close>

text \<open>
  An insert of a resource that is stored already is answered as done, and the old content stays and
  answers the queries.
\<close>

lemma insert_keeps_old_content:
  assumes "mm_process E msg s = Ok s'" and "db_up E" and "good_rows (mm_rows s)" and "GetOperation msg = InsertOperation"
    and "mm_parseResource (GetResource msg) = (k, t, i)" and "t \<noteq> ''servicelist''" and "stored (mm_rows s) k = Some old"
  shows "stored (mm_rows s') = stored (mm_rows s)"
  using mm_process_stored [OF assms(1-3)] assms(4-7) by (simp add: intends_def operation_defs add_new_def Let_def)

text \<open>
  An error is sent as a response to the parent of the request. A synchronous request of edged, which
  has no parent, is not told of its failure and waits for its timeout.
\<close>

lemma error_misses_its_request:
  assumes "GetSource request = ''edged''" and "IsSync request"
  shows "\<exists>x. mm_sent (feedbackError E e i request s) = mm_sent s @ [(Response, Plain x)] \<and> GetParentID x = GetParentID request"
  using assms by (simp add: feedbackError_def sendToEdged_def mm_send_def Let_def) (simp add: message_defs)

end
