(* ===== verification/Spec2Isabelle.thy ===== *)
theory Spec2Isabelle
  imports Go_Prelude Go_Hash Go_Codec Kube_API Work_Queue Location_Cache Beehive_Message Contour
    Ingress_Match Resource_Gen Resource_Spec Resource_Gaps Controller Controller_Inv Controller_Spec
    Controller_Props Dispatch_Props Cloud_Queue Cloud_Hub Cloud_Props Edge_Control_Plane Edge_Props
    Viaduct Viaduct_Props Beehive_Context Beehive_Props Delivery
    Sync_Controller Sync_Props Twin_Types Twin_Store Twin_Deal Device_Twin Twin_Comm Twin_Mirror
    Twin_Effect Twin_Inv Twin_Props Twin_Versions Twin_Faults Twin_Messages
    Meta_Manager Meta_Props Meta_Answers
begin

text \<open>
  A verification development for the Envoy ingress controller of KubeEdge and for the parts of
  KubeEdge its messages pass, with the device twin and the meta manager of the edge as further
  consumers of the same buses.

  \<^bold>\<open>The program.\<close> The controller in the cloud (\<open>src/cloud/pkg/envoyingresscontroller\<close>) watches
  ingresses, services, endpoints, secrets and nodes, generates Envoy resources for every ingress
  (secrets, endpoints, clusters, routes, listeners), keeps them in a store with references, and
  sends them to the ready nodes of their node groups as Beehive messages. The cloud hub
  (\<open>src/cloud/pkg/cloudhub\<close>) queues the messages per node and writes them to the connection; the
  synchronisation controller (\<open>src/cloud/pkg/synccontroller\<close>) repeats what a node has not confirmed;
  Viaduct (\<open>src/staging/src/github.com/kubeedge/viaduct\<close>) is the transport. On the edge the hub
  (\<open>src/edge/pkg/edgehub\<close>) dispatches to modules over the message bus
  (\<open>src/staging/src/github.com/kubeedge/beehive\<close>): the Envoy control plane
  (\<open>src/edge/pkg/envoycontrolplane\<close>) holds the resources in maps, stores them and publishes snapshots
  to the proxies; the device twin (\<open>src/edge/pkg/devicetwin\<close>) holds the devices of the node, the meta
  manager (\<open>src/edge/pkg/metamanager\<close>) the metadata of pods, configuration and services.

  \<^bold>\<open>Theories.\<close>
  \<^item> \<open>Go_Prelude\<close>, \<open>Go_Hash\<close>, \<open>Go_Codec\<close>: results of Go functions (value, error, panic), locks, the
    parts of the standard library the sources use, the order of \<open>range\<close> as an argument, SHA-1 and
    SHA-256, base64, JSON strings and quoting with their round trips.
  \<^item> \<open>Kube_API\<close>, \<open>Work_Queue\<close>, \<open>Beehive_Message\<close>, \<open>Location_Cache\<close>: the Kubernetes objects and informer
    caches, the rate limited work queue, messages, and the node cache of the controller.
  \<^item> \<open>Contour\<close>, \<open>Ingress_Match\<close>, \<open>Resource_Gen\<close>: \<open>contour.go\<close> and the generators of
    \<open>envoyingresscontroller.go\<close>. \<open>Resource_Spec\<close> and \<open>Resource_Gaps\<close> show what generated resources
    promise each other, and where they do not fit.
  \<^item> \<open>Controller\<close>: the state and every handler of the controller. \<open>Controller_Inv\<close> has its invariant
    over all interleavings of events, timers and workers, \<open>Controller_Spec\<close> the abstract table of
    references, \<open>Controller_Props\<close> the refinement and the two defects of the store,
    \<open>Dispatch_Props\<close> the messages.
  \<^item> \<open>Cloud_Queue\<close>, \<open>Cloud_Hub\<close>, \<open>Cloud_Props\<close>: \<open>channelq.go\<close> and \<open>messagehandler.go\<close>, with the invariant of the
    hub, bounded retransmission and the order of versions in a store.
  \<^item> \<open>Sync_Controller\<close>, \<open>Sync_Props\<close>: \<open>synccontroller.go\<close> and \<open>objectsync.go\<close>, together with the save
    points of the hub.
  \<^item> \<open>Viaduct\<close>, \<open>Viaduct_Props\<close>, \<open>Beehive_Context\<close>, \<open>Beehive_Props\<close>: packages, translation, lanes, the message
    queue, synchronous calls over a connection; the channels of the bus as a step relation over
    threads, with its invariant and the runs that lose, delay or block messages.
  \<^item> \<open>Edge_Control_Plane\<close>, \<open>Edge_Props\<close>: the maps, handlers, rows and snapshots of the Envoy control plane.
  \<^item> \<open>Twin_Types\<close>, \<open>Twin_Store\<close>, \<open>Twin_Deal\<close>, \<open>Device_Twin\<close>, \<open>Twin_Comm\<close>: the device twin: its data, its tables and
    transactions (\<open>dtclient\<close>), the update of twins (\<open>dtmanager/twin.go\<close>), the handlers with their locks
    (\<open>dtmanager\<close>, \<open>dtcontext\<close>), the classification of messages and the communication worker.
    \<open>Twin_Mirror\<close> has the relation between memory and rows as a locale with two interpretations,
    \<open>Twin_Effect\<close> what an update does to both sides, \<open>Twin_Inv\<close> the invariant, \<open>Twin_Props\<close> the module as a
    state machine whose memory mirrors its database, \<open>Twin_Versions\<close> that versions never go back,
    \<open>Twin_Faults\<close> how a panic and a refused removal stop the module, and \<open>Twin_Messages\<close> which topics
    find their device and that reports are repeated until they are confirmed.
  \<^item> \<open>Meta_Manager\<close>, \<open>Meta_Props\<close>, \<open>Meta_Answers\<close>: the table of the meta manager (\<open>dao/meta.go\<close>) and the handlers
    of its main loop (\<open>process.go\<close>); the table as a map that every message changes as it says, the
    answers to the cloud and to queries.
  \<^item> \<open>Delivery\<close> and this theory: the way of an update from the dispatch in the controller to the maps
    of the edge, through all components between.

  \<^bold>\<open>Correspondence.\<close> A struct is a record, an enumeration a datatype, a Go map a finite map, a set a
  finite set, a pointer that may be nil an option. A function that may fail returns \<open>'a result\<close>;
  every early return, returned error and panic of the source is a branch. Integers whose overflow
  matters are words. State is passed explicitly; goroutines that interleave are steps of an
  inductive relation (\<open>eic_step\<close>, \<open>hub_step\<close>, \<open>bus_step\<close>, \<open>edge_step\<close>, \<open>worker_step\<close>, \<open>meta_step\<close>). Objects that the code changes
  through shared pointers are copied where nothing else can see the change. Definitions keep
  the names of the source.

  \<^bold>\<open>Arguments.\<close> What lies outside of the sources is an argument of the definitions: the informer
  stores, the API server, the connection, the ORM and its failures, the protobuf decoder, the JSON of
  API objects and device messages, the clock and new identifiers. What a property needs of them is a
  hypothesis of its own (\<open>env_never_panics\<close>, \<open>spec_law\<close>, \<open>sync_client\<close>, \<open>db_works\<close>), and its
  witness has a concrete instance.

  \<^bold>\<open>Bounds and fuel.\<close> Loops are structural recursion over the slice or over the order of a \<open>range\<close>.
  The retransmission of the hub takes five events, the number of the source; the retries of the
  device twin take \<open>RetryTimes\<close>. \<open>list_passes\<close> and \<open>flushes\<close> count the passes of loops that never
  end; the properties hold for every number.

  \<^bold>\<open>Not modelled.\<close> The servers and certificates of the cloud hub, the tunnels, the event and service bus, the
  router, the mesh proxy, the storage driver, the webhooks and the mappers are network input and output.
  Edged is a kubelet and mostly calls of the container runtime and of Kubernetes libraries.
  keadm runs programs of the operating system. Configuration, generated clients and deep copies
  are data. The edge and device controllers have no part in the way of Envoy resources and are left
  out, as is the API server of the meta manager with its store, whose codecs are those of
  Kubernetes; the meta manager hands messages over to it. Of Beehive the group call that waits for all answers and the socket
  context are left out, of Viaduct the sessions and the multiplexer of its servers, of the device
  twin the start and the heart beat of its workers. Time passes only through the timers that a step
  names.
\<close>

section \<open>From the controller to the edge\<close>


text \<open>A connected node with an idle hub, and two updates of a resource: it is inserted and then deleted.\<close>

definition ex_marshal :: "spec \<Rightarrow> string result" where
  "ex_marshal s = (case s of EndpointSpec c \<Rightarrow> if cla_Endpoints c = [] then Ok (cla_ClusterName c) else Err ErrUnmarshal | _ \<Rightarrow> Err ErrUnmarshal)"

definition ex_update :: "string \<Rightarrow> string \<Rightarrow> resource_update" where
  "ex_update uuid opr =
     \<lparr>u_id = uuid, u_time = 0,
      u_resource = \<lparr>r_Name = ''a'', r_Namespace = ''ns'', r_ResourceVersion = ''7'', r_NodeGroup = {||}, r_IngressRef = {||},
        r_Spec = EndpointSpec \<lparr>cla_ClusterName = ''x'', cla_Endpoints = []\<rparr>\<rparr>,
      u_operation = opr, u_bytes = ''x''\<rparr>"

definition ex_hub :: "unit MessageHandle" where
  "ex_hub = (InitHandler 10 NewChannelMessageQueue ())\<lparr>mh_nodeConns := fmupd ''n1'' 0 fmempty, mh_nodeLocks := {|''n1''|}\<rparr>"

lemma ex_hub_idle: "queued ''n1'' [] ex_hub" "''n1'' |\<in>| mh_nodeLocks ex_hub" "fmlookup (mh_nodeConns ex_hub) ''n1'' = Some 0"
  by (simp_all add: queued_def ex_hub_def InitHandler_def NewChannelMessageQueue_def wq_new_def pool_get_def)

lemma ex_update_valid: "opr \<in> {InsertOperation, DeleteOperation} \<Longrightarrow> plain uuid \<Longrightarrow> valid_update ex_marshal (ex_update uuid opr)"
  by (simp add: valid_update_def ex_update_def ex_marshal_def sendable_def path_name_def no_slash_def plain_def ascii_def)

lemma ex_node: "path_name ''n1''"
  by (simp add: path_name_def no_slash_def)


text \<open>
  C30: Over QUIC none of the updates takes effect. Every message arrives at the edge control plane, but
  with its content as bytes, and the edge refuses it: whatever is inserted or deleted, the edge
  control plane is left as it was.
\<close>

theorem updates_over_quic_have_no_effect:
  assumes "\<forall>u\<in>set us. valid_update marshal u" and "path_name node" and "proto_law C"
    and "\<forall>u\<in>set us. fits C (trimMessage (update_message node u))"
  shows "\<exists>ms. map (\<lambda>u. over_quic C (trimMessage (update_message node u))) us = map Some ms \<and>
    runEnvoyControlPlane E ms e = Ok e"
  using assms(1,4)
proof (induction us)
  case (Cons u us)
  then obtain ms where ms: "map (\<lambda>u. over_quic C (trimMessage (update_message node u))) us = map Some ms"
      "runEnvoyControlPlane E ms e = Ok e"
    by auto
  obtain m where m: "over_quic C (trimMessage (update_message node u)) = Some m"
      "m_Content m = BytesContent (b64_EncodeToString (u_bytes u))" "CHR ''/'' \<in> set (GetResource m)"
    using over_quic_update [OF _ assms(2,3), of marshal u] Cons.prems by auto
  then have "process E m e = Ok e" using bytes_content_is_refused [OF m(2,3), of E e] by (simp add: process_def)
  with m(1) ms show ?case by (intro exI [of _ "m # ms"]) simp
qed simp

definition ex_written :: Message where
  "ex_written = trimMessage (update_message ''n1'' (ex_update ''1'' InsertOperation))"

definition ex_quic :: proto_codec where
  "ex_quic =
     \<lparr>proto_Marshal = (\<lambda>p. if p = modelToProto (async ex_written) then Ok [1] else Err ErrUnmarshal),
      proto_Unmarshal = (\<lambda>b. Ok (modelToProto (async ex_written)))\<rparr>"

theorem updates_over_quic_have_no_effect_witness:
  "\<exists>m. over_quic ex_quic ex_written = Some m \<and> runEnvoyControlPlane ex_edge [m] ex_edge_start = Ok ex_edge_start"
proof -
  have "\<forall>u\<in>set [ex_update ''1'' InsertOperation]. valid_update ex_marshal u"
    by (auto intro!: ex_update_valid simp: plain_def ascii_def)
  moreover have "proto_law ex_quic" by (simp add: proto_law_def ex_quic_def)
  moreover have "\<forall>u\<in>set [ex_update ''1'' InsertOperation]. fits ex_quic (trimMessage (update_message ''n1'' u))"
    by (simp add: fits_def ex_quic_def flip: ex_written_def)
  ultimately obtain ms where "map (\<lambda>u. over_quic ex_quic (trimMessage (update_message ''n1'' u))) [ex_update ''1'' InsertOperation] = map Some ms"
      "runEnvoyControlPlane ex_edge ms ex_edge_start = Ok ex_edge_start"
    using updates_over_quic_have_no_effect [OF _ ex_node, of "[ex_update ''1'' InsertOperation]" ex_marshal ex_quic ex_edge ex_edge_start] by blast
  then show ?thesis by (cases ms) (auto simp: ex_written_def)
qed

end
